(* ===== verification/Prelude.thy ===== *)
theory Prelude
  imports Main "HOL-Library.Word" "HOL-Library.Sublist" "HOL-Library.Multiset"
begin

text \<open>
  Shared vocabulary of the development.

  \<^item> Rust's byte slices are lists of 8-bit words; a Rust \<^verbatim>\<open>String\<close> is its UTF-8 encoding, a
    HOL \<^typ>\<open>string\<close> whose characters are the bytes. \<open>rust_string\<close> is the type invariant of
    \<^verbatim>\<open>String\<close> (the bytes are valid UTF-8).
  \<^item> The operations of \<^verbatim>\<open>str\<close> the sources call: \<^verbatim>\<open>starts_with\<close>, \<^verbatim>\<open>strip_prefix\<close>,
    \<^verbatim>\<open>split_once\<close>, \<^verbatim>\<open>splitn\<close>, \<^verbatim>\<open>split\<close>, \<^verbatim>\<open>trim\<close> (Unicode white space),
    \<^verbatim>\<open>to_ascii_lowercase\<close>, \<^verbatim>\<open>contains\<close>, \<^verbatim>\<open>ends_with\<close> and the integer parsers.
  \<^item> A fallible computation is a value of \<open>'e + 'a\<close> (\<open>Inl\<close> is Rust's \<^verbatim>\<open>Err\<close>); a fallible
    computation that also changes a state is a function \<open>'s \<Rightarrow> ('e + 'a) \<times> 's\<close>, sequenced by
    \<open>bindM\<close>, Rust's \<^verbatim>\<open>?\<close>: an error keeps the state changes made before it.
  \<^item> Two generic interfaces: \<open>key_update\<close> for row updates that keep a table's key, and
    \<open>invariant_machine\<close> for step functions that keep an invariant.
\<close>

named_theorems rust_str "equations of the modelled operations of Rust's str"
named_theorems sql_defs "definitions of the modelled SQL statements"

type_synonym byte = "8 word"
type_synonym bytes = "8 word list"
type_synonym uuid = "128 word"

text \<open>Timestamps (\<^verbatim>\<open>DateTime<Utc>\<close>, \<^verbatim>\<open>TIMESTAMPTZ\<close>) are microseconds, the resolution PostgreSQL stores.\<close>

type_synonym time = int

abbreviation second :: time where
  "second \<equiv> 1000000"

abbreviation day :: time where
  "day \<equiv> 86400 * second"


section \<open>Bytes and UTF-8\<close>

definition as_bytes :: "string \<Rightarrow> bytes" where
  "as_bytes s = map (\<lambda>c. word_of_nat (of_char c)) s"

definition chars_of :: "bytes \<Rightarrow> string" where
  "chars_of bs = map (\<lambda>b. char_of (unat b)) bs"

lemma unat_byte_of_char [simp]: "unat (word_of_nat (of_char c) :: byte) = of_char c"
  by (simp add: unat_of_nat)

lemma chars_of_as_bytes [simp]: "chars_of (as_bytes s) = s"
  by (induction s) (simp_all add: chars_of_def as_bytes_def)

lemma as_bytes_chars_of [simp]: "as_bytes (chars_of bs) = bs"
proof (induction bs)
  case (Cons b bs)
  have "unat b < 256"
    using unsigned_less [of b, where ?'a = nat] by simp
  then show ?case
    using Cons by (simp add: chars_of_def as_bytes_def)
qed (simp add: chars_of_def as_bytes_def)

lemma as_bytes_inject [simp]: "as_bytes s = as_bytes t \<longleftrightarrow> s = t"
  by (metis chars_of_as_bytes)

lemma length_as_bytes [simp]: "length (as_bytes s) = length s"
  by (simp add: as_bytes_def)

lemma as_bytes_append [simp]: "as_bytes (s @ t) = as_bytes s @ as_bytes t"
  by (simp add: as_bytes_def)

text \<open>
  \<^verbatim>\<open>String::from_utf8\<close>: the well-formed byte sequences of the Unicode standard (no overlong
  encodings, no surrogates, nothing above U+10FFFF).
\<close>

definition utf8_cont :: "byte \<Rightarrow> bool" where
  "utf8_cont b \<longleftrightarrow> 128 \<le> unat b \<and> unat b \<le> 191"

fun utf8_valid :: "bytes \<Rightarrow> bool" where
  "utf8_valid [] = True"
| "utf8_valid (b # bs) =
     (let c = unat b in
      if c < 128 then utf8_valid bs
      else if 194 \<le> c \<and> c \<le> 223 then
        (case bs of b1 # r \<Rightarrow> utf8_cont b1 \<and> utf8_valid r | _ \<Rightarrow> False)
      else if 224 \<le> c \<and> c \<le> 239 then
        (case bs of b1 # b2 # r \<Rightarrow>
           utf8_cont b1 \<and> utf8_cont b2
           \<and> (c = 224 \<longrightarrow> 160 \<le> unat b1) \<and> (c = 237 \<longrightarrow> unat b1 \<le> 159)
           \<and> utf8_valid r
         | _ \<Rightarrow> False)
      else if 240 \<le> c \<and> c \<le> 244 then
        (case bs of b1 # b2 # b3 # r \<Rightarrow>
           utf8_cont b1 \<and> utf8_cont b2 \<and> utf8_cont b3
           \<and> (c = 240 \<longrightarrow> 144 \<le> unat b1) \<and> (c = 244 \<longrightarrow> unat b1 \<le> 143)
           \<and> utf8_valid r
         | _ \<Rightarrow> False)
      else False)"

definition from_utf8 :: "bytes \<Rightarrow> string option" where
  "from_utf8 bs = (if utf8_valid bs then Some (chars_of bs) else None)"

definition rust_string :: "string \<Rightarrow> bool" where
  "rust_string s \<longleftrightarrow> utf8_valid (as_bytes s)"

lemma from_utf8_as_bytes [simp]: "rust_string s \<Longrightarrow> from_utf8 (as_bytes s) = Some s"
  by (simp add: from_utf8_def rust_string_def)

lemma from_utf8_SomeD: "from_utf8 bs = Some s \<Longrightarrow> rust_string s \<and> bs = as_bytes s"
  by (auto simp: from_utf8_def rust_string_def split: if_splits)

lemma utf8_valid_ascii: "(\<forall>b \<in> set bs. unat b < 128) \<Longrightarrow> utf8_valid bs"
  by (induction bs) (auto simp: Let_def)


section \<open>Strings\<close>

definition starts_with :: "string \<Rightarrow> string \<Rightarrow> bool" where
  "starts_with s p \<longleftrightarrow> take (length p) s = p"

definition ends_with :: "string \<Rightarrow> string \<Rightarrow> bool" where
  "ends_with s p \<longleftrightarrow> starts_with (rev s) (rev p)"

fun str_contains :: "string \<Rightarrow> string \<Rightarrow> bool" where
  "str_contains [] p = (p = [])"
| "str_contains (c # s) p = (starts_with (c # s) p \<or> str_contains s p)"

definition strip_prefix :: "string \<Rightarrow> string \<Rightarrow> string option" where
  "strip_prefix s p = (if starts_with s p then Some (drop (length p) s) else None)"

fun split_once :: "char \<Rightarrow> string \<Rightarrow> (string \<times> string) option" where
  "split_once c [] = None"
| "split_once c (x # s) =
     (if x = c then Some ([], s)
      else map_option (apfst (Cons x)) (split_once c s))"

text \<open>\<^verbatim>\<open>splitn\<close>: at most \<open>n\<close> pieces, the last one holds the rest of the string.\<close>

fun splitn :: "nat \<Rightarrow> char \<Rightarrow> string \<Rightarrow> string list" where
  "splitn 0 c s = []"
| "splitn (Suc 0) c s = [s]"
| "splitn (Suc (Suc n)) c s =
     (case split_once c s of
        None \<Rightarrow> [s]
      | Some (a, r) \<Rightarrow> a # splitn (Suc n) c r)"

fun split_on :: "char \<Rightarrow> string \<Rightarrow> string list" where
  "split_on c [] = [[]]"
| "split_on c (x # s) =
     (if x = c then [] # split_on c s
      else (case split_on c s of
              [] \<Rightarrow> [[x]]
            | p # ps \<Rightarrow> (x # p) # ps))"

lemma starts_with_append [simp]: "starts_with (p @ s) p"
  by (simp add: starts_with_def)

lemma starts_with_iff_prefix: "starts_with s p \<longleftrightarrow> prefix p s"
  unfolding starts_with_def prefix_def
  by (metis append_eq_conv_conj)

lemma strip_prefix_append [simp]: "strip_prefix (p @ s) p = Some s"
  by (simp add: strip_prefix_def)

lemma strip_prefix_SomeD: "strip_prefix s p = Some r \<Longrightarrow> s = p @ r"
  by (auto simp: strip_prefix_def starts_with_def split: if_splits)
     (metis append_take_drop_id)

lemma split_once_append [simp]: "c \<notin> set a \<Longrightarrow> split_once c (a @ c # r) = Some (a, r)"
  by (induction a) auto

lemma split_once_SomeD: "split_once c s = Some (a, r) \<Longrightarrow> s = a @ c # r \<and> c \<notin> set a"
  by (induction s arbitrary: a) (auto split: if_splits)

lemma split_once_None_iff: "split_once c s = None \<longleftrightarrow> c \<notin> set s"
  by (induction s) auto

lemma split_on_ne [simp]: "split_on c s \<noteq> []"
  by (induction s) (auto split: list.splits)

subsection \<open>White space and case\<close>

text \<open>
  The UTF-8 encodings of the code points with the Unicode property White_Space, the ones
  \<^verbatim>\<open>str::trim\<close> strips. No encoding is a suffix of another code point's encoding, so matching
  whole encodings from either end is matching characters.
\<close>

definition whitespace :: "string list" where
  "whitespace =
     [[CHR 0x09], [CHR 0x0A], [CHR 0x0B], [CHR 0x0C], [CHR 0x0D], [CHR 0x20], [CHR 0xC2, CHR 0x85],
      [CHR 0xC2, CHR 0xA0], [CHR 0xE1, CHR 0x9A, CHR 0x80], [CHR 0xE2, CHR 0x80, CHR 0x80],
      [CHR 0xE2, CHR 0x80, CHR 0x81], [CHR 0xE2, CHR 0x80, CHR 0x82],
      [CHR 0xE2, CHR 0x80, CHR 0x83], [CHR 0xE2, CHR 0x80, CHR 0x84],
      [CHR 0xE2, CHR 0x80, CHR 0x85], [CHR 0xE2, CHR 0x80, CHR 0x86],
      [CHR 0xE2, CHR 0x80, CHR 0x87], [CHR 0xE2, CHR 0x80, CHR 0x88],
      [CHR 0xE2, CHR 0x80, CHR 0x89], [CHR 0xE2, CHR 0x80, CHR 0x8A],
      [CHR 0xE2, CHR 0x80, CHR 0xA8], [CHR 0xE2, CHR 0x80, CHR 0xA9],
      [CHR 0xE2, CHR 0x80, CHR 0xAF], [CHR 0xE2, CHR 0x81, CHR 0x9F],
      [CHR 0xE3, CHR 0x80, CHR 0x80]]"

fun strip_while :: "string list \<Rightarrow> nat \<Rightarrow> string \<Rightarrow> string" where
  "strip_while ws 0 s = s"
| "strip_while ws (Suc n) s =
     (case find (starts_with s) ws of
        None \<Rightarrow> s
      | Some w \<Rightarrow> strip_while ws n (drop (length w) s))"

definition trim_start :: "string \<Rightarrow> string" where
  "trim_start s = strip_while whitespace (length s) s"

definition trim_end :: "string \<Rightarrow> string" where
  "trim_end s = rev (strip_while (map rev whitespace) (length s) (rev s))"

definition trim :: "string \<Rightarrow> string" where
  "trim s = trim_end (trim_start s)"

definition ascii_lower :: "char \<Rightarrow> char" where
  "ascii_lower c =
     (let n = (of_char c :: nat) in if 65 \<le> n \<and> n \<le> 90 then char_of (n + 32) else c)"

definition to_ascii_lowercase :: "string \<Rightarrow> string" where
  "to_ascii_lowercase s = map ascii_lower s"

definition eq_ignore_ascii_case :: "string \<Rightarrow> string \<Rightarrow> bool" where
  "eq_ignore_ascii_case s t \<longleftrightarrow> to_ascii_lowercase s = to_ascii_lowercase t"


subsection \<open>Integers\<close>

text \<open>
  \<^verbatim>\<open>str::parse::<u32>\<close> and \<^verbatim>\<open>u64\<close>: an optional plus sign and at least one decimal digit;
  a value that does not fit the width is an error, as every other character is.
\<close>

definition digit_of :: "char \<Rightarrow> nat option" where
  "digit_of c = (let n = of_char c in if 48 \<le> n \<and> n \<le> 57 then Some (n - 48) else None)"

fun digits_value :: "nat \<Rightarrow> string \<Rightarrow> nat option" where
  "digits_value acc [] = Some acc"
| "digits_value acc (c # s) =
     (case digit_of c of None \<Rightarrow> None | Some d \<Rightarrow> digits_value (10 * acc + d) s)"

definition parse_unsigned :: "nat \<Rightarrow> string \<Rightarrow> nat option" where
  "parse_unsigned w s =
     (let ds = (case s of c # r \<Rightarrow> if c = CHR ''+'' then r else s | [] \<Rightarrow> s) in
      if ds = [] then None
      else (case digits_value 0 ds of
              None \<Rightarrow> None
            | Some n \<Rightarrow> if n < 2 ^ w then Some n else None))"

lemma parse_unsigned_bound: "parse_unsigned w s = Some n \<Longrightarrow> n < 2 ^ w"
  by (auto simp: parse_unsigned_def Let_def split: if_splits option.splits)

text \<open>\<^verbatim>\<open>to_string\<close> of an unsigned integer.\<close>

fun dec_string :: "nat \<Rightarrow> string" where
  "dec_string n = (if n < 10 then [char_of (48 + n)] else dec_string (n div 10) @ [char_of (48 + n mod 10)])"

declare dec_string.simps [simp del]

lemma digits_value_append:
  "digits_value acc (s @ [c]) =
     (case digits_value acc s of None \<Rightarrow> None | Some v \<Rightarrow> map_option (\<lambda>d. 10 * v + d) (digit_of c))"
  by (induction s arbitrary: acc) (auto split: option.split)

lemma digit_of_dec: "d < 10 \<Longrightarrow> digit_of (char_of (48 + d)) = Some d"
  by (simp add: digit_of_def)

lemma digits_value_dec: "digits_value 0 (dec_string n) = Some n"
proof (induction n rule: dec_string.induct)
  case (1 n)
  show ?case
  proof (cases "n < 10")
    case True
    then show ?thesis by (simp add: dec_string.simps [of n] digit_of_dec)
  next
    case False
    with 1 have "digits_value 0 (dec_string (n div 10)) = Some (n div 10)" by simp
    with False show ?thesis
      by (subst dec_string.simps) (simp add: digits_value_append digit_of_dec)
  qed
qed

lemma dec_string_head: "\<exists>c s. dec_string n = c # s \<and> c \<noteq> CHR ''+''"
proof (induction n rule: dec_string.induct)
  case (1 n)
  show ?case
  proof (cases "n < 10")
    case True
    then have "(of_char (char_of (48 + n) :: char) :: nat) \<noteq> of_char CHR ''+''" by simp
    then have "char_of (48 + n) \<noteq> CHR ''+''" by metis
    with True show ?thesis by (simp add: dec_string.simps [of n])
  next
    case False
    with 1 show ?thesis by (subst dec_string.simps) auto
  qed
qed

lemma parse_dec_string: "n < 2 ^ w \<Longrightarrow> parse_unsigned w (dec_string n) = Some n"
  using dec_string_head [of n] digits_value_dec [of n] by (auto simp: parse_unsigned_def Let_def)


section \<open>Fallible and stateful computations\<close>

type_synonym ('e, 's, 'a) op = "'s \<Rightarrow> ('e + 'a) \<times> 's"

definition bindE :: "'e + 'a \<Rightarrow> ('a \<Rightarrow> 'e + 'b) \<Rightarrow> 'e + 'b" where
  "bindE m f = (case m of Inl e \<Rightarrow> Inl e | Inr a \<Rightarrow> f a)"

definition map_err :: "('e \<Rightarrow> 'f) \<Rightarrow> 'e + 'a \<Rightarrow> 'f + 'a" where
  "map_err g m = (case m of Inl e \<Rightarrow> Inl (g e) | Inr a \<Rightarrow> Inr a)"

definition ok_or :: "'e \<Rightarrow> 'a option \<Rightarrow> 'e + 'a" where
  "ok_or e m = (case m of None \<Rightarrow> Inl e | Some a \<Rightarrow> Inr a)"

definition returnM :: "'a \<Rightarrow> ('e, 's, 'a) op" where
  "returnM a = (\<lambda>s. (Inr a, s))"

definition throwM :: "'e \<Rightarrow> ('e, 's, 'a) op" where
  "throwM e = (\<lambda>s. (Inl e, s))"

definition bindM :: "('e, 's, 'a) op \<Rightarrow> ('a \<Rightarrow> ('e, 's, 'b) op) \<Rightarrow> ('e, 's, 'b) op" where
  "bindM m f = (\<lambda>s. case m s of (Inl e, s') \<Rightarrow> (Inl e, s') | (Inr a, s') \<Rightarrow> f a s')"

definition liftE :: "'e + 'a \<Rightarrow> ('e, 's, 'a) op" where
  "liftE r = (\<lambda>s. (r, s))"

lemma bindE_simps [simp]:
  "bindE (Inl e) f = Inl e"
  "bindE (Inr a) f = f a"
  by (simp_all add: bindE_def)

lemma bindE_eq_Inr: "bindE m f = Inr b \<longleftrightarrow> (\<exists>a. m = Inr a \<and> f a = Inr b)"
  by (cases m) auto

lemma bindE_eq_Inl: "bindE m f = Inl e \<longleftrightarrow> m = Inl e \<or> (\<exists>a. m = Inr a \<and> f a = Inl e)"
  by (cases m) auto

lemma map_err_simps [simp]:
  "map_err g (Inl e) = Inl (g e)"
  "map_err g (Inr a) = Inr a"
  by (simp_all add: map_err_def)

lemma map_err_eq_Inr [simp]: "map_err g m = Inr a \<longleftrightarrow> m = Inr a"
  by (cases m) auto

lemma ok_or_simps [simp]:
  "ok_or e None = Inl e"
  "ok_or e (Some a) = Inr a"
  by (simp_all add: ok_or_def)

lemma ok_or_eq_Inr [simp]: "ok_or e m = Inr a \<longleftrightarrow> m = Some a"
  by (cases m) auto

text \<open>Which errors a fallible computation can return.\<close>

definition errs_in :: "('e \<Rightarrow> bool) \<Rightarrow> 'e + 'a \<Rightarrow> bool" where
  "errs_in P m \<longleftrightarrow> (\<forall>e. m = Inl e \<longrightarrow> P e)"

lemma errs_in_simps [simp]:
  "errs_in P (Inr a)"
  "errs_in P (Inl e) \<longleftrightarrow> P e"
  by (simp_all add: errs_in_def)

lemma errs_in_ok_or [simp]: "errs_in P (ok_or e m) \<longleftrightarrow> m = None \<longrightarrow> P e"
  by (cases m) simp_all

lemma errs_in_bindE: "errs_in P m \<Longrightarrow> (\<And>a. errs_in P (f a)) \<Longrightarrow> errs_in P (bindE m f)"
  by (cases m) simp_all

lemma errs_inD: "errs_in P m \<Longrightarrow> m = Inl e \<Longrightarrow> P e"
  by (simp add: errs_in_def)

lemma returnM_app [simp]: "returnM a s = (Inr a, s)"
  by (simp add: returnM_def)

lemma throwM_app [simp]: "throwM e s = (Inl e, s)"
  by (simp add: throwM_def)

lemma liftE_app [simp]: "liftE r s = (r, s)"
  by (simp add: liftE_def)

lemma bindM_Inl [simp]: "m s = (Inl e, s') \<Longrightarrow> bindM m f s = (Inl e, s')"
  by (simp add: bindM_def)

lemma bindM_Inr [simp]: "m s = (Inr a, s') \<Longrightarrow> bindM m f s = f a s'"
  by (simp add: bindM_def)

lemma bindM_return [simp]: "bindM (returnM a) f = f a"
  by (rule ext) (simp add: bindM_def)

lemma bindM_throw [simp]: "bindM (throwM e) f = throwM e"
  by (rule ext) (simp add: bindM_def)

lemma bindM_assoc: "bindM (bindM m f) g = bindM m (\<lambda>a. bindM (f a) g)"
  by (rule ext) (simp add: bindM_def split: prod.split sum.split)

lemma bindM_eq_InrE:
  assumes "bindM m f s = (Inr b, t)"
  obtains a s' where "m s = (Inr a, s')" "f a s' = (Inr b, t)"
  using assms by (auto simp: bindM_def split: prod.splits sum.splits)

text \<open>
  An operation preserves a predicate of the state when every outcome, success or error, does.
  The rules below prove it for a composite operation from its parts.
\<close>

definition preserves :: "('s \<Rightarrow> bool) \<Rightarrow> ('e, 's, 'a) op \<Rightarrow> bool" where
  "preserves P m \<longleftrightarrow> (\<forall>s. P s \<longrightarrow> P (snd (m s)))"

named_theorems preserves_rules "operations that preserve the predicate they are listed with"

lemma preservesI: "(\<And>s. P s \<Longrightarrow> P (snd (m s))) \<Longrightarrow> preserves P m"
  by (simp add: preserves_def)

lemma preservesD: "preserves P m \<Longrightarrow> P s \<Longrightarrow> P (snd (m s))"
  by (simp add: preserves_def)

lemma preserves_return [simp, preserves_rules]: "preserves P (returnM a)"
  and preserves_throw [simp, preserves_rules]: "preserves P (throwM e)"
  and preserves_lift [simp, preserves_rules]: "preserves P (liftE r)"
  by (simp_all add: preserves_def)

lemma preserves_bind [preserves_rules]:
  assumes "preserves P m" and "\<And>a. preserves P (f a)"
  shows "preserves P (bindM m f)"
proof (rule preservesI)
  fix s assume "P s"
  with assms(1) have "P (snd (m s))" by (rule preservesD)
  with assms(2) show "P (snd (bindM m f s))"
    by (cases "m s") (auto simp: bindM_def preserves_def split: sum.split)
qed

lemma preserves_case_prod [preserves_rules]:
  "(\<And>a b. preserves P (f a b)) \<Longrightarrow> preserves P (case p of (a, b) \<Rightarrow> f a b)"
  by (cases p) simp

text \<open>What every value an operation returns satisfies; the next step may use it.\<close>

definition yields :: "('a \<Rightarrow> bool) \<Rightarrow> ('e, 's, 'a) op \<Rightarrow> bool" where
  "yields Q m \<longleftrightarrow> (\<forall>s a s'. m s = (Inr a, s') \<longrightarrow> Q a)"

lemma preserves_bind_yields:
  assumes "preserves P m" and "yields Q m" and "\<And>a. Q a \<Longrightarrow> preserves P (f a)"
  shows "preserves P (bindM m f)"
proof (rule preservesI)
  fix s assume "P s"
  with assms(1) have "P (snd (m s))" by (rule preservesD)
  with assms(2,3) show "P (snd (bindM m f s))"
    by (cases "m s") (auto simp: bindM_def preserves_def yields_def split: sum.split)
qed


text \<open>A predicate that holds after every failure, if not after a success.\<close>

definition failure_keeps :: "('s \<Rightarrow> bool) \<Rightarrow> ('e, 's, 'a) op \<Rightarrow> bool" where
  "failure_keeps P m \<longleftrightarrow> (\<forall>s e s'. P s \<longrightarrow> m s = (Inl e, s') \<longrightarrow> P s')"

lemma failure_keepsD: "failure_keeps P m \<Longrightarrow> P s \<Longrightarrow> m s = (Inl e, s') \<Longrightarrow> P s'"
  unfolding failure_keeps_def by blast

lemma failure_keeps_bind:
  assumes "preserves P m" and "\<And>a. failure_keeps P (f a)"
  shows "failure_keeps P (bindM m f)"
  unfolding failure_keeps_def
proof (intro allI impI)
  fix s e t
  assume P: "P s" and run: "bindM m f s = (Inl e, t)"
  obtain r s' where 1: "m s = (r, s')" by fastforce
  with preservesD [OF assms(1) P] have "P s'" by simp
  with 1 run failure_keepsD [OF assms(2)] show "P t" by (cases r) auto
qed

lemma failure_keeps_total: "(\<And>s. \<exists>a s'. m s = (Inr a, s')) \<Longrightarrow> failure_keeps P m"
  unfolding failure_keeps_def by (metis Inl_Inr_False fst_conv)


section \<open>Tables\<close>

text \<open>
  A table is the list of its rows. A row update that does not change the key keeps the keys of
  the table, and with them every uniqueness and reference property stated over them.
\<close>

definition update_where :: "('r \<Rightarrow> bool) \<Rightarrow> ('r \<Rightarrow> 'r) \<Rightarrow> 'r list \<Rightarrow> 'r list" where
  "update_where p f rows = map (\<lambda>r. if p r then f r else r) rows"

definition rows_where :: "('r \<Rightarrow> bool) \<Rightarrow> 'r list \<Rightarrow> nat" where
  "rows_where p rows = length (filter p rows)"

text \<open>\<^verbatim>\<open>INSERT ... ON CONFLICT (key) DO UPDATE\<close>.\<close>

definition upsert_row :: "('r \<Rightarrow> 'k) \<Rightarrow> 'r \<Rightarrow> ('r \<Rightarrow> 'r) \<Rightarrow> 'r list \<Rightarrow> 'r list" where
  "upsert_row key new upd rows =
     (if key new \<in> key ` set rows then update_where (\<lambda>r. key r = key new) upd rows else rows @ [new])"

lemma length_update_where [simp]: "length (update_where p f rows) = length rows"
  by (simp add: update_where_def)

lemma set_update_where:
  "set (update_where p f rows) = (\<lambda>r. if p r then f r else r) ` set rows"
  by (simp add: update_where_def)

lemma list_all_update_where:
  "list_all P rows \<Longrightarrow> (\<And>r. P r \<Longrightarrow> p r \<Longrightarrow> P (f r)) \<Longrightarrow> list_all P (update_where p f rows)"
  by (auto simp: list_all_iff set_update_where)

lemma distinct_map_filter' [simp]: "distinct (map k rows) \<Longrightarrow> distinct (map k (filter p rows))"
  by (rule distinct_map_filter)

lemma find_SomeD: "find p xs = Some x \<Longrightarrow> x \<in> set xs \<and> p x"
  by (induction xs) (auto split: if_splits)

lemma find_None_iff_filter: "find p xs = None \<longleftrightarrow> filter p xs = []"
  by (induction xs) auto

lemma find_append: "find p (xs @ ys) = (case find p xs of None \<Rightarrow> find p ys | Some x \<Rightarrow> Some x)"
  by (induction xs) auto

lemma find_unique_key:
  assumes "distinct (map k rows)" and "r \<in> set rows" and "k r = v"
  shows "find (\<lambda>r. k r = v) rows = Some r"
  using assms by (induction rows) (auto simp: rev_image_eqI)

lemma find_appended: "k r = v \<Longrightarrow> v \<notin> k ` set rows \<Longrightarrow> find (\<lambda>r. k r = v) (rows @ [r]) = Some r"
  by (induction rows) auto

locale key_update =
  fixes key :: "'r \<Rightarrow> 'k" and upd :: "'r \<Rightarrow> 'r"
  assumes key_upd: "key (upd r) = key r"
begin

lemma map_key_update_where [simp]: "map key (update_where p upd rows) = map key rows"
  by (simp add: update_where_def key_upd)

lemma find_key_update_where:
  "find (\<lambda>r. key r = k) (update_where p upd rows) =
     map_option (\<lambda>r. if p r then upd r else r) (find (\<lambda>r. key r = k) rows)"
  by (induction rows) (auto simp: update_where_def key_upd)

lemma distinct_upsert_row: "distinct (map key rows) \<Longrightarrow> distinct (map key (upsert_row key new upd rows))"
  by (simp add: upsert_row_def)

lemma find_upsert_row:
  "find (\<lambda>r. key r = k) (upsert_row key new upd rows) =
     (if k = key new then Some (case find (\<lambda>r. key r = k) rows of None \<Rightarrow> new | Some r \<Rightarrow> upd r)
      else find (\<lambda>r. key r = k) rows)"
proof (cases "key new \<in> key ` set rows")
  case True
  have same: "map_option (\<lambda>r. if key r = key new then upd r else r) (find (\<lambda>r. key r = k) rows) =
      (if k = key new then map_option upd (find (\<lambda>r. key r = k) rows) else find (\<lambda>r. key r = k) rows)"
    by (cases "find (\<lambda>r. key r = k) rows") (auto dest: find_SomeD)
  from True have "find (\<lambda>r. key r = key new) rows \<noteq> None" by (auto simp: find_None_iff)
  with True show ?thesis by (auto simp: upsert_row_def find_key_update_where same split: option.split)
next
  case False
  then have "find (\<lambda>r. key r = key new) rows = None" by (metis (mono_tags, lifting) find_None_iff image_eqI)
  with False show ?thesis by (auto simp: upsert_row_def find_append split: option.split)
qed

lemma list_all_upsert_row:
  "list_all P rows \<Longrightarrow> P new \<Longrightarrow> (\<And>r. P r \<Longrightarrow> P (upd r)) \<Longrightarrow> list_all P (upsert_row key new upd rows)"
  by (auto simp: upsert_row_def intro: list_all_update_where)

end


section \<open>Machines\<close>

text \<open>A step function and an invariant it keeps, lifted to runs of any length.\<close>

locale invariant_machine =
  fixes step :: "'s \<Rightarrow> 'c \<Rightarrow> 's" and inv :: "'s \<Rightarrow> bool"
  assumes step_inv: "inv s \<Longrightarrow> inv (step s c)"
begin

lemma run_inv: "inv s \<Longrightarrow> inv (foldl step s cs)"
  by (induction cs arbitrary: s) (auto intro: step_inv)

end

end
