(* ===== verification/Db_Error.thy ===== *)
theory Db_Error
  imports Prelude
begin

text \<open>
  The error type of the crate (\<^verbatim>\<open>src/error.rs\<close>) and the conversions into it. The text of a
  foreign error is what its own \<^verbatim>\<open>Display\<close> prints, so the functions that print
  \<^verbatim>\<open>sqlx::Error\<close> and halo2's error are arguments.
\<close>

datatype DatabaseError =
    Connection string
  | Query string
  | Migration string
  | Encryption string
  | Configuration string
  | Io string
  | Integrity string
  | Attestation string
  | ZeroKnowledge string
  | Unsupported string

type_synonym 'a db_result = "DatabaseError + 'a"

fun display_error :: "DatabaseError \<Rightarrow> string" where
  "display_error (Connection m) = ''database connection error: '' @ m"
| "display_error (Query m) = ''database query error: '' @ m"
| "display_error (Migration m) = ''migration error: '' @ m"
| "display_error (Encryption m) = ''encryption error: '' @ m"
| "display_error (Configuration m) = ''configuration error: '' @ m"
| "display_error (Io m) = ''io error: '' @ m"
| "display_error (Integrity m) = ''integrity violation: '' @ m"
| "display_error (Attestation m) = ''tee attestation error: '' @ m"
| "display_error (ZeroKnowledge m) = ''zero-knowledge error: '' @ m"
| "display_error (Unsupported m) = ''unsupported feature: '' @ m"

definition from_sqlx_error :: "('e \<Rightarrow> string) \<Rightarrow> 'e \<Rightarrow> DatabaseError" where
  "from_sqlx_error display e = Query (display e)"

definition from_io_error :: "('e \<Rightarrow> string) \<Rightarrow> 'e \<Rightarrow> DatabaseError" where
  "from_io_error display e = Io (display e)"

definition from_ring_unspecified :: DatabaseError where
  "from_ring_unspecified = Encryption ''ring::error::Unspecified''"

definition from_plonk_error :: "('e \<Rightarrow> string) \<Rightarrow> 'e \<Rightarrow> DatabaseError" where
  "from_plonk_error display e = ZeroKnowledge (display e)"

lemma display_error_inject: "display_error e = display_error e' \<longleftrightarrow> e = e'"
  by (cases e; cases e') auto

end
