(* ===== verification/Envelope.thy ===== *)
theory Envelope
  imports Db_Error
begin

text \<open>
  The authenticated envelope of a protected value: AES-256-GCM sealing with associated data
  (\<^verbatim>\<open>aes_encrypt_with_aad\<close>, \<^verbatim>\<open>aes_decrypt_with_aad\<close>) and the textual payload
  \<^verbatim>\<open>aead:v2:handle:token:ciphertext\<close> (\<^verbatim>\<open>encode_aead_payload\<close>, \<^verbatim>\<open>decode_aead_payload\<close>), all of
  \<^verbatim>\<open>src/lib.rs\<close>.

  The crates the code calls are fields of the records \<open>codec\<close> and \<open>crypto\<close>: base64, hex and
  the display of UUIDs; ring's AEAD, SHA-256 and HMAC. What the code relies on is stated by
  \<open>base64_laws\<close>, \<open>uuid_laws\<close>, \<open>aead_laws\<close> and \<open>aead_binds\<close>. The last one is indexed by the
  set of associated data in play: a 16-byte tag cannot separate all byte strings, so no
  sealing function separates every pair.
\<close>

section \<open>External code\<close>

record codec =
  b64_encode :: "bytes \<Rightarrow> string"
  b64_decode :: "bytes \<Rightarrow> bytes option"
  hex_encode :: "bytes \<Rightarrow> string"
  hex_decode :: "string \<Rightarrow> bytes option"
  uuid_display :: "uuid \<Rightarrow> string"

record crypto = codec +
  aead_key_ok :: "bytes \<Rightarrow> bool"
  aead_seal :: "bytes \<Rightarrow> bytes \<Rightarrow> bytes \<Rightarrow> bytes \<Rightarrow> bytes option"
  aead_open :: "bytes \<Rightarrow> bytes \<Rightarrow> bytes \<Rightarrow> bytes \<Rightarrow> bytes option"
  ring_unspecified :: string
  sha256 :: "bytes \<Rightarrow> bytes"
  hmac_sha256 :: "bytes \<Rightarrow> bytes \<Rightarrow> bytes option"

definition base64_laws :: "'z codec_scheme \<Rightarrow> bool" where
  "base64_laws x \<longleftrightarrow>
     (\<forall>bs. b64_decode x (as_bytes (b64_encode x bs)) = Some bs)
   \<and> (\<forall>bs. CHR '':'' \<notin> set (b64_encode x bs))"

definition uuid_laws :: "'z codec_scheme \<Rightarrow> bool" where
  "uuid_laws x \<longleftrightarrow> inj (uuid_display x) \<and> (\<forall>u. CHR 0x00 \<notin> set (uuid_display x u))"

definition NONCE_LEN :: nat where
  "NONCE_LEN = 12"

definition TAG_LENGTH :: nat where
  "TAG_LENGTH = 16"

text \<open>
  ring's contract for AES-256-GCM: keys are 32 bytes, sealing appends a 16-byte tag, and opening
  with the same key, nonce and associated data returns the plaintext.
\<close>

definition aead_laws :: "'z crypto_scheme \<Rightarrow> bool" where
  "aead_laws x \<longleftrightarrow>
     (\<forall>k. aead_key_ok x k \<longleftrightarrow> length k = 32)
   \<and> (\<forall>k n a p c. length k = 32 \<longrightarrow> length n = NONCE_LEN \<longrightarrow> aead_seal x k n a p = Some c \<longrightarrow>
        length c = length p + TAG_LENGTH \<and> aead_open x k n a c = Some p)"

text \<open>No ciphertext sealed for one of the associated data in \<open>A\<close> opens for another one.\<close>

definition aead_binds :: "bytes set \<Rightarrow> 'z crypto_scheme \<Rightarrow> bool" where
  "aead_binds A x \<longleftrightarrow>
     (\<forall>a \<in> A. \<forall>a' \<in> A. a \<noteq> a' \<longrightarrow>
        (\<forall>k n p c. length k = 32 \<longrightarrow> length n = NONCE_LEN \<longrightarrow> aead_seal x k n a p = Some c \<longrightarrow>
           aead_open x k n a' c = None))"


section \<open>Sealing\<close>

definition hmac_sign :: "'z crypto_scheme \<Rightarrow> bytes \<Rightarrow> bytes \<Rightarrow> bytes db_result" where
  "hmac_sign x key payload = ok_or (Encryption ''invalid HMAC key'') (hmac_sha256 x key payload)"

text \<open>\<open>rng\<close> is what \<^verbatim>\<open>SystemRandom::fill\<close> produced for the nonce, \<open>None\<close> when it failed.\<close>

definition aes_encrypt_with_aad ::
  "'z crypto_scheme \<Rightarrow> bytes option \<Rightarrow> bytes \<Rightarrow> bytes \<Rightarrow> bytes \<Rightarrow> bytes db_result" where
  "aes_encrypt_with_aad x rng key plaintext aad =
     (case rng of
        None \<Rightarrow> Inl (Encryption (''rng failure: '' @ ring_unspecified x))
      | Some nonce_bytes \<Rightarrow>
          if \<not> aead_key_ok x key then Inl from_ring_unspecified
          else (case aead_seal x key nonce_bytes aad plaintext of
                  None \<Rightarrow> Inl (Encryption (ring_unspecified x))
                | Some in_out \<Rightarrow> Inr (nonce_bytes @ in_out)))"

definition aes_encrypt ::
  "'z crypto_scheme \<Rightarrow> bytes option \<Rightarrow> bytes \<Rightarrow> bytes \<Rightarrow> bytes db_result" where
  "aes_encrypt x rng key plaintext = aes_encrypt_with_aad x rng key plaintext []"

definition aes_decrypt_with_aad ::
  "'z crypto_scheme \<Rightarrow> bytes \<Rightarrow> bytes \<Rightarrow> bytes \<Rightarrow> bytes db_result" where
  "aes_decrypt_with_aad x key ciphertext aad =
     (if length ciphertext < NONCE_LEN + TAG_LENGTH
      then Inl (Encryption ''ciphertext too short'')
      else
        let nonce_bytes = take NONCE_LEN ciphertext; body = drop NONCE_LEN ciphertext in
        if length nonce_bytes \<noteq> NONCE_LEN then Inl (Encryption ''invalid nonce'')
        else if \<not> aead_key_ok x key then Inl from_ring_unspecified
        else ok_or (Encryption ''decryption failed'') (aead_open x key nonce_bytes aad body))"

definition aes_decrypt :: "'z crypto_scheme \<Rightarrow> bytes \<Rightarrow> bytes \<Rightarrow> bytes db_result" where
  "aes_decrypt x key ciphertext = aes_decrypt_with_aad x key ciphertext []"


section \<open>The payload text\<close>

definition AEAD_PREFIX_V1 :: string where
  "AEAD_PREFIX_V1 = ''aead:v1:''"

definition AEAD_PREFIX_V2 :: string where
  "AEAD_PREFIX_V2 = ''aead:v2:''"

definition AEAD_SEPARATOR :: char where
  "AEAD_SEPARATOR = CHR '':''"

definition encode_aead_payload :: "'z codec_scheme \<Rightarrow> string \<Rightarrow> string \<Rightarrow> bytes \<Rightarrow> string" where
  "encode_aead_payload x handle redeem_token ciphertext =
     (let handle_b64 = b64_encode x (as_bytes handle);
          redeem_token_b64 = b64_encode x (as_bytes redeem_token);
          ciphertext_b64 = b64_encode x ciphertext
      in AEAD_PREFIX_V2 @ handle_b64 @ [AEAD_SEPARATOR] @ redeem_token_b64
         @ [AEAD_SEPARATOR] @ ciphertext_b64)"

text \<open>
  Splitting the text after the prefix: three parts for version 2, two for version 1 (which has
  no redeem token). \<^verbatim>\<open>splitn\<close> yields at least one part, so the first of the three
  \<^verbatim>\<open>ok_or_else\<close> of the source never fires.
\<close>

definition split_v2 :: "string \<Rightarrow> (string \<times> string option \<times> string) db_result" where
  "split_v2 remainder =
     (case splitn 3 AEAD_SEPARATOR remainder of
        [h, t, c] \<Rightarrow> Inr (h, Some t, c)
      | _ \<Rightarrow> Inl (Encryption ''invalid AEAD v2 payload format''))"

definition split_v1 :: "string \<Rightarrow> (string \<times> string option \<times> string) db_result" where
  "split_v1 remainder =
     (case split_once AEAD_SEPARATOR remainder of
        Some (h, c) \<Rightarrow> Inr (h, None, c)
      | None \<Rightarrow> Inl (Encryption ''invalid AEAD v1 payload format''))"

definition split_payload :: "string \<Rightarrow> (string \<times> string option \<times> string) db_result" where
  "split_payload encoded =
     (case strip_prefix encoded AEAD_PREFIX_V2 of
        Some remainder \<Rightarrow> split_v2 remainder
      | None \<Rightarrow>
          (case strip_prefix encoded AEAD_PREFIX_V1 of
             Some remainder \<Rightarrow> split_v1 remainder
           | None \<Rightarrow> Inl (Encryption ''value missing aead:v1/v2 prefix'')))"

definition decode_redeem_token ::
  "'z codec_scheme \<Rightarrow> string option \<Rightarrow> string option db_result" where
  "decode_redeem_token x token_b64 =
     (case token_b64 of
        None \<Rightarrow> Inr None
      | Some t \<Rightarrow>
          bindE (ok_or (Encryption ''invalid AEAD redeem token encoding'') (b64_decode x (as_bytes t)))
            (\<lambda>token_bytes.
               bindE (ok_or (Encryption ''AEAD redeem token is not valid UTF-8'') (from_utf8 token_bytes))
                 (\<lambda>token. Inr (Some token))))"

definition decode_aead_payload ::
  "'z codec_scheme \<Rightarrow> string \<Rightarrow> (string \<times> string option \<times> bytes) db_result" where
  "decode_aead_payload x encoded =
     bindE (split_payload encoded) (\<lambda>(handle_b64, redeem_token_b64, ciphertext_b64).
     bindE (ok_or (Encryption ''invalid AEAD handle encoding'') (b64_decode x (as_bytes handle_b64)))
       (\<lambda>handle_bytes.
     bindE (decode_redeem_token x redeem_token_b64) (\<lambda>redeem_token.
     bindE (ok_or (Encryption ''invalid AEAD ciphertext encoding'') (b64_decode x (as_bytes ciphertext_b64)))
       (\<lambda>ciphertext.
     bindE (ok_or (Encryption ''AEAD handle is not valid UTF-8'') (from_utf8 handle_bytes))
       (\<lambda>handle. Inr (handle, redeem_token, ciphertext))))))"

definition is_aead_payload :: "string \<Rightarrow> bool" where
  "is_aead_payload v \<longleftrightarrow> starts_with v AEAD_PREFIX_V1 \<or> starts_with v AEAD_PREFIX_V2"

definition is_aead_payload_v2 :: "string \<Rightarrow> bool" where
  "is_aead_payload_v2 v \<longleftrightarrow> starts_with v AEAD_PREFIX_V2"


section \<open>Facts\<close>

lemma base64_lawsD:
  assumes "base64_laws x"
  shows "b64_decode x (as_bytes (b64_encode x bs)) = Some bs"
    and "AEAD_SEPARATOR \<notin> set (b64_encode x bs)"
  using assms by (simp_all add: base64_laws_def AEAD_SEPARATOR_def)

lemma aead_lawsD:
  assumes "aead_laws x" and "length k = 32" and "length n = NONCE_LEN"
    and "aead_seal x k n a p = Some c"
  shows "length c = length p + TAG_LENGTH" and "aead_open x k n a c = Some p"
  using assms unfolding aead_laws_def by blast+

lemma aead_laws_key: "aead_laws x \<Longrightarrow> aead_key_ok x k \<longleftrightarrow> length k = 32"
  by (simp add: aead_laws_def)

lemma aead_bindsD:
  assumes "aead_binds A x" and "a \<in> A" and "a' \<in> A" and "a \<noteq> a'"
    and "length k = 32" and "length n = NONCE_LEN" and "aead_seal x k n a p = Some c"
  shows "aead_open x k n a' c = None"
  using assms unfolding aead_binds_def by blast

lemma splitn_3_append:
  assumes "s \<notin> set a" and "s \<notin> set b"
  shows "splitn 3 s (a @ s # b @ s # c) = [a, b, c]"
  using assms by (simp add: numeral_3_eq_3)

lemma v1_not_v2: "\<not> (starts_with v AEAD_PREFIX_V1 \<and> starts_with v AEAD_PREFIX_V2)"
  by (auto simp: starts_with_def AEAD_PREFIX_V1_def AEAD_PREFIX_V2_def)

lemma strip_v2_of_v1 [simp]: "strip_prefix (AEAD_PREFIX_V1 @ r) AEAD_PREFIX_V2 = None"
  by (simp add: strip_prefix_def starts_with_def AEAD_PREFIX_V1_def AEAD_PREFIX_V2_def)

lemma is_aead_payload_v2_imp: "is_aead_payload_v2 v \<Longrightarrow> is_aead_payload v"
  by (simp add: is_aead_payload_def is_aead_payload_v2_def)

lemma encode_is_v2 [simp]: "is_aead_payload_v2 (encode_aead_payload x h t c)"
  by (simp add: is_aead_payload_v2_def encode_aead_payload_def Let_def)

lemma split_payload_encode:
  assumes "base64_laws x"
  shows "split_payload (encode_aead_payload x h t c) =
    Inr (b64_encode x (as_bytes h), Some (b64_encode x (as_bytes t)), b64_encode x c)"
  using splitn_3_append [OF base64_lawsD(2) [OF assms, of "as_bytes h"]
      base64_lawsD(2) [OF assms, of "as_bytes t"], of "b64_encode x c"]
  by (simp add: split_payload_def encode_aead_payload_def Let_def split_v2_def)

lemma decode_encode_payload:
  assumes "base64_laws x" and "rust_string h" and "rust_string t"
  shows "decode_aead_payload x (encode_aead_payload x h t c) = Inr (h, Some t, c)"
  using assms
  by (simp add: decode_aead_payload_def split_payload_encode decode_redeem_token_def
      base64_lawsD(1))

lemma split_payload_token:
  assumes "split_payload v = Inr (h, t, c)"
  shows "(is_aead_payload_v2 v \<and> t \<noteq> None) \<or> (starts_with v AEAD_PREFIX_V1 \<and> t = None)"
  using assms
  by (auto simp: split_payload_def split_v2_def split_v1_def is_aead_payload_v2_def strip_prefix_def
      split: option.splits list.splits if_splits prod.splits)

lemma decode_token_kind:
  assumes "decode_redeem_token x t = Inr r"
  shows "r = None \<longleftrightarrow> t = None"
  using assms by (auto simp: decode_redeem_token_def bindE_eq_Inr split: option.splits)

lemma decode_payload_version:
  assumes "decode_aead_payload x v = Inr (h, t, c)"
  shows "is_aead_payload v \<and> (t \<noteq> None \<longleftrightarrow> is_aead_payload_v2 v)"
proof -
  from assms obtain hb tb cb where *: "split_payload v = Inr (hb, tb, cb)"
    and tok: "decode_redeem_token x tb = Inr t"
    by (auto simp: decode_aead_payload_def bindE_eq_Inr)
  from split_payload_token [OF *] decode_token_kind [OF tok] v1_not_v2 [of v]
  show ?thesis
    by (auto simp: is_aead_payload_def is_aead_payload_v2_def)
qed

abbreviation is_Encryption :: "DatabaseError \<Rightarrow> bool" where
  "is_Encryption e \<equiv> (\<exists>m. e = Encryption m)"

lemma split_payload_errs: "errs_in is_Encryption (split_payload v)"
  by (auto simp: split_payload_def split_v2_def split_v1_def split: option.split list.split)

lemma decode_redeem_token_errs: "errs_in is_Encryption (decode_redeem_token x t)"
  by (cases t) (auto simp: decode_redeem_token_def intro!: errs_in_bindE)

lemma decode_payload_errs: "errs_in is_Encryption (decode_aead_payload x v)"
  unfolding decode_aead_payload_def
  by (auto simp: split_payload_errs decode_redeem_token_errs intro!: errs_in_bindE)

lemma decode_not_payload: "\<not> is_aead_payload v \<Longrightarrow>
  decode_aead_payload x v = Inl (Encryption ''value missing aead:v1/v2 prefix'')"
  by (simp add: decode_aead_payload_def split_payload_def strip_prefix_def is_aead_payload_def)

lemma aes_encrypt_with_aad_Inr:
  "aes_encrypt_with_aad x rng key p aad = Inr ct \<longleftrightarrow>
     (\<exists>n c. rng = Some n \<and> aead_key_ok x key \<and> aead_seal x key n aad p = Some c \<and> ct = n @ c)"
  by (auto simp: aes_encrypt_with_aad_def split: option.splits)

lemma aes_encrypt_errs: "errs_in is_Encryption (aes_encrypt_with_aad x rng key p aad)"
  by (auto simp: aes_encrypt_with_aad_def from_ring_unspecified_def split: option.split)

lemma aes_decrypt_errs: "errs_in is_Encryption (aes_decrypt_with_aad x key ct aad)"
  by (auto simp: aes_decrypt_with_aad_def Let_def from_ring_unspecified_def)

lemma aes_decrypt_parts:
  assumes "length n = NONCE_LEN" and "TAG_LENGTH \<le> length c" and "aead_key_ok x key"
  shows "aes_decrypt_with_aad x key (n @ c) aad =
    ok_or (Encryption ''decryption failed'') (aead_open x key n aad c)"
  using assms by (simp add: aes_decrypt_with_aad_def)

lemma aes_round_trip:
  assumes "aead_laws x" and "length n = NONCE_LEN"
    and "aes_encrypt_with_aad x (Some n) key p aad = Inr ct"
  shows "aes_decrypt_with_aad x key ct aad = Inr p"
proof -
  from assms(3) obtain c where k: "aead_key_ok x key"
    and c: "aead_seal x key n aad p = Some c" and ct: "ct = n @ c"
    by (auto simp: aes_encrypt_with_aad_Inr)
  from k have "length key = 32" by (simp add: aead_laws_key [OF assms(1)])
  note laws = aead_lawsD [OF assms(1) this assms(2) c]
  then show ?thesis
    by (simp add: ct aes_decrypt_parts [OF assms(2) _ k])
qed

lemma aes_other_context:
  assumes "aead_laws x" and "aead_binds A x" and "aad \<in> A" and "aad' \<in> A" and "aad \<noteq> aad'"
    and "length n = NONCE_LEN"
    and "aes_encrypt_with_aad x (Some n) key p aad = Inr ct"
  shows "aes_decrypt_with_aad x key ct aad' = Inl (Encryption ''decryption failed'')"
proof -
  from assms(7) obtain c where k: "aead_key_ok x key"
    and c: "aead_seal x key n aad p = Some c" and ct: "ct = n @ c"
    by (auto simp: aes_encrypt_with_aad_Inr)
  from k have len: "length key = 32" by (simp add: aead_laws_key [OF assms(1)])
  note laws = aead_lawsD [OF assms(1) len assms(6) c]
  from aead_bindsD [OF assms(2-5) len assms(6) c] laws show ?thesis
    by (simp add: ct aes_decrypt_parts [OF assms(6) _ k])
qed

end
