(* ===== verification/Schema.thy ===== *)
theory Schema
  imports Envelope
begin

text \<open>
  The durable state and how statements change it.

  \<^item> One record per table of \<^verbatim>\<open>migrations/0001_initial.sql\<close> (the columns the crate reads or
    writes), and \<open>database\<close>, the record of the tables. \<open>schema_ok\<close> is the conjunction of
    the constraints the migration declares: primary keys, unique indexes, foreign keys, the
    width of \<^verbatim>\<open>fail_count\<close>.
  \<^item> \<open>ext\<close> extends the external code of \<open>Envelope\<close> by the broker's protocol adapter
    (functions on an abstract broker state), the clock, the random UUIDs and nonces, and what
    the connection does to each statement. They are indexed by a counter the state carries,
    so two readings of the clock need not agree.
  \<^item> \<open>world\<close> is the state an operation runs on: database, broker, counter, metrics.
  \<^item> \<open>exec_stmt\<close> runs one statement. A statement is atomic: it fails and changes nothing, or
    it applies. The request or its reply can be lost; a lost reply reports an error although
    the statement was applied.
\<close>

section \<open>Values\<close>

datatype json =
    JNull
  | JBool bool
  | JInt int
  | JFloat "64 word"
  | JString string
  | JArray "json list"
  | JObject "(string \<times> json) list"

text \<open>Doubles are only stored and read back: they are their bit patterns.\<close>

type_synonym f64 = "64 word"


section \<open>Tables\<close>

record tor_connect_audit_row =
  ca_id :: uuid
  ca_user_id :: uuid
  ca_occurred_at :: time

record guard_health_row =
  gh_guard_fpr :: string
  gh_first_seen :: time
  gh_last_ok :: time
  gh_fail_count :: int
  gh_uptime_ratio :: "f64 option"
  gh_asn :: "int option"
  gh_rpki_valid :: "bool option"
  gh_pow_score :: "f64 option"
  gh_rtt_p50_ms :: "f64 option"
  gh_rtt_p95_ms :: "f64 option"
  gh_tee_capable :: bool
  gh_tee_label :: "string option"
  gh_tee_policy :: "string option"
  gh_tee_verified_at :: "time option"

record audit_log_row =
  al_id :: uuid
  al_user_id :: uuid
  al_operation :: string
  al_payload_hash :: string
  al_created_at :: time

record zk_proof_row =
  zp_id :: uuid
  zp_user_id :: uuid
  zp_protocol :: string
  zp_circuit :: string
  zp_circuit_security :: "16 word"
  zp_expected_hash :: string
  zp_public_inputs :: json
  zp_proof :: bytes
  zp_created_at :: time
  zp_verified :: bool
  zp_verified_at :: "time option"

record tee_attestation_row =
  ta_id :: uuid
  ta_user_id :: uuid
  ta_app_id :: string
  ta_instance_id :: string
  ta_device_id :: string
  ta_compose_hash :: string
  ta_key_provider_info :: string
  ta_quote :: bytes
  ta_rtmr :: json
  ta_event_log :: json
  ta_recorded_at :: time

record tor_credential_row =
  cr_id :: uuid
  cr_onion_entry :: string
  cr_tier :: string
  cr_credential_hash :: string
  cr_operational_onion :: "string option"
  cr_guard_nodes :: "string list option"
  cr_created_at :: time
  cr_updated_at :: time
  cr_expires_at :: "time option"
  cr_disabled :: bool
  cr_rate_limit_per_minute :: int
  cr_last_rotated_at :: "time option"

record tor_session_row =
  se_id :: uuid
  se_credential_id :: uuid
  se_session_key :: uuid
  se_circuit_id :: "string option"
  se_fingerprint :: "string option"
  se_guard_nodes :: "string list option"
  se_client_onion :: "string option"
  se_issued_at :: time
  se_expires_at :: "time option"

record tor_ticket_row =
  tk_id :: uuid
  tk_credential_id :: uuid
  tk_token_hash :: string
  tk_entry_onion :: string
  tk_client_fingerprint :: "string option"
  tk_created_at :: time
  tk_expires_at :: time
  tk_redeemed_at :: "time option"
  tk_redeemed_operational_onion :: "string option"
  tk_client_auth_public_key :: string
  tk_client_auth_secret_path :: string
  tk_client_auth_secret_redeem_token :: "string option"
  tk_attestation_session_id :: uuid
  tk_attestation_nonce_digest :: string
  tk_attestation_quote_hash :: string
  tk_attested_at :: time
  tk_tee_kind :: string
  tk_tee_label :: "string option"
  tk_tee_policy :: "string option"
  tk_tls_pubkey_digest :: string

record ra_nonce_row =
  rn_nonce_digest :: bytes
  rn_enclave_id :: string
  rn_seen_at :: time

record ra_cache_row =
  rc_quote_hash :: bytes
  rc_tee :: string
  rc_decision :: json
  rc_expires_at :: time

record database =
  extension_allowlist :: "string list"
  tor_connect_audits :: "tor_connect_audit_row list"
  guard_health :: "guard_health_row list"
  audit_logs :: "audit_log_row list"
  zk_proofs :: "zk_proof_row list"
  tee_attestations :: "tee_attestation_row list"
  tor_auth_credentials :: "tor_credential_row list"
  tor_auth_sessions :: "tor_session_row list"
  tor_access_tickets :: "tor_ticket_row list"
  ra_nonce_log :: "ra_nonce_row list"
  ra_attestation_cache :: "ra_cache_row list"

text \<open>The tables right after the migration has run.\<close>

definition migrated_db :: database where
  "migrated_db = \<lparr>
     extension_allowlist = [''plpgsql'', ''pgcrypto''],
     tor_connect_audits = [], guard_health = [], audit_logs = [], zk_proofs = [],
     tee_attestations = [], tor_auth_credentials = [], tor_auth_sessions = [],
     tor_access_tickets = [], ra_nonce_log = [], ra_attestation_cache = []\<rparr>"


section \<open>Constraints\<close>

definition in_i32 :: "int \<Rightarrow> bool" where
  "in_i32 n \<longleftrightarrow> - (2 ^ 31) \<le> n \<and> n < 2 ^ 31"

text \<open>The rows the partial unique index on \<^verbatim>\<open>attestation_session_id\<close> covers.\<close>

definition indexed_sessions :: "tor_ticket_row list \<Rightarrow> uuid list" where
  "indexed_sessions ts = filter (\<lambda>u. u \<noteq> 0) (map tk_attestation_session_id ts)"

definition credentials_ok :: "tor_credential_row list \<Rightarrow> bool" where
  "credentials_ok cs \<longleftrightarrow>
     distinct (map cr_id cs) \<and> distinct (map cr_onion_entry cs)
   \<and> list_all (\<lambda>c. cr_guard_nodes c \<noteq> None) cs"

definition sessions_ok :: "tor_credential_row list \<Rightarrow> tor_session_row list \<Rightarrow> bool" where
  "sessions_ok cs ss \<longleftrightarrow>
     distinct (map se_id ss) \<and> list_all (\<lambda>s. se_credential_id s \<in> cr_id ` set cs) ss
   \<and> list_all (\<lambda>s. se_guard_nodes s \<noteq> None) ss"

definition tickets_ok :: "tor_credential_row list \<Rightarrow> tor_ticket_row list \<Rightarrow> bool" where
  "tickets_ok cs ts \<longleftrightarrow>
     distinct (map tk_id ts) \<and> list_all (\<lambda>t. tk_credential_id t \<in> cr_id ` set cs) ts
   \<and> distinct (indexed_sessions ts)"

definition schema_ok :: "database \<Rightarrow> bool" where
  "schema_ok d \<longleftrightarrow>
     distinct (extension_allowlist d)
   \<and> distinct (map (\<lambda>r. (ca_id r, ca_occurred_at r)) (tor_connect_audits d))
   \<and> distinct (map gh_guard_fpr (guard_health d))
   \<and> list_all (\<lambda>g. in_i32 (gh_fail_count g)) (guard_health d)
   \<and> distinct (map al_id (audit_logs d))
   \<and> distinct (map (\<lambda>r. (zp_id r, zp_user_id r)) (zk_proofs d))
   \<and> distinct (map (\<lambda>r. (ta_id r, ta_user_id r)) (tee_attestations d))
   \<and> credentials_ok (tor_auth_credentials d)
   \<and> sessions_ok (tor_auth_credentials d) (tor_auth_sessions d)
   \<and> tickets_ok (tor_auth_credentials d) (tor_access_tickets d)
   \<and> distinct (map rn_nonce_digest (ra_nonce_log d))
   \<and> distinct (map rc_quote_hash (ra_attestation_cache d))"


text \<open>
  The protected columns hold version-2 payloads; the onion recorded at redemption holds a
  payload of either version.
\<close>

definition session_sealed :: "tor_session_row \<Rightarrow> bool" where
  "session_sealed s \<longleftrightarrow> (case se_client_onion s of None \<Rightarrow> True | Some c \<Rightarrow> is_aead_payload_v2 c)"

definition ticket_sealed :: "tor_ticket_row \<Rightarrow> bool" where
  "ticket_sealed t \<longleftrightarrow>
     is_aead_payload_v2 (tk_client_auth_public_key t)
   \<and> is_aead_payload_v2 (tk_client_auth_secret_path t)
   \<and> (case tk_client_auth_secret_redeem_token t of None \<Rightarrow> True | Some c \<Rightarrow> is_aead_payload_v2 c)
   \<and> is_aead_payload_v2 (tk_attestation_nonce_digest t)
   \<and> is_aead_payload_v2 (tk_attestation_quote_hash t)
   \<and> is_aead_payload_v2 (tk_tls_pubkey_digest t)
   \<and> (case tk_redeemed_operational_onion t of None \<Rightarrow> True | Some c \<Rightarrow> is_aead_payload c)"

definition sealed_at_rest :: "database \<Rightarrow> bool" where
  "sealed_at_rest d \<longleftrightarrow>
     list_all session_sealed (tor_auth_sessions d) \<and> list_all ticket_sealed (tor_access_tickets d)"


section \<open>External code and state\<close>

datatype sqlx_error =
    UniqueViolation string
  | ForeignKeyViolation string
  | NumericOutOfRange
  | InvalidLimit
  | RowNotFound
  | Transport string

datatype pg_outcome = Delivered | LostRequest string | LostReply string

datatype SecretLifecycle = SingleUseUnwrap | RenewableLease | ServiceBootstrap

text \<open>
  Messages of the broker protocol. \<open>opaque\<close> stands for the parts the crate only passes on.
\<close>

type_synonym opaque = bytes
type_synonym anyhow = string

record MintAeadKeyV2Params =
  mp_ttl_seconds :: "nat option"
  mp_label :: "string option"
  mp_tenant_id :: "string option"
  mp_provider :: "string option"
  mp_threshold :: "nat option"
  mp_num_shares :: "nat option"
  mp_lifecycle :: "SecretLifecycle option"
  mp_initial_lease_seconds :: "nat option"
  mp_unwrap_principal_id :: "string option"
  mp_custodian_ids :: "string list option"

record MintAeadKeyV2Lease =
  ml_handle :: string
  ml_key :: bytes
  ml_redeem_token :: "string option"

record UnwrapSecretV2Params =
  up_handle :: string
  up_redeem_token :: "string option"
  up_redeem_shares :: "opaque list"
  up_tenant_id :: "string option"
  up_provider :: "string option"
  up_circuit_id :: "string option"
  up_node_id :: "string option"
  up_discharges :: "string list"

record PostgresCredentialParams =
  pp_audience :: string
  pp_scope :: "string list"
  pp_ttl_seconds :: "nat option"
  pp_application_name :: "string option"

record PostgresCredentialLease =
  pl_database_url :: string
  pl_username :: "string option"
  pl_password :: "string option"
  pl_expires_at :: "time option"

record WrapV2Params =
  wp_lifecycle :: "SecretLifecycle option"
  wp_label :: "string option"
  wp_unwrap_principal_id :: "string option"

record WrapResponse =
  wr_handle :: string
  wr_redeem_token :: "string option"
  wr_created_at :: time

record AttenuateHandleV2Result =
  ah_handle :: string

record 'b ext = crypto +
  adapter_issue_postgres_credentials ::
    "PostgresCredentialParams \<Rightarrow> 'b \<Rightarrow> (anyhow + PostgresCredentialLease) \<times> 'b"
  adapter_mint_aead_key_v2 :: "MintAeadKeyV2Params \<Rightarrow> 'b \<Rightarrow> (anyhow + MintAeadKeyV2Lease) \<times> 'b"
  adapter_wrap_bytes_v2 :: "bytes \<Rightarrow> WrapV2Params \<Rightarrow> 'b \<Rightarrow> (anyhow + WrapResponse) \<times> 'b"
  adapter_preload_redeem_token :: "string \<Rightarrow> string \<Rightarrow> time option \<Rightarrow> 'b \<Rightarrow> (anyhow + unit) \<times> 'b"
  adapter_preload_redeem_shares ::
    "string \<Rightarrow> opaque list \<Rightarrow> time option \<Rightarrow> 'b \<Rightarrow> (anyhow + unit) \<times> 'b"
  adapter_unwrap_secret_v2 :: "UnwrapSecretV2Params \<Rightarrow> 'b \<Rightarrow> (anyhow + bytes) \<times> 'b"
  adapter_renew_lease :: "string \<Rightarrow> nat \<Rightarrow> 'b \<Rightarrow> (anyhow + opaque) \<times> 'b"
  adapter_revoke_secret :: "string \<Rightarrow> string option \<Rightarrow> 'b \<Rightarrow> (anyhow + opaque) \<times> 'b"
  adapter_rotate_secret :: "string \<Rightarrow> bytes \<Rightarrow> opaque \<Rightarrow> 'b \<Rightarrow> (anyhow + opaque) \<times> 'b"
  adapter_attenuate_handle_v2 :: "opaque \<Rightarrow> 'b \<Rightarrow> (anyhow + AttenuateHandleV2Result) \<times> 'b"
  clock :: "nat \<Rightarrow> time"
  random_uuid :: "nat \<Rightarrow> uuid"
  system_random :: "nat \<Rightarrow> bytes option"
  pg_network :: "nat \<Rightarrow> pg_outcome"
  sqlx_display :: "sqlx_error \<Rightarrow> string"

type_synonym metric = "string \<times> string option"

record 'b world =
  w_db :: database
  w_broker :: 'b
  w_ticks :: nat
  w_metrics :: "metric list"

type_synonym ('b, 'a) db_op = "'b world \<Rightarrow> 'a db_result \<times> 'b world"


section \<open>Primitive steps\<close>

text \<open>The next index of the external readings, consumed.\<close>

definition tick :: "('e, 'b world, nat) op" where
  "tick w = (Inr (w_ticks w), w\<lparr>w_ticks := Suc (w_ticks w)\<rparr>)"

definition emit :: "string \<Rightarrow> string option \<Rightarrow> ('e, 'b world, unit) op" where
  "emit name label w = (Inr (), w\<lparr>w_metrics := w_metrics w @ [(name, label)]\<rparr>)"

definition broker_call :: "('b \<Rightarrow> (anyhow + 'a) \<times> 'b) \<Rightarrow> (anyhow, 'b world, 'a) op" where
  "broker_call f w = (let (r, b) = f (w_broker w) in (r, w\<lparr>w_broker := b\<rparr>))"

definition map_errM :: "('e \<Rightarrow> 'f) \<Rightarrow> ('e, 's, 'a) op \<Rightarrow> ('f, 's, 'a) op" where
  "map_errM g m s = (case m s of (r, s') \<Rightarrow> (map_err g r, s'))"

type_synonym 'a stmt = "nat \<Rightarrow> time \<Rightarrow> database \<Rightarrow> sqlx_error + 'a \<times> database"

text \<open>
  A statement sees its own \<^verbatim>\<open>NOW()\<close> and, for column defaults that call
  \<^verbatim>\<open>gen_random_uuid()\<close>, the index of its reading.
\<close>

definition exec_stmt :: "('b, 'z) ext_scheme \<Rightarrow> 'a stmt \<Rightarrow> ('b, 'a) db_op" where
  "exec_stmt x f w =
     (let n = w_ticks w;
          w1 = w\<lparr>w_ticks := Suc n\<rparr>;
          err = (\<lambda>e. Inl (from_sqlx_error (sqlx_display x) e)) in
      case pg_network x n of
        LostRequest m \<Rightarrow> (err (Transport m), w1)
      | Delivered \<Rightarrow>
          (case f n (clock x n) (w_db w) of
             Inl e \<Rightarrow> (err e, w1)
           | Inr (a, d) \<Rightarrow> (Inr a, w1\<lparr>w_db := d\<rparr>))
      | LostReply m \<Rightarrow>
          (case f n (clock x n) (w_db w) of
             Inl e \<Rightarrow> (err (Transport m), w1)
           | Inr (a, d) \<Rightarrow> (err (Transport m), w1\<lparr>w_db := d\<rparr>)))"


text \<open>\<^verbatim>\<open>LIMIT\<close> takes a signed value and refuses a negative one.\<close>

definition sql_limit :: "int \<Rightarrow> 'r list \<Rightarrow> sqlx_error + 'r list" where
  "sql_limit l rows = (if l < 0 then Inl InvalidLimit else Inr (take (nat l) rows))"


section \<open>Facts\<close>

lemma tick_app [simp]: "tick w = (Inr (w_ticks w), w\<lparr>w_ticks := Suc (w_ticks w)\<rparr>)"
  by (simp add: tick_def)

lemma emit_app [simp]: "emit n l w = (Inr (), w\<lparr>w_metrics := w_metrics w @ [(n, l)]\<rparr>)"
  by (simp add: emit_def)

lemma broker_call_app: "f (w_broker w) = (r, b) \<Longrightarrow> broker_call f w = (r, w\<lparr>w_broker := b\<rparr>)"
  by (simp add: broker_call_def)

lemma map_errM_app: "m s = (r, s') \<Longrightarrow> map_errM g m s = (map_err g r, s')"
  by (simp add: map_errM_def)

lemma snd_map_errM [simp]: "snd (map_errM g m s) = snd (m s)"
  by (simp add: map_errM_def split: prod.split)

lemma fst_map_errM [simp]: "fst (map_errM g m s) = map_err g (fst (m s))"
  by (simp add: map_errM_def split: prod.split)

lemma preserves_map_errM [preserves_rules]: "preserves P m \<Longrightarrow> preserves P (map_errM g m)"
  by (simp add: preserves_def)

text \<open>Predicates of the database: statements decide, the other steps leave it alone.\<close>

abbreviation db_pred :: "(database \<Rightarrow> bool) \<Rightarrow> 'b world \<Rightarrow> bool" where
  "db_pred P \<equiv> (\<lambda>w. P (w_db w))"

lemma preserves_tick [preserves_rules]: "preserves (db_pred P) tick"
  and preserves_emit [preserves_rules]: "preserves (db_pred P) (emit n l)"
  by (simp_all add: preserves_def)

lemma preserves_broker_call [preserves_rules]: "preserves (db_pred P) (broker_call f)"
  by (simp add: preserves_def broker_call_def split: prod.split)

definition stmt_keeps :: "(database \<Rightarrow> bool) \<Rightarrow> 'a stmt \<Rightarrow> bool" where
  "stmt_keeps P f \<longleftrightarrow> (\<forall>n t d a d'. P d \<longrightarrow> f n t d = Inr (a, d') \<longrightarrow> P d')"

lemma stmt_keepsI: "(\<And>n t d a d'. P d \<Longrightarrow> f n t d = Inr (a, d') \<Longrightarrow> P d') \<Longrightarrow> stmt_keeps P f"
  unfolding stmt_keeps_def by blast

lemma preserves_exec_stmt [preserves_rules]:
  assumes "stmt_keeps P f"
  shows "preserves (db_pred P) (exec_stmt x f)"
  using assms
  by (auto simp: preserves_def exec_stmt_def stmt_keeps_def Let_def
      split: pg_outcome.split sum.split)

lemma exec_stmt_InrD:
  assumes "exec_stmt x f w = (Inr a, w')"
  obtains d where "f (w_ticks w) (clock x (w_ticks w)) (w_db w) = Inr (a, d)"
    and "w' = w\<lparr>w_ticks := Suc (w_ticks w), w_db := d\<rparr>" and "pg_network x (w_ticks w) = Delivered"
  using assms
  by (auto simp: exec_stmt_def Let_def split: pg_outcome.splits sum.splits)

lemma exec_stmt_delivered:
  assumes "pg_network x (w_ticks w) = Delivered"
    and "f (w_ticks w) (clock x (w_ticks w)) (w_db w) = Inr (a, d)"
  shows "exec_stmt x f w = (Inr a, w\<lparr>w_ticks := Suc (w_ticks w), w_db := d\<rparr>)"
  using assms by (simp add: exec_stmt_def Let_def)

lemma exec_stmt_rejected:
  assumes "pg_network x (w_ticks w) = Delivered"
    and "f (w_ticks w) (clock x (w_ticks w)) (w_db w) = Inl e"
  shows "exec_stmt x f w = (Inl (Query (sqlx_display x e)), w\<lparr>w_ticks := Suc (w_ticks w)\<rparr>)"
  using assms by (simp add: exec_stmt_def Let_def from_sqlx_error_def)

text \<open>Whatever the network does, a statement leaves the database as it was or as the statement makes it.\<close>

lemma exec_stmt_db:
  "w_db (snd (exec_stmt x f w)) = w_db w
   \<or> (\<exists>a. f (w_ticks w) (clock x (w_ticks w)) (w_db w) = Inr (a, w_db (snd (exec_stmt x f w))))"
  by (auto simp: exec_stmt_def Let_def split: pg_outcome.split sum.split)

lemma exec_stmt_Inl: "exec_stmt x f w = (Inl e, w') \<Longrightarrow> \<exists>m. e = Query m"
  by (auto simp: exec_stmt_def Let_def from_sqlx_error_def split: pg_outcome.splits sum.splits)

lemma indexed_sessions_filter:
  assumes "distinct (indexed_sessions ts)"
  shows "distinct (indexed_sessions (filter p ts))"
proof -
  have "indexed_sessions us =
      map tk_attestation_session_id (filter (\<lambda>t. tk_attestation_session_id t \<noteq> 0) us)" for us
    by (simp add: indexed_sessions_def filter_map comp_def)
  moreover have "filter q (filter p ts) = filter p (filter q ts)" for q
    by (simp add: conj_commute)
  ultimately show ?thesis
    using assms by (metis distinct_map_filter)
qed

lemma migrated_db_ok: "schema_ok migrated_db"
  by (simp add: schema_ok_def migrated_db_def credentials_ok_def sessions_ok_def tickets_ok_def
      indexed_sessions_def)

end
