(* ===== verification/Sql_Time.thy ===== *)
theory Sql_Time
  imports Schema
begin

text \<open>
  Time windows in SQL. The crate passes a number of seconds as a double
  (\<^verbatim>\<open>window_seconds as f64\<close>, or a \<^verbatim>\<open>bigint\<close> the server converts to one) and the server
  multiplies an interval by it. Timestamps count microseconds from 2000-01-01, as PostgreSQL's
  do; sessions run in UTC, so a day has 24 hours. A result outside PostgreSQL's range of
  timestamps is an error of the statement.
\<close>

fun bit_len :: "nat \<Rightarrow> nat" where
  "bit_len n = (if n = 0 then 0 else Suc (bit_len (n div 2)))"

declare bit_len.simps [simp del]

text \<open>The integer nearest to \<open>n\<close> among the doubles, ties to even: Rust's \<^verbatim>\<open>n as f64\<close>.\<close>

definition as_f64 :: "int \<Rightarrow> int" where
  "as_f64 n =
     (let m = nat \<bar>n\<bar>; e = bit_len m - 53 in
      if e = 0 then n
      else let q = m div 2 ^ e; r = m mod 2 ^ e; half = 2 ^ (e - 1);
               q' = (if r > half \<or> (r = half \<and> odd q) then q + 1 else q)
           in sgn n * int (q' * 2 ^ e))"

definition MIN_TIMESTAMP :: time where
  "MIN_TIMESTAMP = -211813488000000000"

definition END_TIMESTAMP :: time where
  "END_TIMESTAMP = 9223371331200000000"

definition ts_minus :: "time \<Rightarrow> time \<Rightarrow> sqlx_error + time" where
  "ts_minus now span =
     (if MIN_TIMESTAMP \<le> now - span \<and> now - span < END_TIMESTAMP then Inr (now - span)
      else Inl NumericOutOfRange)"

definition seconds_before :: "time \<Rightarrow> int \<Rightarrow> sqlx_error + time" where
  "seconds_before now secs = ts_minus now (as_f64 secs * second)"

definition days_before :: "time \<Rightarrow> int \<Rightarrow> sqlx_error + time" where
  "days_before now days = ts_minus now (days * day)"


section \<open>Facts\<close>

lemma bit_len_le: "n < 2 ^ k \<Longrightarrow> bit_len n \<le> k"
proof (induction k arbitrary: n)
  case 0
  then show ?case by (simp add: bit_len.simps)
next
  case (Suc k)
  then have "n div 2 < 2 ^ k" by auto
  from Suc.IH [OF this] show ?case by (subst bit_len.simps) simp
qed

text \<open>Up to \<open>2^53\<close> the conversion to a double is exact.\<close>

lemma as_f64_exact: "\<bar>n\<bar> < 2 ^ 53 \<Longrightarrow> as_f64 n = n"
  using bit_len_le [of "nat \<bar>n\<bar>" 53] by (simp add: as_f64_def)

lemma ts_minus_Inr: "ts_minus now span = Inr t \<longleftrightarrow>
    t = now - span \<and> MIN_TIMESTAMP \<le> t \<and> t < END_TIMESTAMP"
  by (auto simp: ts_minus_def)

lemma seconds_before_Inr:
  "\<bar>secs\<bar> < 2 ^ 53 \<Longrightarrow> seconds_before now secs = Inr t \<Longrightarrow> t = now - secs * second"
  by (simp add: seconds_before_def as_f64_exact ts_minus_Inr)

lemma days_before_Inr: "days_before now days = Inr t \<Longrightarrow> t = now - days * day"
  by (simp add: days_before_def ts_minus_Inr)

end
