(* ===== verification/Attest_Store.thy ===== *)
theory Attest_Store
  imports Sql_Time
begin

text \<open>
  Remote attestation bookkeeping (\<^verbatim>\<open>src/attestation.rs\<close>): the log of nonces already seen, the
  cache of verdicts, and their invalidation.
\<close>

section \<open>Statements\<close>

definition prune_nonces :: "int \<Rightarrow> unit stmt" where
  [sql_defs]: "prune_nonces ttl n now d =
     bindE (seconds_before now ttl) (\<lambda>cutoff.
       Inr ((), d\<lparr>ra_nonce_log := filter (\<lambda>r. \<not> rn_seen_at r < cutoff) (ra_nonce_log d)\<rparr>))"

text \<open>\<^verbatim>\<open>ON CONFLICT DO NOTHING\<close>: the number of rows inserted.\<close>

definition insert_nonce :: "bytes \<Rightarrow> string \<Rightarrow> nat stmt" where
  [sql_defs]: "insert_nonce nonce_digest enclave_id n now d =
     (if nonce_digest \<in> rn_nonce_digest ` set (ra_nonce_log d) then Inr (0, d)
      else Inr (1, d\<lparr>ra_nonce_log := ra_nonce_log d @
        [\<lparr>rn_nonce_digest = nonce_digest, rn_enclave_id = enclave_id, rn_seen_at = now\<rparr>]\<rparr>))"

definition delete_nonce :: "bytes \<Rightarrow> unit stmt" where
  [sql_defs]: "delete_nonce nonce_digest n now d =
     Inr ((), d\<lparr>ra_nonce_log := filter (\<lambda>r. rn_nonce_digest r \<noteq> nonce_digest) (ra_nonce_log d)\<rparr>)"

definition prune_cache :: "unit stmt" where
  [sql_defs]: "prune_cache n now d =
     Inr ((), d\<lparr>ra_attestation_cache := filter (\<lambda>r. \<not> rc_expires_at r < now) (ra_attestation_cache d)\<rparr>)"

definition decision_set :: "string \<Rightarrow> json \<Rightarrow> time \<Rightarrow> ra_cache_row \<Rightarrow> ra_cache_row" where
  "decision_set tee decision expires_at r =
     r\<lparr>rc_tee := tee, rc_decision := decision, rc_expires_at := expires_at\<rparr>"

definition upsert_decision :: "bytes \<Rightarrow> string \<Rightarrow> json \<Rightarrow> time \<Rightarrow> unit stmt" where
  [sql_defs]: "upsert_decision quote_hash tee decision expires_at n now d =
     Inr ((), d\<lparr>ra_attestation_cache := upsert_row rc_quote_hash
        \<lparr>rc_quote_hash = quote_hash, rc_tee = tee, rc_decision = decision, rc_expires_at = expires_at\<rparr>
        (decision_set tee decision expires_at) (ra_attestation_cache d)\<rparr>)"

definition delete_decision :: "bytes \<Rightarrow> unit stmt" where
  [sql_defs]: "delete_decision quote_hash n now d =
     Inr ((), d\<lparr>ra_attestation_cache := filter (\<lambda>r. rc_quote_hash r \<noteq> quote_hash) (ra_attestation_cache d)\<rparr>)"


section \<open>Operations\<close>

definition register_attestation_nonce ::
  "('b, 'z) ext_scheme \<Rightarrow> bytes \<Rightarrow> string \<Rightarrow> int \<Rightarrow> ('b, bool) db_op" where
  "register_attestation_nonce x nonce_digest enclave_id ttl_seconds =
     (let ttl = max ttl_seconds 0 in
      bindM (exec_stmt x (prune_nonces ttl)) (\<lambda>_.
      bindM (exec_stmt x (insert_nonce nonce_digest enclave_id)) (\<lambda>affected.
      returnM (affected > 0))))"

definition cache_attestation_decision ::
  "('b, 'z) ext_scheme \<Rightarrow> bytes \<Rightarrow> string \<Rightarrow> time \<Rightarrow> json \<Rightarrow> ('b, unit) db_op" where
  "cache_attestation_decision x quote_hash tee expires_at decision =
     bindM (exec_stmt x prune_cache) (\<lambda>_.
     exec_stmt x (upsert_decision quote_hash tee decision expires_at))"

definition invalidate_nonce :: "('b, 'z) ext_scheme \<Rightarrow> string option \<Rightarrow> ('b, unit) db_op" where
  "invalidate_nonce x nonce_digest_hex =
     (case nonce_digest_hex of
        None \<Rightarrow> returnM ()
      | Some nonce_hex \<Rightarrow>
          if trim nonce_hex = [] then returnM ()
          else bindM (liftE (ok_or (Integrity ''invalid nonce digest provided for attestation invalidation'')
                        (hex_decode x (trim nonce_hex)))) (\<lambda>nonce_bytes.
               exec_stmt x (delete_nonce nonce_bytes)))"

definition invalidate_attestation_artifacts ::
  "('b, 'z) ext_scheme \<Rightarrow> string \<Rightarrow> string option \<Rightarrow> ('b, unit) db_op" where
  "invalidate_attestation_artifacts x quote_hash_hex nonce_digest_hex =
     bindM (liftE (ok_or (Integrity ''invalid quote hash provided for attestation invalidation'')
              (hex_decode x (trim quote_hash_hex)))) (\<lambda>quote_hash_bytes.
     bindM (exec_stmt x (delete_decision quote_hash_bytes)) (\<lambda>_.
     invalidate_nonce x nonce_digest_hex))"


section \<open>Facts\<close>

interpretation decision_key: key_update rc_quote_hash "decision_set tee decision expires_at"
  for tee decision expires_at
  by unfold_locales (simp add: decision_set_def)

lemma schema_ok_attestation:
  "schema_ok d \<Longrightarrow> distinct (map rn_nonce_digest ns) \<Longrightarrow> schema_ok (d\<lparr>ra_nonce_log := ns\<rparr>)"
  "schema_ok d \<Longrightarrow> distinct (map rc_quote_hash cs) \<Longrightarrow> schema_ok (d\<lparr>ra_attestation_cache := cs\<rparr>)"
  by (simp_all add: schema_ok_def)

lemma schema_ok_attestationD:
  "schema_ok d \<Longrightarrow> distinct (map rn_nonce_digest (ra_nonce_log d))"
  "schema_ok d \<Longrightarrow> distinct (map rc_quote_hash (ra_attestation_cache d))"
  by (simp_all add: schema_ok_def)

lemma attestation_stmts_keep_schema [preserves_rules]:
  "stmt_keeps schema_ok (prune_nonces ttl)"
  "stmt_keeps schema_ok (insert_nonce nd e)"
  "stmt_keeps schema_ok (delete_nonce nd)"
  "stmt_keeps schema_ok prune_cache"
  "stmt_keeps schema_ok (upsert_decision q tee dec ex)"
  "stmt_keeps schema_ok (delete_decision q)"
  by (auto intro!: stmt_keepsI schema_ok_attestation decision_key.distinct_upsert_row
      simp: prune_nonces_def insert_nonce_def delete_nonce_def prune_cache_def upsert_decision_def
        delete_decision_def bindE_eq_Inr schema_ok_attestationD split: if_splits)

lemma attestation_stmts_keep_sealed [preserves_rules]:
  "stmt_keeps sealed_at_rest (prune_nonces ttl)"
  "stmt_keeps sealed_at_rest (insert_nonce nd e)"
  "stmt_keeps sealed_at_rest (delete_nonce nd)"
  "stmt_keeps sealed_at_rest prune_cache"
  "stmt_keeps sealed_at_rest (upsert_decision q tee dec ex)"
  "stmt_keeps sealed_at_rest (delete_decision q)"
  by (auto intro!: stmt_keepsI simp: sql_defs sealed_at_rest_def bindE_eq_Inr split: if_splits)

text \<open>A registration in terms of the log before and after.\<close>

lemma register_InrE:
  assumes "register_attestation_nonce x nd e ttl w = (Inr b, w')"
  obtains cutoff log where
    "seconds_before (clock x (w_ticks w)) (max ttl 0) = Inr cutoff"
    "log = filter (\<lambda>r. \<not> rn_seen_at r < cutoff) (ra_nonce_log (w_db w))"
    "b \<longleftrightarrow> nd \<notin> rn_nonce_digest ` set log"
    "ra_nonce_log (w_db w') = (if b then log @
       [\<lparr>rn_nonce_digest = nd, rn_enclave_id = e, rn_seen_at = clock x (Suc (w_ticks w))\<rparr>] else log)"
    "w_ticks w' = Suc (Suc (w_ticks w))"
  using assms
  by (auto simp: register_attestation_nonce_def prune_nonces_def insert_nonce_def bindE_eq_Inr
      elim!: bindM_eq_InrE exec_stmt_InrD split: if_splits intro: that)

end
