(* ===== verification/Replay.thy ===== *)
theory Replay
  imports Attest_Store
begin

text \<open>
  Registration of nonces by several clients at once. A registration is two statements, and the
  statements of different clients interleave in any order; each statement is one transaction of the
  server.
\<close>

section \<open>The machine\<close>

text \<open>Where a client is in \<^verbatim>\<open>register_attestation_nonce\<close>.\<close>

datatype registration =
    ToPrune bytes string int
  | ToInsert bytes string
  | Registered bytes "DatabaseError + bool"

definition registration_step :: "('b, 'z) ext_scheme \<Rightarrow> registration \<Rightarrow> 'b world \<Rightarrow> registration \<times> 'b world" where
  "registration_step x c w =
     (case c of
        ToPrune nd e ttl \<Rightarrow>
          (case exec_stmt x (prune_nonces (max ttl 0)) w of
             (Inl err, w') \<Rightarrow> (Registered nd (Inl err), w')
           | (Inr _, w') \<Rightarrow> (ToInsert nd e, w'))
      | ToInsert nd e \<Rightarrow>
          (case exec_stmt x (insert_nonce nd e) w of
             (Inl err, w') \<Rightarrow> (Registered nd (Inl err), w')
           | (Inr affected, w') \<Rightarrow> (Registered nd (Inr (affected > 0)), w'))
      | Registered nd r \<Rightarrow> (c, w))"

definition race_step ::
  "('b, 'z) ext_scheme \<Rightarrow> registration list \<times> 'b world \<Rightarrow> nat \<Rightarrow> registration list \<times> 'b world" where
  "race_step x s i =
     (let (cs, w) = s in
      if i < length cs then (case registration_step x (cs ! i) w of (c, w') \<Rightarrow> (cs[i := c], w')) else s)"

definition run_race ::
  "('b, 'z) ext_scheme \<Rightarrow> registration list \<times> 'b world \<Rightarrow> nat list \<Rightarrow> registration list \<times> 'b world" where
  "run_race x s schedule = foldl (race_step x) s schedule"


section \<open>Facts\<close>

text \<open>A client that is not interrupted is a call of \<^verbatim>\<open>register_attestation_nonce\<close>.\<close>

lemma registration_alone:
  "(case registration_step x (ToPrune nd e ttl) w of (c, w1) \<Rightarrow> registration_step x c w1)
    = (case register_attestation_nonce x nd e ttl w of (r, w') \<Rightarrow> (Registered nd r, w'))"
  by (simp add: registration_step_def register_attestation_nonce_def bindM_def split: prod.split sum.split)

text \<open>A client needs two turns, whatever the others do between them.\<close>

fun turns_left :: "registration \<Rightarrow> nat" where
  "turns_left (ToPrune nd e ttl) = 2"
| "turns_left (ToInsert nd e) = 1"
| "turns_left (Registered nd r) = 0"

lemma turns_left_0: "turns_left c = 0 \<longleftrightarrow> (\<exists>nd r. c = Registered nd r)"
  by (cases c) auto

lemma turns_left_step: "turns_left (fst (registration_step x c w)) \<le> turns_left c - 1"
  by (cases c) (auto simp: registration_step_def split: prod.split sum.split)

lemma turns_left_run:
  "i < length (fst s) \<Longrightarrow> turns_left (fst (run_race x s schedule) ! i) \<le> turns_left (fst s ! i) - count_list schedule i"
proof (induction schedule arbitrary: s)
  case Nil
  then show ?case by (simp add: run_race_def)
next
  case (Cons j schedule)
  obtain cs w where s: "s = (cs, w)" by fastforce
  let ?s = "race_step x s j"
  have "length (fst ?s) = length cs"
    and "turns_left (fst ?s ! i) \<le> turns_left (cs ! i) - (if j = i then 1 else 0)"
    using turns_left_step [of x "cs ! j" w] Cons.prems by (auto simp: s race_step_def nth_list_update split: prod.split)
  with Cons.IH [of ?s] Cons.prems show ?case by (auto simp: s run_race_def)
qed

text \<open>
  Readings from \<open>start\<close> to before \<open>stop\<close> lie within every client's time to live of each other, so a
  nonce logged in that time is not pruned in that time.
\<close>

definition clocks_close :: "(nat \<Rightarrow> time) \<Rightarrow> nat \<Rightarrow> nat \<Rightarrow> int set \<Rightarrow> bool" where
  "clocks_close cl start stop ttls \<longleftrightarrow>
     (\<forall>ttl \<in> ttls. max ttl 0 < 2 ^ 53
        \<and> (\<forall>m n. start \<le> m \<longrightarrow> m < stop \<longrightarrow> start \<le> n \<longrightarrow> n < stop \<longrightarrow> cl n - cl m \<le> max ttl 0 * second))"

definition logged :: "(nat \<Rightarrow> time) \<Rightarrow> nat \<Rightarrow> bytes \<Rightarrow> 'b world \<Rightarrow> bool" where
  "logged cl start nd w \<longleftrightarrow>
     (\<exists>k e. start \<le> k \<and> k < w_ticks w
        \<and> \<lparr>rn_nonce_digest = nd, rn_enclave_id = e, rn_seen_at = cl k\<rparr> \<in> set (ra_nonce_log (w_db w)))"

fun ttl_in :: "int set \<Rightarrow> registration \<Rightarrow> bool" where
  "ttl_in ttls (ToPrune nd e ttl) = (ttl \<in> ttls)"
| "ttl_in ttls _ = True"

definition race_inv ::
  "(nat \<Rightarrow> time) \<Rightarrow> nat \<Rightarrow> nat \<Rightarrow> int set \<Rightarrow> registration list \<times> 'b world \<Rightarrow> bool" where
  "race_inv cl start stop ttls s \<longleftrightarrow>
     (let (cs, w) = s in
      start \<le> w_ticks w \<and> list_all (ttl_in ttls) cs
    \<and> (clocks_close cl start stop ttls \<longrightarrow> w_ticks w \<le> stop \<longrightarrow>
         (\<forall>i < length cs. \<forall>nd. cs ! i = Registered nd (Inr True) \<longrightarrow> logged cl start nd w
            \<and> (\<forall>j < length cs. cs ! j = Registered nd (Inr True) \<longrightarrow> i = j))))"

lemma exec_stmt_ticks [simp]: "w_ticks (snd (exec_stmt x f w)) = Suc (w_ticks w)"
  by (simp add: exec_stmt_def Let_def split: pg_outcome.split sum.split prod.split)

lemma logged_prune:
  assumes "logged (clock x) start nd w" and "clocks_close (clock x) start stop ttls" and "ttl \<in> ttls"
    and "start \<le> w_ticks w" and "w_ticks w < stop"
  shows "logged (clock x) start nd (snd (exec_stmt x (prune_nonces (max ttl 0)) w))"
proof -
  from assms(1) obtain k e where k: "start \<le> k" "k < w_ticks w"
    and row: "\<lparr>rn_nonce_digest = nd, rn_enclave_id = e, rn_seen_at = clock x k\<rparr> \<in> set (ra_nonce_log (w_db w))"
      (is "?r \<in> _") by (auto simp: logged_def)
  from assms k have bound: "max ttl 0 < 2 ^ 53" "clock x (w_ticks w) - clock x k \<le> max ttl 0 * second"
    by (auto simp: clocks_close_def)
  have "?r \<in> set (ra_nonce_log d)" if "prune_nonces (max ttl 0) n (clock x (w_ticks w)) (w_db w) = Inr (u, d)" for n u d
    using that bound row by (auto simp: prune_nonces_def bindE_eq_Inr dest!: seconds_before_Inr [rotated])
  then have "?r \<in> set (ra_nonce_log (w_db (snd (exec_stmt x (prune_nonces (max ttl 0)) w))))"
    using exec_stmt_db [of x "prune_nonces (max ttl 0)" w] row by auto
  with k show ?thesis by (auto simp: logged_def)
qed

lemma logged_insert:
  assumes "logged cl start nd w"
  shows "logged cl start nd (snd (exec_stmt x (insert_nonce nd' e) w))"
proof -
  have "set (ra_nonce_log (w_db w)) \<subseteq> set (ra_nonce_log d)"
    if "d = w_db w \<or> (\<exists>a. insert_nonce nd' e (w_ticks w) (clock x (w_ticks w)) (w_db w) = Inr (a, d))" for d
    using that by (auto simp: insert_nonce_def split: if_splits)
  from this [OF exec_stmt_db [of x "insert_nonce nd' e" w]]
  have "set (ra_nonce_log (w_db w)) \<subseteq> set (ra_nonce_log (w_db (snd (exec_stmt x (insert_nonce nd' e) w))))" .
  with assms show ?thesis unfolding logged_def by (metis exec_stmt_ticks less_SucI subsetD)
qed

lemma step_logged:
  assumes "registration_step x c w = (c', w')" and "logged (clock x) start nd w" and "ttl_in ttls c"
    and "clocks_close (clock x) start stop ttls" and "start \<le> w_ticks w" and "w_ticks w' \<le> stop"
  shows "logged (clock x) start nd w'"
proof (cases c)
  case (ToPrune nd' e ttl)
  then have w': "w' = snd (exec_stmt x (prune_nonces (max ttl 0)) w)"
    using assms(1) by (auto simp: registration_step_def split: prod.splits sum.splits)
  then have "w_ticks w < stop" using assms(6) by simp
  with logged_prune [OF assms(2,4) _ assms(5)] ToPrune assms(3) show ?thesis by (simp add: w')
next
  case (ToInsert nd' e)
  then have "w' = snd (exec_stmt x (insert_nonce nd' e) w)"
    using assms(1) by (auto simp: registration_step_def split: prod.splits sum.splits)
  with logged_insert [OF assms(2)] show ?thesis by simp
qed (use assms in \<open>simp add: registration_step_def\<close>)

lemma step_wins:
  assumes "registration_step x c w = (Registered nd (Inr True), w')" and "c \<noteq> Registered nd (Inr True)"
    and "start \<le> w_ticks w"
  shows "\<not> logged cl start nd w" and "logged (clock x) start nd w'"
proof -
  from assms(1,2) obtain e n where "c = ToInsert nd e" and run: "exec_stmt x (insert_nonce nd e) w = (Inr n, w')" "0 < n"
    by (auto simp: registration_step_def split: registration.splits prod.splits sum.splits)
  from run(1) have "nd \<notin> rn_nonce_digest ` set (ra_nonce_log (w_db w))
      \<and> \<lparr>rn_nonce_digest = nd, rn_enclave_id = e, rn_seen_at = clock x (w_ticks w)\<rparr> \<in> set (ra_nonce_log (w_db w'))
      \<and> w_ticks w' = Suc (w_ticks w)"
    using run(2) by (auto simp: insert_nonce_def elim!: exec_stmt_InrD split: if_splits)
  with assms(3) show "\<not> logged cl start nd w" and "logged (clock x) start nd w'"
    by (force simp: logged_def)+
qed

lemma step_ticks: "registration_step x c w = (c', w') \<Longrightarrow> w_ticks w \<le> w_ticks w'"
  using exec_stmt_ticks [of x _ w]
  by (auto simp: registration_step_def split: registration.splits prod.splits sum.splits)
     (metis exec_stmt_ticks le_SucI order_refl snd_conv)+

lemma step_ttl: "registration_step x c w = (c', w') \<Longrightarrow> ttl_in ttls c \<Longrightarrow> ttl_in ttls c'"
  by (auto simp: registration_step_def split: registration.splits prod.splits sum.splits)

interpretation race: invariant_machine "race_step x" "race_inv (clock x) start stop ttls"
proof
  fix s :: "registration list \<times> 'a world" and i
  assume inv: "race_inv (clock x) start stop ttls s"
  obtain cs w where s: "s = (cs, w)" by fastforce
  show "race_inv (clock x) start stop ttls (race_step x s i)"
  proof (cases "i < length cs")
    case True
    obtain c' w' where step: "registration_step x (cs ! i) w = (c', w')" by fastforce
    have pre: "start \<le> w_ticks w" "list_all (ttl_in ttls) cs"
      using inv by (simp_all add: race_inv_def s)
    then have ttl: "ttl_in ttls (cs ! i)" using True by (simp add: list_all_length)
    have "list_all (ttl_in ttls) (cs[i := c'])"
      using pre(2) step_ttl [OF step ttl] by (auto simp: list_all_iff dest!: set_update_subset_insert [THEN subsetD])
    moreover have "logged (clock x) start nd w' \<and> (\<forall>b < length cs. cs[i := c'] ! b = Registered nd (Inr True) \<longrightarrow> a = b)"
      if close: "clocks_close (clock x) start stop ttls" "w_ticks w' \<le> stop"
        and a: "a < length cs" "cs[i := c'] ! a = Registered nd (Inr True)" for a nd
    proof -
      have old: "logged (clock x) start nd w" "\<forall>b < length cs. cs ! b = Registered nd (Inr True) \<longrightarrow> j = b"
        if "j < length cs" "cs ! j = Registered nd (Inr True)" for j
        using inv close step_ticks [OF step] that by (auto simp: race_inv_def s)
      have won: "\<exists>j < length cs. cs ! j = Registered nd (Inr True)" if "b < length cs" "b \<noteq> i" "cs[i := c'] ! b = Registered nd (Inr True)" for b
        using that by (intro exI [of _ b]) simp
      show ?thesis
      proof (cases "c' = Registered nd (Inr True) \<and> cs ! i \<noteq> c'")
        case True
        then have fresh: "\<not> logged (clock x) start nd w" "logged (clock x) start nd w'"
          using step_wins [OF _ _ pre(1), of x "cs ! i" nd w'] step by auto
        then have "b = i" if "b < length cs" "cs[i := c'] ! b = Registered nd (Inr True)" for b
          using won [OF that(1) _ that(2)] old(1) by blast
        with a fresh show ?thesis by metis
      next
        case False
        then have same: "cs[i := c'] ! b = Registered nd (Inr True) \<Longrightarrow> cs ! b = Registered nd (Inr True)" if "b < length cs" for b
          using that by (cases "b = i") auto
        from old [OF a(1) same [OF a]] same step_logged [OF step _ ttl close(1) pre(1) close(2)]
        show ?thesis by blast
      qed
    qed
    ultimately show ?thesis
      using True step pre step_ticks [OF step] by (auto simp: race_inv_def race_step_def s)
  qed (use inv in \<open>simp add: race_step_def s\<close>)
qed

end
