(* ===== verification/Broker.thy ===== *)
theory Broker
  imports Schema
begin

text \<open>
  \<^verbatim>\<open>SecretBrokerClient\<close> of \<^verbatim>\<open>src/secret_broker_client.rs\<close>: the thin layer over the protocol
  adapter. Each call counts an attempt and its outcome in the metrics; handles and tokens are
  trimmed before an unwrap, a zero TTL is sent as no TTL.
\<close>

section \<open>Operations\<close>

text \<open>The shape the counted calls share: count the attempt, call, count the outcome, return it.\<close>

definition counted :: "string \<Rightarrow> string \<Rightarrow> string \<Rightarrow> ('b \<Rightarrow> (anyhow + 'a) \<times> 'b) \<Rightarrow>
  (anyhow, 'b world, 'a) op" where
  "counted attempt success failure f =
     bindM (emit attempt None) (\<lambda>_ w.
       case broker_call f w of
         (Inr a, w') \<Rightarrow> bindM (emit success None) (\<lambda>_. returnM a) w'
       | (Inl e, w') \<Rightarrow> bindM (emit failure None) (\<lambda>_. throwM e) w')"

record PostgresCredentialRequest =
  pr_audience :: string
  pr_scope :: "string list"
  pr_ttl_seconds :: nat
  pr_application_name :: "string option"

definition issue_postgres_credentials ::
  "('b, 'z) ext_scheme \<Rightarrow> PostgresCredentialRequest \<Rightarrow> (anyhow, 'b world, PostgresCredentialLease) op" where
  "issue_postgres_credentials x request =
     counted ''secure_database_broker_lease_attempt_total''
       ''secure_database_broker_lease_success_total''
       ''secure_database_broker_lease_failure_total''
       (adapter_issue_postgres_credentials x
          \<lparr>pp_audience = trim (pr_audience request),
           pp_scope = pr_scope request,
           pp_ttl_seconds = (if pr_ttl_seconds request = 0 then None else Some (pr_ttl_seconds request)),
           pp_application_name = pr_application_name request\<rparr>)"

definition mint_aead_key_v2 ::
  "('b, 'z) ext_scheme \<Rightarrow> MintAeadKeyV2Params \<Rightarrow> (anyhow, 'b world, MintAeadKeyV2Lease) op" where
  "mint_aead_key_v2 x params =
     counted ''secure_database_broker_aead_v2_request_total''
       ''secure_database_broker_aead_v2_success_total''
       ''secure_database_broker_aead_v2_failure_total''
       (adapter_mint_aead_key_v2 x params)"

definition wrap_secret_v2 ::
  "('b, 'z) ext_scheme \<Rightarrow> bytes \<Rightarrow> WrapV2Params \<Rightarrow> (anyhow, 'b world, WrapResponse) op" where
  "wrap_secret_v2 x plaintext params =
     counted ''secure_database_broker_wrap_v2_attempt_total''
       ''secure_database_broker_wrap_v2_success_total''
       ''secure_database_broker_wrap_v2_failure_total''
       (adapter_wrap_bytes_v2 x plaintext params)"

definition preload_redeem_token ::
  "('b, 'z) ext_scheme \<Rightarrow> string \<Rightarrow> string \<Rightarrow> time option \<Rightarrow> (anyhow, 'b world, unit) op" where
  "preload_redeem_token x handle token expires_at =
     broker_call (adapter_preload_redeem_token x handle token expires_at)"

definition preload_redeem_shares ::
  "('b, 'z) ext_scheme \<Rightarrow> string \<Rightarrow> opaque list \<Rightarrow> time option \<Rightarrow> (anyhow, 'b world, unit) op" where
  "preload_redeem_shares x handle shares expires_at =
     broker_call (adapter_preload_redeem_shares x handle shares expires_at)"

definition unwrap_secret_v2 ::
  "('b, 'z) ext_scheme \<Rightarrow> UnwrapSecretV2Params \<Rightarrow> (anyhow, 'b world, bytes) op" where
  "unwrap_secret_v2 x params =
     counted ''secure_database_broker_unwrap_v2_attempt_total''
       ''secure_database_broker_unwrap_v2_success_total''
       ''secure_database_broker_unwrap_v2_failure_total''
       (adapter_unwrap_secret_v2 x params)"

definition token_params :: "string \<Rightarrow> string \<Rightarrow> UnwrapSecretV2Params" where
  "token_params handle redeem_token =
     \<lparr>up_handle = trim handle, up_redeem_token = Some (trim redeem_token),
      up_redeem_shares = [], up_tenant_id = None, up_provider = None,
      up_circuit_id = None, up_node_id = None, up_discharges = []\<rparr>"

definition unwrap_secret_v2_with_token ::
  "('b, 'z) ext_scheme \<Rightarrow> string \<Rightarrow> string \<Rightarrow> (anyhow, 'b world, bytes) op" where
  "unwrap_secret_v2_with_token x handle redeem_token =
     unwrap_secret_v2 x (token_params handle redeem_token)"

definition renew_lease ::
  "('b, 'z) ext_scheme \<Rightarrow> string \<Rightarrow> nat \<Rightarrow> (anyhow, 'b world, opaque) op" where
  "renew_lease x handle lease_duration_seconds =
     broker_call (adapter_renew_lease x handle lease_duration_seconds)"

definition revoke_secret ::
  "('b, 'z) ext_scheme \<Rightarrow> string \<Rightarrow> string option \<Rightarrow> (anyhow, 'b world, opaque) op" where
  "revoke_secret x handle reason = broker_call (adapter_revoke_secret x handle reason)"

definition rotate_secret ::
  "('b, 'z) ext_scheme \<Rightarrow> string \<Rightarrow> bytes \<Rightarrow> opaque \<Rightarrow> (anyhow, 'b world, opaque) op" where
  "rotate_secret x old_handle new_plaintext params =
     broker_call (adapter_rotate_secret x old_handle new_plaintext params)"

definition attenuate_handle_v2 ::
  "('b, 'z) ext_scheme \<Rightarrow> opaque \<Rightarrow> (anyhow, 'b world, string) op" where
  "attenuate_handle_v2 x params =
     bindM (broker_call (adapter_attenuate_handle_v2 x params)) (\<lambda>result. returnM (ah_handle result))"


section \<open>Facts\<close>

lemma counted_app:
  assumes "f (w_broker w) = (r, b)"
  shows "counted at su fa f w =
    (r, w\<lparr>w_broker := b, w_metrics := w_metrics w @ [(at, None), (case r of Inr _ \<Rightarrow> su | Inl _ \<Rightarrow> fa, None)]\<rparr>)"
  using assms by (cases r) (simp_all add: counted_def bindM_def broker_call_def)

lemma w_db_counted [simp]: "w_db (snd (counted at su fa f w)) = w_db w"
  by (cases "f (w_broker w)") (simp add: counted_app)

lemma preserves_counted [preserves_rules]: "preserves (db_pred P) (counted at su fa f)"
  by (simp add: preserves_def)

lemmas broker_op_defs =
  issue_postgres_credentials_def mint_aead_key_v2_def wrap_secret_v2_def
  preload_redeem_token_def preload_redeem_shares_def unwrap_secret_v2_def
  unwrap_secret_v2_with_token_def renew_lease_def revoke_secret_def rotate_secret_def
  attenuate_handle_v2_def

text \<open>Broker calls never touch the database.\<close>

lemma broker_ops_preserve [preserves_rules]:
  "preserves (db_pred P) (issue_postgres_credentials x q)"
  "preserves (db_pred P) (mint_aead_key_v2 x mp)"
  "preserves (db_pred P) (wrap_secret_v2 x pt wp)"
  "preserves (db_pred P) (unwrap_secret_v2 x up)"
  "preserves (db_pred P) (unwrap_secret_v2_with_token x h t)"
  "preserves (db_pred P) (renew_lease x h n)"
  "preserves (db_pred P) (revoke_secret x h rs)"
  "preserves (db_pred P) (rotate_secret x h pt rp)"
  "preserves (db_pred P) (attenuate_handle_v2 x ap)"
  by (simp_all add: broker_op_defs preserves_counted preserves_broker_call preserves_bind)

end
