(* ===== verification/Protected.thy ===== *)
theory Protected
  imports Broker
begin

text \<open>
  Protected fields: the second half of \<^verbatim>\<open>src/tor_auth.rs\<close>. A value is sealed under a fresh
  broker key with associated data that names schema version, table, field, row and purpose; the
  stored text carries the broker handle, the redeem token and the ciphertext. Reading unwraps
  the key with the token and opens the ciphertext with the same associated data.

  \<open>broker_contract\<close> states what the code relies on of the codecs, the AEAD and the broker.
  \<open>protected_field\<close> is the interface the session and ticket tables use; it is shown for
  \<open>encrypt_with_new_aead\<close> and \<open>decrypt_with_broker\<close> under the broker contract.
\<close>

section \<open>Associated data\<close>

definition CLIENT_ONION_AAD :: bytes where
  "CLIENT_ONION_AAD = as_bytes ''tor-session-client-onion''"

definition REDEEMED_ONION_AAD :: bytes where
  "REDEEMED_ONION_AAD = as_bytes ''tor-ticket-redeemed-onion''"

definition TICKET_CLIENT_PUBLIC_KEY_AAD :: bytes where
  "TICKET_CLIENT_PUBLIC_KEY_AAD = as_bytes ''tor-ticket-client-auth-public-key''"

definition TICKET_CLIENT_SECRET_PATH_AAD :: bytes where
  "TICKET_CLIENT_SECRET_PATH_AAD = as_bytes ''tor-ticket-client-auth-secret-path''"

definition TICKET_CLIENT_SECRET_REDEEM_TOKEN_AAD :: bytes where
  "TICKET_CLIENT_SECRET_REDEEM_TOKEN_AAD = as_bytes ''tor-ticket-client-auth-secret-redeem-token''"

definition TICKET_ATTESTATION_NONCE_AAD :: bytes where
  "TICKET_ATTESTATION_NONCE_AAD = as_bytes ''tor-ticket-attestation-nonce''"

definition TICKET_ATTESTATION_QUOTE_AAD :: bytes where
  "TICKET_ATTESTATION_QUOTE_AAD = as_bytes ''tor-ticket-attestation-quote''"

definition TICKET_TLS_PUBKEY_DIGEST_AAD :: bytes where
  "TICKET_TLS_PUBKEY_DIGEST_AAD = as_bytes ''tor-ticket-tls-pubkey-digest''"

definition AEAD_KEY_TTL_SECONDS :: nat where
  "AEAD_KEY_TTL_SECONDS = 900"

definition record_bound_aad ::
  "'z codec_scheme \<Rightarrow> string \<Rightarrow> string \<Rightarrow> uuid \<Rightarrow> bytes \<Rightarrow> bytes" where
  "record_bound_aad x table field row_id purpose =
     as_bytes (''schema:v2'' @ [CHR 0x00] @ ''table:'' @ table @ [CHR 0x00] @ ''field:'' @ field
               @ [CHR 0x00] @ ''row:'' @ uuid_display x row_id @ [CHR 0x00])
     @ purpose"


section \<open>Sealing and opening through the broker\<close>

text \<open>Run \<open>h\<close> when \<open>m\<close> fails and return the error of \<open>m\<close>: the source's \<^verbatim>\<open>map_err\<close> closures that count.\<close>

definition on_errM :: "('e, 's, unit) op \<Rightarrow> ('e, 's, 'a) op \<Rightarrow> ('e, 's, 'a) op" where
  "on_errM h m s = (case m s of (Inl e, s') \<Rightarrow> (Inl e, snd (h s')) | (Inr a, s') \<Rightarrow> (Inr a, s'))"

text \<open>\<^verbatim>\<open>let _ = e\<close>: the outcome is dropped, its effects stay.\<close>

definition ignoreM :: "('f, 's, 'a) op \<Rightarrow> ('e, 's, unit) op" where
  "ignoreM m s = (Inr (), snd (m s))"

definition mint_params :: "string \<Rightarrow> MintAeadKeyV2Params" where
  "mint_params label =
     \<lparr>mp_ttl_seconds = Some AEAD_KEY_TTL_SECONDS, mp_label = Some label, mp_tenant_id = None,
      mp_provider = None, mp_threshold = None, mp_num_shares = None,
      mp_lifecycle = Some RenewableLease, mp_initial_lease_seconds = Some AEAD_KEY_TTL_SECONDS,
      mp_unwrap_principal_id = None, mp_custodian_ids = None\<rparr>"

definition encrypt_with_new_aead ::
  "('b, 'z) ext_scheme \<Rightarrow> bytes \<Rightarrow> bytes \<Rightarrow> string \<Rightarrow> ('b, string) db_op" where
  "encrypt_with_new_aead x plaintext aad label =
     (let failed = emit ''secure_database_aead_encrypt_failure_total'' (Some label) in
      bindM (emit ''secure_database_aead_encrypt_attempt_total'' (Some label)) (\<lambda>_.
      bindM (on_errM failed (map_errM Encryption (mint_aead_key_v2 x (mint_params label)))) (\<lambda>lease.
      bindM (on_errM failed (liftE
               (ok_or (Encryption ''broker v2 AEAD lease missing redeem token'') (ml_redeem_token lease))))
        (\<lambda>redeem_token.
      bindM tick (\<lambda>n.
      bindM (on_errM failed (liftE
               (aes_encrypt_with_aad x (system_random x n) (ml_key lease) plaintext aad)))
        (\<lambda>ciphertext.
      bindM (emit ''secure_database_aead_encrypt_success_total'' (Some label)) (\<lambda>_.
      returnM (encode_aead_payload x (ml_handle lease) redeem_token ciphertext))))))))"

definition decrypt_with_broker ::
  "('b, 'z) ext_scheme \<Rightarrow> string \<Rightarrow> bytes \<Rightarrow> string \<Rightarrow> ('b, string) db_op" where
  "decrypt_with_broker x encoded aad label =
     (let failed = emit ''secure_database_aead_decrypt_failure_total'' (Some label) in
      bindM (on_errM failed (liftE (decode_aead_payload x encoded))) (\<lambda>(handle, token, ciphertext).
      bindM (on_errM failed (liftE (ok_or (Encryption
               ''legacy AEAD v1 payload encountered during decrypt; backfill to canonical v2 first'') token)))
        (\<lambda>redeem_token.
      bindM (on_errM failed (map_errM Encryption (unwrap_secret_v2_with_token x handle redeem_token))) (\<lambda>key.
      bindM (ignoreM (renew_lease x handle AEAD_KEY_TTL_SECONDS)) (\<lambda>_.
      bindM (on_errM failed (liftE (aes_decrypt_with_aad x key ciphertext aad))) (\<lambda>plaintext.
      bindM (on_errM failed (liftE (ok_or
               (Encryption ''decrypted AEAD payload is not valid UTF-8'') (from_utf8 plaintext))))
        (\<lambda>plaintext_str.
      bindM (emit ''secure_database_aead_decrypt_success_total'' (Some label)) (\<lambda>_.
      returnM plaintext_str))))))))"


section \<open>Protecting and recovering a field\<close>

definition legacy_error :: "string \<Rightarrow> DatabaseError" where
  "legacy_error label = Encryption
     (''legacy AEAD payload in protected field '' @ label @ ''; canonical v2 required'')"

definition ensure_aead_encrypted ::
  "('b, 'z) ext_scheme \<Rightarrow> string option \<Rightarrow> bytes \<Rightarrow> string \<Rightarrow> ('b, string option) db_op" where
  "ensure_aead_encrypted x v aad label =
     (case v of
        None \<Rightarrow> returnM None
      | Some existing \<Rightarrow>
          if is_aead_payload_v2 existing then returnM (Some existing)
          else if is_aead_payload existing then throwM (legacy_error label)
          else bindM (encrypt_with_new_aead x (as_bytes existing) aad label) (\<lambda>c. returnM (Some c)))"

definition missing_error :: "string \<Rightarrow> DatabaseError" where
  "missing_error field = Encryption (field @ '' missing from tor ticket'')"

definition ensure_aead_encrypted_required ::
  "('b, 'z) ext_scheme \<Rightarrow> string \<Rightarrow> bytes \<Rightarrow> string \<Rightarrow> string \<Rightarrow> ('b, string) db_op" where
  "ensure_aead_encrypted_required x v aad label field =
     bindM (ensure_aead_encrypted x (Some v) aad label) (\<lambda>r. liftE (ok_or (missing_error field) r))"

definition decrypt_aead_optional ::
  "('b, 'z) ext_scheme \<Rightarrow> string option \<Rightarrow> bytes \<Rightarrow> string \<Rightarrow> ('b, string option) db_op" where
  "decrypt_aead_optional x v aad label =
     (case v of
        None \<Rightarrow> returnM None
      | Some stored \<Rightarrow>
          if is_aead_payload_v2 stored
          then bindM (decrypt_with_broker x stored aad label) (\<lambda>p. returnM (Some p))
          else if is_aead_payload stored then throwM (legacy_error label)
          else throwM (Encryption (''plaintext in protected field '' @ label)))"

definition decrypt_aead_required ::
  "('b, 'z) ext_scheme \<Rightarrow> string \<Rightarrow> bytes \<Rightarrow> string \<Rightarrow> string \<Rightarrow> ('b, string) db_op" where
  "decrypt_aead_required x v aad label field =
     bindM (decrypt_aead_optional x (Some v) aad label) (\<lambda>r. liftE (ok_or (missing_error field) r))"


section \<open>Facts: associated data\<close>

lemma nul_terminated_inject:
  fixes c :: char
  assumes "a @ c # r = a' @ c # r'" and "c \<notin> set a" and "c \<notin> set a'"
  shows "a = a' \<and> r = r'"
proof -
  have "split_once c (a @ c # r) = split_once c (a' @ c # r')" using assms(1) by simp
  with assms(2,3) show ?thesis by simp
qed

lemma record_bound_aad_text:
  "record_bound_aad x table field row_id (as_bytes purpose) =
     as_bytes (''schema:v2'' @ CHR 0x00 # (''table:'' @ table) @ CHR 0x00 # (''field:'' @ field)
               @ CHR 0x00 # (''row:'' @ uuid_display x row_id) @ CHR 0x00 # purpose)"
  by (simp add: record_bound_aad_def as_bytes_def)

lemma record_bound_aad_inject:
  assumes "uuid_laws x"
    and nul: "CHR 0x00 \<notin> set table" "CHR 0x00 \<notin> set field" "CHR 0x00 \<notin> set table'" "CHR 0x00 \<notin> set field'"
    and eq: "record_bound_aad x table field r purpose = record_bound_aad x table' field' r' purpose'"
  shows "table = table' \<and> field = field' \<and> r = r' \<and> purpose = purpose'"
proof -
  obtain p p' where p: "purpose = as_bytes p" "purpose' = as_bytes p'"
    by (metis as_bytes_chars_of)
  have u: "CHR 0x00 \<notin> set (''row:'' @ uuid_display x v)" for v
    using assms(1) by (simp add: uuid_laws_def)
  have n: "CHR 0x00 \<notin> set (''table:'' @ table)" "CHR 0x00 \<notin> set (''table:'' @ table')"
    "CHR 0x00 \<notin> set (''field:'' @ field)" "CHR 0x00 \<notin> set (''field:'' @ field')"
    using nul by simp_all
  from eq have "(''table:'' @ table) @ CHR 0x00 # (''field:'' @ field)
        @ CHR 0x00 # (''row:'' @ uuid_display x r) @ CHR 0x00 # p
      = (''table:'' @ table') @ CHR 0x00 # (''field:'' @ field')
        @ CHR 0x00 # (''row:'' @ uuid_display x r') @ CHR 0x00 # p'"
    by (simp add: p record_bound_aad_text)
  from nul_terminated_inject [OF this n(1,2)]
  have t: "table = table'" and "(''field:'' @ field) @ CHR 0x00 # (''row:'' @ uuid_display x r) @ CHR 0x00 # p
      = (''field:'' @ field') @ CHR 0x00 # (''row:'' @ uuid_display x r') @ CHR 0x00 # p'"
    by simp_all
  from nul_terminated_inject [OF this(2) n(3,4)]
  have f: "field = field'"
    and "(''row:'' @ uuid_display x r) @ CHR 0x00 # p = (''row:'' @ uuid_display x r') @ CHR 0x00 # p'"
    by simp_all
  from nul_terminated_inject [OF this(2) u u]
  have "uuid_display x r = uuid_display x r'" and "p = p'" by simp_all
  moreover have "inj (uuid_display x)" using assms(1) by (simp add: uuid_laws_def)
  ultimately show ?thesis using t f p by (simp add: inj_eq)
qed


section \<open>Facts: effects\<close>

lemma on_errM_simps [simp]:
  "m s = (Inr a, s') \<Longrightarrow> on_errM h m s = (Inr a, s')"
  "m s = (Inl e, s') \<Longrightarrow> on_errM h m s = (Inl e, snd (h s'))"
  by (simp_all add: on_errM_def)

lemma on_errM_Inr [simp]: "on_errM h m s = (Inr a, s') \<longleftrightarrow> m s = (Inr a, s')"
  by (auto simp: on_errM_def split: prod.splits sum.splits)

lemma ignoreM_app [simp]: "ignoreM m s = (Inr (), snd (m s))"
  by (simp add: ignoreM_def)

lemma preserves_on_errM [preserves_rules]:
  "preserves P h \<Longrightarrow> preserves P m \<Longrightarrow> preserves P (on_errM h m)"
  by (auto simp: preserves_def on_errM_def split: prod.split sum.split)

lemma preserves_ignoreM [preserves_rules]: "preserves P m \<Longrightarrow> preserves P (ignoreM m)"
  by (simp add: preserves_def)

lemma encrypt_preserves [preserves_rules]:
  "preserves (db_pred P) (encrypt_with_new_aead x pt aad label)"
  unfolding encrypt_with_new_aead_def Let_def
  by (intro preserves_rules)

lemma decrypt_preserves [preserves_rules]:
  "preserves (db_pred P) (decrypt_with_broker x v aad label)"
  unfolding decrypt_with_broker_def Let_def
  by (auto intro!: preserves_rules split: prod.split)

lemma ensure_preserves [preserves_rules]:
  "preserves (db_pred P) (ensure_aead_encrypted x v aad label)"
  by (auto simp: ensure_aead_encrypted_def intro!: preserves_rules split: option.split)

lemma ensure_required_preserves [preserves_rules]:
  "preserves (db_pred P) (ensure_aead_encrypted_required x v aad label field)"
  unfolding ensure_aead_encrypted_required_def by (intro preserves_rules)

lemma decrypt_optional_preserves [preserves_rules]:
  "preserves (db_pred P) (decrypt_aead_optional x v aad label)"
  by (auto simp: decrypt_aead_optional_def intro!: preserves_rules split: option.split)

lemma decrypt_required_preserves [preserves_rules]:
  "preserves (db_pred P) (decrypt_aead_required x v aad label field)"
  unfolding decrypt_aead_required_def by (intro preserves_rules)

lemma preserved_db: "preserves (db_pred ((=) (w_db w))) m \<Longrightarrow> w_db (snd (m w)) = w_db w"
  by (auto dest: preservesD)

text \<open>
  What comes out of \<open>ensure_aead_encrypted\<close> is absent or a version-2 payload, whatever the
  broker, the codecs and the AEAD do.
\<close>

lemma encrypt_result_v2:
  "encrypt_with_new_aead x pt aad label w = (Inr c, w') \<Longrightarrow> is_aead_payload_v2 c"
  by (auto simp: encrypt_with_new_aead_def Let_def elim!: bindM_eq_InrE)

lemma ensure_result_v2:
  "ensure_aead_encrypted x v aad label w = (Inr (Some c), w') \<Longrightarrow> is_aead_payload_v2 c"
  by (auto simp: ensure_aead_encrypted_def split: option.splits if_splits
      elim!: bindM_eq_InrE dest: encrypt_result_v2)

lemma ensure_required_result_v2:
  "ensure_aead_encrypted_required x v aad label field w = (Inr c, w') \<Longrightarrow> is_aead_payload_v2 c"
  by (auto simp: ensure_aead_encrypted_required_def elim!: bindM_eq_InrE dest: ensure_result_v2)


lemma yields_ensure:
  "yields (\<lambda>r. case r of None \<Rightarrow> True | Some c \<Rightarrow> is_aead_payload_v2 c) (ensure_aead_encrypted x v aad label)"
  by (auto simp: yields_def split: option.split dest: ensure_result_v2)

lemma yields_ensure_required:
  "yields is_aead_payload_v2 (ensure_aead_encrypted_required x v aad label field)"
  by (auto simp: yields_def dest: ensure_required_result_v2)


section \<open>Facts: one value\<close>

lemma encrypt_InrE:
  assumes "encrypt_with_new_aead x pt aad label w = (Inr c, w')"
  obtains lease t ct where
    "adapter_mint_aead_key_v2 x (mint_params label) (w_broker w) = (Inr lease, w_broker w')"
    "ml_redeem_token lease = Some t"
    "aes_encrypt_with_aad x (system_random x (w_ticks w)) (ml_key lease) pt aad = Inr ct"
    "c = encode_aead_payload x (ml_handle lease) t ct"
proof -
  obtain r b where "adapter_mint_aead_key_v2 x (mint_params label) (w_broker w) = (r, b)"
    by fastforce
  with assms show ?thesis
    by (auto simp: encrypt_with_new_aead_def Let_def mint_aead_key_v2_def counted_app map_errM_def
        bindM_def intro: that split: sum.splits prod.splits option.splits)
qed

lemma decrypt_ok:
  assumes "decode_aead_payload x v = Inr (h, Some t, ct)"
    and "adapter_unwrap_secret_v2 x (token_params h t) (w_broker w) = (Inr k, b)"
    and "aes_decrypt_with_aad x k ct aad = Inr p" and "from_utf8 p = Some s"
  shows "\<exists>w'. decrypt_with_broker x v aad label w = (Inr s, w')
    \<and> w_broker w' = snd (adapter_renew_lease x h AEAD_KEY_TTL_SECONDS b)"
  using assms
  by (simp add: decrypt_with_broker_def Let_def unwrap_secret_v2_with_token_def unwrap_secret_v2_def
      counted_app map_errM_app renew_lease_def broker_call_def split: prod.split)

lemma decrypt_not_opened:
  assumes "decode_aead_payload x v = Inr (h, Some t, ct)"
    and "adapter_unwrap_secret_v2 x (token_params h t) (w_broker w) = (Inr k, b)"
    and "aes_decrypt_with_aad x k ct aad = Inl e"
  shows "fst (decrypt_with_broker x v aad label w) = Inl e"
  using assms
  by (simp add: decrypt_with_broker_def Let_def unwrap_secret_v2_with_token_def unwrap_secret_v2_def
      counted_app map_errM_app renew_lease_def broker_call_def split: prod.split)


section \<open>What the code relies on\<close>

text \<open>
  \<open>live b\<close> maps a handle and a redeem token to the key the broker in state \<open>b\<close> gives out for
  them. A mint that returns a token makes a new pair live; the strings it returns are UTF-8 and
  carry no surrounding white space. An unwrap of a live pair returns its key and may use the
  token up, but no other pair; a renewal uses nothing up.
\<close>

locale broker_contract =
  fixes x :: "('b, 'z) ext_scheme" and live :: "'b \<Rightarrow> string \<times> string \<Rightarrow> bytes option"
  assumes base64: "base64_laws x"
    and uuid: "uuid_laws x"
    and aead: "aead_laws x"
    and nonce_length: "system_random x n = Some nb \<Longrightarrow> length nb = NONCE_LEN"
    and mint_fresh: "adapter_mint_aead_key_v2 x p b = (Inr l, b') \<Longrightarrow> ml_redeem_token l = Some t \<Longrightarrow>
      live b (ml_handle l, t) = None"
    and mint_live: "adapter_mint_aead_key_v2 x p b = (Inr l, b') \<Longrightarrow> ml_redeem_token l = Some t \<Longrightarrow>
      live b' (ml_handle l, t) = Some (ml_key l)"
    and mint_strings: "adapter_mint_aead_key_v2 x p b = (Inr l, b') \<Longrightarrow> ml_redeem_token l = Some t \<Longrightarrow>
      rust_string (ml_handle l) \<and> rust_string t \<and> trim (ml_handle l) = ml_handle l \<and> trim t = t"
    and mint_keeps: "adapter_mint_aead_key_v2 x p b = (mr, b') \<Longrightarrow> live b q = Some k \<Longrightarrow> live b' q = Some k"
    and unwrap_live: "live b (h, t) = Some k \<Longrightarrow> trim h = h \<Longrightarrow> trim t = t \<Longrightarrow>
      fst (adapter_unwrap_secret_v2 x (token_params h t) b) = Inr k"
    and unwrap_keeps: "adapter_unwrap_secret_v2 x (token_params h t) b = (ur, b') \<Longrightarrow>
      q \<noteq> (h, t) \<Longrightarrow> live b q = Some k \<Longrightarrow> live b' q = Some k"
    and renew_keeps: "live b q = Some k \<Longrightarrow> live (snd (adapter_renew_lease x h n b)) q = Some k"

text \<open>
  The interface of a protected field. \<open>holds b aad c v\<close>: in broker state \<open>b\<close>, the stored text
  \<open>c\<close> opens to \<open>v\<close> in the context \<open>aad\<close>; \<open>lease_of c\<close> is the pair it uses up.
\<close>

locale protected_field =
  fixes protect :: "bytes \<Rightarrow> string \<Rightarrow> string \<Rightarrow> ('b, string) db_op"
    and recover :: "bytes \<Rightarrow> string \<Rightarrow> string \<Rightarrow> ('b, string) db_op"
    and holds :: "'b \<Rightarrow> bytes \<Rightarrow> string \<Rightarrow> string \<Rightarrow> bool"
    and lease_of :: "string \<Rightarrow> (string \<times> string) option"
  assumes protect_holds: "protect aad label v w = (Inr c, w') \<Longrightarrow> rust_string v \<Longrightarrow>
      holds (w_broker w') aad c v"
    and protect_keeps: "protect aad label v w = (Inr c, w') \<Longrightarrow> holds (w_broker w) aad' c' v' \<Longrightarrow>
      holds (w_broker w') aad' c' v'"
    and protect_fresh: "protect aad label v w = (Inr c, w') \<Longrightarrow> holds (w_broker w) aad' c' v' \<Longrightarrow>
      lease_of c \<noteq> lease_of c'"
    and recover_holds: "holds (w_broker w) aad c v \<Longrightarrow> fst (recover aad label c w) = Inr v"
    and recover_keeps: "holds (w_broker w) aad c v \<Longrightarrow> holds (w_broker w) aad' c' v' \<Longrightarrow>
      lease_of c \<noteq> lease_of c' \<Longrightarrow> holds (w_broker (snd (recover aad label c w))) aad' c' v'"
begin

text \<open>Several stored values, each openable, no two using the same lease.\<close>

definition held :: "'b \<Rightarrow> (bytes \<times> string \<times> string) list \<Rightarrow> bool" where
  "held b fs \<longleftrightarrow> (\<forall>(aad, c, v) \<in> set fs. holds b aad c v) \<and> distinct (map (\<lambda>(aad, c, v). lease_of c) fs)"

lemma held_Nil: "held b []"
  by (simp add: held_def)

lemma held_protect:
  assumes "held (w_broker w) fs" and "protect aad label v w = (Inr c, w')" and "rust_string v"
  shows "held (w_broker w') ((aad, c, v) # fs)"
  using assms protect_holds protect_keeps protect_fresh
  unfolding held_def by fastforce

lemma held_recover:
  assumes "held (w_broker w) ((aad, c, v) # fs)"
  obtains w' where "recover aad label c w = (Inr v, w')" "held (w_broker w') fs"
proof -
  obtain r w' where run: "recover aad label c w = (r, w')" by fastforce
  from assms have c: "holds (w_broker w) aad c v" by (simp add: held_def)
  with run have r: "r = Inr v" using recover_holds [of w aad c v label] by simp
  have "holds (w_broker w') aad' c' v'" if "(aad', c', v') \<in> set fs" for aad' c' v'
  proof -
    from assms that have "holds (w_broker w) aad' c' v'" and "lease_of c \<noteq> lease_of c'"
      unfolding held_def by force+
    from recover_keeps [OF c this, of label] run show ?thesis by simp
  qed
  then have "held (w_broker w') fs"
    using assms by (auto simp: held_def)
  then show ?thesis using run r by (auto intro: that)
qed

lemma held_mset:
  assumes "held b fs" and "mset fs = mset gs"
  shows "held b gs"
proof -
  have "mset (map (\<lambda>(aad, c, v). lease_of c) gs) = mset (map (\<lambda>(aad, c, v). lease_of c) fs)"
    using assms(2) by simp
  then have "distinct (map (\<lambda>(aad, c, v). lease_of c) gs)"
    using assms(1) unfolding held_def by (metis mset_eq_imp_distinct_iff)
  moreover have "set gs = set fs" using assms(2) by (metis mset_eq_setD)
  ultimately show ?thesis using assms(1) by (simp add: held_def)
qed

lemma held_sub:
  assumes "held b fs" and "mset gs \<subseteq># mset fs"
  shows "held b gs"
proof -
  from assms(2) obtain r where "mset fs = mset (gs @ r)"
    by (metis ex_mset mset_append subset_mset.add_diff_inverse)
  with held_mset [OF assms(1)] have "held b (gs @ r)" by simp
  then show ?thesis by (auto simp: held_def)
qed

lemma held_keep:
  assumes "held (w_broker w) fs" and "protect aad label v w = (Inr c, w')"
  shows "held (w_broker w') fs"
  using assms protect_keeps unfolding held_def by fastforce

end

text \<open>The pair a stored text uses up, and when it opens, for the code's own format.\<close>

definition payload_lease :: "'z codec_scheme \<Rightarrow> string \<Rightarrow> (string \<times> string) option" where
  "payload_lease x c =
     (case decode_aead_payload x c of Inr (h, Some t, _) \<Rightarrow> Some (h, t) | _ \<Rightarrow> None)"

definition payload_holds :: "('b, 'z) ext_scheme \<Rightarrow> ('b \<Rightarrow> string \<times> string \<Rightarrow> bytes option) \<Rightarrow>
  'b \<Rightarrow> bytes \<Rightarrow> string \<Rightarrow> string \<Rightarrow> bool" where
  "payload_holds x live b aad c v \<longleftrightarrow>
     is_aead_payload_v2 c \<and> rust_string v
   \<and> (\<exists>h t ct k. decode_aead_payload x c = Inr (h, Some t, ct) \<and> live b (h, t) = Some k
        \<and> trim h = h \<and> trim t = t \<and> aes_decrypt_with_aad x k ct aad = Inr (as_bytes v))"

context broker_contract
begin

lemma encrypt_holds:
  assumes "encrypt_with_new_aead x (as_bytes v) aad label w = (Inr c, w')" and "rust_string v"
  shows "payload_holds x live (w_broker w') aad c v"
proof -
  from assms(1) obtain l t ct where
    mint: "adapter_mint_aead_key_v2 x (mint_params label) (w_broker w) = (Inr l, w_broker w')"
    and t: "ml_redeem_token l = Some t"
    and ct: "aes_encrypt_with_aad x (system_random x (w_ticks w)) (ml_key l) (as_bytes v) aad = Inr ct"
    and c: "c = encode_aead_payload x (ml_handle l) t ct"
    by (rule encrypt_InrE)
  from ct obtain n where n: "system_random x (w_ticks w) = Some n"
    by (auto simp: aes_encrypt_with_aad_Inr)
  have "aes_decrypt_with_aad x (ml_key l) ct aad = Inr (as_bytes v)"
    using aes_round_trip [OF aead nonce_length [OF n]] ct n by simp
  with mint_live [OF mint t] mint_strings [OF mint t] assms(2) c base64 show ?thesis
    by (auto simp: payload_holds_def decode_encode_payload)
qed

lemma encrypt_lease:
  assumes "encrypt_with_new_aead x (as_bytes v) aad label w = (Inr c, w')"
  obtains h t where "payload_lease x c = Some (h, t)" "live (w_broker w) (h, t) = None"
proof -
  from assms obtain l t ct where
    mint: "adapter_mint_aead_key_v2 x (mint_params label) (w_broker w) = (Inr l, w_broker w')"
    and t: "ml_redeem_token l = Some t"
    and c: "c = encode_aead_payload x (ml_handle l) t ct"
    by (rule encrypt_InrE)
  from c mint_strings [OF mint t] base64 have "payload_lease x c = Some (ml_handle l, t)"
    by (simp add: payload_lease_def decode_encode_payload)
  with mint_fresh [OF mint t] show ?thesis by (rule that [rotated])
qed

lemma encrypt_keeps:
  assumes "encrypt_with_new_aead x (as_bytes v) aad label w = (Inr c, w')"
    and "payload_holds x live (w_broker w) aad' c' v'"
  shows "payload_holds x live (w_broker w') aad' c' v'"
  using assms(2) encrypt_InrE [OF assms(1)] mint_keeps
  unfolding payload_holds_def by metis

lemma holds_leaseE:
  assumes "payload_holds x live b aad c v"
  obtains h t k where "payload_lease x c = Some (h, t)" "live b (h, t) = Some k"
  using assms by (auto simp: payload_holds_def payload_lease_def)

lemma decrypt_holds:
  assumes "payload_holds x live (w_broker w) aad c v"
  obtains w' h t b1 where "decrypt_with_broker x c aad label w = (Inr v, w')"
    "payload_lease x c = Some (h, t)"
    "snd (adapter_unwrap_secret_v2 x (token_params h t) (w_broker w)) = b1"
    "w_broker w' = snd (adapter_renew_lease x h AEAD_KEY_TTL_SECONDS b1)"
proof -
  from assms obtain h t ct k where d: "decode_aead_payload x c = Inr (h, Some t, ct)"
    and l: "live (w_broker w) (h, t) = Some k" "trim h = h" "trim t = t"
    and p: "aes_decrypt_with_aad x k ct aad = Inr (as_bytes v)" and v: "rust_string v"
    by (auto simp: payload_holds_def)
  obtain b1 where b1: "adapter_unwrap_secret_v2 x (token_params h t) (w_broker w) = (Inr k, b1)"
    using unwrap_live [OF l] by (metis prod.collapse)
  from decrypt_ok [OF d b1 p from_utf8_as_bytes [OF v], of label] d b1 show ?thesis
    by (auto simp: payload_lease_def intro: that)
qed

end

sublocale broker_contract \<subseteq> protected_field
  "\<lambda>aad label v. encrypt_with_new_aead x (as_bytes v) aad label"
  "\<lambda>aad label c. decrypt_with_broker x c aad label"
  "payload_holds x live" "payload_lease x"
proof
  fix aad label v c and w w' :: "'b world"
  assume run: "encrypt_with_new_aead x (as_bytes v) aad label w = (Inr c, w')"
  show "payload_holds x live (w_broker w') aad c v" if "rust_string v"
    by (rule encrypt_holds [OF run that])
  fix aad' c' v'
  assume h: "payload_holds x live (w_broker w) aad' c' v'"
  then show "payload_holds x live (w_broker w') aad' c' v'"
    by (rule encrypt_keeps [OF run])
  from h show "payload_lease x c \<noteq> payload_lease x c'"
    by (rule holds_leaseE) (rule encrypt_lease [OF run], auto)
next
  fix w :: "'b world" and aad c v label
  assume h: "payload_holds x live (w_broker w) aad c v"
  then show "fst (decrypt_with_broker x c aad label w) = Inr v"
    by (rule decrypt_holds [where label = label]) simp
  fix aad' c' v'
  assume h': "payload_holds x live (w_broker w) aad' c' v'"
    and ne: "payload_lease x c \<noteq> payload_lease x c'"
  obtain w' h t b1 where run: "decrypt_with_broker x c aad label w = (Inr v, w')"
    and lease: "payload_lease x c = Some (h, t)"
    and b1: "snd (adapter_unwrap_secret_v2 x (token_params h t) (w_broker w)) = b1"
    and b2: "w_broker w' = snd (adapter_renew_lease x h AEAD_KEY_TTL_SECONDS b1)"
    using h by (rule decrypt_holds)
  from h' obtain h2 t2 ct k where d: "decode_aead_payload x c' = Inr (h2, Some t2, ct)"
    and k: "live (w_broker w) (h2, t2) = Some k" and rest: "is_aead_payload_v2 c'" "rust_string v'"
    "trim h2 = h2" "trim t2 = t2" "aes_decrypt_with_aad x k ct aad' = Inr (as_bytes v')"
    by (auto simp: payload_holds_def)
  have "(h2, t2) \<noteq> (h, t)" using ne lease d by (auto simp: payload_lease_def)
  with k b1 have "live b1 (h2, t2) = Some k"
    by (metis prod.collapse unwrap_keeps)
  then have "live (w_broker w') (h2, t2) = Some k" using b2 renew_keeps by simp
  with d rest run show "payload_holds x live (w_broker (snd (decrypt_with_broker x c aad label w))) aad' c' v'"
    by (auto simp: payload_holds_def)
qed


section \<open>Facts: fields under the contract\<close>

text \<open>The value of a field the caller passes in plain: a Rust string that is not itself a payload.\<close>

definition plain_value :: "string \<Rightarrow> bool" where
  "plain_value v \<longleftrightarrow> rust_string v \<and> \<not> is_aead_payload v"

definition plain_option :: "string option \<Rightarrow> bool" where
  "plain_option v \<longleftrightarrow> (case v of None \<Rightarrow> True | Some s \<Rightarrow> plain_value s)"

fun optional_field :: "bytes \<Rightarrow> string option \<Rightarrow> string option \<Rightarrow> (bytes \<times> string \<times> string) list" where
  "optional_field aad (Some c) (Some v) = [(aad, c, v)]"
| "optional_field aad _ _ = []"

lemma ensure_plain:
  "plain_value v \<Longrightarrow> ensure_aead_encrypted x (Some v) aad label =
     bindM (encrypt_with_new_aead x (as_bytes v) aad label) (\<lambda>c. returnM (Some c))"
  by (auto simp: ensure_aead_encrypted_def plain_value_def dest: is_aead_payload_v2_imp)

context broker_contract
begin

lemma ensure_held:
  assumes "held (w_broker w) fs" and "ensure_aead_encrypted x vo aad label w = (Inr co, w')"
    and "plain_option vo"
  shows "held (w_broker w') (optional_field aad co vo @ fs) \<and> (co = None \<longleftrightarrow> vo = None)"
proof (cases vo)
  case None
  with assms show ?thesis by (simp add: ensure_aead_encrypted_def)
next
  case (Some v)
  with assms(3) have v: "plain_value v" by (simp add: plain_option_def)
  with assms(2) Some obtain c where "encrypt_with_new_aead x (as_bytes v) aad label w = (Inr c, w')"
    and co: "co = Some c"
    by (auto simp: ensure_plain elim: bindM_eq_InrE)
  from held_protect [OF assms(1) this(1)] v co Some show ?thesis by (simp add: plain_value_def)
qed

lemma ensure_required_held:
  assumes "held (w_broker w) fs" and "ensure_aead_encrypted_required x v aad label field w = (Inr c, w')"
    and "plain_value v"
  shows "held (w_broker w') ((aad, c, v) # fs)"
proof -
  from assms(2) have "ensure_aead_encrypted x (Some v) aad label w = (Inr (Some c), w')"
    by (auto simp: ensure_aead_encrypted_required_def elim: bindM_eq_InrE)
  from ensure_held [OF assms(1) this] assms(3) show ?thesis by (simp add: plain_option_def)
qed

lemma held_is_v2: "held b ((aad, c, v) # fs) \<Longrightarrow> is_aead_payload_v2 c"
  by (simp add: held_def payload_holds_def)

lemma decrypt_optional_held:
  assumes "held (w_broker w) (optional_field aad co vo @ fs)" and "co = None \<longleftrightarrow> vo = None"
  obtains w' where "decrypt_aead_optional x co aad label w = (Inr vo, w')" "held (w_broker w') fs"
proof (cases co)
  case None
  with assms that show ?thesis by (simp add: decrypt_aead_optional_def)
next
  case (Some c)
  with assms obtain v where vo: "vo = Some v" and h: "held (w_broker w) ((aad, c, v) # fs)" by auto
  from h obtain w' where "decrypt_with_broker x c aad label w = (Inr v, w')" "held (w_broker w') fs"
    by (rule held_recover)
  with that show ?thesis
    by (simp add: Some vo decrypt_aead_optional_def held_is_v2 [OF h])
qed

lemma decrypt_required_held:
  assumes "held (w_broker w) ((aad, c, v) # fs)"
  obtains w' where "decrypt_aead_required x c aad label field w = (Inr v, w')" "held (w_broker w') fs"
proof -
  obtain w' where "decrypt_aead_optional x (Some c) aad label w = (Inr (Some v), w')"
    and "held (w_broker w') fs"
    by (rule decrypt_optional_held [where co = "Some c" and vo = "Some v" and w = w]) (use assms in simp_all)
  with that show ?thesis by (simp add: decrypt_aead_required_def)
qed

text \<open>The same facts as rules for a sequence of fields.\<close>

lemma ensure_required_bindE:
  assumes "bindM (ensure_aead_encrypted_required x v aad label field) f w = (Inr r, w')"
    and "held (w_broker w) fs" and "plain_value v"
  obtains c w1 where "f c w1 = (Inr r, w')" "held (w_broker w1) ((aad, c, v) # fs)" "w_db w1 = w_db w"
proof (rule bindM_eq_InrE [OF assms(1)])
  fix c w1
  assume run: "ensure_aead_encrypted_required x v aad label field w = (Inr c, w1)"
    and rest: "f c w1 = (Inr r, w')"
  from run have db: "w_db w1 = w_db w"
    using preserved_db [OF ensure_required_preserves] by (metis snd_conv)
  show thesis by (rule that [OF rest ensure_required_held [OF assms(2) run assms(3)] db])
qed

lemma ensure_bindE:
  assumes "bindM (ensure_aead_encrypted x vo aad label) f w = (Inr r, w')"
    and "held (w_broker w) fs" and "plain_option vo"
  obtains co w1 where "f co w1 = (Inr r, w')" "held (w_broker w1) (optional_field aad co vo @ fs)"
    "co = None \<longleftrightarrow> vo = None" "w_db w1 = w_db w"
proof (rule bindM_eq_InrE [OF assms(1)])
  fix co w1
  assume run: "ensure_aead_encrypted x vo aad label w = (Inr co, w1)"
    and rest: "f co w1 = (Inr r, w')"
  from run have db: "w_db w1 = w_db w"
    using preserved_db [OF ensure_preserves] by (metis snd_conv)
  note h = ensure_held [OF assms(2) run assms(3)]
  show thesis by (rule that [OF rest conjunct1 [OF h] conjunct2 [OF h] db])
qed

lemma decrypt_required_run:
  assumes "held (w_broker w) ((aad, c, v) # fs)"
    and "\<And>w'. held (w_broker w') fs \<Longrightarrow> w_db w' = w_db w \<Longrightarrow> Q (f v w')"
  shows "Q (bindM (decrypt_aead_required x c aad label field) f w)"
proof (rule decrypt_required_held [OF assms(1), of label field])
  fix w' assume run: "decrypt_aead_required x c aad label field w = (Inr v, w')" "held (w_broker w') fs"
  have "w_db w' = w_db w" using preserved_db [OF decrypt_required_preserves] run(1) by (metis snd_conv)
  with run assms(2) show ?thesis by simp
qed

lemma decrypt_optional_run:
  assumes "held (w_broker w) (optional_field aad co vo @ fs)" and "co = None \<longleftrightarrow> vo = None"
    and "\<And>w'. held (w_broker w') fs \<Longrightarrow> w_db w' = w_db w \<Longrightarrow> Q (f vo w')"
  shows "Q (bindM (decrypt_aead_optional x co aad label) f w)"
proof (rule decrypt_optional_held [OF assms(1,2), of label])
  fix w' assume run: "decrypt_aead_optional x co aad label w = (Inr vo, w')" "held (w_broker w') fs"
  have "w_db w' = w_db w" using preserved_db [OF decrypt_optional_preserves] run(1) by (metis snd_conv)
  with run assms(3) show ?thesis by simp
qed

text \<open>A stored value read in another context of \<open>A\<close> fails authentication.\<close>

lemma decrypt_other_context:
  assumes "aead_binds A x" and "aad \<in> A" and "aad' \<in> A" and "aad \<noteq> aad'"
    and "encrypt_with_new_aead x (as_bytes v) aad label w = (Inr c, w')"
    and "w_broker w2 = w_broker w'"
  shows "fst (decrypt_with_broker x c aad' label' w2) = Inl (Encryption ''decryption failed'')"
proof -
  from assms(5) obtain l t ct where
    mint: "adapter_mint_aead_key_v2 x (mint_params label) (w_broker w) = (Inr l, w_broker w')"
    and t: "ml_redeem_token l = Some t"
    and ct: "aes_encrypt_with_aad x (system_random x (w_ticks w)) (ml_key l) (as_bytes v) aad = Inr ct"
    and c: "c = encode_aead_payload x (ml_handle l) t ct"
    by (rule encrypt_InrE)
  from ct obtain n where n: "system_random x (w_ticks w) = Some n"
    by (auto simp: aes_encrypt_with_aad_Inr)
  note strings = mint_strings [OF mint t]
  have dec: "decode_aead_payload x c = Inr (ml_handle l, Some t, ct)"
    using strings base64 by (simp add: c decode_encode_payload)
  have live: "live (w_broker w2) (ml_handle l, t) = Some (ml_key l)"
    using mint_live [OF mint t] assms(6) by simp
  obtain b where un: "adapter_unwrap_secret_v2 x (token_params (ml_handle l) t) (w_broker w2) = (Inr (ml_key l), b)"
    using unwrap_live [OF live] strings by (metis prod.collapse)
  have "aes_decrypt_with_aad x (ml_key l) ct aad' = Inl (Encryption ''decryption failed'')"
    using aes_other_context [OF aead assms(1-4) nonce_length [OF n]] ct n by simp
  from decrypt_not_opened [OF dec un this] show ?thesis .
qed

end

end
