(* ===== verification/Credentials.thy ===== *)
theory Credentials
  imports Protected
begin

text \<open>
  The credential operations of \<^verbatim>\<open>src/tor_auth.rs\<close> on \<^verbatim>\<open>gateway_secrets.tor_auth_credentials\<close>:
  each SQL statement as a function on the database (constants named after it, collected in
  \<open>sql_defs\<close>), each method as the operation that runs it.
\<close>

section \<open>Records\<close>

record TorCredential =
  tc_id :: uuid
  tc_onion_entry :: string
  tc_tier :: string
  tc_credential_hash :: string
  tc_operational_onion :: "string option"
  tc_guard_nodes :: "string list"
  tc_created_at :: time
  tc_updated_at :: time
  tc_expires_at :: "time option"
  tc_disabled :: bool
  tc_rate_limit_per_minute :: int
  tc_last_rotated_at :: "time option"

definition credential_from_row :: "tor_credential_row \<Rightarrow> TorCredential" where
  "credential_from_row row =
     \<lparr>tc_id = cr_id row, tc_onion_entry = cr_onion_entry row, tc_tier = cr_tier row,
      tc_credential_hash = cr_credential_hash row, tc_operational_onion = cr_operational_onion row,
      tc_guard_nodes = (case cr_guard_nodes row of None \<Rightarrow> [] | Some g \<Rightarrow> g),
      tc_created_at = cr_created_at row, tc_updated_at = cr_updated_at row,
      tc_expires_at = cr_expires_at row, tc_disabled = cr_disabled row,
      tc_rate_limit_per_minute = cr_rate_limit_per_minute row,
      tc_last_rotated_at = cr_last_rotated_at row\<rparr>"


section \<open>Statements\<close>

definition select_credential_by_onion :: "string \<Rightarrow> tor_credential_row option stmt" where
  [sql_defs]: "select_credential_by_onion onion_entry n now d =
     Inr (find (\<lambda>c. cr_onion_entry c = onion_entry) (tor_auth_credentials d), d)"

definition select_credential_by_id :: "uuid \<Rightarrow> tor_credential_row option stmt" where
  [sql_defs]: "select_credential_by_id cid n now d =
     Inr (find (\<lambda>c. cr_id c = cid) (tor_auth_credentials d), d)"

definition count_enabled_credentials :: "int stmt" where
  [sql_defs]: "count_enabled_credentials n now d =
     Inr (int (rows_where (\<lambda>c. \<not> cr_disabled c) (tor_auth_credentials d)), d)"

text \<open>\<^verbatim>\<open>UPDATE ... SET\<close> on the credentials: the new rows are checked against the unique index.\<close>

definition update_credentials ::
  "(tor_credential_row \<Rightarrow> bool) \<Rightarrow> (tor_credential_row \<Rightarrow> tor_credential_row) \<Rightarrow> database \<Rightarrow>
   sqlx_error + unit \<times> database" where
  [sql_defs]: "update_credentials p f d =
     (let rows = update_where p f (tor_auth_credentials d) in
      if distinct (map cr_onion_entry rows) then Inr ((), d\<lparr>tor_auth_credentials := rows\<rparr>)
      else Inl (UniqueViolation ''tor_auth_credentials_onion_entry_key''))"

definition rotated :: "string \<Rightarrow> string list \<Rightarrow> time \<Rightarrow> tor_credential_row \<Rightarrow> tor_credential_row" where
  "rotated new_onion guard_nodes now c =
     c\<lparr>cr_operational_onion := Some new_onion, cr_guard_nodes := Some guard_nodes,
       cr_last_rotated_at := Some now, cr_updated_at := now\<rparr>"

definition entry_set :: "string \<Rightarrow> string list \<Rightarrow> time \<Rightarrow> tor_credential_row \<Rightarrow> tor_credential_row" where
  "entry_set entry_onion guard_nodes now c =
     c\<lparr>cr_onion_entry := entry_onion, cr_guard_nodes := Some guard_nodes, cr_updated_at := now\<rparr>"

definition disabled_set :: "bool \<Rightarrow> time \<Rightarrow> tor_credential_row \<Rightarrow> tor_credential_row" where
  "disabled_set disabled now c = c\<lparr>cr_disabled := disabled, cr_updated_at := now\<rparr>"

text \<open>The \<^verbatim>\<open>DO UPDATE SET\<close> list of the bootstrap import; \<open>e\<close> is the row it proposed (\<^verbatim>\<open>EXCLUDED\<close>).\<close>

definition reimported :: "tor_credential_row \<Rightarrow> time \<Rightarrow> tor_credential_row \<Rightarrow> tor_credential_row" where
  "reimported e now c =
     c\<lparr>cr_onion_entry := cr_onion_entry e, cr_tier := cr_tier e,
       cr_credential_hash := cr_credential_hash e, cr_guard_nodes := cr_guard_nodes e,
       cr_rate_limit_per_minute := cr_rate_limit_per_minute e, cr_expires_at := cr_expires_at e,
       cr_updated_at := now, cr_disabled := False\<rparr>"

text \<open>
  The trigger that runs before every update of a credential row. Each update of the crate sets the
  column itself, so it adds nothing (\<open>trigger_adds_nothing\<close>) and is left out of \<open>update_credentials\<close>.
\<close>

definition touch_updated_at :: "time \<Rightarrow> tor_credential_row \<Rightarrow> tor_credential_row" where
  "touch_updated_at now c = c\<lparr>cr_updated_at := now\<rparr>"

text \<open>The row both inserts propose; the columns they do not name take their defaults.\<close>

definition new_credential_row ::
  "uuid \<Rightarrow> string \<Rightarrow> string \<Rightarrow> string \<Rightarrow> string list \<Rightarrow> int \<Rightarrow> time option \<Rightarrow> time \<Rightarrow> tor_credential_row" where
  "new_credential_row cid onion_entry tier credential_hash guard_nodes rate_limit expires_at created =
     \<lparr>cr_id = cid, cr_onion_entry = onion_entry, cr_tier = tier, cr_credential_hash = credential_hash,
      cr_operational_onion = None, cr_guard_nodes = Some guard_nodes, cr_created_at = created,
      cr_updated_at = created, cr_expires_at = expires_at, cr_disabled = False,
      cr_rate_limit_per_minute = rate_limit, cr_last_rotated_at = None\<rparr>"

definition insert_credential :: "tor_credential_row \<Rightarrow> unit stmt" where
  [sql_defs]: "insert_credential r n now d =
     (if cr_id r \<in> cr_id ` set (tor_auth_credentials d)
      then Inl (UniqueViolation ''tor_auth_credentials_pkey'')
      else if cr_onion_entry r \<in> cr_onion_entry ` set (tor_auth_credentials d)
      then Inl (UniqueViolation ''tor_auth_credentials_onion_entry_key'')
      else Inr ((), d\<lparr>tor_auth_credentials := tor_auth_credentials d @ [r]\<rparr>))"

definition upsert_credential :: "tor_credential_row \<Rightarrow> unit stmt" where
  [sql_defs]: "upsert_credential r n now d =
     (if cr_id r \<in> cr_id ` set (tor_auth_credentials d)
      then update_credentials (\<lambda>c. cr_id c = cr_id r) (reimported r now) d
      else insert_credential r n now d)"

definition select_credentials :: "int \<Rightarrow> tor_credential_row list stmt" where
  [sql_defs]: "select_credentials l n now d =
     bindE (sql_limit l (sort_key cr_created_at (tor_auth_credentials d))) (\<lambda>rows. Inr (rows, d))"

text \<open>\<^verbatim>\<open>ON DELETE CASCADE\<close>: the sessions and tickets of a deleted credential go with it.\<close>

definition delete_credential :: "uuid \<Rightarrow> nat stmt" where
  [sql_defs]: "delete_credential cid n now d =
     Inr (rows_where (\<lambda>c. cr_id c = cid) (tor_auth_credentials d),
       d\<lparr>tor_auth_credentials := filter (\<lambda>c. cr_id c \<noteq> cid) (tor_auth_credentials d),
         tor_auth_sessions := filter (\<lambda>s. se_credential_id s \<noteq> cid) (tor_auth_sessions d),
         tor_access_tickets := filter (\<lambda>t. tk_credential_id t \<noteq> cid) (tor_access_tickets d)\<rparr>)"


section \<open>Operations\<close>

definition fetch_tor_credential ::
  "('b, 'z) ext_scheme \<Rightarrow> string \<Rightarrow> ('b, TorCredential option) db_op" where
  "fetch_tor_credential x onion_entry =
     bindM (exec_stmt x (select_credential_by_onion onion_entry))
       (\<lambda>r. returnM (map_option credential_from_row r))"

definition fetch_tor_credential_by_id ::
  "('b, 'z) ext_scheme \<Rightarrow> uuid \<Rightarrow> ('b, TorCredential option) db_op" where
  "fetch_tor_credential_by_id x credential_id =
     bindM (exec_stmt x (select_credential_by_id credential_id))
       (\<lambda>r. returnM (map_option credential_from_row r))"

definition count_active_credentials :: "('b, 'z) ext_scheme \<Rightarrow> ('b, int) db_op" where
  "count_active_credentials x = exec_stmt x count_enabled_credentials"

definition rotate_operational_onion ::
  "('b, 'z) ext_scheme \<Rightarrow> uuid \<Rightarrow> string \<Rightarrow> string list \<Rightarrow> ('b, unit) db_op" where
  "rotate_operational_onion x credential_id new_onion guard_nodes =
     exec_stmt x (\<lambda>n now. update_credentials (\<lambda>c. cr_id c = credential_id) (rotated new_onion guard_nodes now))"

definition set_entry_onion ::
  "('b, 'z) ext_scheme \<Rightarrow> uuid \<Rightarrow> string \<Rightarrow> string list \<Rightarrow> ('b, unit) db_op" where
  "set_entry_onion x credential_id entry_onion guard_nodes =
     exec_stmt x (\<lambda>n now. update_credentials (\<lambda>c. cr_id c = credential_id) (entry_set entry_onion guard_nodes now))"

definition new_credential ::
  "uuid \<Rightarrow> string \<Rightarrow> string \<Rightarrow> string \<Rightarrow> string list \<Rightarrow> int \<Rightarrow> time option \<Rightarrow> time \<Rightarrow> TorCredential" where
  "new_credential cid entry_onion tier credential_hash guard_nodes rate_limit expires_at now =
     \<lparr>tc_id = cid, tc_onion_entry = trim entry_onion, tc_tier = tier,
      tc_credential_hash = credential_hash, tc_operational_onion = None,
      tc_guard_nodes = guard_nodes, tc_created_at = now, tc_updated_at = now,
      tc_expires_at = expires_at, tc_disabled = False, tc_rate_limit_per_minute = rate_limit,
      tc_last_rotated_at = None\<rparr>"

definition import_bootstrap_tor_credential ::
  "('b, 'z) ext_scheme \<Rightarrow> uuid \<Rightarrow> string \<Rightarrow> string \<Rightarrow> string \<Rightarrow> int \<Rightarrow> time option \<Rightarrow> string list \<Rightarrow>
   ('b, TorCredential) db_op" where
  "import_bootstrap_tor_credential x credential_id entry_onion credential_hash tier rate_limit
       expires_at guard_nodes =
     bindM tick (\<lambda>n.
     let now = clock x n in
     bindM (exec_stmt x (upsert_credential
              (new_credential_row credential_id (trim entry_onion) tier credential_hash guard_nodes
                 rate_limit expires_at now))) (\<lambda>_.
     returnM (new_credential credential_id entry_onion tier credential_hash guard_nodes rate_limit
                expires_at now)))"

definition create_tor_credential ::
  "('b, 'z) ext_scheme \<Rightarrow> string \<Rightarrow> string \<Rightarrow> string \<Rightarrow> int \<Rightarrow> time option \<Rightarrow> string list \<Rightarrow>
   ('b, TorCredential) db_op" where
  "create_tor_credential x entry_onion credential_hash tier rate_limit expires_at guard_nodes =
     bindM tick (\<lambda>i.
     bindM tick (\<lambda>n.
     let cid = random_uuid x i; now = clock x n in
     bindM (exec_stmt x (insert_credential
              (new_credential_row cid (trim entry_onion) tier credential_hash guard_nodes
                 rate_limit expires_at now))) (\<lambda>_.
     returnM (new_credential cid entry_onion tier credential_hash guard_nodes rate_limit
                expires_at now))))"

definition list_tor_credentials ::
  "('b, 'z) ext_scheme \<Rightarrow> int \<Rightarrow> ('b, TorCredential list) db_op" where
  "list_tor_credentials x l =
     (let capped_limit = (if l \<le> 0 then 100 else min l 1000) in
      bindM (exec_stmt x (select_credentials capped_limit))
        (\<lambda>records. returnM (map credential_from_row records)))"

definition update_tor_credential_disabled ::
  "('b, 'z) ext_scheme \<Rightarrow> uuid \<Rightarrow> bool \<Rightarrow> ('b, unit) db_op" where
  "update_tor_credential_disabled x cid disabled =
     exec_stmt x (\<lambda>n now. update_credentials (\<lambda>c. cr_id c = cid) (disabled_set disabled now))"

definition delete_tor_credential :: "('b, 'z) ext_scheme \<Rightarrow> uuid \<Rightarrow> ('b, bool) db_op" where
  "delete_tor_credential x cid =
     bindM (exec_stmt x (delete_credential cid)) (\<lambda>affected. returnM (affected > 0))"


section \<open>Facts: rows keep their identity\<close>

lemma trigger_adds_nothing:
  "touch_updated_at now (rotated new_onion guard_nodes now c) = rotated new_onion guard_nodes now c"
  "touch_updated_at now (entry_set entry_onion guard_nodes now c) = entry_set entry_onion guard_nodes now c"
  "touch_updated_at now (disabled_set disabled now c) = disabled_set disabled now c"
  "touch_updated_at now (reimported e now c) = reimported e now c"
  by (simp_all add: touch_updated_at_def rotated_def entry_set_def disabled_set_def reimported_def)

interpretation rotate_key: key_update cr_id "rotated new_onion guard_nodes now"
  for new_onion guard_nodes now
  by unfold_locales (simp add: rotated_def)

interpretation entry_key: key_update cr_id "entry_set entry_onion guard_nodes now"
  for entry_onion guard_nodes now
  by unfold_locales (simp add: entry_set_def)

interpretation disabled_key: key_update cr_id "disabled_set disabled now"
  for disabled now
  by unfold_locales (simp add: disabled_set_def)

interpretation reimport_key: key_update cr_id "reimported e now"
  for e now
  by unfold_locales (simp add: reimported_def)

interpretation rotate_entry: key_update cr_onion_entry "rotated new_onion guard_nodes now"
  for new_onion guard_nodes now
  by unfold_locales (simp add: rotated_def)

interpretation disabled_entry: key_update cr_onion_entry "disabled_set disabled now"
  for disabled now
  by unfold_locales (simp add: disabled_set_def)


section \<open>Facts: the constraints are kept\<close>

lemma schema_ok_credentials:
  assumes "schema_ok d" and "credentials_ok rows"
    and "cr_id ` set (tor_auth_credentials d) \<subseteq> cr_id ` set rows"
  shows "schema_ok (d\<lparr>tor_auth_credentials := rows\<rparr>)"
  using assms unfolding schema_ok_def sessions_ok_def tickets_ok_def list_all_iff by auto

lemma update_credentials_ok:
  assumes "schema_ok d" and "update_credentials p f d = Inr (u, d')"
    and "\<And>c. cr_id (f c) = cr_id c"
    and "\<And>c. cr_guard_nodes c \<noteq> None \<Longrightarrow> cr_guard_nodes (f c) \<noteq> None"
  shows "schema_ok d'"
proof -
  let ?rows = "update_where p f (tor_auth_credentials d)"
  have ids: "map cr_id ?rows = map cr_id (tor_auth_credentials d)"
    using assms(3) by (simp add: update_where_def)
  from assms(2) have d': "d' = d\<lparr>tor_auth_credentials := ?rows\<rparr>"
    and onions: "distinct (map cr_onion_entry ?rows)"
    by (auto simp: update_credentials_def Let_def split: if_splits)
  from assms(1) have "credentials_ok (tor_auth_credentials d)" by (simp add: schema_ok_def)
  then have "credentials_ok ?rows"
    using ids onions assms(4) by (auto simp: credentials_ok_def intro: list_all_update_where)
  moreover have "cr_id ` set ?rows = cr_id ` set (tor_auth_credentials d)"
    using arg_cong [OF ids, of set] by simp
  ultimately show ?thesis
    unfolding d' by (intro schema_ok_credentials [OF assms(1)]) auto
qed

lemma insert_credential_ok:
  assumes "schema_ok d" and "insert_credential r n now d = Inr (u, d')"
    and "cr_guard_nodes r \<noteq> None"
  shows "schema_ok d'"
proof -
  from assms(2) have d': "d' = d\<lparr>tor_auth_credentials := tor_auth_credentials d @ [r]\<rparr>"
    and new: "cr_id r \<notin> cr_id ` set (tor_auth_credentials d)"
      "cr_onion_entry r \<notin> cr_onion_entry ` set (tor_auth_credentials d)"
    by (auto simp: insert_credential_def split: if_splits)
  from assms(1) have "credentials_ok (tor_auth_credentials d)" by (simp add: schema_ok_def)
  then have "credentials_ok (tor_auth_credentials d @ [r])"
    using new assms(3) by (simp add: credentials_ok_def)
  then show ?thesis
    unfolding d' by (intro schema_ok_credentials [OF assms(1)]) auto
qed

lemma delete_credential_ok:
  assumes "schema_ok d" and "delete_credential cid n now d = Inr (u, d')"
  shows "schema_ok d'"
proof -
  from assms(2) have d': "d' = d\<lparr>tor_auth_credentials := filter (\<lambda>c. cr_id c \<noteq> cid) (tor_auth_credentials d),
         tor_auth_sessions := filter (\<lambda>s. se_credential_id s \<noteq> cid) (tor_auth_sessions d),
         tor_access_tickets := filter (\<lambda>t. tk_credential_id t \<noteq> cid) (tor_access_tickets d)\<rparr>"
    by (simp add: delete_credential_def)
  from assms(1) show ?thesis
    unfolding d' schema_ok_def credentials_ok_def sessions_ok_def tickets_ok_def
    by (auto simp: list_all_iff indexed_sessions_filter)
qed

lemma new_credential_row_guards [simp]:
  "cr_guard_nodes (new_credential_row cid onion t h g r e c) = Some g"
  by (simp add: new_credential_row_def)

lemma upsert_credential_ok:
  assumes "schema_ok d" and "upsert_credential r n now d = Inr (u, d')"
    and "cr_guard_nodes r \<noteq> None"
  shows "schema_ok d'"
proof (cases "cr_id r \<in> cr_id ` set (tor_auth_credentials d)")
  case True
  with assms(2) have "update_credentials (\<lambda>c. cr_id c = cr_id r) (reimported r now) d = Inr (u, d')"
    by (simp add: upsert_credential_def)
  then show ?thesis
    by (rule update_credentials_ok [OF assms(1)]) (use assms(3) in \<open>simp_all add: reimported_def\<close>)
next
  case False
  with assms(2) have "insert_credential r n now d = Inr (u, d')"
    by (simp add: upsert_credential_def)
  then show ?thesis by (rule insert_credential_ok [OF assms(1) _ assms(3)])
qed

lemma credential_stmts_keep_schema [preserves_rules]:
  "stmt_keeps schema_ok (select_credential_by_onion onion)"
  "stmt_keeps schema_ok (select_credential_by_id cid)"
  "stmt_keeps schema_ok count_enabled_credentials"
  "stmt_keeps schema_ok (select_credentials l)"
  "stmt_keeps schema_ok (delete_credential cid)"
  "stmt_keeps schema_ok (insert_credential (new_credential_row cid onion tier h g rl ex cre))"
  "stmt_keeps schema_ok (upsert_credential (new_credential_row cid onion tier h g rl ex cre))"
  "stmt_keeps schema_ok (\<lambda>n now. update_credentials p (rotated onion g now))"
  "stmt_keeps schema_ok (\<lambda>n now. update_credentials p (entry_set onion g now))"
  "stmt_keeps schema_ok (\<lambda>n now. update_credentials p (disabled_set dis now))"
  by (auto intro!: stmt_keepsI elim: delete_credential_ok insert_credential_ok upsert_credential_ok
        update_credentials_ok
      simp: select_credential_by_onion_def select_credential_by_id_def count_enabled_credentials_def
        select_credentials_def bindE_eq_Inr
        rotated_def entry_set_def disabled_set_def
      split: if_splits)

lemma credential_stmts_keep_sealed [preserves_rules]:
  "stmt_keeps sealed_at_rest (select_credential_by_onion onion)"
  "stmt_keeps sealed_at_rest (select_credential_by_id cid)"
  "stmt_keeps sealed_at_rest count_enabled_credentials"
  "stmt_keeps sealed_at_rest (select_credentials l)"
  "stmt_keeps sealed_at_rest (delete_credential cid)"
  "stmt_keeps sealed_at_rest (insert_credential r)"
  "stmt_keeps sealed_at_rest (upsert_credential r)"
  "stmt_keeps sealed_at_rest (\<lambda>n now. update_credentials p (f now))"
  by (auto intro!: stmt_keepsI simp: sql_defs sealed_at_rest_def bindE_eq_Inr list_all_iff Let_def
      split: if_splits)


lemmas credential_op_defs =
  fetch_tor_credential_def fetch_tor_credential_by_id_def count_active_credentials_def
  rotate_operational_onion_def set_entry_onion_def import_bootstrap_tor_credential_def
  create_tor_credential_def list_tor_credentials_def update_tor_credential_disabled_def
  delete_tor_credential_def

lemma credential_ops_keep_schema:
  "preserves (db_pred schema_ok) (fetch_tor_credential x onion)"
  "preserves (db_pred schema_ok) (fetch_tor_credential_by_id x cid)"
  "preserves (db_pred schema_ok) (count_active_credentials x)"
  "preserves (db_pred schema_ok) (rotate_operational_onion x cid onion g)"
  "preserves (db_pred schema_ok) (set_entry_onion x cid onion g)"
  "preserves (db_pred schema_ok) (import_bootstrap_tor_credential x cid onion h tier rl ex g)"
  "preserves (db_pred schema_ok) (create_tor_credential x onion h tier rl ex g)"
  "preserves (db_pred schema_ok) (list_tor_credentials x l)"
  "preserves (db_pred schema_ok) (update_tor_credential_disabled x cid dis)"
  "preserves (db_pred schema_ok) (delete_tor_credential x cid)"
  unfolding credential_op_defs Let_def by (intro preserves_rules)+

lemma credential_ops_keep_sealed:
  "preserves (db_pred sealed_at_rest) (fetch_tor_credential x onion)"
  "preserves (db_pred sealed_at_rest) (fetch_tor_credential_by_id x cid)"
  "preserves (db_pred sealed_at_rest) (count_active_credentials x)"
  "preserves (db_pred sealed_at_rest) (rotate_operational_onion x cid onion g)"
  "preserves (db_pred sealed_at_rest) (set_entry_onion x cid onion g)"
  "preserves (db_pred sealed_at_rest) (import_bootstrap_tor_credential x cid onion h tier rl ex g)"
  "preserves (db_pred sealed_at_rest) (create_tor_credential x onion h tier rl ex g)"
  "preserves (db_pred sealed_at_rest) (list_tor_credentials x l)"
  "preserves (db_pred sealed_at_rest) (update_tor_credential_disabled x cid dis)"
  "preserves (db_pred sealed_at_rest) (delete_tor_credential x cid)"
  unfolding credential_op_defs Let_def by (intro preserves_rules)+

end
