(* ===== verification/Sessions.thy ===== *)
theory Sessions
  imports Protected Sql_Time
begin

text \<open>
  The session operations of \<^verbatim>\<open>src/tor_auth.rs\<close> on \<^verbatim>\<open>gateway_secrets.tor_auth_sessions\<close>. The
  client's onion is a protected field: sealed before the insert, opened by
  \<^verbatim>\<open>TorSessionRow::into_record\<close>.
\<close>

section \<open>Records and statements\<close>

record TorSessionRecord =
  sr_id :: uuid
  sr_credential_id :: uuid
  sr_circuit_id :: "string option"
  sr_fingerprint :: "string option"
  sr_guard_nodes :: "string list"
  sr_client_onion :: "string option"
  sr_expires_at :: "time option"

definition session_aad :: "'z codec_scheme \<Rightarrow> uuid \<Rightarrow> bytes" where
  "session_aad x sid =
     record_bound_aad x ''gateway_secrets.tor_auth_sessions'' ''client_onion'' sid CLIENT_ONION_AAD"

definition insert_session :: "(time \<Rightarrow> tor_session_row) \<Rightarrow> unit stmt" where
  [sql_defs]: "insert_session row n now d =
     (let r = row now in
      if se_id r \<in> se_id ` set (tor_auth_sessions d)
      then Inl (UniqueViolation ''tor_auth_sessions_pkey'')
      else if se_credential_id r \<notin> cr_id ` set (tor_auth_credentials d)
      then Inl (ForeignKeyViolation ''tor_auth_sessions_credential_id_fkey'')
      else Inr ((), d\<lparr>tor_auth_sessions := tor_auth_sessions d @ [r]\<rparr>))"

text \<open>The row of the insert; \<^verbatim>\<open>issued_at\<close> takes its default.\<close>

definition recorded_row :: "TorSessionRecord \<Rightarrow> uuid \<Rightarrow> string option \<Rightarrow> time \<Rightarrow> tor_session_row" where
  "recorded_row session session_key client_onion_db now =
     \<lparr>se_id = sr_id session, se_credential_id = sr_credential_id session,
      se_session_key = session_key, se_circuit_id = sr_circuit_id session,
      se_fingerprint = sr_fingerprint session, se_guard_nodes = Some (sr_guard_nodes session),
      se_client_onion = client_onion_db, se_issued_at = now,
      se_expires_at = sr_expires_at session\<rparr>"

definition count_sessions_since :: "uuid \<Rightarrow> int \<Rightarrow> int stmt" where
  [sql_defs]: "count_sessions_since credential_id window_seconds n now d =
     bindE (seconds_before now window_seconds) (\<lambda>t.
       Inr (int (rows_where (\<lambda>s. se_credential_id s = credential_id \<and> se_issued_at s \<ge> t)
                   (tor_auth_sessions d)), d))"

definition session_active :: "time \<Rightarrow> tor_session_row \<Rightarrow> bool" where
  "session_active now s \<longleftrightarrow> (case se_expires_at s of None \<Rightarrow> True | Some e \<Rightarrow> e > now)"

definition count_unexpired_sessions :: "int stmt" where
  [sql_defs]: "count_unexpired_sessions n now d =
     Inr (int (rows_where (session_active now) (tor_auth_sessions d)), d)"

definition count_sessions :: "int stmt" where
  [sql_defs]: "count_sessions n now d = Inr (int (length (tor_auth_sessions d)), d)"

definition select_session :: "uuid \<Rightarrow> tor_session_row option stmt" where
  [sql_defs]: "select_session sid n now d =
     Inr (find (\<lambda>s. se_id s = sid) (tor_auth_sessions d), d)"


section \<open>Operations\<close>

definition record_tor_session ::
  "('b, 'z) ext_scheme \<Rightarrow> TorSessionRecord \<Rightarrow> ('b, unit) db_op" where
  "record_tor_session x session =
     bindM (ensure_aead_encrypted x (sr_client_onion session) (session_aad x (sr_id session))
              ''tor-session-client-onion'') (\<lambda>client_onion_db.
     bindM tick (\<lambda>i.
     exec_stmt x (insert_session (recorded_row session (random_uuid x i) client_onion_db))))"

definition count_recent_sessions ::
  "('b, 'z) ext_scheme \<Rightarrow> uuid \<Rightarrow> int \<Rightarrow> ('b, int) db_op" where
  "count_recent_sessions x credential_id window_seconds =
     exec_stmt x (count_sessions_since credential_id window_seconds)"

definition count_active_sessions :: "('b, 'z) ext_scheme \<Rightarrow> ('b, int) db_op" where
  "count_active_sessions x = exec_stmt x count_unexpired_sessions"

definition count_total_sessions :: "('b, 'z) ext_scheme \<Rightarrow> ('b, int) db_op" where
  "count_total_sessions x = exec_stmt x count_sessions"

definition session_into_record ::
  "('b, 'z) ext_scheme \<Rightarrow> tor_session_row \<Rightarrow> ('b, TorSessionRecord) db_op" where
  "session_into_record x row =
     bindM (decrypt_aead_optional x (se_client_onion row) (session_aad x (se_id row))
              ''tor-session-client-onion'') (\<lambda>decrypted_onion.
     returnM
       \<lparr>sr_id = se_id row, sr_credential_id = se_credential_id row,
        sr_circuit_id = se_circuit_id row, sr_fingerprint = se_fingerprint row,
        sr_guard_nodes = (case se_guard_nodes row of None \<Rightarrow> [] | Some g \<Rightarrow> g),
        sr_client_onion = decrypted_onion, sr_expires_at = se_expires_at row\<rparr>)"

definition fetch_tor_session ::
  "('b, 'z) ext_scheme \<Rightarrow> uuid \<Rightarrow> ('b, TorSessionRecord option) db_op" where
  "fetch_tor_session x session_id =
     bindM (exec_stmt x (select_session session_id)) (\<lambda>row.
       case row of
         Some r \<Rightarrow> bindM (session_into_record x r) (\<lambda>s. returnM (Some s))
       | None \<Rightarrow> returnM None)"


section \<open>Facts\<close>

lemma insert_session_ok:
  assumes "schema_ok d" and "insert_session row n now d = Inr (u, d')"
    and "se_guard_nodes (row now) \<noteq> None"
  shows "schema_ok d'"
  using assms
  by (auto simp: insert_session_def Let_def schema_ok_def sessions_ok_def list_all_iff split: if_splits)

lemma insert_session_sealed:
  assumes "sealed_at_rest d" and "insert_session row n now d = Inr (u, d')"
    and "session_sealed (row now)"
  shows "sealed_at_rest d'"
  using assms by (auto simp: insert_session_def Let_def sealed_at_rest_def split: if_splits)

lemma session_stmts_keep [preserves_rules]:
  "stmt_keeps P (count_sessions_since cid ws)"
  "stmt_keeps P count_unexpired_sessions"
  "stmt_keeps P count_sessions"
  "stmt_keeps P (select_session sid)"
  by (auto intro!: stmt_keepsI simp: sql_defs bindE_eq_Inr)

lemma session_into_record_preserves [preserves_rules]:
  "preserves (db_pred P) (session_into_record x row)"
  unfolding session_into_record_def by (intro preserves_rules)

lemma fetch_tor_session_preserves: "preserves (db_pred P) (fetch_tor_session x sid)"
  unfolding fetch_tor_session_def by (auto intro!: preserves_rules split: option.split)

lemma session_counts_keep:
  "preserves (db_pred P) (count_recent_sessions x cid ws)"
  "preserves (db_pred P) (count_active_sessions x)"
  "preserves (db_pred P) (count_total_sessions x)"
  unfolding count_recent_sessions_def count_active_sessions_def count_total_sessions_def
  by (intro preserves_rules)+

lemma insert_recorded_ok [preserves_rules]: "stmt_keeps schema_ok (insert_session (recorded_row s k co))"
  by (auto intro!: stmt_keepsI elim: insert_session_ok simp: recorded_row_def)

text \<open>
  The insert seals only because the value it binds came out of \<open>ensure_aead_encrypted\<close>, so this
  needs what that returned.
\<close>

lemma insert_recorded_sealed:
  "case co of None \<Rightarrow> True | Some c \<Rightarrow> is_aead_payload_v2 c \<Longrightarrow>
     stmt_keeps sealed_at_rest (insert_session (recorded_row s k co))"
  by (auto intro!: stmt_keepsI elim!: insert_session_sealed simp: session_sealed_def recorded_row_def)


section \<open>Facts: the protected field of a session\<close>

lemma insert_session_appends:
  "insert_session row n now d = Inr (u, d') \<Longrightarrow>
     d' = d\<lparr>tor_auth_sessions := tor_auth_sessions d @ [row now]\<rparr>
   \<and> se_id (row now) \<notin> se_id ` set (tor_auth_sessions d)"
  by (auto simp: insert_session_def Let_def split: if_splits)

context broker_contract
begin

lemma record_stores:
  assumes "record_tor_session x s w = (Inr u, w')" and "plain_option (sr_client_onion s)"
  obtains k co now where
    "w_db w' = (w_db w)\<lparr>tor_auth_sessions := tor_auth_sessions (w_db w) @ [recorded_row s k co now]\<rparr>"
    "sr_id s \<notin> se_id ` set (tor_auth_sessions (w_db w))"
    "held (w_broker w') (optional_field (session_aad x (sr_id s)) co (sr_client_onion s) @ [])"
    "co = None \<longleftrightarrow> sr_client_onion s = None"
proof (rule ensure_bindE [OF assms(1) [unfolded record_tor_session_def] held_Nil assms(2)])
  fix co w1
  assume run: "bindM tick (\<lambda>i. exec_stmt x (insert_session (recorded_row s (random_uuid x i) co))) w1 = (Inr u, w')"
    and h: "held (w_broker w1) (optional_field (session_aad x (sr_id s)) co (sr_client_onion s) @ [])"
    and co: "co = None \<longleftrightarrow> sr_client_onion s = None" and db: "w_db w1 = w_db w"
  let ?row = "recorded_row s (random_uuid x (w_ticks w1)) co (clock x (Suc (w_ticks w1)))"
  from run db have d: "w_db w' = (w_db w)\<lparr>tor_auth_sessions := tor_auth_sessions (w_db w) @ [?row]\<rparr>"
    and new: "se_id ?row \<notin> se_id ` set (tor_auth_sessions (w_db w))" and b: "w_broker w' = w_broker w1"
    by (auto elim!: bindM_eq_InrE exec_stmt_InrD dest!: insert_session_appends)
  from new have "sr_id s \<notin> se_id ` set (tor_auth_sessions (w_db w))" by (simp add: recorded_row_def)
  then show thesis by (rule that [OF d _ h [folded b] co])
qed

lemma fetch_recorded:
  assumes "find (\<lambda>r. se_id r = sr_id s) (tor_auth_sessions (w_db w)) = Some (recorded_row s k co now)"
    and "held (w_broker w) (optional_field (session_aad x (sr_id s)) co (sr_client_onion s) @ [])"
    and "co = None \<longleftrightarrow> sr_client_onion s = None"
    and "pg_network x (w_ticks w) = Delivered"
  shows "fst (fetch_tor_session x (sr_id s) w) = Inr (Some s)"
proof -
  let ?w = "w\<lparr>w_ticks := Suc (w_ticks w)\<rparr>" and ?row = "recorded_row s k co now"
  have sel: "exec_stmt x (select_session (sr_id s)) w = (Inr (Some ?row), ?w)"
    using exec_stmt_delivered [where f = "select_session (sr_id s)", OF assms(4)] assms(1)
    by (simp add: select_session_def)
  have row: "se_id ?row = sr_id s" "se_client_onion ?row = co"
    by (simp_all add: recorded_row_def)
  have "held (w_broker ?w) (optional_field (session_aad x (sr_id s)) co (sr_client_onion s) @ [])"
    using assms(2) by simp
  then show ?thesis
    unfolding fetch_tor_session_def bindM_Inr [where m = "exec_stmt x (select_session (sr_id s))", OF sel]
      option.case session_into_record_def bindM_assoc row
    by (rule decrypt_optional_run [where Q = "\<lambda>r. fst r = Inr (Some s)", OF _ assms(3)]) (simp add: recorded_row_def)
qed

end

end
