(* ===== verification/Tickets.thy ===== *)
theory Tickets
  imports Credentials Sessions
begin

text \<open>
  The ticket operations of \<^verbatim>\<open>src/tor_auth.rs\<close> on \<^verbatim>\<open>gateway_secrets.tor_access_tickets\<close>: issue
  (six protected fields sealed, one insert), verification read (the same fields opened), status
  read, redemption, expiry, garbage collection and the rate count.
\<close>

section \<open>Records\<close>

record NewTorAccessTicket =
  nt_id :: uuid
  nt_credential_id :: uuid
  nt_entry_onion :: string
  nt_token_hash :: string
  nt_expires_at :: time
  nt_client_fingerprint :: "string option"
  nt_client_auth_public_key :: string
  nt_client_auth_secret_path :: string
  nt_client_auth_secret_redeem_token :: "string option"
  nt_attestation_session_id :: uuid
  nt_attestation_nonce_digest :: string
  nt_attestation_quote_hash :: string
  nt_attested_at :: time
  nt_tee_kind :: string
  nt_tee_label :: "string option"
  nt_tee_policy :: "string option"
  nt_tls_pubkey_digest :: string

record IssuedTorAccessTicket =
  it_id :: uuid
  it_credential_id :: uuid
  it_entry_onion :: string
  it_client_fingerprint :: "string option"
  it_created_at :: time
  it_expires_at :: time
  it_redeemed_at :: "time option"
  it_redeemed_operational_onion :: "string option"
  it_client_auth_public_key :: string
  it_client_auth_secret_path :: string
  it_client_auth_secret_redeem_token :: "string option"
  it_attestation_session_id :: uuid
  it_attestation_nonce_digest :: string
  it_attestation_quote_hash :: string
  it_attested_at :: time
  it_tee_kind :: string
  it_tee_label :: "string option"
  it_tee_policy :: "string option"
  it_tls_pubkey_digest :: string

record TicketVerificationRecord =
  tv_id :: uuid
  tv_credential_id :: uuid
  tv_token_hash :: string
  tv_client_fingerprint :: "string option"
  tv_expires_at :: time
  tv_redeemed_at :: "time option"
  tv_client_auth_public_key :: string
  tv_client_auth_secret_path :: string
  tv_client_auth_secret_redeem_token :: "string option"
  tv_attestation_session_id :: uuid
  tv_attestation_nonce_digest :: string
  tv_attestation_quote_hash :: string
  tv_attested_at :: time
  tv_tee_kind :: string
  tv_tee_label :: "string option"
  tv_tee_policy :: "string option"
  tv_tls_pubkey_digest :: string

record TicketStatusRecord =
  ts_id :: uuid
  ts_credential_id :: uuid
  ts_expires_at :: time
  ts_redeemed_at :: "time option"


section \<open>Statements\<close>

definition ticket_aad :: "'z codec_scheme \<Rightarrow> string \<Rightarrow> uuid \<Rightarrow> bytes \<Rightarrow> bytes" where
  "ticket_aad x field tid purpose =
     record_bound_aad x ''gateway_secrets.tor_access_tickets'' field tid purpose"

text \<open>The row of the insert, with the columns it leaves to their defaults; the statement
  returns \<^verbatim>\<open>id, created_at, expires_at\<close>.\<close>

definition issued_row :: "NewTorAccessTicket \<Rightarrow> string \<Rightarrow> string \<Rightarrow> string option \<Rightarrow> string \<Rightarrow> string \<Rightarrow>
  string \<Rightarrow> time \<Rightarrow> tor_ticket_row" where
  "issued_row t public_key_db secret_path_db redeem_token_db nonce_db quote_db tls_db now =
     \<lparr>tk_id = nt_id t, tk_credential_id = nt_credential_id t, tk_token_hash = nt_token_hash t,
      tk_entry_onion = nt_entry_onion t, tk_client_fingerprint = nt_client_fingerprint t,
      tk_created_at = now, tk_expires_at = nt_expires_at t, tk_redeemed_at = None,
      tk_redeemed_operational_onion = None, tk_client_auth_public_key = public_key_db,
      tk_client_auth_secret_path = secret_path_db,
      tk_client_auth_secret_redeem_token = redeem_token_db,
      tk_attestation_session_id = nt_attestation_session_id t,
      tk_attestation_nonce_digest = nonce_db, tk_attestation_quote_hash = quote_db,
      tk_attested_at = nt_attested_at t, tk_tee_kind = nt_tee_kind t,
      tk_tee_label = nt_tee_label t, tk_tee_policy = nt_tee_policy t,
      tk_tls_pubkey_digest = tls_db\<rparr>"

definition insert_ticket :: "(time \<Rightarrow> tor_ticket_row) \<Rightarrow> (uuid \<times> time \<times> time) stmt" where
  [sql_defs]: "insert_ticket row n now d =
     (let r = row now in
      if tk_id r \<in> tk_id ` set (tor_access_tickets d)
      then Inl (UniqueViolation ''tor_access_tickets_pkey'')
      else if tk_attestation_session_id r \<noteq> 0
        \<and> tk_attestation_session_id r \<in> set (indexed_sessions (tor_access_tickets d))
      then Inl (UniqueViolation ''idx_tor_access_tickets_attestation_session'')
      else if tk_credential_id r \<notin> cr_id ` set (tor_auth_credentials d)
      then Inl (ForeignKeyViolation ''tor_access_tickets_credential_id_fkey'')
      else Inr ((tk_id r, tk_created_at r, tk_expires_at r),
                d\<lparr>tor_access_tickets := tor_access_tickets d @ [r]\<rparr>))"

definition select_ticket :: "uuid \<Rightarrow> tor_ticket_row option stmt" where
  [sql_defs]: "select_ticket tid n now d =
     Inr (find (\<lambda>t. tk_id t = tid) (tor_access_tickets d), d)"

definition update_tickets ::
  "(tor_ticket_row \<Rightarrow> bool) \<Rightarrow> (tor_ticket_row \<Rightarrow> tor_ticket_row) \<Rightarrow> database \<Rightarrow>
   sqlx_error + nat \<times> database" where
  [sql_defs]: "update_tickets p f d =
     Inr (rows_where p (tor_access_tickets d),
          d\<lparr>tor_access_tickets := update_where p f (tor_access_tickets d)\<rparr>)"

definition redeemed :: "string \<Rightarrow> time \<Rightarrow> tor_ticket_row \<Rightarrow> tor_ticket_row" where
  "redeemed onion now t = t\<lparr>tk_redeemed_operational_onion := Some onion, tk_redeemed_at := Some now\<rparr>"

definition expired_now :: "time \<Rightarrow> tor_ticket_row \<Rightarrow> tor_ticket_row" where
  "expired_now now t = t\<lparr>tk_expires_at := now - second\<rparr>"

definition collectable :: "time \<Rightarrow> time \<Rightarrow> tor_ticket_row \<Rightarrow> bool" where
  "collectable cutoff now t \<longleftrightarrow>
     tk_expires_at t < cutoff \<and> (tk_redeemed_at t \<noteq> None \<or> tk_expires_at t < now)"

definition delete_expired_tickets :: "int \<Rightarrow> nat stmt" where
  [sql_defs]: "delete_expired_tickets retention_days n now d =
     bindE (days_before now retention_days) (\<lambda>cutoff.
       Inr (rows_where (collectable cutoff now) (tor_access_tickets d),
            d\<lparr>tor_access_tickets :=
                filter (\<lambda>t. \<not> collectable cutoff now t) (tor_access_tickets d)\<rparr>))"

definition count_tickets_since :: "uuid \<Rightarrow> int \<Rightarrow> int stmt" where
  [sql_defs]: "count_tickets_since credential_id window_seconds n now d =
     bindE (seconds_before now window_seconds) (\<lambda>t.
       Inr (int (rows_where (\<lambda>k. tk_credential_id k = credential_id \<and> tk_created_at k > t)
                   (tor_access_tickets d)), d))"


section \<open>Operations\<close>

definition issue_tor_ticket ::
  "('b, 'z) ext_scheme \<Rightarrow> NewTorAccessTicket \<Rightarrow> ('b, IssuedTorAccessTicket) db_op" where
  "issue_tor_ticket x t =
     bindM (ensure_aead_encrypted_required x (nt_client_auth_public_key t)
              (ticket_aad x ''client_auth_public_key'' (nt_id t) TICKET_CLIENT_PUBLIC_KEY_AAD)
              ''tor-ticket-client-auth-public-key'' ''client_auth_public_key'') (\<lambda>public_key_db.
     bindM (ensure_aead_encrypted_required x (nt_client_auth_secret_path t)
              (ticket_aad x ''client_auth_secret_path'' (nt_id t) TICKET_CLIENT_SECRET_PATH_AAD)
              ''tor-ticket-client-auth-secret-path'' ''client_auth_secret_path'') (\<lambda>secret_path_db.
     bindM (ensure_aead_encrypted_required x (nt_attestation_nonce_digest t)
              (ticket_aad x ''attestation_nonce_digest'' (nt_id t) TICKET_ATTESTATION_NONCE_AAD)
              ''tor-ticket-attestation-nonce'' ''attestation_nonce_digest'') (\<lambda>nonce_db.
     bindM (ensure_aead_encrypted_required x (nt_attestation_quote_hash t)
              (ticket_aad x ''attestation_quote_hash'' (nt_id t) TICKET_ATTESTATION_QUOTE_AAD)
              ''tor-ticket-attestation-quote'' ''attestation_quote_hash'') (\<lambda>quote_db.
     bindM (ensure_aead_encrypted x (nt_client_auth_secret_redeem_token t)
              (ticket_aad x ''client_auth_secret_redeem_token'' (nt_id t) TICKET_CLIENT_SECRET_REDEEM_TOKEN_AAD)
              ''tor-ticket-client-auth-secret-redeem-token'') (\<lambda>redeem_token_db.
     bindM (ensure_aead_encrypted_required x (nt_tls_pubkey_digest t)
              (ticket_aad x ''tls_pubkey_digest'' (nt_id t) TICKET_TLS_PUBKEY_DIGEST_AAD)
              ''tor-ticket-tls-pubkey-digest'' ''tls_pubkey_digest'') (\<lambda>tls_db.
     bindM (exec_stmt x (insert_ticket
              (issued_row t public_key_db secret_path_db redeem_token_db nonce_db quote_db tls_db)))
       (\<lambda>(rid, created_at, expires_at).
     returnM
       \<lparr>it_id = rid, it_credential_id = nt_credential_id t, it_entry_onion = nt_entry_onion t,
        it_client_fingerprint = nt_client_fingerprint t, it_created_at = created_at,
        it_expires_at = expires_at, it_redeemed_at = None, it_redeemed_operational_onion = None,
        it_client_auth_public_key = nt_client_auth_public_key t,
        it_client_auth_secret_path = nt_client_auth_secret_path t,
        it_client_auth_secret_redeem_token = nt_client_auth_secret_redeem_token t,
        it_attestation_session_id = nt_attestation_session_id t,
        it_attestation_nonce_digest = nt_attestation_nonce_digest t,
        it_attestation_quote_hash = nt_attestation_quote_hash t,
        it_attested_at = nt_attested_at t, it_tee_kind = nt_tee_kind t,
        it_tee_label = nt_tee_label t, it_tee_policy = nt_tee_policy t,
        it_tls_pubkey_digest = nt_tls_pubkey_digest t\<rparr>)))))))"

definition fetch_tor_ticket_for_verification ::
  "('b, 'z) ext_scheme \<Rightarrow> uuid \<Rightarrow> ('b, TicketVerificationRecord option) db_op" where
  "fetch_tor_ticket_for_verification x ticket_id =
     bindM (exec_stmt x (select_ticket ticket_id)) (\<lambda>record.
     case record of
       None \<Rightarrow> returnM None
     | Some row \<Rightarrow>
     bindM (decrypt_aead_required x (tk_client_auth_public_key row)
              (ticket_aad x ''client_auth_public_key'' (tk_id row) TICKET_CLIENT_PUBLIC_KEY_AAD)
              ''tor-ticket-client-auth-public-key'' ''client_auth_public_key'') (\<lambda>public_key.
     bindM (decrypt_aead_required x (tk_client_auth_secret_path row)
              (ticket_aad x ''client_auth_secret_path'' (tk_id row) TICKET_CLIENT_SECRET_PATH_AAD)
              ''tor-ticket-client-auth-secret-path'' ''client_auth_secret_path'') (\<lambda>secret_path.
     bindM (decrypt_aead_optional x (tk_client_auth_secret_redeem_token row)
              (ticket_aad x ''client_auth_secret_redeem_token'' (tk_id row) TICKET_CLIENT_SECRET_REDEEM_TOKEN_AAD)
              ''tor-ticket-client-auth-secret-redeem-token'') (\<lambda>redeem_token.
     bindM (decrypt_aead_required x (tk_attestation_nonce_digest row)
              (ticket_aad x ''attestation_nonce_digest'' (tk_id row) TICKET_ATTESTATION_NONCE_AAD)
              ''tor-ticket-attestation-nonce'' ''attestation_nonce_digest'') (\<lambda>nonce_digest.
     bindM (decrypt_aead_required x (tk_attestation_quote_hash row)
              (ticket_aad x ''attestation_quote_hash'' (tk_id row) TICKET_ATTESTATION_QUOTE_AAD)
              ''tor-ticket-attestation-quote'' ''attestation_quote_hash'') (\<lambda>quote_hash.
     bindM (decrypt_aead_required x (tk_tls_pubkey_digest row)
              (ticket_aad x ''tls_pubkey_digest'' (tk_id row) TICKET_TLS_PUBKEY_DIGEST_AAD)
              ''tor-ticket-tls-pubkey-digest'' ''tls_pubkey_digest'') (\<lambda>tls_digest.
     returnM (Some
       \<lparr>tv_id = tk_id row, tv_credential_id = tk_credential_id row,
        tv_token_hash = tk_token_hash row, tv_client_fingerprint = tk_client_fingerprint row,
        tv_expires_at = tk_expires_at row, tv_redeemed_at = tk_redeemed_at row,
        tv_client_auth_public_key = public_key, tv_client_auth_secret_path = secret_path,
        tv_client_auth_secret_redeem_token = redeem_token,
        tv_attestation_session_id = tk_attestation_session_id row,
        tv_attestation_nonce_digest = nonce_digest, tv_attestation_quote_hash = quote_hash,
        tv_attested_at = tk_attested_at row, tv_tee_kind = tk_tee_kind row,
        tv_tee_label = tk_tee_label row, tv_tee_policy = tk_tee_policy row,
        tv_tls_pubkey_digest = tls_digest\<rparr>))))))))"

definition map_ticket_status_row :: "tor_ticket_row \<Rightarrow> TicketStatusRecord" where
  "map_ticket_status_row row =
     \<lparr>ts_id = tk_id row, ts_credential_id = tk_credential_id row,
      ts_expires_at = tk_expires_at row, ts_redeemed_at = tk_redeemed_at row\<rparr>"

definition get_tor_ticket_status ::
  "('b, 'z) ext_scheme \<Rightarrow> uuid \<Rightarrow> ('b, TicketStatusRecord option) db_op" where
  "get_tor_ticket_status x ticket_id =
     bindM (exec_stmt x (select_ticket ticket_id)) (\<lambda>r. returnM (map_option map_ticket_status_row r))"

definition mark_tor_ticket_redeemed ::
  "('b, 'z) ext_scheme \<Rightarrow> uuid \<Rightarrow> string \<Rightarrow> ('b, unit) db_op" where
  "mark_tor_ticket_redeemed x ticket_id operational_onion =
     bindM (if is_aead_payload operational_onion then returnM operational_onion
            else encrypt_with_new_aead x (as_bytes operational_onion)
                   (ticket_aad x ''redeemed_operational_onion'' ticket_id REDEEMED_ONION_AAD)
                   ''tor-ticket-redeemed-onion'') (\<lambda>stored_onion.
     bindM (exec_stmt x (\<lambda>n now. update_tickets (\<lambda>t. tk_id t = ticket_id) (redeemed stored_onion now)))
       (\<lambda>_. returnM ()))"

definition expire_tor_ticket_now :: "('b, 'z) ext_scheme \<Rightarrow> uuid \<Rightarrow> ('b, bool) db_op" where
  "expire_tor_ticket_now x ticket_id =
     bindM (exec_stmt x (\<lambda>n now. update_tickets (\<lambda>t. tk_id t = ticket_id) (expired_now now)))
       (\<lambda>affected. returnM (affected > 0))"

definition gc_expired_tickets :: "('b, 'z) ext_scheme \<Rightarrow> int \<Rightarrow> ('b, nat) db_op" where
  "gc_expired_tickets x retention_days = exec_stmt x (delete_expired_tickets retention_days)"

definition count_recent_tickets ::
  "('b, 'z) ext_scheme \<Rightarrow> uuid \<Rightarrow> int \<Rightarrow> ('b, int) db_op" where
  "count_recent_tickets x credential_id window_seconds =
     exec_stmt x (count_tickets_since credential_id window_seconds)"


section \<open>Facts: the constraints are kept\<close>

interpretation redeem_key: key_update tk_id "redeemed onion now" for onion now
  by unfold_locales (simp add: redeemed_def)

interpretation expire_key: key_update tk_id "expired_now now" for now
  by unfold_locales (simp add: expired_now_def)

interpretation redeem_session: key_update tk_attestation_session_id "redeemed onion now" for onion now
  by unfold_locales (simp add: redeemed_def)

interpretation expire_session: key_update tk_attestation_session_id "expired_now now" for now
  by unfold_locales (simp add: expired_now_def)

lemma insert_ticket_ok:
  assumes "schema_ok d" and "insert_ticket row n now d = Inr (u, d')"
  shows "schema_ok d'"
  using assms
  by (auto simp: insert_ticket_def Let_def schema_ok_def tickets_ok_def indexed_sessions_def list_all_iff
      split: if_splits)

lemma insert_ticket_sealed:
  assumes "sealed_at_rest d" and "insert_ticket row n now d = Inr (u, d')" and "ticket_sealed (row now)"
  shows "sealed_at_rest d'"
  using assms by (auto simp: insert_ticket_def Let_def sealed_at_rest_def split: if_splits)

lemma update_tickets_ok:
  assumes "schema_ok d" and "update_tickets p f d = Inr (u, d')"
    and "key_update tk_id f" and "key_update tk_attestation_session_id f"
    and "\<And>t. tk_credential_id (f t) = tk_credential_id t"
  shows "schema_ok d'"
proof -
  let ?rows = "update_where p f (tor_access_tickets d)"
  have "map tk_id ?rows = map tk_id (tor_access_tickets d)"
    and "indexed_sessions ?rows = indexed_sessions (tor_access_tickets d)"
    using key_update.map_key_update_where [OF assms(3)] key_update.map_key_update_where [OF assms(4)]
    by (simp_all add: indexed_sessions_def)
  moreover have "d' = d\<lparr>tor_access_tickets := ?rows\<rparr>"
    using assms(2) by (simp add: update_tickets_def)
  ultimately show ?thesis
    using assms(1,5) by (auto simp: schema_ok_def tickets_ok_def intro!: list_all_update_where)
qed

lemma update_tickets_sealed:
  assumes "sealed_at_rest d" and "update_tickets p f d = Inr (u, d')"
    and "\<And>t. ticket_sealed t \<Longrightarrow> ticket_sealed (f t)"
  shows "sealed_at_rest d'"
  using assms by (auto simp: update_tickets_def sealed_at_rest_def intro!: list_all_update_where)

lemma delete_expired_tickets_ok:
  "stmt_keeps schema_ok (delete_expired_tickets days)"
  "stmt_keeps sealed_at_rest (delete_expired_tickets days)"
  by (auto intro!: stmt_keepsI simp: delete_expired_tickets_def bindE_eq_Inr schema_ok_def tickets_ok_def
      sealed_at_rest_def list_all_iff indexed_sessions_filter)

lemma ticket_reads_keep [preserves_rules]:
  "stmt_keeps P (select_ticket tid)"
  "stmt_keeps P (count_tickets_since cid ws)"
  by (auto intro!: stmt_keepsI simp: select_ticket_def count_tickets_since_def bindE_eq_Inr)

lemma insert_ticket_keeps_schema [preserves_rules]: "stmt_keeps schema_ok (insert_ticket row)"
  by (rule stmt_keepsI) (rule insert_ticket_ok)

lemma ticket_updates_keep_schema [preserves_rules]:
  "stmt_keeps schema_ok (\<lambda>n now. update_tickets p (redeemed onion now))"
  "stmt_keeps schema_ok (\<lambda>n now. update_tickets p (expired_now now))"
  by (rule stmt_keepsI, erule (1) update_tickets_ok;
      simp add: redeem_key.key_update_axioms expire_key.key_update_axioms
        redeem_session.key_update_axioms expire_session.key_update_axioms redeemed_def expired_now_def)+

lemma ticket_updates_keep_sealed [preserves_rules]:
  "stmt_keeps sealed_at_rest (\<lambda>n now. update_tickets p (expired_now now))"
  "is_aead_payload onion \<Longrightarrow> stmt_keeps sealed_at_rest (\<lambda>n now. update_tickets p (redeemed onion now))"
  by (rule stmt_keepsI, erule (1) update_tickets_sealed,
      simp add: redeemed_def expired_now_def ticket_sealed_def)+

lemma insert_issued_sealed:
  "is_aead_payload_v2 k \<Longrightarrow> is_aead_payload_v2 p \<Longrightarrow> is_aead_payload_v2 n \<Longrightarrow> is_aead_payload_v2 q \<Longrightarrow>
   case r of None \<Rightarrow> True | Some c \<Rightarrow> is_aead_payload_v2 c \<Longrightarrow> is_aead_payload_v2 c \<Longrightarrow>
   stmt_keeps sealed_at_rest (insert_ticket (issued_row t k p r n q c))"
  by (auto intro!: stmt_keepsI elim!: insert_ticket_sealed simp: issued_row_def ticket_sealed_def)

lemma ticket_ops_keep:
  "preserves (db_pred P) (fetch_tor_ticket_for_verification x tid)"
  "preserves (db_pred P) (get_tor_ticket_status x tid)"
  "preserves (db_pred P) (count_recent_tickets x cid ws)"
  "preserves (db_pred schema_ok) (expire_tor_ticket_now x tid)"
  "preserves (db_pred sealed_at_rest) (expire_tor_ticket_now x tid)"
  "preserves (db_pred schema_ok) (gc_expired_tickets x days)"
  "preserves (db_pred sealed_at_rest) (gc_expired_tickets x days)"
  by (auto simp: fetch_tor_ticket_for_verification_def get_tor_ticket_status_def count_recent_tickets_def
      expire_tor_ticket_now_def gc_expired_tickets_def delete_expired_tickets_ok
      intro!: preserves_rules split: option.split)


section \<open>Facts: the protected fields of a ticket\<close>

text \<open>The values of a new ticket the caller passes in plain.\<close>

definition plain_ticket :: "NewTorAccessTicket \<Rightarrow> bool" where
  "plain_ticket t \<longleftrightarrow>
     plain_value (nt_client_auth_public_key t) \<and> plain_value (nt_client_auth_secret_path t)
   \<and> plain_option (nt_client_auth_secret_redeem_token t)
   \<and> plain_value (nt_attestation_nonce_digest t) \<and> plain_value (nt_attestation_quote_hash t)
   \<and> plain_value (nt_tls_pubkey_digest t)"

text \<open>What verification reports of a ticket that was issued from \<open>t\<close> and not touched since.\<close>

definition verification_of :: "NewTorAccessTicket \<Rightarrow> TicketVerificationRecord" where
  "verification_of t =
     \<lparr>tv_id = nt_id t, tv_credential_id = nt_credential_id t, tv_token_hash = nt_token_hash t,
      tv_client_fingerprint = nt_client_fingerprint t, tv_expires_at = nt_expires_at t,
      tv_redeemed_at = None, tv_client_auth_public_key = nt_client_auth_public_key t,
      tv_client_auth_secret_path = nt_client_auth_secret_path t,
      tv_client_auth_secret_redeem_token = nt_client_auth_secret_redeem_token t,
      tv_attestation_session_id = nt_attestation_session_id t,
      tv_attestation_nonce_digest = nt_attestation_nonce_digest t,
      tv_attestation_quote_hash = nt_attestation_quote_hash t,
      tv_attested_at = nt_attested_at t, tv_tee_kind = nt_tee_kind t,
      tv_tee_label = nt_tee_label t, tv_tee_policy = nt_tee_policy t,
      tv_tls_pubkey_digest = nt_tls_pubkey_digest t\<rparr>"

text \<open>The fields of a stored row with the contexts they are bound to and the values of \<open>v\<close>.\<close>

definition ticket_fields :: "'z codec_scheme \<Rightarrow> TicketVerificationRecord \<Rightarrow> tor_ticket_row \<Rightarrow>
  (bytes \<times> string \<times> string) list" where
  "ticket_fields x v row =
     (let aad = (\<lambda>field. ticket_aad x field (tk_id row)) in
      (aad ''client_auth_public_key'' TICKET_CLIENT_PUBLIC_KEY_AAD, tk_client_auth_public_key row,
         tv_client_auth_public_key v)
    # (aad ''client_auth_secret_path'' TICKET_CLIENT_SECRET_PATH_AAD, tk_client_auth_secret_path row,
         tv_client_auth_secret_path v)
    # optional_field (aad ''client_auth_secret_redeem_token'' TICKET_CLIENT_SECRET_REDEEM_TOKEN_AAD)
        (tk_client_auth_secret_redeem_token row) (tv_client_auth_secret_redeem_token v)
    @ (aad ''attestation_nonce_digest'' TICKET_ATTESTATION_NONCE_AAD, tk_attestation_nonce_digest row,
         tv_attestation_nonce_digest v)
    # (aad ''attestation_quote_hash'' TICKET_ATTESTATION_QUOTE_AAD, tk_attestation_quote_hash row,
         tv_attestation_quote_hash v)
    # [(aad ''tls_pubkey_digest'' TICKET_TLS_PUBKEY_DIGEST_AAD, tk_tls_pubkey_digest row,
         tv_tls_pubkey_digest v)])"

text \<open>What is in plain in a row agrees with the record.\<close>

definition row_shows :: "TicketVerificationRecord \<Rightarrow> tor_ticket_row \<Rightarrow> bool" where
  "row_shows v row \<longleftrightarrow>
     tv_id v = tk_id row \<and> tv_credential_id v = tk_credential_id row \<and> tv_token_hash v = tk_token_hash row
   \<and> tv_client_fingerprint v = tk_client_fingerprint row \<and> tv_expires_at v = tk_expires_at row
   \<and> tv_redeemed_at v = tk_redeemed_at row \<and> tv_attestation_session_id v = tk_attestation_session_id row
   \<and> tv_attested_at v = tk_attested_at row \<and> tv_tee_kind v = tk_tee_kind row
   \<and> tv_tee_label v = tk_tee_label row \<and> tv_tee_policy v = tk_tee_policy row
   \<and> (tk_client_auth_secret_redeem_token row = None \<longleftrightarrow> tv_client_auth_secret_redeem_token v = None)"

definition row_of_ticket :: "NewTorAccessTicket \<Rightarrow> tor_ticket_row \<Rightarrow> bool" where
  "row_of_ticket t row \<longleftrightarrow>
     (\<exists>k p r n q c now. row = issued_row t k p r n q c now
        \<and> (r = None \<longleftrightarrow> nt_client_auth_secret_redeem_token t = None))"

lemma row_of_ticket_shows: "row_of_ticket t row \<Longrightarrow> row_shows (verification_of t) row"
  by (auto simp: row_of_ticket_def row_shows_def issued_row_def verification_of_def)

lemma insert_ticket_appends:
  "insert_ticket row n now d = Inr (u, d') \<Longrightarrow>
     d' = d\<lparr>tor_access_tickets := tor_access_tickets d @ [row now]\<rparr>
   \<and> tk_id (row now) \<notin> tk_id ` set (tor_access_tickets d)"
  by (auto simp: insert_ticket_def Let_def split: if_splits)

context broker_contract
begin

lemma issue_finish:
  assumes "bindM (exec_stmt x (insert_ticket (issued_row t k p rt n q c))) f w = (Inr r, w')"
    and "\<And>u w. snd (f u w) = w"
  obtains row where "w_db w' = (w_db w)\<lparr>tor_access_tickets := tor_access_tickets (w_db w) @ [row]\<rparr>"
    "tk_id row \<notin> tk_id ` set (tor_access_tickets (w_db w))"
    "row = issued_row t k p rt n q c (clock x (w_ticks w))" "w_broker w' = w_broker w"
proof (rule bindM_eq_InrE [OF assms(1)])
  fix u w7
  assume run: "exec_stmt x (insert_ticket (issued_row t k p rt n q c)) w = (Inr u, w7)"
    and "f u w7 = (Inr r, w')"
  with assms(2) have w': "w' = w7" by (metis snd_conv)
  from run show thesis
    by (rule exec_stmt_InrD) (auto simp: w' dest!: insert_ticket_appends intro: that)
qed

lemma issue_stores_held:
  assumes "issue_tor_ticket x t w = (Inr r, w')" and "plain_ticket t" and "held (w_broker w) fs"
  obtains row where "w_db w' = (w_db w)\<lparr>tor_access_tickets := tor_access_tickets (w_db w) @ [row]\<rparr>"
    "tk_id row \<notin> tk_id ` set (tor_access_tickets (w_db w))"
    "row_of_ticket t row" "held (w_broker w') (ticket_fields x (verification_of t) row @ fs)"
proof -
  note plain = assms(2) [unfolded plain_ticket_def]
  show thesis
    using assms(1) unfolding issue_tor_ticket_def
    apply (rule ensure_required_bindE [OF _ assms(3)], simp add: plain)
    apply (erule (1) ensure_required_bindE, simp add: plain)
    apply (erule (1) ensure_required_bindE, simp add: plain)
    apply (erule (1) ensure_required_bindE, simp add: plain)
    apply (erule (1) ensure_bindE, simp add: plain)
    apply (erule (1) ensure_required_bindE, simp add: plain)
    apply (erule issue_finish, simp split: prod.split)
    subgoal for k w1 p w2 n w3 q w4 rt w5 c w6 row
      by (rule that [of row])
         (auto simp: row_of_ticket_def ticket_fields_def Let_def issued_row_def verification_of_def elim: held_mset)
    done
qed

lemma issue_stores:
  assumes "issue_tor_ticket x t w = (Inr r, w')" and "plain_ticket t"
  obtains row where "w_db w' = (w_db w)\<lparr>tor_access_tickets := tor_access_tickets (w_db w) @ [row]\<rparr>"
    "tk_id row \<notin> tk_id ` set (tor_access_tickets (w_db w))"
    "row_of_ticket t row" "held (w_broker w') (ticket_fields x (verification_of t) row)"
  using issue_stores_held [OF assms held_Nil] by simp metis

lemma fetch_stored:
  assumes "find (\<lambda>r. tk_id r = tid) (tor_access_tickets (w_db w)) = Some row"
    and row: "row_shows v row" and "held (w_broker w) (ticket_fields x v row @ fs)"
    and "pg_network x (w_ticks w) = Delivered"
  obtains w' where "fetch_tor_ticket_for_verification x tid w = (Inr (Some v), w')"
    "held (w_broker w') fs" "w_db w' = w_db w"
proof -
  define Q where "Q r \<longleftrightarrow> fst r = Inr (Some v) \<and> held (w_broker (snd r)) fs \<and> w_db (snd r) = w_db w"
    for r :: "(DatabaseError + TicketVerificationRecord option) \<times> 'b world"
  have sel: "exec_stmt x (select_ticket tid) w = (Inr (Some row), w\<lparr>w_ticks := Suc (w_ticks w)\<rparr>)"
    using exec_stmt_delivered [where f = "select_ticket tid", OF assms(4)] assms(1)
    by (simp add: select_ticket_def)
  have rt: "tk_client_auth_secret_redeem_token row = None \<longleftrightarrow> tv_client_auth_secret_redeem_token v = None"
    using row by (simp add: row_shows_def)
  have h: "held (w_broker (w\<lparr>w_ticks := Suc (w_ticks w)\<rparr>)) (ticket_fields x v row @ fs)"
    using assms(3) by simp
  have "Q (fetch_tor_ticket_for_verification x tid w)"
    unfolding fetch_tor_ticket_for_verification_def bindM_Inr [where m = "exec_stmt x (select_ticket tid)", OF sel] option.case
    using h unfolding ticket_fields_def Let_def append_Cons append_assoc append_Nil
    apply (rule decrypt_required_run [where Q = Q])
    apply (rule decrypt_required_run [where Q = Q], assumption)
    apply (rule decrypt_optional_run [where Q = Q], assumption, rule rt)
    apply (rule decrypt_required_run [where Q = Q], assumption)+
    using row by (auto simp: Q_def row_shows_def)
  then show thesis
    by (cases "fetch_tor_ticket_for_verification x tid w") (auto simp: Q_def intro: that)
qed

end

end
