(* ===== verification/Reference.thy ===== *)
theory Reference
  imports Tickets
begin

text \<open>
  A concrete instance of the external code, on which operations can be evaluated: base 16 text
  for the encoders, the hyphenated form of UUIDs, a sealing function that appends a checksum of
  key, nonce and associated data, and a broker that hands out numbered keys. It meets
  \<open>broker_contract\<close>, so the hypotheses of the properties that rest on the contract can
  hold. It is an instance for evaluation and no model of the real crates.
\<close>

section \<open>Text encodings\<close>

definition hex_digit :: "nat \<Rightarrow> char" where
  "hex_digit d = (if d < 10 then char_of (48 + d) else char_of (87 + d))"

definition hex_value :: "char \<Rightarrow> nat option" where
  "hex_value c = (let n = of_char c in
     if 48 \<le> n \<and> n \<le> 57 then Some (n - 48) else if 97 \<le> n \<and> n \<le> 102 then Some (n - 87) else None)"

fun hex_text :: "bytes \<Rightarrow> string" where
  "hex_text [] = []"
| "hex_text (b # bs) = hex_digit (unat b div 16) # hex_digit (unat b mod 16) # hex_text bs"

fun hex_bytes :: "string \<Rightarrow> bytes option" where
  "hex_bytes [] = Some []"
| "hex_bytes (c # d # s) =
     (case (hex_value c, hex_value d, hex_bytes s) of
        (Some h, Some l, Some bs) \<Rightarrow> Some (word_of_nat (16 * h + l) # bs)
      | _ \<Rightarrow> None)"
| "hex_bytes [c] = None"

fun hex_fixed :: "nat \<Rightarrow> nat \<Rightarrow> string" where
  "hex_fixed 0 v = []"
| "hex_fixed (Suc k) v = hex_digit (v mod 16) # hex_fixed k (v div 16)"

definition hyphenated :: "string \<Rightarrow> string" where
  "hyphenated s = take 8 s @ ''-'' @ take 4 (drop 8 s) @ ''-'' @ take 4 (drop 12 s) @ ''-''
     @ take 4 (drop 16 s) @ ''-'' @ drop 20 s"

definition ref_uuid :: "uuid \<Rightarrow> string" where
  "ref_uuid u = hyphenated (rev (hex_fixed 32 (unat u)))"

lemma hex_value_digit [simp]: "d < 16 \<Longrightarrow> hex_value (hex_digit d) = Some d"
  by (auto simp: hex_value_def hex_digit_def Let_def)

lemma hex_digit_inj: "d < 16 \<Longrightarrow> e < 16 \<Longrightarrow> hex_digit d = hex_digit e \<Longrightarrow> d = e"
  by (metis hex_value_digit option.inject)

lemma hex_digit_ne: "d < 16 \<Longrightarrow> hex_value c = None \<Longrightarrow> c \<noteq> hex_digit d"
  by auto

lemma hex_digit_special [simp]:
  "d < 16 \<Longrightarrow> CHR '':'' \<noteq> hex_digit d"
  "d < 16 \<Longrightarrow> CHR 0x00 \<noteq> hex_digit d"
  "d < 16 \<Longrightarrow> CHR ''-'' \<noteq> hex_digit d"
  by (rule hex_digit_ne; simp add: hex_value_def)+

lemma byte_halves: "unat (b :: byte) div 16 < 16" "unat b mod 16 < 16"
  using unsigned_less [of b, where ?'a = nat] by auto

lemma hex_round_trip [simp]: "hex_bytes (hex_text bs) = Some bs"
  by (induction bs) (simp_all add: byte_halves)

lemma hex_text_chars: "CHR '':'' \<notin> set (hex_text bs)"
  by (induction bs) (simp_all add: byte_halves)

lemma hex_fixed_chars: "CHR 0x00 \<notin> set (hex_fixed k v)" "CHR ''-'' \<notin> set (hex_fixed k v)"
  by (induction k arbitrary: v) simp_all

lemma length_hex_fixed [simp]: "length (hex_fixed k v) = k"
  by (induction k arbitrary: v) auto

lemma hex_fixed_inj: "hex_fixed k v = hex_fixed k u \<Longrightarrow> v < 16 ^ k \<Longrightarrow> u < 16 ^ k \<Longrightarrow> v = u"
proof (induction k arbitrary: u v)
  case (Suc k)
  then have "v mod 16 = u mod 16" by (auto intro: hex_digit_inj)
  moreover have "v div 16 = u div 16" using Suc by (intro Suc.IH) auto
  ultimately show ?case by (metis div_mult_mod_eq)
qed simp

lemma dehyphenate: "CHR ''-'' \<notin> set s \<Longrightarrow> filter (\<lambda>c. c \<noteq> CHR ''-'') (hyphenated s) = s"
proof -
  assume "CHR ''-'' \<notin> set s"
  then have f: "filter (\<lambda>c. c \<noteq> CHR ''-'') (take n (drop m s)) = take n (drop m s)"
    "filter (\<lambda>c. c \<noteq> CHR ''-'') (take n s) = take n s" "filter (\<lambda>c. c \<noteq> CHR ''-'') (drop n s) = drop n s" for n m
    by (auto simp: filter_id_conv dest: in_set_takeD in_set_dropD)
  have "take 8 s @ take 4 (drop 8 s) @ take 4 (drop 12 s) @ take 4 (drop 16 s) @ drop 20 s = s"
    using take_add [of 8 4 s] take_add [of 12 4 s] take_add [of 16 4 s] append_take_drop_id [of 20 s] by simp
  then show ?thesis by (simp add: hyphenated_def f)
qed

lemma inj_ref_uuid: "inj ref_uuid"
proof (rule injI)
  fix u v :: uuid
  assume "ref_uuid u = ref_uuid v"
  then have "filter (\<lambda>c. c \<noteq> CHR ''-'') (ref_uuid u) = filter (\<lambda>c. c \<noteq> CHR ''-'') (ref_uuid v)"
    by simp
  then have "hex_fixed 32 (unat u) = hex_fixed 32 (unat v)"
    by (simp add: ref_uuid_def dehyphenate hex_fixed_chars del: filter_append)
  moreover have "unat u < 16 ^ 32" "unat v < 16 ^ 32"
    using unsigned_less [of u, where ?'a = nat] unsigned_less [of v, where ?'a = nat] by simp_all
  ultimately show "u = v"
    by (metis hex_fixed_inj word_unat_eq_iff)
qed

lemma ref_uuid_chars: "CHR 0x00 \<notin> set (ref_uuid u)"
  using hex_fixed_chars(1) [of 32 "unat u"]
  by (auto simp: ref_uuid_def hyphenated_def dest!: in_set_takeD in_set_dropD)


section \<open>Sealing\<close>

definition checksum :: "bytes \<Rightarrow> bytes" where
  "checksum bs = map (\<lambda>j. fold (\<lambda>(i, b) s. 3 * s + b + word_of_nat i) (zip [0..<length bs] bs) (word_of_nat j))
     [0..<TAG_LENGTH]"

definition ref_seal :: "bytes \<Rightarrow> bytes \<Rightarrow> bytes \<Rightarrow> bytes \<Rightarrow> bytes option" where
  "ref_seal k n a p = Some (p @ checksum (a @ n @ k))"

definition ref_open :: "bytes \<Rightarrow> bytes \<Rightarrow> bytes \<Rightarrow> bytes \<Rightarrow> bytes option" where
  "ref_open k n a c =
     (let p = take (length c - TAG_LENGTH) c in
      if c = p @ checksum (a @ n @ k) then Some p else None)"

lemma length_checksum [simp]: "length (checksum bs) = TAG_LENGTH"
  by (simp add: checksum_def)

lemma ref_open_seal: "ref_seal k n a p = Some c \<Longrightarrow> length c = length p + TAG_LENGTH \<and> ref_open k n a c = Some p"
  by (auto simp: ref_seal_def ref_open_def)


section \<open>Broker and environment\<close>

text \<open>The broker's state is the number of keys it has minted; all of them stay live.\<close>

definition ref_name :: "nat \<Rightarrow> string" where
  "ref_name n = replicate (Suc n) CHR ''k''"

definition ref_key :: "nat \<Rightarrow> bytes" where
  "ref_key n = replicate 32 (word_of_nat n)"

definition ref_live :: "nat \<Rightarrow> string \<times> string \<Rightarrow> bytes option" where
  "ref_live b q =
     (let n = length (fst q) - 1 in
      if q = (ref_name n, ref_name n) \<and> n < b then Some (ref_key n) else None)"

definition ref_mint :: "MintAeadKeyV2Params \<Rightarrow> nat \<Rightarrow> (anyhow + MintAeadKeyV2Lease) \<times> nat" where
  "ref_mint p b = (Inr \<lparr>ml_handle = ref_name b, ml_key = ref_key b, ml_redeem_token = Some (ref_name b)\<rparr>, Suc b)"

definition ref_unwrap :: "UnwrapSecretV2Params \<Rightarrow> nat \<Rightarrow> (anyhow + bytes) \<times> nat" where
  "ref_unwrap p b =
     (case up_redeem_token p of
        None \<Rightarrow> (Inl ''token required'', b)
      | Some t \<Rightarrow> (ok_or ''unknown handle'' (ref_live b (up_handle p, t)), b))"

definition ref_env :: "nat ext" where
  "ref_env = \<lparr>
     b64_encode = hex_text, b64_decode = (\<lambda>bs. hex_bytes (chars_of bs)),
     hex_encode = hex_text, hex_decode = hex_bytes, uuid_display = ref_uuid,
     aead_key_ok = (\<lambda>k. length k = 32), aead_seal = ref_seal, aead_open = ref_open,
     ring_unspecified = ''ring::error::Unspecified'',
     sha256 = (\<lambda>bs. checksum bs @ checksum (rev bs)), hmac_sha256 = (\<lambda>k bs. Some (checksum (k @ bs) @ checksum (rev (k @ bs)))),
     adapter_issue_postgres_credentials = (\<lambda>p b.
       (Inr \<lparr>pl_database_url = ''postgres://db'', pl_username = None, pl_password = None, pl_expires_at = None\<rparr>, b)),
     adapter_mint_aead_key_v2 = ref_mint,
     adapter_wrap_bytes_v2 = (\<lambda>p ps b. (Inr \<lparr>wr_handle = ref_name b, wr_redeem_token = Some (ref_name b), wr_created_at = 0\<rparr>, Suc b)),
     adapter_preload_redeem_token = (\<lambda>h t e b. (Inr (), b)),
     adapter_preload_redeem_shares = (\<lambda>h s e b. (Inr (), b)),
     adapter_unwrap_secret_v2 = ref_unwrap,
     adapter_renew_lease = (\<lambda>h n b. (Inr [], b)),
     adapter_revoke_secret = (\<lambda>h r b. (Inr [], b)),
     adapter_rotate_secret = (\<lambda>h p r b. (Inr [], b)),
     adapter_attenuate_handle_v2 = (\<lambda>p b. (Inr \<lparr>ah_handle = ref_name b\<rparr>, b)),
     clock = (\<lambda>n. int n * second), random_uuid = (\<lambda>n. word_of_nat (Suc n)),
     system_random = (\<lambda>n. Some (replicate 12 (word_of_nat n))),
     pg_network = (\<lambda>n. Delivered), sqlx_display = (\<lambda>e. ''sqlx error'')\<rparr>"

definition ref_world :: "nat world" where
  "ref_world = \<lparr>w_db = migrated_db, w_broker = 0, w_ticks = 0, w_metrics = []\<rparr>"


section \<open>The contract holds\<close>

lemma strip_while_id:
  assumes "c \<notin> hd ` set ws" and "[] \<notin> set ws"
  shows "strip_while ws n (c # s) = c # s"
proof -
  have "\<not> starts_with (c # s) w" if "w \<in> set ws" for w
    proof
    assume "starts_with (c # s) w"
    moreover have "w \<noteq> []" using that assms(2) by auto
    ultimately have "hd w = c" by (cases w) (auto simp: starts_with_def)
    with that assms(1) show False by auto
  qed
  then have "find (starts_with (c # s)) ws = None" by (auto simp: find_None_iff)
  then show ?thesis by (cases n) simp_all
qed

lemma strip_while_k: "strip_while whitespace n (CHR ''k'' # s) = CHR ''k'' # s"
  "strip_while (map rev whitespace) n (CHR ''k'' # s) = CHR ''k'' # s"
  by (rule strip_while_id; simp add: whitespace_def)+

lemma trim_start_ref_name: "trim_start (ref_name n) = ref_name n"
  unfolding trim_start_def ref_name_def replicate_Suc by (rule strip_while_k)

lemma trim_ref_name [simp]: "trim (ref_name n) = ref_name n"
proof -
  have "rev (ref_name n) = ref_name n"
    unfolding ref_name_def by (rule rev_replicate)
  moreover have "strip_while (map rev whitespace) m (ref_name n) = ref_name n" for m
    unfolding ref_name_def replicate_Suc by (rule strip_while_k)
  ultimately show ?thesis by (simp add: trim_def trim_start_ref_name trim_end_def)
qed

lemma rust_string_ref_name: "rust_string (ref_name n)"
  unfolding rust_string_def ref_name_def
  by (rule utf8_valid_ascii) (auto simp: as_bytes_def)

lemma ref_live_simps [simp]: "ref_live b (ref_name n, ref_name n) = (if n < b then Some (ref_key n) else None)"
  by (simp add: ref_live_def ref_name_def)

lemma ref_live_mono: "ref_live b q = Some k \<Longrightarrow> b \<le> b' \<Longrightarrow> ref_live b' q = Some k"
  by (auto simp: ref_live_def Let_def split: if_splits)

interpretation ref: broker_contract ref_env ref_live
proof
  show "base64_laws ref_env"
    by (simp add: base64_laws_def ref_env_def hex_text_chars)
  show "uuid_laws ref_env"
    by (simp add: uuid_laws_def ref_env_def inj_ref_uuid ref_uuid_chars)
  show "aead_laws ref_env"
    using ref_open_seal by (auto simp: aead_laws_def ref_env_def)
next
  fix n nb assume "system_random ref_env n = Some nb"
  then show "length nb = NONCE_LEN" by (auto simp: ref_env_def NONCE_LEN_def)
next
  fix p b l b' t assume "adapter_mint_aead_key_v2 ref_env p b = (Inr l, b')" "ml_redeem_token l = Some t"
  then have "l = \<lparr>ml_handle = ref_name b, ml_key = ref_key b, ml_redeem_token = Some (ref_name b)\<rparr>" "b' = Suc b"
    "t = ref_name b"
    by (auto simp: ref_env_def ref_mint_def)
  then show "ref_live b (ml_handle l, t) = None" "ref_live b' (ml_handle l, t) = Some (ml_key l)"
    "rust_string (ml_handle l) \<and> rust_string t \<and> trim (ml_handle l) = ml_handle l \<and> trim t = t"
    by (simp_all add: rust_string_ref_name)
qed (auto simp: ref_env_def ref_mint_def ref_unwrap_def token_params_def intro: ref_live_mono)


section \<open>Evaluation\<close>

text \<open>Sealing always succeeds here, so the operations that seal run through.\<close>

definition ref_sealed :: "bytes \<Rightarrow> bytes \<Rightarrow> nat world \<Rightarrow> string" where
  "ref_sealed pt aad w =
     encode_aead_payload ref_env (ref_name (w_broker w)) (ref_name (w_broker w))
       (replicate 12 (word_of_nat (w_ticks w)) @ pt @
        checksum (aad @ replicate 12 (word_of_nat (w_ticks w)) @ ref_key (w_broker w)))"

lemma ref_encrypt:
  obtains w' where "encrypt_with_new_aead ref_env pt aad label w = (Inr (ref_sealed pt aad w), w')"
    "w_db w' = w_db w"
  by (simp add: encrypt_with_new_aead_def mint_aead_key_v2_def counted_def broker_call_def map_errM_def
      bindM_def on_errM_def ref_env_def ref_mint_def aes_encrypt_with_aad_def ref_seal_def ref_sealed_def ref_key_def
      encode_aead_payload_def)

lemma ref_ensure_bind:
  assumes "plain_option v"
    and "\<And>c w'. w_db w' = w_db w \<Longrightarrow> \<exists>r w''. f c w' = (Inr r, w'') \<and> P r w''"
  shows "\<exists>r w''. bindM (ensure_aead_encrypted ref_env v aad label) f w = (Inr r, w'') \<and> P r w''"
proof (cases v)
  case None
  with assms show ?thesis by (simp add: ensure_aead_encrypted_def)
next
  case (Some s)
  obtain w1 where "encrypt_with_new_aead ref_env (as_bytes s) aad label w = (Inr (ref_sealed (as_bytes s) aad w), w1)"
    "w_db w1 = w_db w" by (rule ref_encrypt)
  with assms Some show ?thesis by (simp add: ensure_plain plain_option_def)
qed

lemma ref_ensure_required_bind:
  assumes "plain_value v"
    and "\<And>c w'. w_db w' = w_db w \<Longrightarrow> \<exists>r w''. f c w' = (Inr r, w'') \<and> P r w''"
  shows "\<exists>r w''. bindM (ensure_aead_encrypted_required ref_env v aad label field) f w = (Inr r, w'') \<and> P r w''"
proof -
  obtain w1 where "encrypt_with_new_aead ref_env (as_bytes v) aad label w = (Inr (ref_sealed (as_bytes v) aad w), w1)"
    "w_db w1 = w_db w" by (rule ref_encrypt)
  with assms show ?thesis
    by (simp add: ensure_aead_encrypted_required_def ensure_plain)
qed

lemma ref_exec:
  assumes "f (w_ticks w) (clock ref_env (w_ticks w)) (w_db w) = Inr (a, d)"
  shows "exec_stmt ref_env f w = (Inr a, w\<lparr>w_ticks := Suc (w_ticks w), w_db := d\<rparr>)"
  using exec_stmt_delivered [of ref_env w f, OF _ assms] by (simp add: ref_env_def)

text \<open>A database with one credential, a ticket for it and a session of it.\<close>

definition ref_credential :: tor_credential_row where
  "ref_credential = new_credential_row 7 ''entry.onion'' ''gold'' ''hash'' [''guard''] 60 None 0"

definition ref_db :: database where
  "ref_db = migrated_db\<lparr>tor_auth_credentials := [ref_credential]\<rparr>"

definition ref_ticket :: NewTorAccessTicket where
  "ref_ticket =
     \<lparr>nt_id = 1, nt_credential_id = 7, nt_entry_onion = ''entry.onion'', nt_token_hash = ''th'',
      nt_expires_at = day, nt_client_fingerprint = None, nt_client_auth_public_key = ''pk'',
      nt_client_auth_secret_path = ''/run/secret'', nt_client_auth_secret_redeem_token = Some ''rt'',
      nt_attestation_session_id = 3, nt_attestation_nonce_digest = ''nd'', nt_attestation_quote_hash = ''qh'',
      nt_attested_at = 0, nt_tee_kind = ''sgx'', nt_tee_label = None, nt_tee_policy = None,
      nt_tls_pubkey_digest = ''tls''\<rparr>"

definition ref_session :: TorSessionRecord where
  "ref_session =
     \<lparr>sr_id = 2, sr_credential_id = 7, sr_circuit_id = Some ''c1'', sr_fingerprint = None,
      sr_guard_nodes = [''guard''], sr_client_onion = Some ''client.onion'', sr_expires_at = None\<rparr>"

definition ref_state :: "nat world" where
  "ref_state = ref_world\<lparr>w_db := ref_db\<rparr>"

lemma ref_schema_ok: "schema_ok ref_db"
  using migrated_db_ok
  by (simp add: schema_ok_def ref_db_def ref_credential_def new_credential_row_def migrated_db_def
      credentials_ok_def sessions_ok_def tickets_ok_def)

lemma plain_ascii: "list_all (\<lambda>c. (of_char c :: nat) < 128) s \<Longrightarrow> \<not> is_aead_payload s \<Longrightarrow> plain_value s"
  by (auto simp: plain_value_def rust_string_def as_bytes_def list_all_iff intro!: utf8_valid_ascii)

lemma ref_plain_ticket: "plain_ticket ref_ticket"
  by (simp add: plain_ticket_def ref_ticket_def plain_option_def plain_ascii is_aead_payload_def
      starts_with_def AEAD_PREFIX_V1_def AEAD_PREFIX_V2_def)

lemma ref_plain_session: "plain_option (sr_client_onion ref_session)"
  by (simp add: ref_session_def plain_option_def plain_ascii is_aead_payload_def
      starts_with_def AEAD_PREFIX_V1_def AEAD_PREFIX_V2_def)

lemma ref_issue: "\<exists>r w'. issue_tor_ticket ref_env ref_ticket ref_state = (Inr r, w') \<and> it_id r = 1"
  unfolding issue_tor_ticket_def
  by (intro ref_ensure_bind ref_ensure_required_bind)
     (use ref_plain_ticket in \<open>auto simp: plain_ticket_def bindM_def ref_exec insert_ticket_def issued_row_def
        ref_ticket_def ref_state_def ref_db_def migrated_db_def ref_credential_def new_credential_row_def
        indexed_sessions_def\<close>)

lemma ref_record: "\<exists>r w'. record_tor_session ref_env ref_session ref_state = (Inr r, w') \<and> True"
  unfolding record_tor_session_def
  by (intro ref_ensure_bind)
     (use ref_plain_session in \<open>auto simp: bindM_def ref_exec insert_session_def recorded_row_def
        ref_session_def ref_state_def ref_db_def migrated_db_def ref_credential_def new_credential_row_def\<close>)


section \<open>Two rows are told apart\<close>

abbreviation mix :: "nat \<times> byte \<Rightarrow> byte \<Rightarrow> byte" where
  "mix \<equiv> (\<lambda>(i, b) s. 3 * s + b + word_of_nat i)"

lemma mix_inj: "mix p s = mix p s' \<Longrightarrow> s = s'"
proof -
  assume "mix p s = mix p s'"
  then have "3 * s = 3 * s'" by (simp split: prod.splits)
  then have "(171 * 3) * s = (171 * 3) * s'" by (metis mult.assoc)
  moreover have "171 * 3 = (1 :: byte)" by (simp add: word_eq_iff_unsigned)
  ultimately show "s = s'" by (metis mult_1)
qed

lemma fold_mix_inj: "fold mix l s = fold mix l s' \<Longrightarrow> s = s'"
proof (induction l arbitrary: s s')
  case (Cons p l)
  then have "mix p s = mix p s'" unfolding fold_Cons comp_def by blast
  then show ?case by (rule mix_inj)
qed simp

lemma fold_mix_differs:
  "b \<noteq> b' \<Longrightarrow> fold mix (zip [m..<m + length (u @ b # v)] (u @ b # v)) s \<noteq>
     fold mix (zip [m..<m + length (u @ b' # v)] (u @ b' # v)) s"
proof (induction u arbitrary: m s)
  case Nil
  then show ?case by (auto simp: upt_conv_Cons simp del: upt_Suc dest: fold_mix_inj)
next
  case (Cons c u)
  from Cons.IH [OF Cons.prems, of "Suc m" "mix (m, c) s"] show ?case
    by (simp add: upt_conv_Cons del: upt_Suc)
qed

lemma checksum_differs: "b \<noteq> b' \<Longrightarrow> checksum (u @ b # v) \<noteq> checksum (u @ b' # v)"
proof
  assume b: "b \<noteq> b'" and eq: "checksum (u @ b # v) = checksum (u @ b' # v)"
  from arg_cong [OF eq, of "\<lambda>c. c ! 0"]
  have "fold mix (zip [0..<0 + length (u @ b # v)] (u @ b # v)) 0 =
      fold mix (zip [0..<0 + length (u @ b' # v)] (u @ b' # v)) 0"
    by (simp add: checksum_def TAG_LENGTH_def)
  with fold_mix_differs [OF b, of 0 u v 0] show False by simp
qed

lemma ref_binds:
  assumes "a = u @ b # v" and "a' = u @ b' # v" and "b \<noteq> b'"
  shows "aead_binds {a, a'} ref_env"
proof -
  have "checksum (a @ n @ k) \<noteq> checksum (a' @ n @ k)" for n k
    using checksum_differs [OF assms(3), of u "v @ n @ k"] assms by simp
  then show ?thesis
    unfolding aead_binds_def ref_env_def by (auto simp: ref_seal_def ref_open_def) metis+
qed

lemma ref_uuids: "ref_uuid 1 = ''00000000-0000-0000-0000-00000000000'' @ [CHR ''1'']"
  "ref_uuid 2 = ''00000000-0000-0000-0000-00000000000'' @ [CHR ''2'']"
  by code_simp+

lemma ref_session_contexts:
  obtains u b b' v where "session_aad ref_env 1 = u @ b # v" "session_aad ref_env 2 = u @ b' # v" "b \<noteq> b'"
proof
  let ?u = "as_bytes (''schema:v2'' @ [CHR 0x00] @ ''table:gateway_secrets.tor_auth_sessions'' @ [CHR 0x00]
      @ ''field:client_onion'' @ [CHR 0x00] @ ''row:00000000-0000-0000-0000-00000000000'')"
  let ?v = "as_bytes [CHR 0x00] @ CLIENT_ONION_AAD"
  have env: "uuid_display ref_env = ref_uuid" by (simp add: ref_env_def)
  show "session_aad ref_env 1 = ?u @ 49 # ?v" "session_aad ref_env 2 = ?u @ 50 # ?v"
    by (simp_all add: session_aad_def record_bound_aad_def env ref_uuids as_bytes_def)
qed simp

end
