(* ===== verification/Threads.thy ===== *)
theory Threads
  imports Prelude
begin

text \<open>
  Operations that can be interrupted. A thread performs an action on the shared state and goes
  on as what that action saw tells it to; between two actions other threads may act. Run without
  interruption, a thread is an operation again.
\<close>

section \<open>Threads\<close>

datatype ('s, 'a) thread = Finished 'a | Running "'s \<Rightarrow> 's" "'s \<Rightarrow> ('s, 'a) thread"

text \<open>One operation as one action, and sequences of them that stop at the first error.\<close>

definition atomT :: "('e, 's, 'a) op \<Rightarrow> ('s, 'e + 'a) thread" where
  "atomT m = Running (\<lambda>s. snd (m s)) (\<lambda>s. Finished (fst (m s)))"

definition returnT :: "'a \<Rightarrow> ('s, 'e + 'a) thread" where
  "returnT a = Finished (Inr a)"

primrec bindT :: "('s, 'e + 'a) thread \<Rightarrow> ('a \<Rightarrow> ('s, 'e + 'c) thread) \<Rightarrow> ('s, 'e + 'c) thread" where
  "bindT (Finished r) f = (case r of Inl e \<Rightarrow> Finished (Inl e) | Inr a \<Rightarrow> f a)"
| "bindT (Running act k) f = Running act (\<lambda>s. bindT (k s) f)"

text \<open>The next action, and all of them.\<close>

primrec stepT :: "('s, 'a) thread \<Rightarrow> 's \<Rightarrow> ('s, 'a) thread \<times> 's" where
  "stepT (Finished a) s = (Finished a, s)"
| "stepT (Running act k) s = (k s, act s)"

primrec runT :: "('s, 'a) thread \<Rightarrow> 's \<Rightarrow> 'a \<times> 's" where
  "runT (Finished a) s = (a, s)"
| "runT (Running act k) s = runT (k s) (act s)"


section \<open>Facts\<close>

lemma run_atom [simp]: "runT (atomT m) = m"
  by (rule ext) (simp add: atomT_def)

lemma run_return [simp]: "runT (returnT a) = returnM a"
  by (rule ext) (simp add: returnT_def)

lemma run_Finished [simp]: "runT (Finished r) = liftE r"
  by (rule ext) simp

lemma run_bind [simp]: "runT (bindT t f) = bindM (runT t) (\<lambda>a. runT (f a))"
proof
  show "runT (bindT t f) s = bindM (runT t) (\<lambda>a. runT (f a)) s" for s
    by (induction t arbitrary: s) (simp_all add: bindM_def split: sum.split)
qed

text \<open>
  A thread is safe for a predicate of the state when each of its actions keeps it, whatever
  happened between them, and its result satisfies a second predicate.
\<close>

inductive safeT :: "('s \<Rightarrow> bool) \<Rightarrow> ('a \<Rightarrow> bool) \<Rightarrow> ('s, 'a) thread \<Rightarrow> bool" for P Q where
  safe_Finished: "Q a \<Longrightarrow> safeT P Q (Finished a)"
| safe_Running: "(\<And>s. P s \<Longrightarrow> P (act s)) \<Longrightarrow> (\<And>s. safeT P Q (k s)) \<Longrightarrow> safeT P Q (Running act k)"

inductive_simps safe_simps: "safeT P Q (Finished a)" "safeT P Q (Running act k)"

text \<open>What an operation's value satisfies, when it has one.\<close>

definition if_value :: "('a \<Rightarrow> bool) \<Rightarrow> 'e + 'a \<Rightarrow> bool" where
  "if_value Q r \<longleftrightarrow> (\<forall>a. r = Inr a \<longrightarrow> Q a)"

named_theorems safe_rules "threads that are safe for the predicate they are listed with"

lemma safe_atom_yields: "preserves P m \<Longrightarrow> yields Q m \<Longrightarrow> safeT P (if_value Q) (atomT m)"
  unfolding atomT_def yields_def if_value_def
  by (intro safeT.intros allI impI) (auto dest: preservesD, metis prod.collapse)

lemma safe_atom [safe_rules]: "preserves P m \<Longrightarrow> safeT P (\<lambda>_. True) (atomT m)"
  unfolding atomT_def by (intro safeT.intros) (auto dest: preservesD)

lemma safe_return [safe_rules]: "safeT P (\<lambda>_. True) (returnT a)"
  unfolding returnT_def by (intro safeT.intros) simp

lemma safe_lift [safe_rules]: "safeT P (\<lambda>_. True) (Finished r)"
  by (intro safeT.intros) simp

lemma safe_bind_value:
  assumes "safeT P (if_value Q) t" and "\<And>a. Q a \<Longrightarrow> safeT P R (f a)" and "\<And>e. R (Inl e)"
  shows "safeT P R (bindT t f)"
  using assms(1)
proof induction
  case (safe_Finished r)
  then show ?case using assms(2,3) by (auto simp: if_value_def split: sum.split intro: safeT.safe_Finished)
next
  case (safe_Running act k)
  then show ?case by (auto intro: safeT.safe_Running)
qed

lemma safe_bind [safe_rules]:
  assumes "safeT P (\<lambda>_. True) t" and "\<And>a. safeT P (\<lambda>_. True) (f a)"
  shows "safeT P (\<lambda>_. True) (bindT t f)"
proof (rule safe_bind_value)
  show "safeT P (if_value (\<lambda>_. True)) t" using assms(1) by (simp add: if_value_def [abs_def])
qed (use assms(2) in simp_all)

lemma safe_step:
  assumes "safeT P Q t"
  shows "safeT P Q (fst (stepT t s))" and "P s \<Longrightarrow> P (snd (stepT t s))"
  using assms by (cases t; simp add: safe_simps)+

text \<open>A safe thread that runs alone is an operation that preserves the predicate.\<close>

lemma safe_preserves: "safeT P Q t \<Longrightarrow> preserves P (runT t)"
proof (rule preservesI)
  show "safeT P Q t \<Longrightarrow> P s \<Longrightarrow> P (snd (runT t s))" for s
    by (induction arbitrary: s rule: safeT.induct) simp_all
qed

text \<open>
  A thread guarantees a relation when each of its actions is a step of it. What the actions keep of every
  predicate of a view of the state, they keep of the view.
\<close>

inductive guarT :: "('s \<Rightarrow> 's \<Rightarrow> bool) \<Rightarrow> ('s, 'a) thread \<Rightarrow> bool" for R where
  guar_Finished: "guarT R (Finished a)"
| guar_Running: "(\<And>s. R s (act s)) \<Longrightarrow> (\<And>s. guarT R (k s)) \<Longrightarrow> guarT R (Running act k)"

inductive_simps guar_simps: "guarT R (Finished a)" "guarT R (Running act k)"

named_theorems guar_rules "threads that guarantee the relation they are listed with"

declare guar_Finished [guar_rules]

lemma guar_atom: "(\<And>s. R s (snd (m s))) \<Longrightarrow> guarT R (atomT m)"
  unfolding atomT_def by (intro guarT.intros)

lemma guar_return [guar_rules]: "guarT R (returnT a)"
  unfolding returnT_def by (rule guar_Finished)

lemma guar_bind [guar_rules]:
  assumes "guarT R t" and "\<And>a. guarT R (f a)"
  shows "guarT R (bindT t f)"
  using assms(1)
proof induction
  case (guar_Finished r)
  then show ?case using assms(2) by (auto split: sum.split intro: guarT.guar_Finished)
qed (auto intro: guarT.guar_Running)

lemma guar_view:
  assumes "\<And>Q. safeT (\<lambda>s. Q (view s)) T t"
  shows "guarT (\<lambda>s s'. view s' = view s) t"
  using assms
proof (induction t rule: thread.induct)
  case (Running act k)
  have "view (act s) = view s" for s using Running.prems [of "\<lambda>v. v = view s"] by (simp add: safe_simps)
  moreover have "guarT (\<lambda>s s'. view s' = view s) (k s)" for s
    by (rule Running.IH) (use Running.prems in \<open>auto simp: safe_simps\<close>)
  ultimately show ?case by (intro guarT.guar_Running)
qed (rule guarT.guar_Finished)

lemma guar_mono: "guarT R t \<Longrightarrow> (\<And>s s'. R s s' \<Longrightarrow> R' s s') \<Longrightarrow> guarT R' t"
  by (induction rule: guarT.induct) (auto intro: guarT.intros)

lemma guar_step:
  assumes "guarT R t" and "\<And>s. R s s"
  shows "guarT R (fst (stepT t s))" and "R s (snd (stepT t s))"
  using assms by (cases t; simp add: guar_simps)+

text \<open>A thread ends after at most so many actions, whatever happens between them.\<close>

inductive endsT :: "nat \<Rightarrow> ('s, 'a) thread \<Rightarrow> bool" where
  ends_Finished: "endsT n (Finished a)"
| ends_Running: "(\<And>s. endsT n (k s)) \<Longrightarrow> endsT (Suc n) (Running act k)"

inductive_simps ends_0: "endsT 0 t"
inductive_cases ends_SucE: "endsT (Suc n) t"

named_theorems ends_rules "how many actions threads take"

declare ends_Finished [ends_rules]

lemma ends_return [ends_rules]: "endsT n (returnT a)"
  unfolding returnT_def by (rule ends_Finished)

lemma ends_atom: "endsT (Suc n) (atomT m)"
  unfolding atomT_def by (intro endsT.intros)

lemma ends_Suc: "endsT n t \<Longrightarrow> endsT (Suc n) t"
  by (induction rule: endsT.induct) (auto intro: endsT.intros)

lemma ends_bind_Finished [ends_rules]:
  "(\<And>a. r = Inr a \<Longrightarrow> endsT n (f a)) \<Longrightarrow> endsT n (bindT (Finished r) f)"
  by (auto split: sum.split intro: endsT.intros)

lemma ends_bind_atom [ends_rules]: "(\<And>a. endsT n (f a)) \<Longrightarrow> endsT (Suc n) (bindT (atomT m) f)"
  unfolding atomT_def by (auto split: sum.split intro!: endsT.intros)

lemma ends_step: "endsT n t \<Longrightarrow> endsT (n - 1) (fst (stepT t s))"
  by (induction rule: endsT.induct) (auto intro: endsT.intros)

declare bindT.simps [simp del]

end
