(* ===== verification/Guard.thy ===== *)
theory Guard
  imports Schema
begin

text \<open>
  Guard relay health (\<^verbatim>\<open>src/guard.rs\<close>): observations of Tor guards in
  \<^verbatim>\<open>gateway_data.guard_health\<close>, one row per fingerprint, written by upserts.
\<close>

section \<open>Records\<close>

record GuardSuccessUpdate =
  gs_uptime_ratio :: "f64 option"
  gs_asn :: "int option"
  gs_rpki_valid :: "bool option"
  gs_pow_score :: "f64 option"
  gs_rtt_p50_ms :: "f64 option"
  gs_rtt_p95_ms :: "f64 option"

record GuardHealthSnapshot =
  gn_guard_fpr :: string
  gn_first_seen :: time
  gn_last_ok :: time
  gn_fail_count :: int
  gn_uptime_ratio :: "f64 option"
  gn_asn :: "int option"
  gn_rpki_valid :: "bool option"
  gn_pow_score :: "f64 option"
  gn_rtt_p50_ms :: "f64 option"
  gn_rtt_p95_ms :: "f64 option"
  gn_tee_capable :: bool
  gn_tee_label :: "string option"
  gn_tee_policy :: "string option"
  gn_tee_verified_at :: "time option"

definition guard_snapshot :: "guard_health_row \<Rightarrow> GuardHealthSnapshot" where
  "guard_snapshot row =
     \<lparr>gn_guard_fpr = gh_guard_fpr row, gn_first_seen = gh_first_seen row, gn_last_ok = gh_last_ok row,
      gn_fail_count = gh_fail_count row, gn_uptime_ratio = gh_uptime_ratio row, gn_asn = gh_asn row,
      gn_rpki_valid = gh_rpki_valid row, gn_pow_score = gh_pow_score row,
      gn_rtt_p50_ms = gh_rtt_p50_ms row, gn_rtt_p95_ms = gh_rtt_p95_ms row,
      gn_tee_capable = gh_tee_capable row, gn_tee_label = gh_tee_label row,
      gn_tee_policy = gh_tee_policy row, gn_tee_verified_at = gh_tee_verified_at row\<rparr>"


section \<open>Statements\<close>

definition coalesce :: "'a option \<Rightarrow> 'a option \<Rightarrow> 'a option" where
  "coalesce a b = (case a of None \<Rightarrow> b | Some _ \<Rightarrow> a)"

text \<open>A row with only the named columns given; the others take their defaults.\<close>

definition new_guard_row :: "string \<Rightarrow> time \<Rightarrow> int \<Rightarrow> guard_health_row" where
  "new_guard_row fpr now fails =
     \<lparr>gh_guard_fpr = fpr, gh_first_seen = now, gh_last_ok = now, gh_fail_count = fails,
      gh_uptime_ratio = None, gh_asn = None, gh_rpki_valid = None, gh_pow_score = None,
      gh_rtt_p50_ms = None, gh_rtt_p95_ms = None, gh_tee_capable = False, gh_tee_label = None,
      gh_tee_policy = None, gh_tee_verified_at = None\<rparr>"

definition succeeded :: "GuardSuccessUpdate \<Rightarrow> time \<Rightarrow> guard_health_row \<Rightarrow> guard_health_row" where
  "succeeded u now g =
     g\<lparr>gh_last_ok := now,
       gh_uptime_ratio := coalesce (gs_uptime_ratio u) (gh_uptime_ratio g),
       gh_asn := coalesce (gs_asn u) (gh_asn g),
       gh_rpki_valid := coalesce (gs_rpki_valid u) (gh_rpki_valid g),
       gh_pow_score := coalesce (gs_pow_score u) (gh_pow_score g),
       gh_rtt_p50_ms := coalesce (gs_rtt_p50_ms u) (gh_rtt_p50_ms g),
       gh_rtt_p95_ms := coalesce (gs_rtt_p95_ms u) (gh_rtt_p95_ms g)\<rparr>"

definition failed_again :: "guard_health_row \<Rightarrow> guard_health_row" where
  "failed_again g = g\<lparr>gh_fail_count := gh_fail_count g + 1\<rparr>"

definition tee_status_set ::
  "bool \<Rightarrow> string option \<Rightarrow> string option \<Rightarrow> time \<Rightarrow> guard_health_row \<Rightarrow> guard_health_row" where
  "tee_status_set capable label policy now g =
     g\<lparr>gh_tee_capable := capable, gh_tee_label := label, gh_tee_policy := policy,
       gh_tee_verified_at := Some now\<rparr>"

definition upsert_guard_success :: "string \<Rightarrow> GuardSuccessUpdate \<Rightarrow> unit stmt" where
  [sql_defs]: "upsert_guard_success fpr u n now d =
     Inr ((), d\<lparr>guard_health := upsert_row gh_guard_fpr
        ((new_guard_row fpr now 0)
           \<lparr>gh_uptime_ratio := gs_uptime_ratio u, gh_asn := gs_asn u, gh_rpki_valid := gs_rpki_valid u,
            gh_pow_score := gs_pow_score u, gh_rtt_p50_ms := gs_rtt_p50_ms u,
            gh_rtt_p95_ms := gs_rtt_p95_ms u\<rparr>)
        (succeeded u now) (guard_health d)\<rparr>)"

text \<open>The counter is a 32-bit column: the statement fails rather than let it wrap.\<close>

definition upsert_guard_failure :: "string \<Rightarrow> int stmt" where
  [sql_defs]: "upsert_guard_failure fpr n now d =
     (case find (\<lambda>g. gh_guard_fpr g = fpr) (guard_health d) of
        None \<Rightarrow> Inr (1, d\<lparr>guard_health := guard_health d @ [new_guard_row fpr now 1]\<rparr>)
      | Some g \<Rightarrow>
          if in_i32 (gh_fail_count g + 1)
          then Inr (gh_fail_count g + 1,
                 d\<lparr>guard_health := update_where (\<lambda>r. gh_guard_fpr r = fpr) failed_again (guard_health d)\<rparr>)
          else Inl NumericOutOfRange)"

definition upsert_guard_tee ::
  "string \<Rightarrow> bool \<Rightarrow> string option \<Rightarrow> string option \<Rightarrow> unit stmt" where
  [sql_defs]: "upsert_guard_tee fpr capable label policy n now d =
     Inr ((), d\<lparr>guard_health := upsert_row gh_guard_fpr
        (tee_status_set capable label policy now (new_guard_row fpr now 0))
        (tee_status_set capable label policy now) (guard_health d)\<rparr>)"

definition select_guards :: "int \<Rightarrow> guard_health_row list stmt" where
  [sql_defs]: "select_guards l n now d =
     bindE (sql_limit l (sort_key (\<lambda>g. - gh_last_ok g) (guard_health d))) (\<lambda>rows. Inr (rows, d))"


section \<open>Operations\<close>

definition note_guard_success ::
  "('b, 'z) ext_scheme \<Rightarrow> string \<Rightarrow> GuardSuccessUpdate \<Rightarrow> ('b, unit) db_op" where
  "note_guard_success x fpr update = exec_stmt x (upsert_guard_success fpr update)"

definition note_guard_failure :: "('b, 'z) ext_scheme \<Rightarrow> string \<Rightarrow> ('b, int) db_op" where
  "note_guard_failure x fpr = exec_stmt x (upsert_guard_failure fpr)"

definition list_guard_health ::
  "('b, 'z) ext_scheme \<Rightarrow> int \<Rightarrow> ('b, GuardHealthSnapshot list) db_op" where
  "list_guard_health x l =
     bindM (exec_stmt x (select_guards l)) (\<lambda>records. returnM (map guard_snapshot records))"

definition set_guard_tee_status ::
  "('b, 'z) ext_scheme \<Rightarrow> string \<Rightarrow> bool \<Rightarrow> string option \<Rightarrow> string option \<Rightarrow> ('b, unit) db_op" where
  "set_guard_tee_status x fpr capable label policy =
     exec_stmt x (upsert_guard_tee fpr capable label policy)"


section \<open>Facts\<close>

interpretation success_key: key_update gh_guard_fpr "succeeded u now" for u now
  by unfold_locales (simp add: succeeded_def)

interpretation failure_key: key_update gh_guard_fpr failed_again
  by unfold_locales (simp add: failed_again_def)

interpretation tee_key: key_update gh_guard_fpr "tee_status_set capable label policy now"
  for capable label policy now
  by unfold_locales (simp add: tee_status_set_def)

lemma schema_ok_guards:
  "schema_ok d \<Longrightarrow> distinct (map gh_guard_fpr gs) \<Longrightarrow> list_all (\<lambda>g. in_i32 (gh_fail_count g)) gs \<Longrightarrow>
     schema_ok (d\<lparr>guard_health := gs\<rparr>)"
  by (simp add: schema_ok_def)

lemma schema_ok_guardsD:
  "schema_ok d \<Longrightarrow> distinct (map gh_guard_fpr (guard_health d))"
  "schema_ok d \<Longrightarrow> list_all (\<lambda>g. in_i32 (gh_fail_count g)) (guard_health d)"
  by (simp_all add: schema_ok_def)

lemma fail_count_small: "in_i32 0" "in_i32 1"
  by (simp_all add: in_i32_def)

lemma guard_failure_ok:
  assumes "schema_ok d" and "upsert_guard_failure fpr n now d = Inr (k, d')"
  shows "schema_ok d'"
proof (cases "find (\<lambda>g. gh_guard_fpr g = fpr) (guard_health d)")
  case None
  with assms show ?thesis
    by (auto simp: upsert_guard_failure_def find_None_iff new_guard_row_def fail_count_small
        intro!: schema_ok_guards dest: schema_ok_guardsD)
next
  case (Some g)
  with assms(2) have i: "in_i32 (gh_fail_count g + 1)"
    and d': "d' = d\<lparr>guard_health := update_where (\<lambda>r. gh_guard_fpr r = fpr) failed_again (guard_health d)\<rparr>"
    by (auto simp: upsert_guard_failure_def split: if_splits)
  have "r = g" if "r \<in> set (guard_health d)" "gh_guard_fpr r = fpr" for r
    using find_unique_key [OF schema_ok_guardsD(1) [OF assms(1)] that] Some by simp
  with i schema_ok_guardsD(2) [OF assms(1)]
  have "list_all (\<lambda>g. in_i32 (gh_fail_count g)) (guard_health d')"
    by (auto simp: d' list_all_iff set_update_where failed_again_def)
  with assms(1) show ?thesis
    unfolding d' by (intro schema_ok_guards) (simp_all add: schema_ok_guardsD(1))
qed

lemma guard_stmts_keep_schema [preserves_rules]:
  "stmt_keeps schema_ok (upsert_guard_success fpr u)"
  "stmt_keeps schema_ok (upsert_guard_tee fpr capable label policy)"
  "stmt_keeps schema_ok (upsert_guard_failure fpr)"
  "stmt_keeps schema_ok (select_guards l)"
  by (auto intro!: stmt_keepsI schema_ok_guards success_key.distinct_upsert_row tee_key.distinct_upsert_row
        success_key.list_all_upsert_row tee_key.list_all_upsert_row
      simp: upsert_guard_success_def upsert_guard_tee_def select_guards_def bindE_eq_Inr schema_ok_guardsD
        new_guard_row_def succeeded_def tee_status_set_def fail_count_small
      elim: guard_failure_ok)

lemma guard_stmts_keep_sealed [preserves_rules]:
  "stmt_keeps sealed_at_rest (upsert_guard_success fpr u)"
  "stmt_keeps sealed_at_rest (upsert_guard_tee fpr capable label policy)"
  "stmt_keeps sealed_at_rest (upsert_guard_failure fpr)"
  "stmt_keeps sealed_at_rest (select_guards l)"
  by (auto intro!: stmt_keepsI simp: sql_defs sealed_at_rest_def bindE_eq_Inr
      split: option.splits if_splits)

lemmas guard_op_defs =
  note_guard_success_def note_guard_failure_def list_guard_health_def set_guard_tee_status_def

lemma guard_ops_keep_schema:
  "preserves (db_pred schema_ok) (note_guard_success x fpr u)"
  "preserves (db_pred schema_ok) (note_guard_failure x fpr)"
  "preserves (db_pred schema_ok) (list_guard_health x l)"
  "preserves (db_pred schema_ok) (set_guard_tee_status x fpr capable label policy)"
  unfolding guard_op_defs by (intro preserves_rules)+

lemma guard_ops_keep_sealed:
  "preserves (db_pred sealed_at_rest) (note_guard_success x fpr u)"
  "preserves (db_pred sealed_at_rest) (note_guard_failure x fpr)"
  "preserves (db_pred sealed_at_rest) (list_guard_health x l)"
  "preserves (db_pred sealed_at_rest) (set_guard_tee_status x fpr capable label policy)"
  unfolding guard_op_defs by (intro preserves_rules)+

end
