(* ===== verification/Env.thy ===== *)
theory Env
  imports Db_Error
begin

text \<open>
  Process environment and the helpers of \<^verbatim>\<open>src/lib.rs\<close> that read it. A variable is unset, set to
  something that is not Unicode (with the text \<^verbatim>\<open>VarError\<close> prints), or set to a string.

  The configuration functions return \<^verbatim>\<open>anyhow::Error\<close>; its messages embed Debug renderings of
  arbitrary values, so the model keeps which error it is as a value of \<open>config_error\<close>.
\<close>

datatype env_var = Unset | NotUnicode string | Present string

type_synonym env = "string \<Rightarrow> env_var"

datatype config_error =
    Missing string
  | Empty string
  | BadInteger string string
  | Unreadable string string
  | MustBePositive string
  | StaticNotAllowed
  | UnknownSource string
  | OverridesWithoutAudience
  | BadPoolBounds
  | BadTimeouts
  | Wrapped DatabaseError

text \<open>\<^verbatim>\<open>env::var(key).ok()\<close>: a value that is not Unicode reads as absent.\<close>

definition env_ok :: "env \<Rightarrow> string \<Rightarrow> string option" where
  "env_ok e key = (case e key of Present v \<Rightarrow> Some v | _ \<Rightarrow> None)"

definition required_env :: "env \<Rightarrow> string \<Rightarrow> config_error + string" where
  "required_env e key =
     (case env_ok e key of
        None \<Rightarrow> Inl (Missing key)
      | Some value \<Rightarrow> if trim value = [] then Inl (Empty key) else Inr value)"

definition parse_u32_env :: "env \<Rightarrow> string \<Rightarrow> nat \<Rightarrow> config_error + nat" where
  "parse_u32_env e key dflt =
     (case e key of
        Present raw \<Rightarrow> ok_or (BadInteger key raw) (parse_unsigned 32 raw)
      | Unset \<Rightarrow> Inr dflt
      | NotUnicode err \<Rightarrow> Inl (Unreadable key err))"

definition parse_u64_env :: "env \<Rightarrow> string \<Rightarrow> nat \<Rightarrow> config_error + nat" where
  "parse_u64_env e key dflt =
     (case e key of
        Present raw \<Rightarrow> ok_or (BadInteger key raw) (parse_unsigned 64 raw)
      | Unset \<Rightarrow> Inr dflt
      | NotUnicode err \<Rightarrow> Inl (Unreadable key err))"

definition env_flag :: "env \<Rightarrow> string \<Rightarrow> bool db_result" where
  "env_flag e key =
     (case e key of
        Unset \<Rightarrow> Inr False
      | NotUnicode err \<Rightarrow> Inl (Configuration (''failed to read '' @ key @ '': '' @ err))
      | Present value \<Rightarrow>
          (let v = to_ascii_lowercase (trim value) in
           if v \<in> set [''1'', ''true'', ''yes'', ''on''] then Inr True
           else if v \<in> set [''0'', ''false'', ''no'', ''off''] then Inr False
           else Inl (Configuration (key @ '' must be a boolean value''))))"


section \<open>Facts\<close>

lemma required_env_Inr: "required_env e key = Inr v \<longleftrightarrow> e key = Present v \<and> trim v \<noteq> []"
  by (auto simp: required_env_def env_ok_def split: env_var.splits option.splits if_splits)

lemma parse_u32_env_bound:
  "parse_u32_env e key n = Inr m \<Longrightarrow> n < 2 ^ 32 \<Longrightarrow> m < 2 ^ 32"
  by (auto simp: parse_u32_env_def dest: parse_unsigned_bound split: env_var.splits)

lemma parse_u64_env_bound:
  "parse_u64_env e key n = Inr m \<Longrightarrow> n < 2 ^ 64 \<Longrightarrow> m < 2 ^ 64"
  by (auto simp: parse_u64_env_def dest: parse_unsigned_bound split: env_var.splits)

end
