(* ===== verification/Tee.thy ===== *)
theory Tee
  imports Schema Env
begin

text \<open>
  The trusted execution environment client (\<^verbatim>\<open>src/tee.rs\<close>) and the records it leaves: the
  audit and attestation statements of \<^verbatim>\<open>PgPool\<close> in \<^verbatim>\<open>src/lib.rs\<close>. The dstack SDK is a record
  of functions on an abstract device state.
\<close>

section \<open>Configuration\<close>

record TeeEndpointConfig =
  te_dstack_endpoint :: "string option"
  te_tappd_endpoint :: "string option"
  te_report_data :: "bytes option"

definition tee_decode_report_data :: "'z codec_scheme \<Rightarrow> string \<Rightarrow> anyhow + bytes" where
  "tee_decode_report_data x raw =
     (case hex_decode x raw of
        Some bs \<Rightarrow> if length bs = 64 then Inr bs
                  else (case b64_decode x (as_bytes raw) of
                          Some bs \<Rightarrow> if length bs = 64 then Inr bs
                                    else Inl ''report data must be 64 bytes hex or base64 encoded''
                        | None \<Rightarrow> Inl ''report data must be 64 bytes hex or base64 encoded'')
      | None \<Rightarrow> (case b64_decode x (as_bytes raw) of
                   Some bs \<Rightarrow> if length bs = 64 then Inr bs
                             else Inl ''report data must be 64 bytes hex or base64 encoded''
                 | None \<Rightarrow> Inl ''report data must be 64 bytes hex or base64 encoded''))"

definition tee_config_from_env :: "'z codec_scheme \<Rightarrow> env \<Rightarrow> TeeEndpointConfig db_result" where
  "tee_config_from_env x e =
     (let dstack_endpoint = env_ok e ''SECURE_DB_DSTACK_ENDPOINT'';
          tappd_endpoint = env_ok e ''SECURE_DB_TAPPD_ENDPOINT'' in
      bindE (case env_ok e ''SECURE_DB_TEE_REPORT_DATA'' of
               None \<Rightarrow> Inr None
             | Some raw \<Rightarrow> bindE (map_err Configuration (tee_decode_report_data x raw)) (\<lambda>d. Inr (Some d)))
        (\<lambda>report_data.
           Inr \<lparr>te_dstack_endpoint = dstack_endpoint, te_tappd_endpoint = tappd_endpoint,
                te_report_data = report_data\<rparr>))"

definition tee_report_data :: "TeeEndpointConfig \<Rightarrow> bytes" where
  "tee_report_data c = (case te_report_data c of Some d \<Rightarrow> d | None \<Rightarrow> replicate 64 0)"


section \<open>The client\<close>

record InfoResponse =
  if_app_id :: string
  if_instance_id :: string
  if_device_id :: string
  if_compose_hash :: string
  if_key_provider_info :: string

text \<open>A quote as the SDK returns it, with what its own decoders make of it.\<close>

record QuoteResponse =
  qr_event_log :: string
  qr_replay_rtmrs :: "anyhow + json"
  qr_decode_quote :: "anyhow + bytes"

record 'd dstack =
  dstack_info :: "string option \<Rightarrow> 'd \<Rightarrow> (anyhow + InfoResponse) \<times> 'd"
  dstack_get_quote :: "string option \<Rightarrow> bytes \<Rightarrow> 'd \<Rightarrow> (anyhow + QuoteResponse) \<times> 'd"
  dstack_emit_event :: "string option \<Rightarrow> string \<Rightarrow> bytes \<Rightarrow> 'd \<Rightarrow> (anyhow + unit) \<times> 'd"
  dstack_get_key :: "string option \<Rightarrow> string option \<Rightarrow> string option \<Rightarrow> 'd \<Rightarrow> (anyhow + opaque) \<times> 'd"
  dstack_get_tls_key :: "string option \<Rightarrow> opaque \<Rightarrow> 'd \<Rightarrow> (anyhow + opaque) \<times> 'd"
  json_from_str :: "string \<Rightarrow> anyhow + json"
  dstack_now :: "'d \<Rightarrow> time"

record TeeClient =
  cl_dstack :: "string option"
  cl_tappd :: "string option"
  cl_report_data :: bytes

record TeeAttestation =
  at_app_id :: string
  at_instance_id :: string
  at_device_id :: string
  at_compose_hash :: string
  at_key_provider_info :: string
  at_quote :: bytes
  at_rtmr :: json
  at_event_log :: json
  at_recorded_at :: time

definition tee_client_new :: "TeeEndpointConfig \<Rightarrow> TeeClient" where
  "tee_client_new config =
     \<lparr>cl_dstack = te_dstack_endpoint config, cl_tappd = te_tappd_endpoint config,
      cl_report_data = tee_report_data config\<rparr>"

definition attest :: "'d dstack \<Rightarrow> TeeClient \<Rightarrow> (DatabaseError, 'd, TeeAttestation) op" where
  "attest sdk c =
     bindM (map_errM Attestation (dstack_info sdk (cl_dstack c))) (\<lambda>info.
     bindM (map_errM Attestation (dstack_get_quote sdk (cl_dstack c) (cl_report_data c))) (\<lambda>quote.
     bindM (liftE (map_err Attestation (qr_replay_rtmrs quote))) (\<lambda>rtmr_json.
     bindM (liftE (map_err Attestation (json_from_str sdk (qr_event_log quote)))) (\<lambda>event_log_json.
     bindM (liftE (map_err Attestation (qr_decode_quote quote))) (\<lambda>quote_bytes d.
     (Inr
       \<lparr>at_app_id = if_app_id info, at_instance_id = if_instance_id info,
        at_device_id = if_device_id info, at_compose_hash = if_compose_hash info,
        at_key_provider_info = if_key_provider_info info, at_quote = quote_bytes,
        at_rtmr = rtmr_json, at_event_log = event_log_json, at_recorded_at = dstack_now sdk d\<rparr>, d))))))"

definition emit_event :: "'d dstack \<Rightarrow> TeeClient \<Rightarrow> string \<Rightarrow> bytes \<Rightarrow> (DatabaseError, 'd, unit) op" where
  "emit_event sdk c event payload =
     map_errM Attestation (dstack_emit_event sdk (cl_dstack c) event payload)"

definition tee_get_key :: "'d dstack \<Rightarrow> TeeClient \<Rightarrow> string \<Rightarrow> (DatabaseError, 'd, opaque) op" where
  "tee_get_key sdk c path = map_errM Attestation (dstack_get_key sdk (cl_dstack c) (Some path) None)"

definition derive_tls_key :: "'d dstack \<Rightarrow> TeeClient \<Rightarrow> opaque \<Rightarrow> (DatabaseError, 'd, opaque) op" where
  "derive_tls_key sdk c config = map_errM Attestation (dstack_get_tls_key sdk (cl_dstack c) config)"

definition tee_info :: "'d dstack \<Rightarrow> TeeClient \<Rightarrow> (DatabaseError, 'd, InfoResponse) op" where
  "tee_info sdk c = map_errM Attestation (dstack_info sdk (cl_dstack c))"

text \<open>\<open>rfc3339\<close> is chrono's serialisation of a timestamp.\<close>

definition as_audit_payload :: "(time \<Rightarrow> json) \<Rightarrow> TeeAttestation \<Rightarrow> json" where
  "as_audit_payload rfc3339 a =
     JObject [(''app_id'', JString (at_app_id a)), (''instance_id'', JString (at_instance_id a)),
       (''device_id'', JString (at_device_id a)), (''compose_hash'', JString (at_compose_hash a)),
       (''recorded_at'', rfc3339 (at_recorded_at a))]"


section \<open>Records in the database\<close>

text \<open>\<open>gen\<close> is the server's \<^verbatim>\<open>gen_random_uuid()\<close>, the default of the id columns.\<close>

definition insert_tor_connect :: "(nat \<Rightarrow> uuid) \<Rightarrow> uuid \<Rightarrow> unit stmt" where
  [sql_defs]: "insert_tor_connect gen user_id n now d =
     (let r = \<lparr>ca_id = gen n, ca_user_id = user_id, ca_occurred_at = now\<rparr> in
      if (ca_id r, ca_occurred_at r) \<in> (\<lambda>r. (ca_id r, ca_occurred_at r)) ` set (tor_connect_audits d)
      then Inl (UniqueViolation ''tor_connect_audits_pkey'')
      else Inr ((), d\<lparr>tor_connect_audits := tor_connect_audits d @ [r]\<rparr>))"

definition audit_tor_connect :: "('b, 'z) ext_scheme \<Rightarrow> uuid \<Rightarrow> ('b, unit) db_op" where
  "audit_tor_connect x user_id = exec_stmt x (insert_tor_connect (random_uuid x) user_id)"

definition insert_audit_log :: "(nat \<Rightarrow> uuid) \<Rightarrow> uuid \<Rightarrow> string \<Rightarrow> string \<Rightarrow> unit stmt" where
  [sql_defs]: "insert_audit_log gen user_id operation payload_hash n now d =
     (let r = \<lparr>al_id = gen n, al_user_id = user_id, al_operation = operation,
               al_payload_hash = payload_hash, al_created_at = now\<rparr> in
      if al_id r \<in> al_id ` set (audit_logs d)
      then Inl (UniqueViolation ''audit_logs_pkey'')
      else Inr ((), d\<lparr>audit_logs := audit_logs d @ [r]\<rparr>))"

definition audit_operation ::
  "('b, 'z) ext_scheme \<Rightarrow> uuid \<Rightarrow> string \<Rightarrow> bytes \<Rightarrow> ('b, unit) db_op" where
  "audit_operation x user_id operation payload =
     (let digest = hex_encode x (sha256 x payload) in
      exec_stmt x (insert_audit_log (random_uuid x) user_id operation digest))"

definition insert_tee_attestation :: "(nat \<Rightarrow> uuid) \<Rightarrow> uuid \<Rightarrow> TeeAttestation \<Rightarrow> unit stmt" where
  [sql_defs]: "insert_tee_attestation gen user_id a n now d =
     (let r = \<lparr>ta_id = gen n, ta_user_id = user_id, ta_app_id = at_app_id a,
               ta_instance_id = at_instance_id a, ta_device_id = at_device_id a,
               ta_compose_hash = at_compose_hash a, ta_key_provider_info = at_key_provider_info a,
               ta_quote = at_quote a, ta_rtmr = at_rtmr a, ta_event_log = at_event_log a,
               ta_recorded_at = at_recorded_at a\<rparr> in
      if (ta_id r, ta_user_id r) \<in> (\<lambda>r. (ta_id r, ta_user_id r)) ` set (tee_attestations d)
      then Inl (UniqueViolation ''tee_attestations_pkey'')
      else Inr ((), d\<lparr>tee_attestations := tee_attestations d @ [r]\<rparr>))"

definition record_tee_attestation ::
  "('b, 'z) ext_scheme \<Rightarrow> uuid \<Rightarrow> TeeAttestation \<Rightarrow> ('b, unit) db_op" where
  "record_tee_attestation x user_id a =
     exec_stmt x (insert_tee_attestation (random_uuid x) user_id a)"

definition attestation_from_row :: "tee_attestation_row \<Rightarrow> TeeAttestation" where
  "attestation_from_row r =
     \<lparr>at_app_id = ta_app_id r, at_instance_id = ta_instance_id r, at_device_id = ta_device_id r,
      at_compose_hash = ta_compose_hash r, at_key_provider_info = ta_key_provider_info r,
      at_quote = ta_quote r, at_rtmr = ta_rtmr r, at_event_log = ta_event_log r,
      at_recorded_at = ta_recorded_at r\<rparr>"

definition select_tee_attestations :: "uuid \<Rightarrow> int \<Rightarrow> tee_attestation_row list stmt" where
  [sql_defs]: "select_tee_attestations user_id l n now d =
     bindE (sql_limit l (sort_key (\<lambda>r. - ta_recorded_at r)
              (filter (\<lambda>r. ta_user_id r = user_id) (tee_attestations d)))) (\<lambda>rows. Inr (rows, d))"

definition recent_tee_attestations ::
  "('b, 'z) ext_scheme \<Rightarrow> uuid \<Rightarrow> int \<Rightarrow> ('b, TeeAttestation list) db_op" where
  "recent_tee_attestations x user_id l =
     (if l \<le> 0 then throwM (Configuration ''attestation query limit must be greater than zero'')
      else bindM (exec_stmt x (select_tee_attestations user_id (min l 1000)))
             (\<lambda>rows. returnM (map attestation_from_row rows)))"


section \<open>Facts\<close>

lemma tee_decode_report_data_length: "tee_decode_report_data x raw = Inr d \<Longrightarrow> length d = 64"
  by (auto simp: tee_decode_report_data_def split: option.splits if_splits)

lemma tee_report_data_length:
  assumes "tee_config_from_env x e = Inr c"
  shows "length (tee_report_data c) = 64"
  using assms
  by (auto simp: tee_config_from_env_def tee_report_data_def bindE_eq_Inr
      dest: tee_decode_report_data_length split: option.splits)

lemma record_stmts_keep_schema [preserves_rules]:
  "stmt_keeps schema_ok (insert_tor_connect gen u)"
  "stmt_keeps schema_ok (insert_audit_log gen u oper h)"
  "stmt_keeps schema_ok (insert_tee_attestation gen u a)"
  "stmt_keeps schema_ok (select_tee_attestations u l)"
  by (auto intro!: stmt_keepsI simp: insert_tor_connect_def insert_audit_log_def insert_tee_attestation_def
      select_tee_attestations_def bindE_eq_Inr schema_ok_def Let_def split: if_splits)

lemma record_stmts_keep_sealed [preserves_rules]:
  "stmt_keeps sealed_at_rest (insert_tor_connect gen u)"
  "stmt_keeps sealed_at_rest (insert_audit_log gen u oper h)"
  "stmt_keeps sealed_at_rest (insert_tee_attestation gen u a)"
  "stmt_keeps sealed_at_rest (select_tee_attestations u l)"
  by (auto intro!: stmt_keepsI simp: sql_defs bindE_eq_Inr sealed_at_rest_def Let_def split: if_splits)

lemma record_ops_keep_schema:
  "preserves (db_pred schema_ok) (audit_tor_connect x u)"
  "preserves (db_pred schema_ok) (audit_operation x u oper payload)"
  "preserves (db_pred schema_ok) (record_tee_attestation x u a)"
  "preserves (db_pred schema_ok) (recent_tee_attestations x u l)"
  by (auto simp: audit_tor_connect_def audit_operation_def record_tee_attestation_def
      recent_tee_attestations_def intro!: preserves_rules)

lemma record_ops_keep_sealed:
  "preserves (db_pred sealed_at_rest) (audit_tor_connect x u)"
  "preserves (db_pred sealed_at_rest) (audit_operation x u oper payload)"
  "preserves (db_pred sealed_at_rest) (record_tee_attestation x u a)"
  "preserves (db_pred sealed_at_rest) (recent_tee_attestations x u l)"
  by (auto simp: audit_tor_connect_def audit_operation_def record_tee_attestation_def
      recent_tee_attestations_def intro!: preserves_rules)

end
