(* ===== verification/Zk.thy ===== *)
theory Zk
  imports Schema
begin

text \<open>
  Zero-knowledge proof bundles (\<^verbatim>\<open>src/zk.rs\<close>). The field of the Pallas curve is the integers
  modulo \<open>FP_MODULUS\<close>; a circuit is its gates and copy constraints as the sources configure
  them. Key generation, proving and verifying are halo2's: the record \<open>halo2\<close>.
\<close>

section \<open>The scalar field\<close>

type_synonym fp = int

definition FP_MODULUS :: int where
  "FP_MODULUS = 0x40000000000000000000000000000000224698fc094cf91b992d30ed00000001"

definition fp_add :: "fp \<Rightarrow> fp \<Rightarrow> fp" where "fp_add a b = (a + b) mod FP_MODULUS"
definition fp_sub :: "fp \<Rightarrow> fp \<Rightarrow> fp" where "fp_sub a b = (a - b) mod FP_MODULUS"
definition fp_mul :: "fp \<Rightarrow> fp \<Rightarrow> fp" where "fp_mul a b = (a * b) mod FP_MODULUS"

definition in_fp :: "fp \<Rightarrow> bool" where
  "in_fp a \<longleftrightarrow> 0 \<le> a \<and> a < FP_MODULUS"

fun le_value :: "bytes \<Rightarrow> int" where
  "le_value [] = 0"
| "le_value (b # bs) = uint b + 256 * le_value bs"

fun le_bytes :: "nat \<Rightarrow> int \<Rightarrow> bytes" where
  "le_bytes 0 v = []"
| "le_bytes (Suc n) v = word_of_int v # le_bytes n (v div 256)"

text \<open>\<^verbatim>\<open>Fp::from(u64)\<close>.\<close>

definition fp_from_u64 :: "64 word \<Rightarrow> fp" where
  "fp_from_u64 n = uint n mod FP_MODULUS"


section \<open>Digests and commitments\<close>

definition normalise_digest :: "'z crypto_scheme \<Rightarrow> bytes \<Rightarrow> bytes" where
  "normalise_digest x digest = (if length digest = 32 then digest else sha256 x digest)"

definition hash_expected_digest :: "'z crypto_scheme \<Rightarrow> bytes \<Rightarrow> string" where
  "hash_expected_digest x digest = hex_encode x (sha256 x digest)"

text \<open>
  \<^verbatim>\<open>Fp::from_raw\<close> reduces modulo the field order. The source panics on a slice that is not
  32 bytes long; its callers pass normalised digests only.
\<close>

definition digest_to_scalar :: "bytes \<Rightarrow> fp db_result" where
  "digest_to_scalar bs = Inr (le_value bs mod FP_MODULUS)"

definition scalar_from_bytes :: "bytes \<Rightarrow> fp db_result" where
  "scalar_from_bytes bs =
     (if length bs \<noteq> 32 then Inl (ZeroKnowledge ''proof commitment must be 32 bytes'')
      else if le_value bs < FP_MODULUS then Inr (le_value bs)
      else Inl (ZeroKnowledge ''invalid field encoding''))"

definition scalar_to_bytes :: "fp \<Rightarrow> bytes" where
  "scalar_to_bytes s = le_bytes 32 s"

definition derive_relay_commitment ::
  "'z crypto_scheme \<Rightarrow> bytes \<Rightarrow> 32 word \<Rightarrow> 32 word \<Rightarrow> bytes db_result" where
  "derive_relay_commitment x consensus_digest guard_count exit_count =
     bindE (digest_to_scalar (normalise_digest x consensus_digest)) (\<lambda>consensus.
     let guard = fp_from_u64 (ucast guard_count); exit = fp_from_u64 (ucast exit_count) in
     Inr (scalar_to_bytes (fp_add (fp_add consensus guard) exit)))"

definition derive_log_chain_commitment ::
  "'z crypto_scheme \<Rightarrow> bytes \<Rightarrow> bytes \<Rightarrow> 64 word \<Rightarrow> bytes db_result" where
  "derive_log_chain_commitment x previous_hash entry_hash sequence_number =
     bindE (digest_to_scalar (normalise_digest x previous_hash)) (\<lambda>previous.
     bindE (digest_to_scalar (normalise_digest x entry_hash)) (\<lambda>entry.
     let sequence = fp_from_u64 sequence_number in
     Inr (scalar_to_bytes (fp_add previous (fp_mul entry sequence)))))"

definition derive_execution_commitment ::
  "'z crypto_scheme \<Rightarrow> bytes \<Rightarrow> bytes \<Rightarrow> bytes \<Rightarrow> bytes db_result" where
  "derive_execution_commitment x input_hash output_hash telemetry_hash =
     bindE (digest_to_scalar (normalise_digest x input_hash)) (\<lambda>input.
     bindE (digest_to_scalar (normalise_digest x output_hash)) (\<lambda>output.
     bindE (digest_to_scalar (normalise_digest x telemetry_hash)) (\<lambda>telemetry.
     Inr (scalar_to_bytes (fp_add (fp_add input output) telemetry)))))"


section \<open>Circuits\<close>

text \<open>
  The gate polynomials at the current row, as functions of that row's advice and instance
  cells, and the copy constraints between an advice column and an instance column at row 0.
\<close>

record circuit =
  ci_advice :: nat
  ci_instance :: nat
  ci_gates :: "fp list \<Rightarrow> fp list \<Rightarrow> fp list"
  ci_copies :: "(nat \<times> nat) list"

definition ScalarEqualityCircuit :: circuit where
  "ScalarEqualityCircuit =
     \<lparr>ci_advice = 1, ci_instance = 1,
      ci_gates = (\<lambda>adv inst. [fp_sub (adv ! 0) (inst ! 0)]), ci_copies = [(0, 0)]\<rparr>"

definition RelayAuditCircuit :: circuit where
  "RelayAuditCircuit =
     \<lparr>ci_advice = 3, ci_instance = 3,
      ci_gates = (\<lambda>adv inst.
        let consensus = adv ! 0; guard = adv ! 1; exit = adv ! 2;
            expected = inst ! 0; guard_public = inst ! 1; exit_public = inst ! 2 in
        [fp_sub guard guard_public, fp_sub exit exit_public,
         fp_sub (fp_add (fp_add consensus guard) exit) expected]),
      ci_copies = []\<rparr>"

definition LogIntegrityCircuit :: circuit where
  "LogIntegrityCircuit =
     \<lparr>ci_advice = 2, ci_instance = 2,
      ci_gates = (\<lambda>adv inst.
        let previous = adv ! 0; entry = adv ! 1; expected = inst ! 0; sequence = inst ! 1 in
        [fp_sub (fp_add (fp_mul entry sequence) previous) expected]),
      ci_copies = []\<rparr>"

definition ExecutionCircuit :: circuit where
  "ExecutionCircuit =
     \<lparr>ci_advice = 3, ci_instance = 1,
      ci_gates = (\<lambda>adv inst.
        let input = adv ! 0; output = adv ! 1; telemetry = adv ! 2; expected = inst ! 0 in
        [fp_sub (fp_add (fp_add input output) telemetry) expected]),
      ci_copies = []\<rparr>"

text \<open>An assignment of the row the sources fill satisfies a circuit for given public inputs.\<close>

definition satisfies :: "circuit \<Rightarrow> fp list \<Rightarrow> fp list \<Rightarrow> bool" where
  "satisfies c adv inst \<longleftrightarrow>
     length adv = ci_advice c \<and> length inst = ci_instance c \<and> list_all in_fp adv \<and> list_all in_fp inst
   \<and> list_all (\<lambda>g. g = 0) (ci_gates c adv inst) \<and> list_all (\<lambda>(a, i). adv ! a = inst ! i) (ci_copies c)"

text \<open>
  halo2: keys for a circuit at size \<open>k\<close>, a proof for a witness and instance columns (one cell
  each here), its verification. \<^verbatim>\<open>deterministic_rng\<close> supplies the seed. The parameters of size \<open>k\<close> that
  all four take are given by \<open>k\<close>: the cache behind \<^verbatim>\<open>shared_params\<close> never changes what a call gets
  (\<open>shared_params_runs\<close>).
\<close>

record halo2 =
  keygen_vk :: "32 word \<Rightarrow> circuit \<Rightarrow> anyhow + opaque"
  keygen_pk :: "32 word \<Rightarrow> opaque \<Rightarrow> circuit \<Rightarrow> anyhow + opaque"
  create_proof :: "32 word \<Rightarrow> opaque \<Rightarrow> circuit \<Rightarrow> fp list \<Rightarrow> fp list \<Rightarrow> 64 word \<Rightarrow> anyhow + bytes"
  plonk_verify :: "32 word \<Rightarrow> opaque \<Rightarrow> fp list \<Rightarrow> bytes \<Rightarrow> anyhow + unit"

definition PARAM_SEED :: "64 word" where "PARAM_SEED = 0x42525554"

definition deterministic_rng :: "32 word \<Rightarrow> 64 word" where
  "deterministic_rng k = Bit_Operations.xor PARAM_SEED (ucast k)"

text \<open>The process-wide cache of parameters; \<open>params_new\<close> is \<^verbatim>\<open>Params::new\<close>.\<close>

definition shared_params :: "(32 word \<Rightarrow> 'p) \<Rightarrow> 32 word \<Rightarrow> (32 word \<rightharpoonup> 'p) \<Rightarrow> 'p \<times> (32 word \<rightharpoonup> 'p)" where
  "shared_params params_new k cache =
     (case cache k of
        Some params \<Rightarrow> (params, cache)
      | None \<Rightarrow> (params_new k, cache(k \<mapsto> params_new k)))"

fun shared_params_all :: "(32 word \<Rightarrow> 'p) \<Rightarrow> 32 word list \<Rightarrow> (32 word \<rightharpoonup> 'p) \<Rightarrow> 'p list \<times> (32 word \<rightharpoonup> 'p)" where
  "shared_params_all params_new [] cache = ([], cache)"
| "shared_params_all params_new (k # ks) cache =
     (let (p, cache') = shared_params params_new k cache; (ps, cache'') = shared_params_all params_new ks cache'
      in (p # ps, cache''))"


section \<open>Bundles\<close>

definition PROTOCOL_ID :: string where "PROTOCOL_ID = ''halo2-scalar-equality-v1''"
definition CIRCUIT_ID_SCALAR :: string where "CIRCUIT_ID_SCALAR = ''scalar_equality''"
definition CIRCUIT_ID_RELAY_AUDIT :: string where "CIRCUIT_ID_RELAY_AUDIT = ''relay_audit_v1''"
definition CIRCUIT_ID_LOG_INTEGRITY :: string where "CIRCUIT_ID_LOG_INTEGRITY = ''log_chain_integrity_v1''"
definition CIRCUIT_ID_EXECUTION :: string where "CIRCUIT_ID_EXECUTION = ''execution_attestation_v1''"
definition DEFAULT_ZK_SECURITY :: "32 word" where "DEFAULT_ZK_SECURITY = 14"

record ZkProofBundle =
  zb_proof_id :: uuid
  zb_user_id :: uuid
  zb_protocol :: string
  zb_circuit :: string
  zb_circuit_security :: "32 word"
  zb_expected_hash :: string
  zb_public_inputs :: json
  zb_proof :: bytes
  zb_created_at :: time

datatype ZkVerificationContext =
    ScalarDigest bytes
  | RelayAudit bytes "32 word" "32 word"
  | LogIntegrity bytes "64 word"
  | Execution bytes

record ZkProofVerification =
  zv_proof_id :: uuid
  zv_user_id :: uuid
  zv_context :: ZkVerificationContext

definition scalar_digest :: "uuid \<Rightarrow> uuid \<Rightarrow> bytes \<Rightarrow> ZkProofVerification" where
  "scalar_digest proof_id user_id expected_digest =
     \<lparr>zv_proof_id = proof_id, zv_user_id = user_id, zv_context = ScalarDigest expected_digest\<rparr>"

definition relay_audit :: "uuid \<Rightarrow> uuid \<Rightarrow> bytes \<Rightarrow> 32 word \<Rightarrow> 32 word \<Rightarrow> ZkProofVerification" where
  "relay_audit proof_id user_id expected_commitment guard_count exit_count =
     \<lparr>zv_proof_id = proof_id, zv_user_id = user_id,
      zv_context = RelayAudit expected_commitment guard_count exit_count\<rparr>"

definition log_integrity :: "uuid \<Rightarrow> uuid \<Rightarrow> bytes \<Rightarrow> 64 word \<Rightarrow> ZkProofVerification" where
  "log_integrity proof_id user_id expected_commitment sequence_number =
     \<lparr>zv_proof_id = proof_id, zv_user_id = user_id,
      zv_context = LogIntegrity expected_commitment sequence_number\<rparr>"

definition execution :: "uuid \<Rightarrow> uuid \<Rightarrow> bytes \<Rightarrow> ZkProofVerification" where
  "execution proof_id user_id expected_commitment =
     \<lparr>zv_proof_id = proof_id, zv_user_id = user_id, zv_context = Execution expected_commitment\<rparr>"


section \<open>Proving\<close>

text \<open>Keys for the circuit, then the proof: the plonk calls all four provers make.\<close>

definition plonk_prove :: "halo2 \<Rightarrow> 32 word \<Rightarrow> circuit \<Rightarrow> fp list \<Rightarrow> fp list \<Rightarrow> bytes db_result" where
  "plonk_prove h k c witness inst =
     map_err ZeroKnowledge
       (bindE (keygen_vk h k c) (\<lambda>vk.
        bindE (keygen_pk h k vk c) (\<lambda>pk.
        create_proof h k pk c witness inst (deterministic_rng k))))"

text \<open>The bundle the provers build at the end, with a fresh id and the current time.\<close>

definition make_bundle :: "('b, 'z) ext_scheme \<Rightarrow> 32 word \<Rightarrow> uuid \<Rightarrow> string \<Rightarrow> string \<Rightarrow> json \<Rightarrow> bytes \<Rightarrow>
  ('b, ZkProofBundle) db_op" where
  "make_bundle x k user_id cid expected_hash public_inputs proof =
     bindM tick (\<lambda>i.
     bindM tick (\<lambda>n.
     returnM
       \<lparr>zb_proof_id = random_uuid x i, zb_user_id = user_id, zb_protocol = PROTOCOL_ID,
        zb_circuit = cid, zb_circuit_security = k, zb_expected_hash = expected_hash,
        zb_public_inputs = public_inputs, zb_proof = proof, zb_created_at = clock x n\<rparr>))"

definition prove_digest_equality :: "('b, 'z) ext_scheme \<Rightarrow> halo2 \<Rightarrow> 32 word \<Rightarrow> uuid \<Rightarrow> bytes \<Rightarrow> bytes \<Rightarrow>
  ('b, ZkProofBundle) db_op" where
  "prove_digest_equality x h k user_id private_digest expected_digest =
     (let private = normalise_digest x private_digest;
          expected = normalise_digest x expected_digest;
          expected_hash = hash_expected_digest x expected in
      bindM (liftE (digest_to_scalar private)) (\<lambda>private_scalar.
      bindM (liftE (digest_to_scalar expected)) (\<lambda>expected_scalar.
      bindM (liftE (plonk_prove h k ScalarEqualityCircuit [private_scalar] [expected_scalar])) (\<lambda>proof.
      make_bundle x k user_id CIRCUIT_ID_SCALAR expected_hash
        (JObject [(''expected_digest'', JString (hex_encode x expected))]) proof))))"

definition prove_relay_audit :: "('b, 'z) ext_scheme \<Rightarrow> halo2 \<Rightarrow> 32 word \<Rightarrow> uuid \<Rightarrow> bytes \<Rightarrow> 32 word \<Rightarrow>
  32 word \<Rightarrow> ('b, ZkProofBundle) db_op" where
  "prove_relay_audit x h k user_id consensus_digest guard_count exit_count =
     (let consensus_normalised = normalise_digest x consensus_digest in
      bindM (liftE (digest_to_scalar consensus_normalised)) (\<lambda>consensus_scalar.
      let guard_scalar = fp_from_u64 (ucast guard_count); exit_scalar = fp_from_u64 (ucast exit_count) in
      bindM (liftE (derive_relay_commitment x consensus_digest guard_count exit_count)) (\<lambda>commitment_bytes.
      bindM (liftE (scalar_from_bytes commitment_bytes)) (\<lambda>expected_scalar.
      let expected_hash = hash_expected_digest x commitment_bytes in
      bindM (liftE (plonk_prove h k RelayAuditCircuit [consensus_scalar, guard_scalar, exit_scalar]
               [expected_scalar, guard_scalar, exit_scalar])) (\<lambda>proof.
      make_bundle x k user_id CIRCUIT_ID_RELAY_AUDIT expected_hash
        (JObject [(''guard_count'', JInt (uint guard_count)), (''exit_count'', JInt (uint exit_count)),
                  (''commitment'', JString (hex_encode x commitment_bytes))]) proof)))))"

definition prove_log_chain_integrity :: "('b, 'z) ext_scheme \<Rightarrow> halo2 \<Rightarrow> 32 word \<Rightarrow> uuid \<Rightarrow> bytes \<Rightarrow> bytes \<Rightarrow>
  64 word \<Rightarrow> ('b, ZkProofBundle) db_op" where
  "prove_log_chain_integrity x h k user_id previous_hash entry_hash sequence_number =
     (let previous = normalise_digest x previous_hash; entry = normalise_digest x entry_hash in
      bindM (liftE (digest_to_scalar previous)) (\<lambda>previous_scalar.
      bindM (liftE (digest_to_scalar entry)) (\<lambda>entry_scalar.
      let sequence_scalar = fp_from_u64 sequence_number in
      bindM (liftE (derive_log_chain_commitment x previous_hash entry_hash sequence_number))
        (\<lambda>commitment_bytes.
      bindM (liftE (scalar_from_bytes commitment_bytes)) (\<lambda>expected_scalar.
      let expected_hash = hash_expected_digest x commitment_bytes in
      bindM (liftE (plonk_prove h k LogIntegrityCircuit [previous_scalar, entry_scalar]
               [expected_scalar, sequence_scalar])) (\<lambda>proof.
      make_bundle x k user_id CIRCUIT_ID_LOG_INTEGRITY expected_hash
        (JObject [(''sequence'', JInt (uint sequence_number)),
                  (''commitment'', JString (hex_encode x commitment_bytes)),
                  (''previous_hash'', JString (hex_encode x previous)),
                  (''entry_hash'', JString (hex_encode x entry))]) proof))))))"

definition prove_execution_attestation :: "('b, 'z) ext_scheme \<Rightarrow> halo2 \<Rightarrow> 32 word \<Rightarrow> uuid \<Rightarrow> bytes \<Rightarrow> bytes \<Rightarrow>
  bytes \<Rightarrow> ('b, ZkProofBundle) db_op" where
  "prove_execution_attestation x h k user_id input_hash output_hash telemetry_hash =
     (let input = normalise_digest x input_hash; output = normalise_digest x output_hash;
          telemetry = normalise_digest x telemetry_hash in
      bindM (liftE (digest_to_scalar input)) (\<lambda>input_scalar.
      bindM (liftE (digest_to_scalar output)) (\<lambda>output_scalar.
      bindM (liftE (digest_to_scalar telemetry)) (\<lambda>telemetry_scalar.
      bindM (liftE (derive_execution_commitment x input_hash output_hash telemetry_hash))
        (\<lambda>commitment_bytes.
      bindM (liftE (scalar_from_bytes commitment_bytes)) (\<lambda>expected_scalar.
      let expected_hash = hash_expected_digest x commitment_bytes in
      bindM (liftE (plonk_prove h k ExecutionCircuit [input_scalar, output_scalar, telemetry_scalar]
               [expected_scalar])) (\<lambda>proof.
      make_bundle x k user_id CIRCUIT_ID_EXECUTION expected_hash
        (JObject [(''commitment'', JString (hex_encode x commitment_bytes)),
                  (''input_hash'', JString (hex_encode x input)),
                  (''output_hash'', JString (hex_encode x output)),
                  (''telemetry_hash'', JString (hex_encode x telemetry))]) proof)))))))"


section \<open>Verifying\<close>

definition ensure_protocol :: "ZkProofBundle \<Rightarrow> unit db_result" where
  "ensure_protocol b =
     (if zb_protocol b = PROTOCOL_ID then Inr ()
      else Inl (ZeroKnowledge (''unsupported protocol '' @ [CHR 0x27] @ zb_protocol b @ [CHR 0x27]
             @ '': expected '' @ PROTOCOL_ID)))"

definition ensure_circuit :: "ZkProofBundle \<Rightarrow> string \<Rightarrow> unit db_result" where
  "ensure_circuit b expected =
     (if zb_circuit b = expected then Inr ()
      else Inl (ZeroKnowledge (''unexpected circuit '' @ [CHR 0x27] @ zb_circuit b @ [CHR 0x27]
             @ '', expected '' @ expected)))"

definition ensure_expected_hash :: "'z crypto_scheme \<Rightarrow> ZkProofBundle \<Rightarrow> bytes \<Rightarrow> unit db_result" where
  "ensure_expected_hash x b expected_bytes =
     (if zb_expected_hash b = hash_expected_digest x expected_bytes then Inr ()
      else Inl (Integrity ''expected commitment does not match stored hash''))"

text \<open>serde_json's accessors.\<close>

fun as_object :: "json \<Rightarrow> (string \<times> json) list option" where
  "as_object (JObject kvs) = Some kvs"
| "as_object _ = None"

fun as_u64 :: "json \<Rightarrow> int option" where
  "as_u64 (JInt n) = (if 0 \<le> n \<and> n < 2 ^ 64 then Some n else None)"
| "as_u64 _ = None"

fun as_str :: "json \<Rightarrow> string option" where
  "as_str (JString s) = Some s"
| "as_str _ = None"

definition json_field :: "(json \<Rightarrow> 'a option) \<Rightarrow> (string \<times> json) list \<Rightarrow> string \<Rightarrow> string \<Rightarrow> 'a db_result" where
  "json_field conv obj key err = ok_or (ZeroKnowledge err) (Option.bind (map_of obj key) conv)"

definition ensure_relay_inputs ::
  "'z codec_scheme \<Rightarrow> json \<Rightarrow> 32 word \<Rightarrow> 32 word \<Rightarrow> bytes \<Rightarrow> unit db_result" where
  "ensure_relay_inputs x inputs guard_count exit_count expected_commitment =
     bindE (ok_or (ZeroKnowledge ''relay proof missing public inputs'') (as_object inputs)) (\<lambda>obj.
     bindE (json_field as_u64 obj ''guard_count'' ''relay proof missing guard_count'') (\<lambda>guard.
     bindE (json_field as_u64 obj ''exit_count'' ''relay proof missing exit_count'') (\<lambda>exit.
     bindE (json_field as_str obj ''commitment'' ''relay proof missing commitment'') (\<lambda>commitment_hex.
     if guard \<noteq> uint guard_count \<or> exit \<noteq> uint exit_count
     then Inl (Integrity ''relay proof public counts do not match verification context'')
     else if hex_encode x expected_commitment \<noteq> commitment_hex
     then Inl (Integrity ''relay proof commitment mismatch'')
     else Inr ()))))"

definition ensure_log_inputs :: "'z codec_scheme \<Rightarrow> json \<Rightarrow> 64 word \<Rightarrow> bytes \<Rightarrow> unit db_result" where
  "ensure_log_inputs x inputs sequence_number expected_commitment =
     bindE (ok_or (ZeroKnowledge ''log proof missing public inputs'') (as_object inputs)) (\<lambda>obj.
     bindE (json_field as_u64 obj ''sequence'' ''log proof missing sequence'') (\<lambda>sequence.
     bindE (json_field as_str obj ''commitment'' ''log proof missing commitment'') (\<lambda>commitment_hex.
     if sequence \<noteq> uint sequence_number
     then Inl (Integrity ''log proof sequence does not match verification context'')
     else if hex_encode x expected_commitment \<noteq> commitment_hex
     then Inl (Integrity ''log proof commitment mismatch'')
     else Inr ())))"

definition ensure_execution_inputs :: "'z codec_scheme \<Rightarrow> json \<Rightarrow> bytes \<Rightarrow> unit db_result" where
  "ensure_execution_inputs x inputs expected_commitment =
     bindE (ok_or (ZeroKnowledge ''execution proof missing public inputs'') (as_object inputs)) (\<lambda>obj.
     bindE (json_field as_str obj ''commitment'' ''execution proof missing commitment'') (\<lambda>commitment_hex.
     if hex_encode x expected_commitment \<noteq> commitment_hex
     then Inl (Integrity ''execution proof commitment mismatch'')
     else Inr ()))"

text \<open>
  The verifying key is generated before the public inputs are decoded, so an error of the
  former is reported first.
\<close>

definition plonk_check :: "halo2 \<Rightarrow> ZkProofBundle \<Rightarrow> circuit \<Rightarrow> fp list db_result \<Rightarrow> unit db_result" where
  "plonk_check h b c instances =
     (let k = zb_circuit_security b in
      bindE (map_err ZeroKnowledge (keygen_vk h k c)) (\<lambda>vk.
      bindE instances (\<lambda>inst.
      map_err ZeroKnowledge (plonk_verify h k vk inst (zb_proof b)))))"

definition verify_scalar_equality ::
  "'z crypto_scheme \<Rightarrow> halo2 \<Rightarrow> ZkProofBundle \<Rightarrow> bytes \<Rightarrow> unit db_result" where
  "verify_scalar_equality x h b expected_digest =
     (if zb_protocol b \<noteq> PROTOCOL_ID \<or> zb_circuit b \<noteq> CIRCUIT_ID_SCALAR
      then Inl (ZeroKnowledge ''unsupported proof bundle'')
      else
        let expected = normalise_digest x expected_digest in
        if zb_expected_hash b \<noteq> hash_expected_digest x expected
        then Inl (Integrity ''expected digest does not match stored commitment'')
        else plonk_check h b ScalarEqualityCircuit
               (bindE (digest_to_scalar expected) (\<lambda>expected_scalar. Inr [expected_scalar])))"

definition verify_relay_audit ::
  "'z crypto_scheme \<Rightarrow> halo2 \<Rightarrow> ZkProofBundle \<Rightarrow> bytes \<Rightarrow> 32 word \<Rightarrow> 32 word \<Rightarrow> unit db_result" where
  "verify_relay_audit x h b expected_commitment guard_count exit_count =
     bindE (ensure_circuit b CIRCUIT_ID_RELAY_AUDIT) (\<lambda>_.
     bindE (ensure_expected_hash x b expected_commitment) (\<lambda>_.
     bindE (ensure_relay_inputs x (zb_public_inputs b) guard_count exit_count expected_commitment) (\<lambda>_.
     plonk_check h b RelayAuditCircuit
       (bindE (scalar_from_bytes expected_commitment) (\<lambda>expected_scalar.
        Inr [expected_scalar, fp_from_u64 (ucast guard_count), fp_from_u64 (ucast exit_count)])))))"

definition verify_log_integrity ::
  "'z crypto_scheme \<Rightarrow> halo2 \<Rightarrow> ZkProofBundle \<Rightarrow> bytes \<Rightarrow> 64 word \<Rightarrow> unit db_result" where
  "verify_log_integrity x h b expected_commitment sequence_number =
     bindE (ensure_circuit b CIRCUIT_ID_LOG_INTEGRITY) (\<lambda>_.
     bindE (ensure_expected_hash x b expected_commitment) (\<lambda>_.
     bindE (ensure_log_inputs x (zb_public_inputs b) sequence_number expected_commitment) (\<lambda>_.
     plonk_check h b LogIntegrityCircuit
       (bindE (scalar_from_bytes expected_commitment) (\<lambda>expected_scalar.
        Inr [expected_scalar, fp_from_u64 sequence_number])))))"

definition verify_execution_attestation ::
  "'z crypto_scheme \<Rightarrow> halo2 \<Rightarrow> ZkProofBundle \<Rightarrow> bytes \<Rightarrow> unit db_result" where
  "verify_execution_attestation x h b expected_commitment =
     bindE (ensure_circuit b CIRCUIT_ID_EXECUTION) (\<lambda>_.
     bindE (ensure_expected_hash x b expected_commitment) (\<lambda>_.
     bindE (ensure_execution_inputs x (zb_public_inputs b) expected_commitment) (\<lambda>_.
     plonk_check h b ExecutionCircuit
       (bindE (scalar_from_bytes expected_commitment) (\<lambda>expected_scalar. Inr [expected_scalar])))))"

definition verify_proof ::
  "'z crypto_scheme \<Rightarrow> halo2 \<Rightarrow> ZkProofBundle \<Rightarrow> ZkVerificationContext \<Rightarrow> unit db_result" where
  "verify_proof x h b ctx =
     bindE (ensure_protocol b) (\<lambda>_.
     case ctx of
       ScalarDigest expected_digest \<Rightarrow>
         bindE (ensure_circuit b CIRCUIT_ID_SCALAR) (\<lambda>_.
         bindE (ensure_expected_hash x b expected_digest) (\<lambda>_.
         verify_scalar_equality x h b expected_digest))
     | RelayAudit expected_commitment guard_count exit_count \<Rightarrow>
         verify_relay_audit x h b expected_commitment guard_count exit_count
     | LogIntegrity expected_commitment sequence_number \<Rightarrow>
         verify_log_integrity x h b expected_commitment sequence_number
     | Execution expected_commitment \<Rightarrow>
         verify_execution_attestation x h b expected_commitment)"


section \<open>Stored proofs\<close>

definition zk_key :: "zk_proof_row \<Rightarrow> uuid \<times> uuid" where
  "zk_key r = (zp_id r, zp_user_id r)"

definition proof_row :: "ZkProofBundle \<Rightarrow> zk_proof_row" where
  "proof_row b =
     \<lparr>zp_id = zb_proof_id b, zp_user_id = zb_user_id b, zp_protocol = zb_protocol b,
      zp_circuit = zb_circuit b, zp_circuit_security = ucast (zb_circuit_security b),
      zp_expected_hash = zb_expected_hash b, zp_public_inputs = zb_public_inputs b,
      zp_proof = zb_proof b, zp_created_at = zb_created_at b, zp_verified = False,
      zp_verified_at = None\<rparr>"

definition proof_replaced :: "zk_proof_row \<Rightarrow> zk_proof_row \<Rightarrow> zk_proof_row" where
  "proof_replaced e r =
     r\<lparr>zp_expected_hash := zp_expected_hash e, zp_public_inputs := zp_public_inputs e,
       zp_proof := zp_proof e, zp_circuit_security := zp_circuit_security e,
       zp_created_at := zp_created_at e, zp_verified := False, zp_verified_at := None\<rparr>"

definition upsert_proof :: "zk_proof_row \<Rightarrow> unit stmt" where
  [sql_defs]: "upsert_proof r n now d =
     Inr ((), d\<lparr>zk_proofs := upsert_row zk_key r (proof_replaced r) (zk_proofs d)\<rparr>)"

definition store_zk_proof :: "('b, 'z) ext_scheme \<Rightarrow> ZkProofBundle \<Rightarrow> ('b, unit) db_op" where
  "store_zk_proof x bundle = exec_stmt x (upsert_proof (proof_row bundle))"

definition select_proof :: "uuid \<Rightarrow> uuid \<Rightarrow> zk_proof_row option stmt" where
  [sql_defs]: "select_proof pid uid n now d =
     Inr (find (\<lambda>r. zk_key r = (pid, uid)) (zk_proofs d), d)"

definition marked_verified :: "time \<Rightarrow> zk_proof_row \<Rightarrow> zk_proof_row" where
  "marked_verified now r = r\<lparr>zp_verified := True, zp_verified_at := Some now\<rparr>"

text \<open>The condition of the update names the proof id only.\<close>

definition mark_proof_verified :: "uuid \<Rightarrow> unit stmt" where
  [sql_defs]: "mark_proof_verified pid n now d =
     Inr ((), d\<lparr>zk_proofs := update_where (\<lambda>r. zp_id r = pid) (marked_verified now) (zk_proofs d)\<rparr>)"

text \<open>The bundle rebuilt from a row; \<^verbatim>\<open>k as u32\<close> extends the sign of the stored \<^verbatim>\<open>i16\<close>.\<close>

definition bundle_of_row :: "zk_proof_row \<Rightarrow> ZkProofVerification \<Rightarrow> time \<Rightarrow> ZkProofBundle" where
  "bundle_of_row r v now =
     \<lparr>zb_proof_id = zv_proof_id v, zb_user_id = zv_user_id v, zb_protocol = zp_protocol r,
      zb_circuit = zp_circuit r, zb_circuit_security = scast (zp_circuit_security r),
      zb_expected_hash = zp_expected_hash r, zb_public_inputs = zp_public_inputs r,
      zb_proof = zp_proof r, zb_created_at = now\<rparr>"

definition verify_zk_proof ::
  "('b, 'z) ext_scheme \<Rightarrow> halo2 \<Rightarrow> ZkProofVerification \<Rightarrow> ('b, bool) db_op" where
  "verify_zk_proof x h v =
     bindM (exec_stmt x (select_proof (zv_proof_id v) (zv_user_id v))) (\<lambda>found.
     bindM (liftE (ok_or (Query ''proof not found'') found)) (\<lambda>row.
     if zp_verified row then returnM True
     else
       bindM tick (\<lambda>n.
       bindM (liftE (verify_proof x h (bundle_of_row row v (clock x n)) (zv_context v))) (\<lambda>_.
       bindM (exec_stmt x (mark_proof_verified (zv_proof_id v))) (\<lambda>_.
       returnM True)))))"


section \<open>Facts\<close>

lemma FP_MODULUS_pos [simp]: "0 < FP_MODULUS" "FP_MODULUS \<noteq> 0"
  by (simp_all add: FP_MODULUS_def)

lemma in_fp_mod [simp]: "in_fp (a mod FP_MODULUS)"
  by (simp add: in_fp_def)

lemma in_fp_ops [simp]: "in_fp (fp_add a b)" "in_fp (fp_sub a b)" "in_fp (fp_mul a b)" "in_fp (fp_from_u64 n)"
  by (simp_all add: fp_add_def fp_sub_def fp_mul_def fp_from_u64_def)

lemma in_fp_id: "in_fp a \<Longrightarrow> a mod FP_MODULUS = a"
  by (simp add: in_fp_def)

lemma fp_sub_zero_iff:
  assumes "in_fp a" and "in_fp b"
  shows "fp_sub a b = 0 \<longleftrightarrow> a = b"
proof -
  have "fp_sub a b = 0 \<longleftrightarrow> a mod FP_MODULUS = b mod FP_MODULUS"
    unfolding fp_sub_def by (metis mod_0_imp_dvd dvd_imp_mod_0 mod_eq_dvd_iff)
  then show ?thesis using assms by (simp add: in_fp_id)
qed

lemma length_le_bytes [simp]: "length (le_bytes n v) = n"
  by (induction n arbitrary: v) simp_all

lemma le_value_nonneg: "0 \<le> le_value bs"
  by (induction bs) simp_all

lemma le_value_le_bytes: "0 \<le> v \<Longrightarrow> v < 256 ^ n \<Longrightarrow> le_value (le_bytes n v) = v"
proof (induction n arbitrary: v)
  case (Suc n)
  then have "le_value (le_bytes n (v div 256)) = v div 256" by (intro Suc.IH) auto
  then show ?case by (simp add: uint_word_of_int)
qed simp

lemma scalar_round_trip:
  assumes "in_fp s"
  shows "scalar_from_bytes (scalar_to_bytes s) = Inr s"
proof -
  have "FP_MODULUS < 256 ^ 32" by (simp add: FP_MODULUS_def)
  then have "le_value (le_bytes 32 s) = s"
    using assms by (intro le_value_le_bytes) (auto simp: in_fp_def)
  then show ?thesis using assms by (simp add: scalar_from_bytes_def scalar_to_bytes_def in_fp_def)
qed

interpretation replace_key: key_update zk_key "proof_replaced e" for e
  by unfold_locales (simp add: zk_key_def proof_replaced_def)

interpretation verified_key: key_update zk_key "marked_verified now" for now
  by unfold_locales (simp add: zk_key_def marked_verified_def)

lemma zk_key_fun: "zk_key = (\<lambda>r. (zp_id r, zp_user_id r))"
  by (rule ext) (simp add: zk_key_def)

lemma schema_ok_proofs:
  "schema_ok d \<Longrightarrow> distinct (map zk_key ps) \<Longrightarrow> schema_ok (d\<lparr>zk_proofs := ps\<rparr>)"
  by (simp add: schema_ok_def zk_key_fun)

lemma schema_ok_proofsD: "schema_ok d \<Longrightarrow> distinct (map zk_key (zk_proofs d))"
  by (simp add: schema_ok_def zk_key_fun)

lemma zk_stmts_keep_schema [preserves_rules]:
  "stmt_keeps schema_ok (upsert_proof r)"
  "stmt_keeps schema_ok (select_proof pid uid)"
  "stmt_keeps schema_ok (mark_proof_verified pid)"
  by (auto intro!: stmt_keepsI schema_ok_proofs replace_key.distinct_upsert_row
      simp: upsert_proof_def select_proof_def mark_proof_verified_def schema_ok_proofsD)

lemma zk_stmts_keep_sealed [preserves_rules]:
  "stmt_keeps sealed_at_rest (upsert_proof r)"
  "stmt_keeps sealed_at_rest (select_proof pid uid)"
  "stmt_keeps sealed_at_rest (mark_proof_verified pid)"
  by (auto intro!: stmt_keepsI simp: sql_defs sealed_at_rest_def)

lemma store_keeps:
  "preserves (db_pred schema_ok) (store_zk_proof x b)"
  "preserves (db_pred sealed_at_rest) (store_zk_proof x b)"
  unfolding store_zk_proof_def by (intro preserves_rules)+


section \<open>Facts: the parameter cache\<close>

definition cache_inv :: "(32 word \<Rightarrow> 'p) \<Rightarrow> (32 word \<rightharpoonup> 'p) \<Rightarrow> bool" where
  "cache_inv params_new cache \<longleftrightarrow> (\<forall>k p. cache k = Some p \<longrightarrow> p = params_new k)"

lemma shared_params_cached:
  assumes "cache_inv params_new cache" and "shared_params params_new k cache = (p, cache')"
  shows "p = params_new k \<and> cache_inv params_new cache' \<and> cache' = cache(k \<mapsto> params_new k)"
proof (cases "cache k")
  case None
  with assms show ?thesis by (auto simp: shared_params_def cache_inv_def split: if_splits)
next
  case (Some q)
  with assms(1) have "q = params_new k" by (simp add: cache_inv_def)
  with Some assms show ?thesis by (auto simp: shared_params_def)
qed

text \<open>Any calls in any order, from the empty cache: each gets the parameters of its size, made once per size.\<close>

lemma shared_params_all_eq:
  "cache_inv params_new cache \<Longrightarrow>
     shared_params_all params_new ks cache
     = (map params_new ks, \<lambda>k. if k \<in> set ks then Some (params_new k) else cache k)"
proof (induction ks arbitrary: cache)
  case (Cons k ks)
  obtain p cache' where step: "shared_params params_new k cache = (p, cache')" by fastforce
  from shared_params_cached [OF Cons.prems step] have p: "p = params_new k"
    and c: "cache_inv params_new cache'" and e: "cache' = cache(k \<mapsto> params_new k)" by blast+
  have "shared_params_all params_new (k # ks) cache
      = (p # map params_new ks, \<lambda>j. if j \<in> set ks then Some (params_new j) else cache' j)"
    by (simp add: step Cons.IH [OF c])
  then show ?case by (auto simp: p e fun_eq_iff)
qed simp

lemma shared_params_runs:
  "shared_params_all params_new ks Map.empty
   = (map params_new ks, \<lambda>k. if k \<in> set ks then Some (params_new k) else None)"
  by (simp add: shared_params_all_eq cache_inv_def)


section \<open>Facts: prover and verifier\<close>

definition bundle_from :: "ZkProofBundle \<Rightarrow> 32 word \<Rightarrow> uuid \<Rightarrow> string \<Rightarrow> string \<Rightarrow> json \<Rightarrow> bytes \<Rightarrow> bool" where
  "bundle_from b k u cid eh pub proof \<longleftrightarrow>
     zb_protocol b = PROTOCOL_ID \<and> zb_circuit b = cid \<and> zb_circuit_security b = k \<and> zb_user_id b = u
   \<and> zb_expected_hash b = eh \<and> zb_public_inputs b = pub \<and> zb_proof b = proof"

lemma make_bundle_InrD: "make_bundle x k u cid eh pub proof w = (Inr b, w') \<Longrightarrow> bundle_from b k u cid eh pub proof"
  by (auto simp: make_bundle_def bindM_def bundle_from_def)

lemma liftE_bindE:
  assumes "bindM (liftE r) f s = (Inr b, t)"
  obtains a where "r = Inr a" "f a s = (Inr b, t)"
  using assms by (cases r) (auto simp: bindM_def liftE_def)

lemma relay_commitment: "derive_relay_commitment x cd g e =
  Inr (scalar_to_bytes (fp_add (fp_add (le_value (normalise_digest x cd) mod FP_MODULUS)
    (fp_from_u64 (ucast g))) (fp_from_u64 (ucast e))))"
  by (simp add: derive_relay_commitment_def digest_to_scalar_def Let_def)

lemma log_commitment: "derive_log_chain_commitment x p e n =
  Inr (scalar_to_bytes (fp_add (le_value (normalise_digest x p) mod FP_MODULUS)
    (fp_mul (le_value (normalise_digest x e) mod FP_MODULUS) (fp_from_u64 n))))"
  by (simp add: derive_log_chain_commitment_def digest_to_scalar_def Let_def)

lemma execution_commitment: "derive_execution_commitment x i out t =
  Inr (scalar_to_bytes (fp_add (fp_add (le_value (normalise_digest x i) mod FP_MODULUS)
    (le_value (normalise_digest x out) mod FP_MODULUS)) (le_value (normalise_digest x t) mod FP_MODULUS)))"
  by (simp add: derive_execution_commitment_def digest_to_scalar_def)

lemma fp_add_commute: "fp_add a b = fp_add b a"
  by (simp add: fp_add_def add.commute)

lemma relay_satisfies:
  "in_fp c \<Longrightarrow> in_fp g \<Longrightarrow> in_fp e \<Longrightarrow> satisfies RelayAuditCircuit [c, g, e] [fp_add (fp_add c g) e, g, e]"
  by (simp add: satisfies_def RelayAuditCircuit_def Let_def fp_sub_zero_iff)

lemma log_satisfies:
  "in_fp p \<Longrightarrow> in_fp e \<Longrightarrow> in_fp n \<Longrightarrow> satisfies LogIntegrityCircuit [p, e] [fp_add p (fp_mul e n), n]"
  by (simp add: satisfies_def LogIntegrityCircuit_def Let_def fp_sub_zero_iff fp_add_commute)

lemma execution_satisfies:
  "in_fp i \<Longrightarrow> in_fp out \<Longrightarrow> in_fp t \<Longrightarrow> satisfies ExecutionCircuit [i, out, t] [fp_add (fp_add i out) t]"
  by (simp add: satisfies_def ExecutionCircuit_def Let_def fp_sub_zero_iff)

lemma u64_of_word [simp]: "as_u64 (JInt (uint (n :: 64 word))) = Some (uint n)"
  using uint_lt2p [of n] by simp

lemma u64_of_u32 [simp]: "as_u64 (JInt (uint (n :: 32 word))) = Some (uint n)"
  using uint_lt2p [of n] by simp

text \<open>
  A bundle a prover made passes every check of the verifier in front of halo2's, which then
  sees the very instance the prover used, and the prover's own witness satisfies it.
\<close>

definition prover_meets_verifier ::
  "halo2 \<Rightarrow> ZkProofBundle \<Rightarrow> unit db_result \<Rightarrow> circuit \<Rightarrow> fp list \<Rightarrow> bool" where
  "prover_meets_verifier h b verdict c witness \<longleftrightarrow>
     (\<exists>inst. satisfies c witness inst
        \<and> plonk_prove h (zb_circuit_security b) c witness inst = Inr (zb_proof b)
        \<and> verdict = plonk_check h b c (Inr inst))"

lemma relay_bundle:
  assumes "prove_relay_audit x h k u cd g e w = (Inr b, w')" and "derive_relay_commitment x cd g e = Inr com"
  shows "prover_meets_verifier h b (verify_proof x h b (RelayAudit com g e)) RelayAuditCircuit
    [le_value (normalise_digest x cd) mod FP_MODULUS, fp_from_u64 (ucast g), fp_from_u64 (ucast e)]"
proof -
  let ?c = "le_value (normalise_digest x cd) mod FP_MODULUS" and ?g = "fp_from_u64 (ucast g)"
    and ?e = "fp_from_u64 (ucast e)"
  let ?x = "fp_add (fp_add ?c ?g) ?e"
  from assms(2) have com: "com = scalar_to_bytes ?x" by (simp add: relay_commitment)
  from assms obtain pf where
    "plonk_prove h k RelayAuditCircuit [?c, ?g, ?e] [?x, ?g, ?e] = Inr pf"
    "bundle_from b k u CIRCUIT_ID_RELAY_AUDIT (hash_expected_digest x com)
       (JObject [(''guard_count'', JInt (uint g)), (''exit_count'', JInt (uint e)),
          (''commitment'', JString (hex_encode x com))]) pf"
    by (auto simp: prove_relay_audit_def Let_def relay_commitment digest_to_scalar_def scalar_round_trip
        elim!: liftE_bindE dest!: make_bundle_InrD)
  then show ?thesis
    unfolding prover_meets_verifier_def
    by (intro exI [of _ "[?x, ?g, ?e]"])
       (auto simp: bundle_from_def relay_satisfies verify_proof_def ensure_protocol_def verify_relay_audit_def
         ensure_circuit_def ensure_expected_hash_def ensure_relay_inputs_def json_field_def com scalar_round_trip
         simp del: as_u64.simps)
qed

lemma log_bundle:
  assumes "prove_log_chain_integrity x h k u p e n w = (Inr b, w')"
    and "derive_log_chain_commitment x p e n = Inr com"
  shows "prover_meets_verifier h b (verify_proof x h b (LogIntegrity com n)) LogIntegrityCircuit
    [le_value (normalise_digest x p) mod FP_MODULUS, le_value (normalise_digest x e) mod FP_MODULUS]"
proof -
  let ?p = "le_value (normalise_digest x p) mod FP_MODULUS" and ?n = "fp_from_u64 n"
    and ?e = "le_value (normalise_digest x e) mod FP_MODULUS"
  let ?x = "fp_add ?p (fp_mul ?e ?n)"
  from assms(2) have com: "com = scalar_to_bytes ?x" by (simp add: log_commitment)
  from assms obtain pf where
    "plonk_prove h k LogIntegrityCircuit [?p, ?e] [?x, ?n] = Inr pf"
    "bundle_from b k u CIRCUIT_ID_LOG_INTEGRITY (hash_expected_digest x com)
       (JObject [(''sequence'', JInt (uint n)), (''commitment'', JString (hex_encode x com)),
          (''previous_hash'', JString (hex_encode x (normalise_digest x p))),
          (''entry_hash'', JString (hex_encode x (normalise_digest x e)))]) pf"
    by (auto simp: prove_log_chain_integrity_def Let_def log_commitment digest_to_scalar_def scalar_round_trip
        elim!: liftE_bindE dest!: make_bundle_InrD)
  then show ?thesis
    unfolding prover_meets_verifier_def
    by (intro exI [of _ "[?x, ?n]"])
       (auto simp: bundle_from_def log_satisfies verify_proof_def ensure_protocol_def verify_log_integrity_def
         ensure_circuit_def ensure_expected_hash_def ensure_log_inputs_def json_field_def com scalar_round_trip
         simp del: as_u64.simps)
qed

lemma execution_bundle:
  assumes "prove_execution_attestation x h k u i out t w = (Inr b, w')"
    and "derive_execution_commitment x i out t = Inr com"
  shows "prover_meets_verifier h b (verify_proof x h b (Execution com)) ExecutionCircuit
    [le_value (normalise_digest x i) mod FP_MODULUS, le_value (normalise_digest x out) mod FP_MODULUS,
     le_value (normalise_digest x t) mod FP_MODULUS]"
proof -
  let ?i = "le_value (normalise_digest x i) mod FP_MODULUS" and ?o = "le_value (normalise_digest x out) mod FP_MODULUS"
    and ?t = "le_value (normalise_digest x t) mod FP_MODULUS"
  let ?x = "fp_add (fp_add ?i ?o) ?t"
  from assms(2) have com: "com = scalar_to_bytes ?x" by (simp add: execution_commitment)
  from assms obtain pf pub where
    "plonk_prove h k ExecutionCircuit [?i, ?o, ?t] [?x] = Inr pf"
    "bundle_from b k u CIRCUIT_ID_EXECUTION (hash_expected_digest x com)
       (JObject ((''commitment'', JString (hex_encode x com)) # pub)) pf"
    by (auto simp: prove_execution_attestation_def Let_def execution_commitment digest_to_scalar_def
        scalar_round_trip elim!: liftE_bindE dest!: make_bundle_InrD)
  then show ?thesis
    unfolding prover_meets_verifier_def
    by (intro exI [of _ "[?x]"])
       (auto simp: bundle_from_def execution_satisfies verify_proof_def ensure_protocol_def
         verify_execution_attestation_def ensure_circuit_def ensure_expected_hash_def
         ensure_execution_inputs_def json_field_def com scalar_round_trip)
qed

lemma digest_bundle:
  assumes "prove_digest_equality x h k u pd ed w = (Inr b, w')"
  obtains pf where
    "plonk_prove h k ScalarEqualityCircuit [le_value (normalise_digest x pd) mod FP_MODULUS]
       [le_value (normalise_digest x ed) mod FP_MODULUS] = Inr pf"
    "bundle_from b k u CIRCUIT_ID_SCALAR (hash_expected_digest x (normalise_digest x ed))
       (JObject [(''expected_digest'', JString (hex_encode x (normalise_digest x ed)))]) pf"
  using assms
  by (auto simp: prove_digest_equality_def Let_def digest_to_scalar_def elim!: liftE_bindE
      dest!: make_bundle_InrD intro: that)

end
