(* ===== verification/Ticks.thy ===== *)
theory Ticks
  imports Tickets Guard Attest_Store Tee Zk
begin

text \<open>
  Readings of clock, random numbers and network are never taken twice: every operation of the
  interface leaves the counter of readings where it was or further on.
\<close>

definition ticked :: "nat \<Rightarrow> 'b world \<Rightarrow> bool" where
  "ticked n w \<longleftrightarrow> n \<le> w_ticks w"

named_theorems ticks_rules "operations that take their readings one after the other"

lemma ticks_steps [ticks_rules]:
  "preserves (ticked n) tick"
  "preserves (ticked n) (emit name label)"
  "preserves (ticked n) (broker_call f)"
  "preserves (ticked n) (exec_stmt x st)"
  "preserves (ticked n) (counted at su fa f)"
  by (auto simp: preserves_def ticked_def tick_def emit_def broker_call_def exec_stmt_def counted_def bindM_def Let_def
      split: prod.split sum.split pg_outcome.split)

lemmas ticks_intros = preserves_bind preserves_return preserves_throw preserves_lift preserves_case_prod
  preserves_map_errM preserves_on_errM preserves_ignoreM

lemma ticks_broker [ticks_rules]:
  "preserves (ticked n) (mint_aead_key_v2 x params)"
  "preserves (ticked n) (unwrap_secret_v2_with_token x handle token)"
  "preserves (ticked n) (renew_lease x handle ttl)"
  by (auto simp: broker_op_defs intro!: ticks_intros ticks_rules)

lemma ticks_fields [ticks_rules]:
  "preserves (ticked n) (encrypt_with_new_aead x plain aad label)"
  "preserves (ticked n) (decrypt_with_broker x enc aad label)"
  by (auto simp: encrypt_with_new_aead_def decrypt_with_broker_def Let_def intro!: ticks_intros ticks_rules)

lemma ticks_optional [ticks_rules]:
  "preserves (ticked n) (ensure_aead_encrypted x v aad label)"
  "preserves (ticked n) (decrypt_aead_optional x v aad label)"
  by (auto simp: ensure_aead_encrypted_def decrypt_aead_optional_def intro!: ticks_intros ticks_rules split: option.split)

lemma ticks_required [ticks_rules]:
  "preserves (ticked n) (ensure_aead_encrypted_required x s aad label field)"
  "preserves (ticked n) (decrypt_aead_required x s aad label field)"
  unfolding ensure_aead_encrypted_required_def decrypt_aead_required_def by (intro ticks_intros ticks_rules)+

lemma ticks_sessions [ticks_rules]: "preserves (ticked n) (session_into_record x row)"
  by (auto simp: session_into_record_def intro!: ticks_intros ticks_rules)

lemma ticks_atomic:
  "preserves (ticked n) (count_recent_sessions x cid ws)"
  "preserves (ticked n) (count_active_sessions x)"
  "preserves (ticked n) (count_total_sessions x)"
  "preserves (ticked n) (get_tor_ticket_status x tid)"
  "preserves (ticked n) (expire_tor_ticket_now x tid)"
  "preserves (ticked n) (gc_expired_tickets x days)"
  "preserves (ticked n) (count_recent_tickets x cid ws)"
  "preserves (ticked n) (audit_tor_connect x u)"
  "preserves (ticked n) (audit_operation x u oper payload)"
  "preserves (ticked n) (record_tee_attestation x u a)"
  "preserves (ticked n) (recent_tee_attestations x u l)"
  "preserves (ticked n) (store_zk_proof x b)"
  "preserves (ticked n) (invalidate_nonce x ndo)"
  by (auto simp: count_recent_sessions_def count_active_sessions_def count_total_sessions_def
      get_tor_ticket_status_def expire_tor_ticket_now_def gc_expired_tickets_def count_recent_tickets_def
      audit_tor_connect_def audit_operation_def record_tee_attestation_def recent_tee_attestations_def
      store_zk_proof_def invalidate_nonce_def Let_def intro!: ticks_intros ticks_rules split: option.split)

lemma ticks_credentials:
  "preserves (ticked n) (fetch_tor_credential x onion)"
  "preserves (ticked n) (fetch_tor_credential_by_id x cid)"
  "preserves (ticked n) (count_active_credentials x)"
  "preserves (ticked n) (rotate_operational_onion x cid onion g)"
  "preserves (ticked n) (set_entry_onion x cid onion g)"
  "preserves (ticked n) (import_bootstrap_tor_credential x cid onion hash tier rl ex g)"
  "preserves (ticked n) (create_tor_credential x onion hash tier rl ex g)"
  "preserves (ticked n) (list_tor_credentials x l)"
  "preserves (ticked n) (update_tor_credential_disabled x cid dis)"
  "preserves (ticked n) (delete_tor_credential x cid)"
  by (auto simp: credential_op_defs Let_def intro!: ticks_intros ticks_rules split: option.split)

lemma ticks_guards:
  "preserves (ticked n) (note_guard_success x fpr u)"
  "preserves (ticked n) (note_guard_failure x fpr)"
  "preserves (ticked n) (list_guard_health x l)"
  "preserves (ticked n) (set_guard_tee_status x fpr capable label policy)"
  by (auto simp: guard_op_defs Let_def intro!: ticks_intros ticks_rules)

end
