(* ===== verification/Api.thy ===== *)
theory Api
  imports Threads Ticks
begin

text \<open>
  The database interface: every public operation of \<^verbatim>\<open>PgPool\<close> that runs statements is a call, and a
  call is a thread whose actions are its statements and the sealing or opening of one field each. The
  operations with several actions are written out; the others are one action.
\<close>

section \<open>Operations with several actions\<close>

definition record_tor_session_thread ::
  "('b, 'z) ext_scheme \<Rightarrow> TorSessionRecord \<Rightarrow> ('b world, unit db_result) thread" where
  "record_tor_session_thread x session =
     bindT (atomT (ensure_aead_encrypted x (sr_client_onion session) (session_aad x (sr_id session))
              ''tor-session-client-onion'')) (\<lambda>client_onion_db.
     bindT (atomT tick) (\<lambda>i.
     atomT (exec_stmt x (insert_session (recorded_row session (random_uuid x i) client_onion_db)))))"

definition fetch_tor_session_thread ::
  "('b, 'z) ext_scheme \<Rightarrow> uuid \<Rightarrow> ('b world, TorSessionRecord option db_result) thread" where
  "fetch_tor_session_thread x session_id =
     bindT (atomT (exec_stmt x (select_session session_id))) (\<lambda>row.
       case row of
         Some r \<Rightarrow> bindT (atomT (session_into_record x r)) (\<lambda>s. returnT (Some s))
       | None \<Rightarrow> returnT None)"

definition issue_tor_ticket_thread ::
  "('b, 'z) ext_scheme \<Rightarrow> NewTorAccessTicket \<Rightarrow> ('b world, IssuedTorAccessTicket db_result) thread" where
  "issue_tor_ticket_thread x t =
     bindT (atomT (ensure_aead_encrypted_required x (nt_client_auth_public_key t)
              (ticket_aad x ''client_auth_public_key'' (nt_id t) TICKET_CLIENT_PUBLIC_KEY_AAD)
              ''tor-ticket-client-auth-public-key'' ''client_auth_public_key'')) (\<lambda>public_key_db.
     bindT (atomT (ensure_aead_encrypted_required x (nt_client_auth_secret_path t)
              (ticket_aad x ''client_auth_secret_path'' (nt_id t) TICKET_CLIENT_SECRET_PATH_AAD)
              ''tor-ticket-client-auth-secret-path'' ''client_auth_secret_path'')) (\<lambda>secret_path_db.
     bindT (atomT (ensure_aead_encrypted_required x (nt_attestation_nonce_digest t)
              (ticket_aad x ''attestation_nonce_digest'' (nt_id t) TICKET_ATTESTATION_NONCE_AAD)
              ''tor-ticket-attestation-nonce'' ''attestation_nonce_digest'')) (\<lambda>nonce_db.
     bindT (atomT (ensure_aead_encrypted_required x (nt_attestation_quote_hash t)
              (ticket_aad x ''attestation_quote_hash'' (nt_id t) TICKET_ATTESTATION_QUOTE_AAD)
              ''tor-ticket-attestation-quote'' ''attestation_quote_hash'')) (\<lambda>quote_db.
     bindT (atomT (ensure_aead_encrypted x (nt_client_auth_secret_redeem_token t)
              (ticket_aad x ''client_auth_secret_redeem_token'' (nt_id t) TICKET_CLIENT_SECRET_REDEEM_TOKEN_AAD)
              ''tor-ticket-client-auth-secret-redeem-token'')) (\<lambda>redeem_token_db.
     bindT (atomT (ensure_aead_encrypted_required x (nt_tls_pubkey_digest t)
              (ticket_aad x ''tls_pubkey_digest'' (nt_id t) TICKET_TLS_PUBKEY_DIGEST_AAD)
              ''tor-ticket-tls-pubkey-digest'' ''tls_pubkey_digest'')) (\<lambda>tls_db.
     bindT (atomT (exec_stmt x (insert_ticket
              (issued_row t public_key_db secret_path_db redeem_token_db nonce_db quote_db tls_db))))
       (\<lambda>(rid, created_at, expires_at).
     returnT
       \<lparr>it_id = rid, it_credential_id = nt_credential_id t, it_entry_onion = nt_entry_onion t,
        it_client_fingerprint = nt_client_fingerprint t, it_created_at = created_at,
        it_expires_at = expires_at, it_redeemed_at = None, it_redeemed_operational_onion = None,
        it_client_auth_public_key = nt_client_auth_public_key t,
        it_client_auth_secret_path = nt_client_auth_secret_path t,
        it_client_auth_secret_redeem_token = nt_client_auth_secret_redeem_token t,
        it_attestation_session_id = nt_attestation_session_id t,
        it_attestation_nonce_digest = nt_attestation_nonce_digest t,
        it_attestation_quote_hash = nt_attestation_quote_hash t,
        it_attested_at = nt_attested_at t, it_tee_kind = nt_tee_kind t,
        it_tee_label = nt_tee_label t, it_tee_policy = nt_tee_policy t,
        it_tls_pubkey_digest = nt_tls_pubkey_digest t\<rparr>)))))))"

definition fetch_tor_ticket_for_verification_thread ::
  "('b, 'z) ext_scheme \<Rightarrow> uuid \<Rightarrow> ('b world, TicketVerificationRecord option db_result) thread" where
  "fetch_tor_ticket_for_verification_thread x ticket_id =
     bindT (atomT (exec_stmt x (select_ticket ticket_id))) (\<lambda>record.
     case record of
       None \<Rightarrow> returnT None
     | Some row \<Rightarrow>
     bindT (atomT (decrypt_aead_required x (tk_client_auth_public_key row)
              (ticket_aad x ''client_auth_public_key'' (tk_id row) TICKET_CLIENT_PUBLIC_KEY_AAD)
              ''tor-ticket-client-auth-public-key'' ''client_auth_public_key'')) (\<lambda>public_key.
     bindT (atomT (decrypt_aead_required x (tk_client_auth_secret_path row)
              (ticket_aad x ''client_auth_secret_path'' (tk_id row) TICKET_CLIENT_SECRET_PATH_AAD)
              ''tor-ticket-client-auth-secret-path'' ''client_auth_secret_path'')) (\<lambda>secret_path.
     bindT (atomT (decrypt_aead_optional x (tk_client_auth_secret_redeem_token row)
              (ticket_aad x ''client_auth_secret_redeem_token'' (tk_id row) TICKET_CLIENT_SECRET_REDEEM_TOKEN_AAD)
              ''tor-ticket-client-auth-secret-redeem-token'')) (\<lambda>redeem_token.
     bindT (atomT (decrypt_aead_required x (tk_attestation_nonce_digest row)
              (ticket_aad x ''attestation_nonce_digest'' (tk_id row) TICKET_ATTESTATION_NONCE_AAD)
              ''tor-ticket-attestation-nonce'' ''attestation_nonce_digest'')) (\<lambda>nonce_digest.
     bindT (atomT (decrypt_aead_required x (tk_attestation_quote_hash row)
              (ticket_aad x ''attestation_quote_hash'' (tk_id row) TICKET_ATTESTATION_QUOTE_AAD)
              ''tor-ticket-attestation-quote'' ''attestation_quote_hash'')) (\<lambda>quote_hash.
     bindT (atomT (decrypt_aead_required x (tk_tls_pubkey_digest row)
              (ticket_aad x ''tls_pubkey_digest'' (tk_id row) TICKET_TLS_PUBKEY_DIGEST_AAD)
              ''tor-ticket-tls-pubkey-digest'' ''tls_pubkey_digest'')) (\<lambda>tls_digest.
     returnT (Some
       \<lparr>tv_id = tk_id row, tv_credential_id = tk_credential_id row,
        tv_token_hash = tk_token_hash row, tv_client_fingerprint = tk_client_fingerprint row,
        tv_expires_at = tk_expires_at row, tv_redeemed_at = tk_redeemed_at row,
        tv_client_auth_public_key = public_key, tv_client_auth_secret_path = secret_path,
        tv_client_auth_secret_redeem_token = redeem_token,
        tv_attestation_session_id = tk_attestation_session_id row,
        tv_attestation_nonce_digest = nonce_digest, tv_attestation_quote_hash = quote_hash,
        tv_attested_at = tk_attested_at row, tv_tee_kind = tk_tee_kind row,
        tv_tee_label = tk_tee_label row, tv_tee_policy = tk_tee_policy row,
        tv_tls_pubkey_digest = tls_digest\<rparr>))))))))"

definition mark_tor_ticket_redeemed_thread ::
  "('b, 'z) ext_scheme \<Rightarrow> uuid \<Rightarrow> string \<Rightarrow> ('b world, unit db_result) thread" where
  "mark_tor_ticket_redeemed_thread x ticket_id operational_onion =
     bindT (atomT (if is_aead_payload operational_onion then returnM operational_onion
            else encrypt_with_new_aead x (as_bytes operational_onion)
                   (ticket_aad x ''redeemed_operational_onion'' ticket_id REDEEMED_ONION_AAD)
                   ''tor-ticket-redeemed-onion'')) (\<lambda>stored_onion.
     bindT (atomT (exec_stmt x (\<lambda>n now. update_tickets (\<lambda>t. tk_id t = ticket_id) (redeemed stored_onion now))))
       (\<lambda>_. returnT ()))"

definition register_attestation_nonce_thread ::
  "('b, 'z) ext_scheme \<Rightarrow> bytes \<Rightarrow> string \<Rightarrow> int \<Rightarrow> ('b world, bool db_result) thread" where
  "register_attestation_nonce_thread x nonce_digest enclave_id ttl_seconds =
     bindT (atomT (exec_stmt x (prune_nonces (max ttl_seconds 0)))) (\<lambda>_.
     bindT (atomT (exec_stmt x (insert_nonce nonce_digest enclave_id))) (\<lambda>affected.
     returnT (affected > 0)))"

definition cache_attestation_decision_thread ::
  "('b, 'z) ext_scheme \<Rightarrow> bytes \<Rightarrow> string \<Rightarrow> time \<Rightarrow> json \<Rightarrow> ('b world, unit db_result) thread" where
  "cache_attestation_decision_thread x quote_hash tee expires_at decision =
     bindT (atomT (exec_stmt x prune_cache)) (\<lambda>_.
     atomT (exec_stmt x (upsert_decision quote_hash tee decision expires_at)))"

definition invalidate_attestation_artifacts_thread ::
  "('b, 'z) ext_scheme \<Rightarrow> string \<Rightarrow> string option \<Rightarrow> ('b world, unit db_result) thread" where
  "invalidate_attestation_artifacts_thread x quote_hash_hex nonce_digest_hex =
     bindT (Finished (ok_or (Integrity ''invalid quote hash provided for attestation invalidation'')
              (hex_decode x (trim quote_hash_hex)))) (\<lambda>quote_hash_bytes.
     bindT (atomT (exec_stmt x (delete_decision quote_hash_bytes))) (\<lambda>_.
     atomT (invalidate_nonce x nonce_digest_hex)))"

definition verify_zk_proof_thread ::
  "('b, 'z) ext_scheme \<Rightarrow> halo2 \<Rightarrow> ZkProofVerification \<Rightarrow> ('b world, bool db_result) thread" where
  "verify_zk_proof_thread x h v =
     bindT (atomT (exec_stmt x (select_proof (zv_proof_id v) (zv_user_id v)))) (\<lambda>found.
     bindT (Finished (ok_or (Query ''proof not found'') found)) (\<lambda>row.
     if zp_verified row then returnT True
     else
       bindT (atomT tick) (\<lambda>n.
       bindT (Finished (verify_proof x h (bundle_of_row row v (clock x n)) (zv_context v))) (\<lambda>_.
       bindT (atomT (exec_stmt x (mark_proof_verified (zv_proof_id v)))) (\<lambda>_.
       returnT True)))))"

text \<open>Without interruption they are the operations of the components.\<close>

lemma run_threads:
  "runT (record_tor_session_thread x s) = record_tor_session x s"
  "runT (fetch_tor_session_thread x sid) = fetch_tor_session x sid"
  "runT (issue_tor_ticket_thread x t) = issue_tor_ticket x t"
  "runT (fetch_tor_ticket_for_verification_thread x tid) = fetch_tor_ticket_for_verification x tid"
  "runT (mark_tor_ticket_redeemed_thread x tid onion) = mark_tor_ticket_redeemed x tid onion"
  "runT (register_attestation_nonce_thread x nd enclave ttl) = register_attestation_nonce x nd enclave ttl"
  "runT (cache_attestation_decision_thread x q tee ex dec) = cache_attestation_decision x q tee ex dec"
  "runT (invalidate_attestation_artifacts_thread x qh ndo) = invalidate_attestation_artifacts x qh ndo"
  "runT (verify_zk_proof_thread x h v) = verify_zk_proof x h v"
  by (simp_all add: record_tor_session_thread_def record_tor_session_def
      fetch_tor_session_thread_def fetch_tor_session_def issue_tor_ticket_thread_def issue_tor_ticket_def
      fetch_tor_ticket_for_verification_thread_def fetch_tor_ticket_for_verification_def
      mark_tor_ticket_redeemed_thread_def mark_tor_ticket_redeemed_def
      register_attestation_nonce_thread_def register_attestation_nonce_def
      cache_attestation_decision_thread_def cache_attestation_decision_def
      invalidate_attestation_artifacts_thread_def invalidate_attestation_artifacts_def
      verify_zk_proof_thread_def verify_zk_proof_def Let_def case_prod_unfold
      option.case_distrib [of runT] if_distrib [of runT] cong: option.case_cong if_cong)


section \<open>Calls\<close>

datatype call =
    FetchTorCredential string
  | FetchTorCredentialById uuid
  | CountActiveCredentials
  | RotateOperationalOnion uuid string "string list"
  | SetEntryOnion uuid string "string list"
  | ImportBootstrapTorCredential uuid string string string int "time option" "string list"
  | CreateTorCredential string string string int "time option" "string list"
  | ListTorCredentials int
  | UpdateTorCredentialDisabled uuid bool
  | DeleteTorCredential uuid
  | RecordTorSession TorSessionRecord
  | CountRecentSessions uuid int
  | CountActiveSessions
  | CountTotalSessions
  | FetchTorSession uuid
  | IssueTorTicket NewTorAccessTicket
  | FetchTorTicketForVerification uuid
  | GetTorTicketStatus uuid
  | MarkTorTicketRedeemed uuid string
  | ExpireTorTicketNow uuid
  | GcExpiredTickets int
  | CountRecentTickets uuid int
  | NoteGuardSuccess string GuardSuccessUpdate
  | NoteGuardFailure string
  | ListGuardHealth int
  | SetGuardTeeStatus string bool "string option" "string option"
  | RegisterAttestationNonce bytes string int
  | CacheAttestationDecision bytes string time json
  | InvalidateAttestationArtifacts string "string option"
  | AuditTorConnect uuid
  | AuditOperation uuid string bytes
  | RecordTeeAttestation uuid TeeAttestation
  | RecentTeeAttestations uuid int
  | StoreZkProof ZkProofBundle
  | VerifyZkProof ZkProofVerification

definition drop_reply :: "('s, 'a) thread \<Rightarrow> ('s, unit) thread" where
  "drop_reply t = map_thread (\<lambda>_. ()) t"

definition call_thread :: "('b, 'z) ext_scheme \<Rightarrow> halo2 \<Rightarrow> call \<Rightarrow> ('b world, unit) thread" where
  "call_thread x h c =
     (case c of
        FetchTorCredential onion \<Rightarrow> drop_reply (atomT (fetch_tor_credential x onion))
      | FetchTorCredentialById cid \<Rightarrow> drop_reply (atomT (fetch_tor_credential_by_id x cid))
      | CountActiveCredentials \<Rightarrow> drop_reply (atomT (count_active_credentials x))
      | RotateOperationalOnion cid onion g \<Rightarrow> drop_reply (atomT (rotate_operational_onion x cid onion g))
      | SetEntryOnion cid onion g \<Rightarrow> drop_reply (atomT (set_entry_onion x cid onion g))
      | ImportBootstrapTorCredential cid onion hash tier rl ex g \<Rightarrow>
          drop_reply (atomT (import_bootstrap_tor_credential x cid onion hash tier rl ex g))
      | CreateTorCredential onion hash tier rl ex g \<Rightarrow>
          drop_reply (atomT (create_tor_credential x onion hash tier rl ex g))
      | ListTorCredentials l \<Rightarrow> drop_reply (atomT (list_tor_credentials x l))
      | UpdateTorCredentialDisabled cid dis \<Rightarrow> drop_reply (atomT (update_tor_credential_disabled x cid dis))
      | DeleteTorCredential cid \<Rightarrow> drop_reply (atomT (delete_tor_credential x cid))
      | RecordTorSession s \<Rightarrow> drop_reply (record_tor_session_thread x s)
      | CountRecentSessions cid ws \<Rightarrow> drop_reply (atomT (count_recent_sessions x cid ws))
      | CountActiveSessions \<Rightarrow> drop_reply (atomT (count_active_sessions x))
      | CountTotalSessions \<Rightarrow> drop_reply (atomT (count_total_sessions x))
      | FetchTorSession sid \<Rightarrow> drop_reply (fetch_tor_session_thread x sid)
      | IssueTorTicket t \<Rightarrow> drop_reply (issue_tor_ticket_thread x t)
      | FetchTorTicketForVerification tid \<Rightarrow> drop_reply (fetch_tor_ticket_for_verification_thread x tid)
      | GetTorTicketStatus tid \<Rightarrow> drop_reply (atomT (get_tor_ticket_status x tid))
      | MarkTorTicketRedeemed tid onion \<Rightarrow> drop_reply (mark_tor_ticket_redeemed_thread x tid onion)
      | ExpireTorTicketNow tid \<Rightarrow> drop_reply (atomT (expire_tor_ticket_now x tid))
      | GcExpiredTickets days \<Rightarrow> drop_reply (atomT (gc_expired_tickets x days))
      | CountRecentTickets cid ws \<Rightarrow> drop_reply (atomT (count_recent_tickets x cid ws))
      | NoteGuardSuccess fpr u \<Rightarrow> drop_reply (atomT (note_guard_success x fpr u))
      | NoteGuardFailure fpr \<Rightarrow> drop_reply (atomT (note_guard_failure x fpr))
      | ListGuardHealth l \<Rightarrow> drop_reply (atomT (list_guard_health x l))
      | SetGuardTeeStatus fpr capable label policy \<Rightarrow> drop_reply (atomT (set_guard_tee_status x fpr capable label policy))
      | RegisterAttestationNonce nd enclave ttl \<Rightarrow> drop_reply (register_attestation_nonce_thread x nd enclave ttl)
      | CacheAttestationDecision q tee ex dec \<Rightarrow> drop_reply (cache_attestation_decision_thread x q tee ex dec)
      | InvalidateAttestationArtifacts q nd \<Rightarrow> drop_reply (invalidate_attestation_artifacts_thread x q nd)
      | AuditTorConnect u \<Rightarrow> drop_reply (atomT (audit_tor_connect x u))
      | AuditOperation u oper payload \<Rightarrow> drop_reply (atomT (audit_operation x u oper payload))
      | RecordTeeAttestation u a \<Rightarrow> drop_reply (atomT (record_tee_attestation x u a))
      | RecentTeeAttestations u l \<Rightarrow> drop_reply (atomT (recent_tee_attestations x u l))
      | StoreZkProof b \<Rightarrow> drop_reply (atomT (store_zk_proof x b))
      | VerifyZkProof v \<Rightarrow> drop_reply (verify_zk_proof_thread x h v))"

text \<open>
  The pool a call uses: \<^verbatim>\<open>inner()\<close> for the tables of \<^verbatim>\<open>gateway_data\<close>, \<^verbatim>\<open>secrets()\<close> for those of
  \<^verbatim>\<open>gateway_secrets\<close>. Each statement loads it anew, but \<^verbatim>\<open>verify_zk_proof\<close> keeps the one it loaded
  first.
\<close>

fun on_data_pool :: "call \<Rightarrow> bool" where
  "on_data_pool (NoteGuardSuccess _ _) = True"
| "on_data_pool (NoteGuardFailure _) = True"
| "on_data_pool (ListGuardHealth _) = True"
| "on_data_pool (SetGuardTeeStatus _ _ _ _) = True"
| "on_data_pool (AuditTorConnect _) = True"
| "on_data_pool _ = False"

fun holds_pool :: "call \<Rightarrow> bool" where
  "holds_pool (VerifyZkProof _) = True"
| "holds_pool _ = False"


section \<open>Facts\<close>

lemma safe_drop_reply: "safeT P Q t \<Longrightarrow> safeT P (\<lambda>_. True) (drop_reply t)"
  unfolding drop_reply_def by (induction rule: safeT.induct) (auto intro: safeT.intros)

lemma reads_safe:
  "safeT (db_pred P) (\<lambda>_. True) (fetch_tor_session_thread x sid)"
  "safeT (db_pred P) (\<lambda>_. True) (fetch_tor_ticket_for_verification_thread x tid)"
  by (auto simp: fetch_tor_session_thread_def fetch_tor_ticket_for_verification_thread_def
      intro!: safe_rules preserves_rules split: option.split)

lemmas store_thread_defs =
  register_attestation_nonce_thread_def cache_attestation_decision_thread_def
  invalidate_attestation_artifacts_thread_def invalidate_nonce_def verify_zk_proof_thread_def

lemma store_threads_schema:
  "safeT (db_pred schema_ok) (\<lambda>_. True) (register_attestation_nonce_thread x nd enclave ttl)"
  "safeT (db_pred schema_ok) (\<lambda>_. True) (cache_attestation_decision_thread x q tee ex dec)"
  "safeT (db_pred schema_ok) (\<lambda>_. True) (invalidate_attestation_artifacts_thread x qh ndo)"
  "safeT (db_pred schema_ok) (\<lambda>_. True) (verify_zk_proof_thread x h v)"
  unfolding store_thread_defs by (auto intro!: safe_rules preserves_rules split: option.split)

lemma store_threads_sealed:
  "safeT (db_pred sealed_at_rest) (\<lambda>_. True) (register_attestation_nonce_thread x nd enclave ttl)"
  "safeT (db_pred sealed_at_rest) (\<lambda>_. True) (cache_attestation_decision_thread x q tee ex dec)"
  "safeT (db_pred sealed_at_rest) (\<lambda>_. True) (invalidate_attestation_artifacts_thread x qh ndo)"
  "safeT (db_pred sealed_at_rest) (\<lambda>_. True) (verify_zk_proof_thread x h v)"
  unfolding store_thread_defs by (auto intro!: safe_rules preserves_rules split: option.split)

lemma field_threads_schema:
  "safeT (db_pred schema_ok) (\<lambda>_. True) (record_tor_session_thread x s)"
  "safeT (db_pred schema_ok) (\<lambda>_. True) (issue_tor_ticket_thread x t)"
  "safeT (db_pred schema_ok) (\<lambda>_. True) (mark_tor_ticket_redeemed_thread x tid onion)"
  unfolding record_tor_session_thread_def issue_tor_ticket_thread_def mark_tor_ticket_redeemed_thread_def
  by (auto intro!: safe_rules preserves_rules)

text \<open>Sealed at rest: the statement binds what an earlier action returned, whatever happened since.\<close>

lemma safe_bind_atom:
  assumes "preserves P m" and "yields Q m" and "\<And>a. Q a \<Longrightarrow> safeT P (\<lambda>_. True) (f a)"
  shows "safeT P (\<lambda>_. True) (bindT (atomT m) f)"
  by (rule safe_bind_value [OF safe_atom_yields [OF assms(1,2)] assms(3)]) simp_all

lemma field_threads_sealed:
  "safeT (db_pred sealed_at_rest) (\<lambda>_. True) (record_tor_session_thread x s)"
  "safeT (db_pred sealed_at_rest) (\<lambda>_. True) (issue_tor_ticket_thread x t)"
  "safeT (db_pred sealed_at_rest) (\<lambda>_. True) (mark_tor_ticket_redeemed_thread x tid onion)"
proof -
  show "safeT (db_pred sealed_at_rest) (\<lambda>_. True) (record_tor_session_thread x s)"
    unfolding record_tor_session_thread_def
    by (intro safe_bind_atom [OF ensure_preserves yields_ensure] safe_rules preserves_rules insert_recorded_sealed)
  show "safeT (db_pred sealed_at_rest) (\<lambda>_. True) (issue_tor_ticket_thread x t)"
    unfolding issue_tor_ticket_thread_def case_prod_unfold
    by (intro safe_bind_atom [OF ensure_required_preserves yields_ensure_required]
        safe_bind_atom [OF ensure_preserves yields_ensure] safe_rules preserves_rules insert_issued_sealed)
  show "safeT (db_pred sealed_at_rest) (\<lambda>_. True) (mark_tor_ticket_redeemed_thread x tid onion)"
    unfolding mark_tor_ticket_redeemed_thread_def
    by (rule safe_bind_atom [where Q = is_aead_payload])
       (auto simp: yields_def intro!: safe_rules preserves_rules dest: encrypt_result_v2 is_aead_payload_v2_imp)
qed

lemma threads_tick:
  "safeT (ticked n) (\<lambda>_. True) (record_tor_session_thread x s)"
  "safeT (ticked n) (\<lambda>_. True) (fetch_tor_session_thread x sid)"
  "safeT (ticked n) (\<lambda>_. True) (issue_tor_ticket_thread x t)"
  "safeT (ticked n) (\<lambda>_. True) (fetch_tor_ticket_for_verification_thread x tid)"
  "safeT (ticked n) (\<lambda>_. True) (mark_tor_ticket_redeemed_thread x tid onion)"
  "safeT (ticked n) (\<lambda>_. True) (register_attestation_nonce_thread x nd enclave ttl)"
  "safeT (ticked n) (\<lambda>_. True) (cache_attestation_decision_thread x q tee ex dec)"
  "safeT (ticked n) (\<lambda>_. True) (invalidate_attestation_artifacts_thread x qh ndo)"
  "safeT (ticked n) (\<lambda>_. True) (verify_zk_proof_thread x h v)"
  by (auto simp: record_tor_session_thread_def fetch_tor_session_thread_def issue_tor_ticket_thread_def
      fetch_tor_ticket_for_verification_thread_def mark_tor_ticket_redeemed_thread_def
      store_thread_defs(1,2,3,5) intro!: safe_rules ticks_intros ticks_rules ticks_atomic split: option.split)

text \<open>Every call.\<close>

lemmas calls_keep_schema =
  credential_ops_keep_schema ticket_ops_keep guard_ops_keep_schema record_ops_keep_schema store_keeps
  session_counts_keep

lemmas calls_keep_sealed =
  credential_ops_keep_sealed ticket_ops_keep guard_ops_keep_sealed record_ops_keep_sealed store_keeps
  session_counts_keep

lemma call_safe_schema: "safeT (db_pred schema_ok) (\<lambda>_. True) (call_thread x h c)"
  by (cases c) (simp_all add: call_thread_def safe_drop_reply [OF safe_atom] safe_drop_reply [OF reads_safe(1)]
      safe_drop_reply [OF reads_safe(2)] calls_keep_schema store_threads_schema [THEN safe_drop_reply]
      field_threads_schema [THEN safe_drop_reply])

lemma call_safe_sealed: "safeT (db_pred sealed_at_rest) (\<lambda>_. True) (call_thread x h c)"
  by (cases c) (simp_all add: call_thread_def safe_drop_reply [OF safe_atom] safe_drop_reply [OF reads_safe(1)]
      safe_drop_reply [OF reads_safe(2)] calls_keep_sealed store_threads_sealed [THEN safe_drop_reply]
      field_threads_sealed [THEN safe_drop_reply])

lemma call_ticks: "safeT (ticked n) (\<lambda>_. True) (call_thread x h c)"
  by (cases c) (simp_all add: call_thread_def safe_drop_reply [OF safe_atom] ticks_atomic ticks_credentials ticks_guards
      threads_tick [THEN safe_drop_reply])

text \<open>
  Calls on the data pool write no table of \<^verbatim>\<open>gateway_secrets\<close>.
\<close>

definition secrets_of :: "database \<Rightarrow> database" where
  "secrets_of d = d\<lparr>tor_connect_audits := [], guard_health := []\<rparr>"

lemma data_stmts_keep_secrets:
  "stmt_keeps (\<lambda>d. secrets_of d = s) (upsert_guard_success fpr u)"
  "stmt_keeps (\<lambda>d. secrets_of d = s) (upsert_guard_failure fpr)"
  "stmt_keeps (\<lambda>d. secrets_of d = s) (select_guards l)"
  "stmt_keeps (\<lambda>d. secrets_of d = s) (upsert_guard_tee fpr capable label policy)"
  "stmt_keeps (\<lambda>d. secrets_of d = s) (insert_tor_connect gen user)"
  by (auto intro!: stmt_keepsI simp: secrets_of_def sql_defs bindE_eq_Inr Let_def split: if_splits option.splits)

lemma data_call_keeps_secrets:
  "on_data_pool c \<Longrightarrow> safeT (db_pred (\<lambda>d. secrets_of d = s)) (\<lambda>_. True) (call_thread x h c)"
  by (cases c) (auto simp: call_thread_def guard_op_defs audit_tor_connect_def
      intro!: safe_drop_reply safe_atom preserves_rules data_stmts_keep_secrets)

end
