(* ===== verification/Props_Store.thy ===== *)
theory Props_Store
  imports Replay Reference Api
begin

text \<open>
  The properties of the protected values and of the tables, each with a witness on the reference
  environment where it has hypotheses.
\<close>

section \<open>Values\<close>



text \<open>
  C4. A value sealed for one column of one row does not open for another table, column, row or
  purpose: as long as the AEAD separates the two associated data and the broker still hands out
  the key, the read fails with \<^verbatim>\<open>decryption failed\<close>. Table and column names contain no NUL byte.
\<close>

theorem transplanted_value_rejected:
  assumes contract: "broker_contract x live"
    and nul: "CHR 0x00 \<notin> set (table @ field @ table' @ field')"
    and differ: "(table, field, r, purpose) \<noteq> (table', field', r', purpose')"
    and binds: "aead_binds {record_bound_aad x table field r purpose, record_bound_aad x table' field' r' purpose'} x"
    and run: "encrypt_with_new_aead x (as_bytes v) (record_bound_aad x table field r purpose) label w = (Inr c, w')"
  shows "fst (decrypt_with_broker x c (record_bound_aad x table' field' r' purpose') label' w')
    = Inl (Encryption ''decryption failed'')"
proof -
  have "record_bound_aad x table field r purpose \<noteq> record_bound_aad x table' field' r' purpose'"
    using record_bound_aad_inject [OF broker_contract.uuid [OF contract], of table field table' field'] nul differ
    by auto
  from broker_contract.decrypt_other_context [OF contract binds _ _ this run] show ?thesis by simp
qed

theorem transplanted_value_rejected_witness:
  "\<exists>c w'. encrypt_with_new_aead ref_env (as_bytes ''client.onion'')
       (record_bound_aad ref_env ''gateway_secrets.tor_auth_sessions'' ''client_onion'' 1 CLIENT_ONION_AAD)
       ''l'' ref_world = (Inr c, w')
     \<and> fst (decrypt_with_broker ref_env c
         (record_bound_aad ref_env ''gateway_secrets.tor_auth_sessions'' ''client_onion'' 2 CLIENT_ONION_AAD)
         ''l'' w') = Inl (Encryption ''decryption failed'')"
proof -
  have binds: "aead_binds {session_aad ref_env 1, session_aad ref_env 2} ref_env"
    using ref_session_contexts ref_binds by metis
  obtain c w' where run: "encrypt_with_new_aead ref_env (as_bytes ''client.onion'') (session_aad ref_env 1) ''l'' ref_world
      = (Inr c, w')"
    using ref_encrypt by metis
  have "fst (decrypt_with_broker ref_env c (session_aad ref_env 2) ''l'' w') = Inl (Encryption ''decryption failed'')"
    unfolding session_aad_def
    by (rule transplanted_value_rejected [OF ref.broker_contract_axioms _ _ binds [unfolded session_aad_def]
          run [unfolded session_aad_def]]) simp_all
  with run show ?thesis by (auto simp: session_aad_def)
qed

text \<open>
  The context a value is bound to names its place: equal associated data come from the same
  table, column, row and purpose.
\<close>

lemma context_names_place:
  assumes "uuid_laws x" and "CHR 0x00 \<notin> set (table @ field @ table' @ field')"
    and "record_bound_aad x table field r purpose = record_bound_aad x table' field' r' purpose'"
  shows "(table, field, r, purpose) = (table', field', r', purpose')"
  using record_bound_aad_inject [OF assms(1) _ _ _ _ assms(3)] assms(2) by simp

text \<open>
  C31. The payload text is read back as it was written, and the version is told by its prefix: a
  redeem token comes back exactly from version 2.
\<close>

theorem payload_round_trip:
  assumes "base64_laws x" and "rust_string handle" and "rust_string token"
  shows "decode_aead_payload x (encode_aead_payload x handle token ct) = Inr (handle, Some token, ct)
    \<and> is_aead_payload_v2 (encode_aead_payload x handle token ct)
    \<and> (\<forall>v h t c. decode_aead_payload x v = Inr (h, t, c) \<longrightarrow> (t \<noteq> None \<longleftrightarrow> is_aead_payload_v2 v))"
  using decode_encode_payload [OF assms] decode_payload_version by (metis encode_is_v2)

theorem payload_round_trip_witness:
  "decode_aead_payload ref_env (encode_aead_payload ref_env ''h'' ''t'' [1, 2]) = Inr (''h'', Some ''t'', [1, 2])"
proof -
  have "rust_string ''h''" "rust_string ''t''" by (simp_all add: rust_string_def as_bytes_def Let_def)
  from payload_round_trip [OF ref.base64 this] show ?thesis by blast
qed

text \<open>
  Sealing then opening with the same key and associated data returns the plaintext; every
  error of either is an encryption error.
\<close>

lemma sealed_opens:
  assumes "aead_laws x" and "length n = NONCE_LEN"
    and "aes_encrypt_with_aad x (Some n) key p aad = Inr ct"
  shows "aes_decrypt_with_aad x key ct aad = Inr p \<and> take NONCE_LEN ct = n
    \<and> length ct = NONCE_LEN + length p + TAG_LENGTH"
proof -
  from assms(3) obtain c where "aead_key_ok x key" and c: "aead_seal x key n aad p = Some c" "ct = n @ c"
    by (auto simp: aes_encrypt_with_aad_Inr)
  with aead_lawsD(1) [OF assms(1) _ assms(2) c(1)] aead_laws_key [OF assms(1)]
    aes_round_trip [OF assms] assms(2) show ?thesis by simp
qed


section \<open>What is stored, what is read\<close>

lemma decrypt_optional_v2:
  "decrypt_aead_optional x v aad label w = (Inr r, w') \<Longrightarrow> pred_option is_aead_payload_v2 v"
  by (auto simp: decrypt_aead_optional_def split: option.splits if_splits)

lemma decrypt_required_v2:
  "decrypt_aead_required x c aad label field w = (Inr r, w') \<Longrightarrow> is_aead_payload_v2 c"
  by (auto simp: decrypt_aead_required_def elim!: bindM_eq_InrE dest: decrypt_optional_v2)

lemma exec_stmt_quiet:
  "w_broker (snd (exec_stmt x f w)) = w_broker w" "w_metrics (snd (exec_stmt x f w)) = w_metrics w"
  by (simp_all add: exec_stmt_def Let_def split: pg_outcome.split sum.split prod.split)

lemma quiet_bind:
  "w_broker (snd (bindM (exec_stmt x f) (\<lambda>a. returnM (g a)) w)) = w_broker w"
  "w_metrics (snd (bindM (exec_stmt x f) (\<lambda>a. returnM (g a)) w)) = w_metrics w"
  using exec_stmt_quiet [of x f w] by (auto simp: bindM_def split: prod.splits sum.splits)

lemma ref_fetch:
  assumes "issue_tor_ticket ref_env ref_ticket ref_state = (Inr r, w')"
  shows "\<exists>rec w''. fetch_tor_ticket_for_verification ref_env 1 w' = (Inr (Some rec), w'')"
proof -
  obtain row where db: "w_db w' = (w_db ref_state)\<lparr>tor_access_tickets := tor_access_tickets (w_db ref_state) @ [row]\<rparr>"
    and row: "row_of_ticket ref_ticket row"
    and held: "ref.held (w_broker w') (ticket_fields ref_env (verification_of ref_ticket) row)"
    using ref.issue_stores [OF assms ref_plain_ticket] .
  have "nt_id ref_ticket = 1" by (simp add: ref_ticket_def)
  then have found: "find (\<lambda>r. tk_id r = 1) (tor_access_tickets (w_db w')) = Some row"
    using db row by (auto simp: row_of_ticket_def issued_row_def ref_state_def ref_db_def migrated_db_def)
  have "pg_network ref_env (w_ticks w') = Delivered" by (simp add: ref_env_def)
  moreover have "ref.held (w_broker w') (ticket_fields ref_env (verification_of ref_ticket) row @ [])"
    using held by simp
  ultimately show ?thesis using ref.fetch_stored [OF found row_of_ticket_shows [OF row]] by blast
qed

text \<open>
  C23. What \<^verbatim>\<open>ensure_aead_encrypted\<close> lets through to the database is absent or a version-2 payload,
  whatever the broker and the AEAD answer; a retired version-1 payload is refused before the broker
  is asked.
\<close>

theorem only_v2_is_stored:
  "(\<forall>c w'. ensure_aead_encrypted x v aad label w = (Inr (Some c), w') \<longrightarrow> is_aead_payload_v2 c)
   \<and> (\<forall>w'. ensure_aead_encrypted x v aad label w = (Inr None, w') \<longrightarrow> v = None)
   \<and> (\<forall>s. v = Some s \<longrightarrow> is_aead_payload s \<longrightarrow> \<not> is_aead_payload_v2 s \<longrightarrow>
        ensure_aead_encrypted x v aad label w = (Inl (legacy_error label), w))"
  by (auto dest: ensure_result_v2)
     (auto simp: ensure_aead_encrypted_def elim!: bindM_eq_InrE split: option.splits if_splits)

theorem only_v2_is_stored_witness:
  "ensure_aead_encrypted ref_env (Some ''aead:v1:aa:bb'') [] ''l'' ref_world = (Inl (legacy_error ''l''), ref_world)"
  using only_v2_is_stored [of ref_env "Some ''aead:v1:aa:bb''" "[]" "''l''" ref_world]
  by (simp add: is_aead_payload_def is_aead_payload_v2_def starts_with_def AEAD_PREFIX_V1_def AEAD_PREFIX_V2_def)

text \<open>
  C16. A ticket that verification returns had a version-2 payload in each of its protected columns:
  plaintext and retired payloads are never returned. The read leaves the tables as they were.
\<close>

theorem verified_ticket_was_sealed:
  assumes run: "fetch_tor_ticket_for_verification x tid w = (Inr (Some rec), w')"
  shows "\<exists>row \<in> set (tor_access_tickets (w_db w)).
      tk_id row = tid \<and> tv_id rec = tid \<and> tv_token_hash rec = tk_token_hash row \<and> tv_redeemed_at rec = tk_redeemed_at row
    \<and> list_all is_aead_payload_v2
        [tk_client_auth_public_key row, tk_client_auth_secret_path row, tk_attestation_nonce_digest row,
         tk_attestation_quote_hash row, tk_tls_pubkey_digest row]
    \<and> pred_option is_aead_payload_v2 (tk_client_auth_secret_redeem_token row) \<and> w_db w' = w_db w"
proof -
  have db: "w_db w' = w_db w"
    using preserved_db [OF ticket_ops_keep(1), of x tid w] run by simp
  from run obtain row where "find (\<lambda>t. tk_id t = tid) (tor_access_tickets (w_db w)) = Some row"
    and "tv_id rec = tk_id row" "tv_token_hash rec = tk_token_hash row" "tv_redeemed_at rec = tk_redeemed_at row"
    and "list_all is_aead_payload_v2
        [tk_client_auth_public_key row, tk_client_auth_secret_path row, tk_attestation_nonce_digest row,
         tk_attestation_quote_hash row, tk_tls_pubkey_digest row]"
    and "pred_option is_aead_payload_v2 (tk_client_auth_secret_redeem_token row)"
    unfolding fetch_tor_ticket_for_verification_def
    by (auto simp: select_ticket_def elim!: bindM_eq_InrE exec_stmt_InrD split: option.splits
        dest!: decrypt_required_v2 decrypt_optional_v2)
  with db show ?thesis by (auto dest!: find_SomeD)
qed

theorem verified_ticket_was_sealed_witness:
  "\<exists>r w' rec w''. issue_tor_ticket ref_env ref_ticket ref_state = (Inr r, w')
     \<and> fetch_tor_ticket_for_verification ref_env 1 w' = (Inr (Some rec), w'')
     \<and> (\<exists>row \<in> set (tor_access_tickets (w_db w')). tk_id row = 1 \<and> is_aead_payload_v2 (tk_tls_pubkey_digest row))"
proof -
  obtain r w' where run: "issue_tor_ticket ref_env ref_ticket ref_state = (Inr r, w')"
    using ref_issue by blast
  obtain rec w'' where fetch: "fetch_tor_ticket_for_verification ref_env 1 w' = (Inr (Some rec), w'')"
    using ref_fetch [OF run] by blast
  from verified_ticket_was_sealed [OF fetch] run fetch show ?thesis by fastforce
qed

text \<open>
  Status reads, expiry, garbage collection and the counters carry no authority to recover
  secrets: they neither call the broker nor count an attempt, whatever they return.
\<close>

lemma lifecycle_needs_no_broker:
  "w_broker (snd (get_tor_ticket_status x tid w)) = w_broker w
   \<and> w_broker (snd (expire_tor_ticket_now x tid w)) = w_broker w
   \<and> w_broker (snd (gc_expired_tickets x days w)) = w_broker w
   \<and> w_broker (snd (count_recent_tickets x cid secs w)) = w_broker w
   \<and> w_broker (snd (count_active_sessions x w)) = w_broker w
   \<and> w_metrics (snd (get_tor_ticket_status x tid w)) = w_metrics w
   \<and> w_metrics (snd (expire_tor_ticket_now x tid w)) = w_metrics w
   \<and> w_metrics (snd (gc_expired_tickets x days w)) = w_metrics w"
  by (simp add: get_tor_ticket_status_def expire_tor_ticket_now_def gc_expired_tickets_def
      count_recent_tickets_def count_active_sessions_def exec_stmt_quiet quiet_bind)


section \<open>Credentials\<close>

lemma ref_readings [simp]:
  "pg_network ref_env n = Delivered" "random_uuid ref_env n = word_of_nat (Suc n)"
  "clock ref_env n = int n * second"
  by (simp_all add: ref_env_def)

lemma ref_rows [simp]:
  "tor_auth_credentials (w_db ref_state) = [ref_credential]" "tor_auth_sessions (w_db ref_state) = []"
  "tor_access_tickets (w_db ref_state) = []" "guard_health (w_db ref_state) = []" "w_ticks ref_state = 0"
  "ra_nonce_log (w_db ref_state) = []"
  "cr_id ref_credential = 7" "cr_onion_entry ref_credential = ''entry.onion''" "cr_created_at ref_credential = 0"
  by (simp_all add: ref_state_def ref_world_def ref_db_def migrated_db_def ref_credential_def new_credential_row_def)

text \<open>
  A credential that was created is found by its id and by its trimmed entry onion, exactly as
  it was returned to the creator.
\<close>

lemma created_credential_fetched:
  assumes run: "create_tor_credential x onion hash tier rate ex guards w = (Inr c, w')"
    and net: "pg_network x (w_ticks w') = Delivered"
  shows "fst (fetch_tor_credential_by_id x (tc_id c) w') = Inr (Some c)
    \<and> fst (fetch_tor_credential x (trim onion) w') = Inr (Some c)"
proof -
  let ?cid = "random_uuid x (w_ticks w)" and ?now = "clock x (Suc (w_ticks w))"
  let ?row = "new_credential_row ?cid (trim onion) tier hash guards rate ex ?now"
  from run have c: "c = new_credential ?cid onion tier hash guards rate ex ?now"
    and rows: "tor_auth_credentials (w_db w') = tor_auth_credentials (w_db w) @ [?row]"
    and new: "cr_id ?row \<notin> cr_id ` set (tor_auth_credentials (w_db w))"
      "cr_onion_entry ?row \<notin> cr_onion_entry ` set (tor_auth_credentials (w_db w))"
    by (auto simp: create_tor_credential_def insert_credential_def Let_def elim!: bindM_eq_InrE exec_stmt_InrD
        split: if_splits)
  have "find (\<lambda>r. cr_id r = tc_id c) (tor_auth_credentials (w_db w')) = Some ?row"
    "find (\<lambda>r. cr_onion_entry r = trim onion) (tor_auth_credentials (w_db w')) = Some ?row"
    unfolding rows using new by (intro find_appended; simp add: c new_credential_row_def new_credential_def)+
  moreover have "credential_from_row ?row = c"
    by (simp add: c new_credential_def new_credential_row_def credential_from_row_def)
  ultimately show ?thesis
    using net by (simp add: fetch_tor_credential_by_id_def fetch_tor_credential_def exec_stmt_delivered
        select_credential_by_id_def select_credential_by_onion_def)
qed

text \<open>
  Rotating an operational onion changes the named credential's onion, guards and timestamps
  and nothing else: no other credential, no other column, no other table.
\<close>

lemma rotation_changes_one_credential:
  assumes "rotate_operational_onion x cid onion guards w = (Inr u, w')"
  shows "\<exists>rows. w_db w' = (w_db w)\<lparr>tor_auth_credentials := rows\<rparr>
    \<and> map cr_id rows = map cr_id (tor_auth_credentials (w_db w))
    \<and> (\<forall>i. find (\<lambda>r. cr_id r = i) rows =
          map_option (\<lambda>r. if i = cid
              then r\<lparr>cr_operational_onion := Some onion, cr_guard_nodes := Some guards,
                cr_last_rotated_at := Some (clock x (w_ticks w)), cr_updated_at := clock x (w_ticks w)\<rparr>
              else r) (find (\<lambda>r. cr_id r = i) (tor_auth_credentials (w_db w))))"
proof -
  let ?now = "clock x (w_ticks w)"
  let ?rows = "update_where (\<lambda>c. cr_id c = cid) (rotated onion guards ?now) (tor_auth_credentials (w_db w))"
  have "w_db w' = (w_db w)\<lparr>tor_auth_credentials := ?rows\<rparr>"
    using assms by (auto simp: rotate_operational_onion_def update_credentials_def Let_def elim!: exec_stmt_InrD
        split: if_splits)
  moreover have "find (\<lambda>r. cr_id r = i) ?rows =
      map_option (\<lambda>r. if i = cid then rotated onion guards ?now r else r)
        (find (\<lambda>r. cr_id r = i) (tor_auth_credentials (w_db w)))" for i
    unfolding rotate_key.find_key_update_where
    by (rule option.map_cong0) (auto dest: find_SomeD)
  ultimately show ?thesis by (intro exI [of _ ?rows]) (simp add: rotated_def cong: if_cong)
qed

text \<open>
  Deleting a credential removes it with its sessions and tickets and leaves every other row;
  the answer says whether it existed.
\<close>

lemma deletion_cascades:
  assumes "delete_tor_credential x cid w = (Inr b, w')"
  shows "(b \<longleftrightarrow> cid \<in> cr_id ` set (tor_auth_credentials (w_db w)))
    \<and> set (tor_auth_credentials (w_db w')) = {c \<in> set (tor_auth_credentials (w_db w)). cr_id c \<noteq> cid}
    \<and> set (tor_auth_sessions (w_db w')) = {s \<in> set (tor_auth_sessions (w_db w)). se_credential_id s \<noteq> cid}
    \<and> set (tor_access_tickets (w_db w')) = {t \<in> set (tor_access_tickets (w_db w)). tk_credential_id t \<noteq> cid}
    \<and> guard_health (w_db w') = guard_health (w_db w) \<and> zk_proofs (w_db w') = zk_proofs (w_db w)"
proof -
  have pos: "0 < rows_where (\<lambda>c. cr_id c = cid) cs \<longleftrightarrow> cid \<in> cr_id ` set cs" for cs
    by (auto simp: rows_where_def filter_empty_conv image_iff)
  from assms obtain d where "delete_credential cid (w_ticks w) (clock x (w_ticks w)) (w_db w) = Inr d"
    and "b = (fst d > 0)" "w_db w' = snd d"
    unfolding delete_tor_credential_def by (auto elim!: bindM_eq_InrE exec_stmt_InrD)
  then show ?thesis unfolding pos [symmetric] by (auto simp: delete_credential_def)
qed

text \<open>
  A listing returns at most a thousand credentials (a hundred when no positive limit is
  given), as many as the cap and the table allow, oldest first, and changes nothing.
\<close>

lemma listing_is_capped_and_sorted:
  assumes "list_tor_credentials x l w = (Inr cs, w')"
  shows "length cs = min (nat (if l \<le> 0 then 100 else min l 1000)) (length (tor_auth_credentials (w_db w)))
    \<and> sorted (map tc_created_at cs) \<and> set cs \<subseteq> credential_from_row ` set (tor_auth_credentials (w_db w))
    \<and> w_db w' = w_db w"
proof -
  let ?l = "if l \<le> 0 then 100 else min l 1000" and ?rows = "sort_key cr_created_at (tor_auth_credentials (w_db w))"
  from assms have cs: "cs = map credential_from_row (take (nat ?l) ?rows)" and "w_db w' = w_db w"
    by (auto simp: list_tor_credentials_def Let_def select_credentials_def sql_limit_def bindE_eq_Inr
        elim!: bindM_eq_InrE exec_stmt_InrD split: if_splits)
  moreover have "map tc_created_at cs = take (nat ?l) (map cr_created_at ?rows)"
    by (simp add: cs comp_def credential_from_row_def take_map)
  ultimately show ?thesis
    by (auto simp: min.commute dest: in_set_takeD intro: sorted_wrt_take)
qed

text \<open>
  Importing a bootstrap credential over an existing one keeps the stored operational onion,
  creation time and rotation time, while the value returned reports them as absent or new.
\<close>

lemma reimport_reports_other_state:
  assumes "import_bootstrap_tor_credential x cid onion hash tier rate ex guards w = (Inr c, w')"
    and "find (\<lambda>r. cr_id r = cid) (tor_auth_credentials (w_db w)) = Some old"
  shows "\<exists>row. find (\<lambda>r. cr_id r = cid) (tor_auth_credentials (w_db w')) = Some row
    \<and> cr_operational_onion row = cr_operational_onion old \<and> cr_created_at row = cr_created_at old
    \<and> cr_last_rotated_at row = cr_last_rotated_at old \<and> \<not> cr_disabled row
    \<and> tc_operational_onion c = None \<and> tc_last_rotated_at c = None \<and> tc_created_at c = clock x (w_ticks w)"
proof -
  let ?r = "new_credential_row cid (trim onion) tier hash guards rate ex (clock x (w_ticks w))"
  have known: "cid \<in> cr_id ` set (tor_auth_credentials (w_db w))" using find_SomeD [OF assms(2)] by auto
  with assms(1) have rows: "tor_auth_credentials (w_db w') =
      update_where (\<lambda>c. cr_id c = cid) (reimported ?r (clock x (Suc (w_ticks w)))) (tor_auth_credentials (w_db w))"
    and c: "c = new_credential cid onion tier hash guards rate ex (clock x (w_ticks w))"
    by (auto simp: import_bootstrap_tor_credential_def Let_def upsert_credential_def update_credentials_def
        new_credential_row_def elim!: bindM_eq_InrE exec_stmt_InrD split: if_splits)
  show ?thesis
    using find_SomeD [OF assms(2)]
    by (simp add: rows c reimport_key.find_key_update_where assms(2) reimported_def new_credential_def)
qed

section \<open>Tickets\<close>

text \<open>
  C17. A ticket is only issued for a credential that exists, under a fresh id, and for an
  attestation session no other ticket was issued for (the nil session apart); it is appended to
  the tickets and nothing else in the database changes.
\<close>

theorem issue_is_fresh:
  assumes "issue_tor_ticket x t w = (Inr r, w')"
  shows "nt_id t \<notin> tk_id ` set (tor_access_tickets (w_db w))
    \<and> nt_credential_id t \<in> cr_id ` set (tor_auth_credentials (w_db w))
    \<and> (nt_attestation_session_id t = 0
       \<or> nt_attestation_session_id t \<notin> tk_attestation_session_id ` set (tor_access_tickets (w_db w)))
    \<and> (\<exists>row. w_db w' = (w_db w)\<lparr>tor_access_tickets := tor_access_tickets (w_db w) @ [row]\<rparr> \<and> tk_id row = nt_id t
         \<and> ticket_sealed row)"
proof -
  have kept: "w_db w1 = w_db w0 \<and> is_aead_payload_v2 c"
    if "ensure_aead_encrypted_required x v aad label field w0 = (Inr c, w1)" for v aad label field c and w0 w1 :: "'a world"
    using preserved_db [OF ensure_required_preserves, of x v aad label field w0] that
    by (simp add: ensure_required_result_v2)
  have kept': "w_db w1 = w_db w0 \<and> pred_option is_aead_payload_v2 c"
    if "ensure_aead_encrypted x v aad label w0 = (Inr c, w1)" for v aad label c and w0 w1 :: "'a world"
    using preserved_db [OF ensure_preserves, of x v aad label w0] that
    by (cases c) (simp_all add: ensure_result_v2)
  from assms obtain k p rt n q c w1 u w2 where
    run: "exec_stmt x (insert_ticket (issued_row t k p rt n q c)) w1 = (Inr u, w2)" and "w_db w1 = w_db w" "w' = w2"
    and v2: "list_all is_aead_payload_v2 [k, p, n, q, c]" "pred_option is_aead_payload_v2 rt"
    unfolding issue_tor_ticket_def
    by (auto elim!: bindM_eq_InrE dest!: kept kept' split: prod.splits)
  then show ?thesis
    by (auto elim!: exec_stmt_InrD simp: insert_ticket_def issued_row_def Let_def indexed_sessions_def ticket_sealed_def
        split: if_splits option.splits)
qed

theorem issue_is_fresh_witness:
  "\<exists>r w'. issue_tor_ticket ref_env ref_ticket ref_state = (Inr r, w')
     \<and> (\<exists>row. tor_access_tickets (w_db w') = [row] \<and> tk_id row = 1)"
proof -
  obtain r w' where run: "issue_tor_ticket ref_env ref_ticket ref_state = (Inr r, w')"
    using ref_issue by blast
  from issue_is_fresh [OF run] run show ?thesis by (auto simp: ref_ticket_def)
qed

text \<open>
  Garbage collection with a retention of at least zero days deletes exactly the tickets that
  expired more than that many days ago, redeemed or not, keeps the order of the others and
  reports how many it deleted.
\<close>

lemma collection_is_exact:
  assumes "gc_expired_tickets x days w = (Inr n, w')" and "0 \<le> days"
  shows "tor_access_tickets (w_db w') =
      filter (\<lambda>t. clock x (w_ticks w) - days * day \<le> tk_expires_at t) (tor_access_tickets (w_db w))
    \<and> n + length (tor_access_tickets (w_db w')) = length (tor_access_tickets (w_db w))
    \<and> w_db w' = (w_db w)\<lparr>tor_access_tickets := tor_access_tickets (w_db w')\<rparr>"
proof -
  let ?now = "clock x (w_ticks w)"
  have cut: "collectable (?now - days * day) ?now t \<longleftrightarrow> tk_expires_at t < ?now - days * day" for t
    using assms(2) by (auto simp: collectable_def)
  from assms(1) have "tor_access_tickets (w_db w') = filter (\<lambda>t. \<not> collectable (?now - days * day) ?now t) (tor_access_tickets (w_db w))"
    and n: "n = rows_where (collectable (?now - days * day) ?now) (tor_access_tickets (w_db w))"
    and "w_db w' = (w_db w)\<lparr>tor_access_tickets := tor_access_tickets (w_db w')\<rparr>"
    by (auto simp: gc_expired_tickets_def delete_expired_tickets_def bindE_eq_Inr elim!: exec_stmt_InrD
        dest!: days_before_Inr)
  then show ?thesis
    using sum_length_filter_compl [of "collectable (?now - days * day) ?now" "tor_access_tickets (w_db w)"]
    by (simp add: rows_where_def cut [simplified] not_less)
qed





section \<open>Attestation nonces and guards\<close>





text \<open>
  A registration is finished after two turns of its client, whatever the statements of other
  clients between them and whatever the outcomes: no client waits for another.
\<close>

lemma registration_terminates:
  assumes "i < length cs" and "2 \<le> count_list schedule i"
  shows "\<exists>nd r. fst (run_race x (cs, w) schedule) ! i = Registered nd r"
proof -
  have "turns_left (cs ! i) \<le> 2" by (cases "cs ! i") simp_all
  with turns_left_run [of i "(cs, w)" x schedule] assms show ?thesis by (simp flip: turns_left_0)
qed

text \<open>
  A reported guard failure returns the new count: one for a guard not seen before, one more
  than stored otherwise, within the 32 bits of the column. It is stored, for that guard only.
\<close>

lemma guard_failures_counted:
  assumes "note_guard_failure x fpr w = (Inr n, w')"
  shows "n = (case find (\<lambda>g. gh_guard_fpr g = fpr) (guard_health (w_db w)) of None \<Rightarrow> 1 | Some g \<Rightarrow> gh_fail_count g + 1)
    \<and> in_i32 n
    \<and> map_option gh_fail_count (find (\<lambda>g. gh_guard_fpr g = fpr) (guard_health (w_db w'))) = Some n
    \<and> (\<forall>f. f \<noteq> fpr \<longrightarrow> find (\<lambda>g. gh_guard_fpr g = f) (guard_health (w_db w')) =
          find (\<lambda>g. gh_guard_fpr g = f) (guard_health (w_db w)))"
proof -
  let ?gs = "guard_health (w_db w)"
  from assms obtain d where d: "upsert_guard_failure fpr (w_ticks w) (clock x (w_ticks w)) (w_db w) = Inr (n, d)"
    and w': "w_db w' = d"
    unfolding note_guard_failure_def by (auto elim!: exec_stmt_InrD)
  show ?thesis
  proof (cases "find (\<lambda>g. gh_guard_fpr g = fpr) ?gs")
    case None
    with d have "n = 1" "guard_health (w_db w') = ?gs @ [new_guard_row fpr (clock x (w_ticks w)) 1]"
      by (auto simp: upsert_guard_failure_def w')
    with None show ?thesis by (simp add: find_append fail_count_small new_guard_row_def split: option.split)
  next
    case (Some g)
    with d have "n = gh_fail_count g + 1" "in_i32 n"
      "guard_health (w_db w') = update_where (\<lambda>r. gh_guard_fpr r = fpr) failed_again ?gs"
      by (auto simp: upsert_guard_failure_def w' split: if_splits)
    moreover have "map_option (\<lambda>r. if gh_guard_fpr r = fpr then failed_again r else r)
        (find (\<lambda>g. gh_guard_fpr g = f) ?gs) = find (\<lambda>g. gh_guard_fpr g = f) ?gs" if "f \<noteq> fpr" for f
      using that by (cases "find (\<lambda>g. gh_guard_fpr g = f) ?gs") (auto dest: find_SomeD)
    ultimately show ?thesis
      using Some find_SomeD [OF Some]
      by (simp add: failure_key.find_key_update_where failed_again_def cong: if_cong)
  qed
qed

text \<open>
  A success refreshes what was measured and keeps what was not; it never resets the failure
  count, and a failure of a guard not seen before counts as its last success.
\<close>

lemma success_keeps_failures:
  assumes "note_guard_success x fpr u w = (Inr v, w')"
    and "find (\<lambda>g. gh_guard_fpr g = fpr) (guard_health (w_db w)) = Some g"
  shows "\<exists>g'. find (\<lambda>g. gh_guard_fpr g = fpr) (guard_health (w_db w')) = Some g'
    \<and> gh_fail_count g' = gh_fail_count g \<and> gh_last_ok g' = clock x (w_ticks w)
    \<and> gh_first_seen g' = gh_first_seen g \<and> gh_tee_capable g' = gh_tee_capable g
    \<and> gh_asn g' = (case gs_asn u of None \<Rightarrow> gh_asn g | Some a \<Rightarrow> Some a)"
proof -
  have fpr: "gh_guard_fpr g = fpr" "g \<in> set (guard_health (w_db w))" using find_SomeD [OF assms(2)] by auto
  from assms(1) obtain new where "gh_guard_fpr new = fpr"
    "guard_health (w_db w') = upsert_row gh_guard_fpr new (succeeded u (clock x (w_ticks w))) (guard_health (w_db w))"
    by (auto simp: note_guard_success_def upsert_guard_success_def new_guard_row_def elim!: exec_stmt_InrD intro!: that)
  then show ?thesis
    by (simp add: success_key.find_upsert_row assms(2) succeeded_def coalesce_def split: option.split)
qed

end
