(* ===== verification/Props_Zk.thy ===== *)
theory Props_Zk
  imports Reference Api
begin

text \<open>
  The properties of zero-knowledge proof bundles. \<open>halo2_complete\<close> is the completeness of the
  proof system, which the round trips rely on; \<open>ref_halo2\<close> is an instance for the witnesses.
\<close>

section \<open>The proof system\<close>

definition halo2_complete :: "halo2 \<Rightarrow> bool" where
  "halo2_complete h \<longleftrightarrow>
     (\<forall>k c adv inst vk pk seed pf. satisfies c adv inst \<longrightarrow> keygen_vk h k c = Inr vk \<longrightarrow>
        keygen_pk h k vk c = Inr pk \<longrightarrow> create_proof h k pk c adv inst seed = Inr pf \<longrightarrow>
        plonk_verify h k vk inst pf = Inr ())"

lemma complete_accepts:
  assumes "halo2_complete h" and "prover_meets_verifier h b verdict c adv"
  shows "verdict = Inr ()"
proof -
  from assms(2) obtain inst where s: "satisfies c adv inst"
    and p: "plonk_prove h (zb_circuit_security b) c adv inst = Inr (zb_proof b)"
    and v: "verdict = plonk_check h b c (Inr inst)"
    by (auto simp: prover_meets_verifier_def)
  from p obtain vk pk where "keygen_vk h (zb_circuit_security b) c = Inr vk"
    "keygen_pk h (zb_circuit_security b) vk c = Inr pk"
    "create_proof h (zb_circuit_security b) pk c adv inst (deterministic_rng (zb_circuit_security b)) = Inr (zb_proof b)"
    by (auto simp: plonk_prove_def bindE_eq_Inr)
  with assms(1) s show ?thesis
    unfolding halo2_complete_def by (simp add: v plonk_check_def Let_def)
qed

text \<open>A stand-in that writes the public inputs into the proof and compares them.\<close>

definition ref_halo2 :: halo2 where
  "ref_halo2 =
     \<lparr>keygen_vk = (\<lambda>k c. Inr []), keygen_pk = (\<lambda>k vk c. Inr []),
      create_proof = (\<lambda>k pk c adv inst seed. Inr (concat (map scalar_to_bytes inst))),
      plonk_verify = (\<lambda>k vk inst pf. if pf = concat (map scalar_to_bytes inst) then Inr () else Inl ''bad proof'')\<rparr>"

lemma ref_complete: "halo2_complete ref_halo2"
  by (simp add: halo2_complete_def ref_halo2_def)

lemma ref_plonk: "plonk_prove ref_halo2 k c adv inst = Inr (concat (map scalar_to_bytes inst))"
  by (simp add: plonk_prove_def ref_halo2_def)


text \<open>A security parameter below \<open>2^15\<close> survives the 16-bit signed column.\<close>

lemma security_column:
  fixes k :: "32 word"
  assumes "unat k < 2 ^ 15"
  shows "scast (ucast k :: 16 word) = k"
proof -
  have k: "uint k < 2 ^ 15" using assms unfolding unat_eq_nat_uint by (simp only: nat_less_iff [OF uint_ge_0]) simp
  have "take_bit 16 (uint k) = uint k" and self: "signed_take_bit 15 (uint k) = uint k"
    using k order_trans [OF _ uint_ge_0, of "- 32768" k]
    by (simp_all add: take_bit_int_eq_self_iff signed_take_bit_int_eq_self_iff)
  then have "uint (ucast k :: 16 word) = uint k" by (simp add: unsigned_ucast_eq)
  then have "sint (ucast k :: 16 word) = uint k" using self by (simp add: sint_uint)
  then show ?thesis by (simp only: scast_eq) simp
qed


text \<open>The verifier does not look at the time a bundle was made.\<close>

lemma verify_created_at: "verify_proof x h (b\<lparr>zb_created_at := now\<rparr>) ctx = verify_proof x h b ctx"
  by (cases ctx) (simp_all add: verify_proof_def ensure_protocol_def ensure_circuit_def ensure_expected_hash_def
      verify_scalar_equality_def verify_relay_audit_def verify_log_integrity_def verify_execution_attestation_def
      plonk_check_def Let_def)


section \<open>Properties\<close>

text \<open>A stored relay audit verifies for the commitment it was made for.\<close>

lemma stored_relay_accepted:
  assumes complete: "halo2_complete h"
    and prove: "prove_relay_audit x h k user consensus guards exits w = (Inr b, w1)"
    and com: "derive_relay_commitment x consensus guards exits = Inr commitment"
    and small: "unat k < 2 ^ 15"
  shows "verify_proof x h (bundle_of_row (proof_row b) (relay_audit (zb_proof_id b) user commitment guards exits) now)
    (RelayAudit commitment guards exits) = Inr ()"
proof -
  let ?v = "relay_audit (zb_proof_id b) user commitment guards exits"
  have b: "zb_circuit_security b = k" "zb_user_id b = user"
    using prove by (auto simp: prove_relay_audit_def Let_def relay_commitment digest_to_scalar_def scalar_round_trip
        elim!: liftE_bindE dest!: make_bundle_InrD simp: bundle_from_def)
  have cast: "scast (zp_circuit_security (proof_row b)) = k"
    using security_column [OF small] by (simp add: proof_row_def b)
  have "bundle_of_row (proof_row b) ?v now = b\<lparr>zb_created_at := now\<rparr>"
    using cast by (simp add: bundle_of_row_def relay_audit_def proof_row_def flip: b)
  then show ?thesis
    using complete_accepts [OF complete relay_bundle [OF prove com]] by (simp add: verify_created_at)
qed

lemma stored_relay_verifies:
  assumes complete: "halo2_complete h"
    and prove: "prove_relay_audit x h k user consensus guards exits w = (Inr b, w1)"
    and com: "derive_relay_commitment x consensus guards exits = Inr commitment"
    and found: "find (\<lambda>r. zk_key r = (zb_proof_id b, user)) (zk_proofs (w_db w2)) = Some (proof_row b)"
    and small: "unat k < 2 ^ 15"
    and net: "\<forall>n. pg_network x n = Delivered"
  shows "fst (verify_zk_proof x h (relay_audit (zb_proof_id b) user commitment guards exits) w2) = Inr True"
  using found net stored_relay_accepted [OF complete prove com small]
  by (simp add: verify_zk_proof_def bindM_def exec_stmt_delivered select_proof_def mark_proof_verified_def
      relay_audit_def proof_row_def)

lemma relay_bundle_user: "prove_relay_audit x h k user cd g e w = (Inr b, w1) \<Longrightarrow> zb_user_id b = user"
  by (auto simp: prove_relay_audit_def Let_def relay_commitment digest_to_scalar_def scalar_round_trip
      elim!: liftE_bindE dest!: make_bundle_InrD simp: bundle_from_def)


lemma ref_prove_relay:
  "\<exists>b w1. prove_relay_audit ref_env ref_halo2 14 9 [1] 3 2 ref_state = (Inr b, w1) \<and> w_db w1 = w_db ref_state"
  by (simp add: prove_relay_audit_def Let_def relay_commitment digest_to_scalar_def scalar_round_trip ref_plonk
      make_bundle_def bindM_def)







text \<open>
  C40. A scalar digest that is not 32 bytes long never verifies, whatever the bundle: the stored
  hash would have to be the hash of the digest and the hash of its normalised form. So what the
  prover makes for such a digest is always rejected.
\<close>

theorem long_digest_never_verifies:
  assumes "length digest \<noteq> 32"
    and "hex_encode x (sha256 x digest) \<noteq> hex_encode x (sha256 x (sha256 x digest))"
  shows "verify_proof x h b (ScalarDigest digest) \<noteq> Inr ()"
  using assms
  by (auto simp: verify_proof_def ensure_expected_hash_def verify_scalar_equality_def hash_expected_digest_def
      normalise_digest_def Let_def bindE_eq_Inr split: if_splits)

theorem long_digest_never_verifies_witness:
  "\<exists>b w'. prove_digest_equality ref_env ref_halo2 14 9 [1] [1] ref_state = (Inr b, w')
     \<and> verify_proof ref_env ref_halo2 b (ScalarDigest [1]) \<noteq> Inr ()"
proof -
  have "\<exists>b w'. prove_digest_equality ref_env ref_halo2 14 9 [1] [1] ref_state = (Inr b, w')"
    by (simp add: prove_digest_equality_def Let_def digest_to_scalar_def ref_plonk make_bundle_def bindM_def)
  moreover have "hex_encode ref_env (sha256 ref_env [1]) \<noteq> hex_encode ref_env (sha256 ref_env (sha256 ref_env [1]))"
    by code_simp
  ultimately show ?thesis using long_digest_never_verifies [of "[1]" ref_env] by fastforce
qed

text \<open>
  C37. Every field element is the commitment of some witness in each of the three commitment
  circuits, whatever the public counts or sequence number: an accepted proof shows knowledge of
  numbers with a given sum, and nothing about digests.
\<close>

theorem commitments_bind_nothing:
  assumes "in_fp s"
  shows "satisfies ExecutionCircuit [s, 0, 0] [s]
    \<and> (\<forall>n. in_fp n \<longrightarrow> satisfies LogIntegrityCircuit [s, 0] [s, n])
    \<and> (\<forall>g e. in_fp g \<longrightarrow> in_fp e \<longrightarrow>
         satisfies RelayAuditCircuit [fp_sub (fp_sub s g) e, g, e] [s, g, e])"
proof -
  have zero: "in_fp 0" by (simp add: in_fp_def)
  have plus: "fp_add s 0 = s" "fp_mul 0 n = 0" for n
    using assms by (simp_all add: fp_add_def fp_mul_def in_fp_id)
  have cancel: "fp_add (fp_add (fp_sub (fp_sub s g) e) g) e = s" for g e
    using assms by (simp add: fp_add_def fp_sub_def mod_simps in_fp_id)
  show ?thesis
    using execution_satisfies [OF assms zero zero] log_satisfies [OF assms zero]
      relay_satisfies [OF in_fp_ops(2)] by (simp add: plus) (metis cancel)
qed

theorem commitments_bind_nothing_witness:
  "satisfies ExecutionCircuit [5, 0, 0] [5] \<and> satisfies LogIntegrityCircuit [5, 0] [5, 77]"
proof -
  have "in_fp 5" "in_fp 77" by (simp_all add: in_fp_def FP_MODULUS_def)
  with commitments_bind_nothing show ?thesis by blast
qed

text \<open>
  C39. A successful verification marks every stored proof with that id as verified, those of other
  users included: the update names the id only.
\<close>

theorem verification_marks_other_users:
  assumes "verify_zk_proof x h v w = (Inr True, w')"
    and "find (\<lambda>r. zk_key r = (zv_proof_id v, zv_user_id v)) (zk_proofs (w_db w)) = Some row" "\<not> zp_verified row"
    and "find (\<lambda>r. zk_key r = (zv_proof_id v, other)) (zk_proofs (w_db w)) = Some foreign"
  shows "\<exists>r. find (\<lambda>r. zk_key r = (zv_proof_id v, other)) (zk_proofs (w_db w')) = Some r
    \<and> zp_verified r \<and> zp_proof r = zp_proof foreign \<and> zp_user_id r = other"
proof -
  from assms(1-3) obtain now where "zk_proofs (w_db w') =
      update_where (\<lambda>r. zp_id r = zv_proof_id v) (marked_verified now) (zk_proofs (w_db w))"
    by (auto simp: verify_zk_proof_def select_proof_def mark_proof_verified_def elim!: bindM_eq_InrE exec_stmt_InrD
        split: if_splits)
  then have "find (\<lambda>r. zk_key r = (zv_proof_id v, other)) (zk_proofs (w_db w')) =
      Some (if zp_id foreign = zv_proof_id v then marked_verified now foreign else foreign)"
    by (simp add: verified_key.find_key_update_where assms(4))
  then show ?thesis using find_SomeD [OF assms(4)] by (auto simp: zk_key_def marked_verified_def)
qed

theorem verification_marks_other_users_witness:
  "\<exists>b com w2 w'. fst (verify_zk_proof ref_env ref_halo2 (relay_audit (zb_proof_id b) 9 com 3 2) w2) = Inr True
     \<and> snd (verify_zk_proof ref_env ref_halo2 (relay_audit (zb_proof_id b) 9 com 3 2) w2) = w'
     \<and> zk_proofs (w_db w2) = [proof_row b, (proof_row b)\<lparr>zp_user_id := 8\<rparr>]
     \<and> (\<exists>r. find (\<lambda>r. zk_key r = (zb_proof_id b, 8)) (zk_proofs (w_db w')) = Some r \<and> zp_verified r)"
proof -
  obtain b w1 where run: "prove_relay_audit ref_env ref_halo2 14 9 [1] 3 2 ref_state = (Inr b, w1)"
    using ref_prove_relay by blast
  obtain com where com: "derive_relay_commitment ref_env [1] 3 2 = Inr com" by (simp add: relay_commitment)
  let ?w = "ref_state\<lparr>w_db := (w_db ref_state)\<lparr>zk_proofs := [proof_row b, (proof_row b)\<lparr>zp_user_id := 8\<rparr>]\<rparr>\<rparr>"
  let ?v = "relay_audit (zb_proof_id b) 9 com 3 2"
  have rows: "find (\<lambda>r. zk_key r = (zb_proof_id b, 9)) (zk_proofs (w_db ?w)) = Some (proof_row b)"
    "find (\<lambda>r. zk_key r = (zb_proof_id b, 8)) (zk_proofs (w_db ?w)) = Some ((proof_row b)\<lparr>zp_user_id := 8\<rparr>)"
    by (simp_all add: zk_key_def proof_row_def relay_bundle_user [OF run])
  have ok: "fst (verify_zk_proof ref_env ref_halo2 ?v ?w) = Inr True"
    by (rule stored_relay_verifies [OF ref_complete run com rows(1)]) (simp_all add: ref_env_def)
  then obtain w' where v: "verify_zk_proof ref_env ref_halo2 ?v ?w = (Inr True, w')" by (metis prod.collapse)
  have "zv_proof_id ?v = zb_proof_id b" "zv_user_id ?v = 9" "\<not> zp_verified (proof_row b)"
    by (simp_all add: relay_audit_def proof_row_def)
  with verification_marks_other_users [OF v, of "proof_row b" 8] rows
  have "\<exists>r. find (\<lambda>r. zk_key r = (zb_proof_id b, 8)) (zk_proofs (w_db w')) = Some r \<and> zp_verified r" by auto
  with ok v show ?thesis by (intro exI [of _ b] exI [of _ com] exI [of _ ?w] exI [of _ w']) simp
qed

text \<open>
  A proof already marked as verified verifies for every context: the commitment, the counts and
  the kind of proof the caller asks about are not looked at.
\<close>

lemma verified_mark_skips_context:
  assumes "find (\<lambda>r. zk_key r = (pid, user)) (zk_proofs (w_db w)) = Some row" and "zp_verified row"
    and "pg_network x (w_ticks w) = Delivered"
  shows "verify_zk_proof x h \<lparr>zv_proof_id = pid, zv_user_id = user, zv_context = ctx\<rparr> w
    = (Inr True, w\<lparr>w_ticks := Suc (w_ticks w)\<rparr>)"
  using assms by (simp add: verify_zk_proof_def exec_stmt_delivered select_proof_def)

text \<open>
  C38. Verification and storing race: a verification that has checked the stored proof marks whatever
  is stored under its id when its update runs. A proof stored in between, never checked, ends up
  as verified, although storing it had cleared the mark; and the verification reports success.
\<close>

theorem replaced_proof_is_marked:
  assumes found: "find (\<lambda>r. zk_key r = (zv_proof_id v, zv_user_id v)) (zk_proofs (w_db w)) = Some row" "\<not> zp_verified row"
    and ok: "verify_proof x h (bundle_of_row row v (clock x (Suc (w_ticks w)))) (zv_context v) = Inr ()"
    and net: "pg_network x (w_ticks w) = Delivered"
    and steps: "stepT (verify_zk_proof_thread x h v) w = (t1, w1)" "stepT t1 w1 = (t2, w2)"
    and same: "zb_proof_id b = zv_proof_id v" "zb_user_id b = zv_user_id v"
    and store: "store_zk_proof x b w2 = (Inr u, w3)" and net': "pg_network x (w_ticks w3) = Delivered"
  shows "\<exists>w4 r. runT t2 w3 = (Inr True, w4)
    \<and> find (\<lambda>r. zk_key r = (zv_proof_id v, zv_user_id v)) (zk_proofs (w_db w4)) = Some r
    \<and> zp_proof r = zb_proof b \<and> zp_verified r"
proof -
  let ?key = "(zv_proof_id v, zv_user_id v)" and ?mark = "exec_stmt x (mark_proof_verified (zv_proof_id v))"
  have "exec_stmt x (select_proof (zv_proof_id v) (zv_user_id v)) w = (Inr (Some row), w\<lparr>w_ticks := Suc (w_ticks w)\<rparr>)"
    using found net by (simp add: exec_stmt_delivered select_proof_def)
  with steps found ok have t2: "t2 = bindT (atomT ?mark) (\<lambda>_. returnT True)"
    by (auto simp: verify_zk_proof_thread_def atomT_def bindT.simps tick_def)
  from store have db3: "zk_proofs (w_db w3) = upsert_row zk_key (proof_row b) (proof_replaced (proof_row b)) (zk_proofs (w_db w2))"
    by (auto simp: store_zk_proof_def upsert_proof_def elim!: exec_stmt_InrD)
  have "zk_key (proof_row b) = ?key" by (simp add: zk_key_def proof_row_def same)
  then obtain r where r: "find (\<lambda>r. zk_key r = ?key) (zk_proofs (w_db w3)) = Some r" "zp_proof r = zb_proof b"
    by (simp add: db3 replace_key.find_upsert_row)
       (simp add: proof_row_def proof_replaced_def split: option.split)
  have "runT t2 w3 = (Inr True, snd (?mark w3))" and "zk_proofs (w_db (snd (?mark w3))) =
      update_where (\<lambda>r. zp_id r = zv_proof_id v) (marked_verified (clock x (w_ticks w3))) (zk_proofs (w_db w3))"
    using net' by (simp_all add: t2 bindM_def exec_stmt_delivered mark_proof_verified_def)
  moreover from this(2) r(1) have "find (\<lambda>r. zk_key r = ?key) (zk_proofs (w_db (snd (?mark w3)))) =
      Some (if zp_id r = zv_proof_id v then marked_verified (clock x (w_ticks w3)) r else r)"
    by (simp add: verified_key.find_key_update_where)
  ultimately show ?thesis using find_SomeD [OF r(1)] r(2) by (auto simp: zk_key_def marked_verified_def)
qed

theorem replaced_proof_is_marked_witness:
  "\<exists>v w b t1 w1 t2 w2 w3 w4 r. stepT (verify_zk_proof_thread ref_env ref_halo2 v) w = (t1, w1) \<and> stepT t1 w1 = (t2, w2)
     \<and> store_zk_proof ref_env b w2 = (Inr (), w3) \<and> zb_proof b = [] \<and> runT t2 w3 = (Inr True, w4)
     \<and> find (\<lambda>r. zk_key r = (zv_proof_id v, zv_user_id v)) (zk_proofs (w_db w4)) = Some r \<and> zp_proof r = [] \<and> zp_verified r"
proof -
  obtain b w0 where run: "prove_relay_audit ref_env ref_halo2 14 9 [1] 3 2 ref_state = (Inr b, w0)"
    using ref_prove_relay by blast
  obtain com where com: "derive_relay_commitment ref_env [1] 3 2 = Inr com" by (simp add: relay_commitment)
  let ?w = "ref_state\<lparr>w_db := (w_db ref_state)\<lparr>zk_proofs := [proof_row b]\<rparr>\<rparr>"
  let ?v = "relay_audit (zb_proof_id b) 9 com 3 2" and ?b = "b\<lparr>zb_proof := []\<rparr>"
  have v: "zv_proof_id ?v = zb_proof_id b" "zv_user_id ?v = 9" "zv_context ?v = RelayAudit com 3 2"
    by (simp_all add: relay_audit_def)
  have user: "zb_user_id b = 9" by (rule relay_bundle_user [OF run])
  have found: "find (\<lambda>r. zk_key r = (zv_proof_id ?v, zv_user_id ?v)) (zk_proofs (w_db ?w)) = Some (proof_row b)"
    "\<not> zp_verified (proof_row b)"
    by (simp_all add: v zk_key_def proof_row_def user)
  have ok: "verify_proof ref_env ref_halo2 (bundle_of_row (proof_row b) ?v now) (zv_context ?v) = Inr ()" for now
    unfolding v by (rule stored_relay_accepted [OF ref_complete run com]) simp
  have net: "pg_network ref_env n = Delivered" for n by (simp add: ref_env_def)
  obtain t1 w1 where 1: "stepT (verify_zk_proof_thread ref_env ref_halo2 ?v) ?w = (t1, w1)" by fastforce
  obtain t2 w2 where 2: "stepT t1 w1 = (t2, w2)" by fastforce
  obtain w3 where 3: "store_zk_proof ref_env ?b w2 = (Inr (), w3)"
    by (simp add: store_zk_proof_def exec_stmt_delivered [OF net] upsert_proof_def)
  from replaced_proof_is_marked [OF found ok net 1 2 _ _ 3 net] v user 1 2 3 show ?thesis by fastforce
qed

end
