(* ===== verification/Config.thy ===== *)
theory Config
  imports Env
begin

text \<open>
  \<^verbatim>\<open>load_native_config\<close> of \<^verbatim>\<open>src/lib.rs\<close>: where the pools get their credentials from, the
  pool bounds and the timeouts, all read from the environment and checked there.
\<close>

section \<open>Records\<close>

record BrokerCredentialConfig =
  bc_audience :: string
  bc_scope :: "string list"
  bc_ttl_seconds :: nat

datatype NativeAuthConfig =
    StaticUrl string
  | BrokerAuth BrokerCredentialConfig

record NativeConfig =
  nc_data_auth :: NativeAuthConfig
  nc_secrets_auth :: "NativeAuthConfig option"
  nc_max_connections :: nat
  nc_min_connections :: nat
  nc_connect_timeout_seconds :: nat
  nc_idle_timeout_seconds :: nat
  nc_application_name :: string


section \<open>Loading\<close>

definition parse_scope_list :: "string \<Rightarrow> string list" where
  "parse_scope_list raw = filter (\<lambda>entry. entry \<noteq> []) (map trim (split_on CHR '','' raw))"

definition credential_source :: "env \<Rightarrow> string" where
  "credential_source e =
     to_ascii_lowercase (case env_ok e ''SECURE_DB_CREDENTIAL_SOURCE'' of None \<Rightarrow> ''broker'' | Some v \<Rightarrow> v)"

definition load_broker_auth :: "env \<Rightarrow> config_error + NativeAuthConfig" where
  "load_broker_auth e =
     bindE (required_env e ''SECURE_DB_BROKER_AUDIENCE'') (\<lambda>audience.
     let scope = (case env_ok e ''SECURE_DB_BROKER_SCOPE'' of None \<Rightarrow> [] | Some raw \<Rightarrow> parse_scope_list raw) in
     bindE (parse_u64_env e ''SECURE_DB_BROKER_TTL_SECONDS'' 900) (\<lambda>ttl_seconds.
     if ttl_seconds = 0 then Inl (MustBePositive ''SECURE_DB_BROKER_TTL_SECONDS'')
     else Inr (BrokerAuth \<lparr>bc_audience = audience, bc_scope = scope, bc_ttl_seconds = ttl_seconds\<rparr>)))"

definition load_static_auth :: "env \<Rightarrow> config_error + NativeAuthConfig" where
  "load_static_auth e =
     bindE (map_err Wrapped (env_flag e ''SECURE_DB_ALLOW_STATIC'')) (\<lambda>allowed.
     if \<not> allowed then Inl StaticNotAllowed
     else bindE (required_env e ''SECURE_DB_URL'') (\<lambda>url. Inr (StaticUrl url)))"

definition load_data_auth :: "env \<Rightarrow> config_error + NativeAuthConfig" where
  "load_data_auth e =
     (let source = credential_source e in
      if source = ''broker'' then load_broker_auth e
      else if source = ''static'' then load_static_auth e
      else Inl (UnknownSource source))"

definition load_secrets_auth :: "env \<Rightarrow> NativeAuthConfig \<Rightarrow> config_error + NativeAuthConfig option" where
  "load_secrets_auth e data_auth =
     (case data_auth of
        BrokerAuth data_broker \<Rightarrow>
          (case env_ok e ''SECURE_DB_SECRETS_BROKER_AUDIENCE'' of
             Some audience \<Rightarrow>
               if trim audience \<noteq> [] then
                 (let scope = (case env_ok e ''SECURE_DB_SECRETS_BROKER_SCOPE'' of
                                 None \<Rightarrow> bc_scope data_broker
                               | Some raw \<Rightarrow> parse_scope_list raw) in
                  bindE (parse_u64_env e ''SECURE_DB_SECRETS_BROKER_TTL_SECONDS'' (bc_ttl_seconds data_broker))
                    (\<lambda>ttl_seconds.
                  if ttl_seconds = 0 then Inl (MustBePositive ''SECURE_DB_SECRETS_BROKER_TTL_SECONDS'')
                  else Inr (Some (BrokerAuth
                         \<lparr>bc_audience = audience, bc_scope = scope, bc_ttl_seconds = ttl_seconds\<rparr>))))
               else Inl (Empty ''SECURE_DB_SECRETS_BROKER_AUDIENCE'')
           | None \<Rightarrow>
               if e ''SECURE_DB_SECRETS_BROKER_SCOPE'' \<noteq> Unset
                 \<or> e ''SECURE_DB_SECRETS_BROKER_TTL_SECONDS'' \<noteq> Unset
               then Inl OverridesWithoutAudience
               else Inr None)
      | StaticUrl _ \<Rightarrow>
          Inr (case env_ok e ''SECURE_DB_SECRETS_URL'' of
                 Some url \<Rightarrow> if trim url = [] then None else Some (StaticUrl url)
               | None \<Rightarrow> None))"

definition load_native_config :: "env \<Rightarrow> config_error + NativeConfig" where
  "load_native_config e =
     bindE (load_data_auth e) (\<lambda>data_auth.
     bindE (load_secrets_auth e data_auth) (\<lambda>secrets_auth.
     bindE (parse_u32_env e ''SECURE_DB_POOL_MAX'' 20) (\<lambda>max_connections.
     bindE (parse_u32_env e ''SECURE_DB_POOL_MIN'' 5) (\<lambda>min_connections.
     if max_connections = 0 \<or> min_connections > max_connections then Inl BadPoolBounds
     else
     bindE (parse_u64_env e ''SECURE_DB_CONNECT_TIMEOUT'' 10) (\<lambda>connect_timeout_seconds.
     bindE (parse_u64_env e ''SECURE_DB_IDLE_TIMEOUT'' 300) (\<lambda>idle_timeout_seconds.
     if connect_timeout_seconds = 0 \<or> idle_timeout_seconds = 0 then Inl BadTimeouts
     else
       let application_name = (case env_ok e ''SECURE_DB_APP_NAME'' of None \<Rightarrow> ''secure-database'' | Some v \<Rightarrow> v) in
       if trim application_name = [] then Inl (Empty ''SECURE_DB_APP_NAME'')
       else Inr
         \<lparr>nc_data_auth = data_auth, nc_secrets_auth = secrets_auth,
          nc_max_connections = max_connections, nc_min_connections = min_connections,
          nc_connect_timeout_seconds = connect_timeout_seconds,
          nc_idle_timeout_seconds = idle_timeout_seconds,
          nc_application_name = application_name\<rparr>))))))"


section \<open>Facts\<close>

text \<open>What every configuration the loader accepts satisfies.\<close>

fun auth_ok :: "NativeAuthConfig \<Rightarrow> bool" where
  "auth_ok (StaticUrl url) = (trim url \<noteq> [])"
| "auth_ok (BrokerAuth b) =
     (trim (bc_audience b) \<noteq> [] \<and> 0 < bc_ttl_seconds b \<and> bc_ttl_seconds b < 2 ^ 64
      \<and> (\<forall>s \<in> set (bc_scope b). s \<noteq> []))"

fun same_source :: "NativeAuthConfig \<Rightarrow> NativeAuthConfig \<Rightarrow> bool" where
  "same_source (StaticUrl _) (StaticUrl _) = True"
| "same_source (BrokerAuth _) (BrokerAuth _) = True"
| "same_source _ _ = False"

definition config_ok :: "NativeConfig \<Rightarrow> bool" where
  "config_ok c \<longleftrightarrow>
     auth_ok (nc_data_auth c)
   \<and> (case nc_secrets_auth c of None \<Rightarrow> True | Some a \<Rightarrow> auth_ok a \<and> same_source (nc_data_auth c) a)
   \<and> 0 < nc_max_connections c \<and> nc_min_connections c \<le> nc_max_connections c
   \<and> nc_max_connections c < 2 ^ 32
   \<and> 0 < nc_connect_timeout_seconds c \<and> nc_connect_timeout_seconds c < 2 ^ 64
   \<and> 0 < nc_idle_timeout_seconds c \<and> nc_idle_timeout_seconds c < 2 ^ 64
   \<and> trim (nc_application_name c) \<noteq> []"

lemma parse_scope_list_ne: "s \<in> set (parse_scope_list raw) \<Longrightarrow> s \<noteq> []"
  by (simp add: parse_scope_list_def)

lemma load_broker_auth_ok: "load_broker_auth e = Inr a \<Longrightarrow> auth_ok a"
  using parse_u64_env_bound [of e _ 900]
  by (auto simp: load_broker_auth_def bindE_eq_Inr required_env_Inr Let_def dest!: parse_scope_list_ne
      split: if_splits option.splits)

lemma load_static_auth_ok: "load_static_auth e = Inr a \<Longrightarrow> auth_ok a"
  by (auto simp: load_static_auth_def bindE_eq_Inr required_env_Inr split: if_splits)

lemma load_data_auth_ok: "load_data_auth e = Inr a \<Longrightarrow> auth_ok a"
  by (auto simp: load_data_auth_def Let_def split: if_splits intro: load_broker_auth_ok load_static_auth_ok)

lemma load_secrets_auth_ok:
  assumes "load_secrets_auth e a = Inr (Some s)" and "auth_ok a"
  shows "auth_ok s \<and> same_source a s"
proof (cases a)
  case (StaticUrl u)
  with assms show ?thesis by (auto simp: load_secrets_auth_def split: option.splits if_splits)
next
  case (BrokerAuth b)
  with assms parse_u64_env_bound [of e _ "bc_ttl_seconds b"] show ?thesis
    by (auto simp: load_secrets_auth_def bindE_eq_Inr Let_def dest!: parse_scope_list_ne
        split: option.splits if_splits)
qed

lemma load_native_config_ok:
  assumes "load_native_config e = Inr c"
  shows "config_ok c"
proof -
  from assms obtain a s where "load_data_auth e = Inr a" and "load_secrets_auth e a = Inr s"
    and "nc_data_auth c = a" "nc_secrets_auth c = s"
    by (auto simp: load_native_config_def bindE_eq_Inr Let_def split: if_splits)
  note auth = this
  from assms have "0 < nc_max_connections c" "nc_min_connections c \<le> nc_max_connections c"
    "0 < nc_connect_timeout_seconds c" "0 < nc_idle_timeout_seconds c" "trim (nc_application_name c) \<noteq> []"
    and p: "parse_u32_env e ''SECURE_DB_POOL_MAX'' 20 = Inr (nc_max_connections c)"
    "parse_u64_env e ''SECURE_DB_CONNECT_TIMEOUT'' 10 = Inr (nc_connect_timeout_seconds c)"
    "parse_u64_env e ''SECURE_DB_IDLE_TIMEOUT'' 300 = Inr (nc_idle_timeout_seconds c)"
    by (auto simp: load_native_config_def bindE_eq_Inr Let_def split: if_splits)
  moreover have "auth_ok a" using auth(1) by (rule load_data_auth_ok)
  moreover have "case s of None \<Rightarrow> True | Some b \<Rightarrow> auth_ok b \<and> same_source a b"
    using auth load_secrets_auth_ok [OF _ \<open>auth_ok a\<close>] by (auto split: option.split)
  moreover have "nc_max_connections c < 2 ^ 32" "nc_connect_timeout_seconds c < 2 ^ 64"
    "nc_idle_timeout_seconds c < 2 ^ 64"
    using parse_u32_env_bound [OF p(1)] parse_u64_env_bound [OF p(2)] parse_u64_env_bound [OF p(3)] by simp_all
  ultimately show ?thesis using auth by (auto simp: config_ok_def split: option.split)
qed

text \<open>A static URL is used only when the operator said so twice.\<close>

lemma static_needs_opt_in:
  assumes "load_data_auth e = Inr (StaticUrl url)"
  shows "credential_source e = ''static'' \<and> env_flag e ''SECURE_DB_ALLOW_STATIC'' = Inr True
    \<and> e ''SECURE_DB_URL'' = Present url"
  using assms
  by (auto simp: load_data_auth_def load_broker_auth_def load_static_auth_def bindE_eq_Inr required_env_Inr Let_def
      split: if_splits)

end
