(* ===== verification/Ra_Tls.thy ===== *)
theory Ra_Tls
  imports Env
begin

text \<open>
  RA-TLS evidence (\<^verbatim>\<open>src/ra_tls.rs\<close>): extraction of quote and event log from a certificate, the
  vendor heuristic, the binding of the quote to the certificate's key, quote verification, and
  the compose hash of the event log.

  The X.509 and DER parsers, the quote parser and verifier of \<^verbatim>\<open>dcap-qvl\<close>, SHA-512, the PCCS
  service, the clock and the JSON reader of the event log are the fields of \<open>ratls\<close>.
\<close>

section \<open>Data\<close>

datatype TEEVendor = AmdSevSnp | IntelTDX | IntelSGX

record TdReport =
  td_mr_td :: bytes
  td_report_data :: bytes

record EnclaveReport =
  er_mr_enclave :: bytes
  er_mr_signer :: bytes
  er_isv_svn :: "16 word"
  er_report_data :: bytes

text \<open>\<^verbatim>\<open>dcap_qvl::quote::Report\<close>; a TD 1.5 report contains a TD 1.0 report as its base.\<close>

datatype Report = TD10 TdReport | TD15 TdReport | SgxEnclave EnclaveReport

record VerifiedReport =
  vr_report :: Report
  vr_status :: string

record x509_cert =
  xc_common_names :: "string option list"
  xc_extension :: "nat list \<Rightarrow> string + bytes option"
  xc_public_key :: bytes
  xc_uri_sans :: "string list option"

record TdxEventLog =
  ev_imr :: "32 word"
  ev_event :: string
  ev_event_payload :: bytes

record ratls =
  parse_x509 :: "bytes \<Rightarrow> string + x509_cert"
  der_octets :: "bytes \<Rightarrow> string + bytes"
  quote_parse :: "bytes \<Rightarrow> string + Report"
  sha512 :: "bytes \<Rightarrow> bytes"
  get_collateral :: "string \<Rightarrow> bytes \<Rightarrow> string + bytes"
  qvl_verify :: "bytes \<Rightarrow> bytes \<Rightarrow> nat \<Rightarrow> string + VerifiedReport"
  unix_now :: "string + nat"
  event_log_json :: "bytes \<Rightarrow> string + TdxEventLog list"
  ratls_hex :: "bytes \<Rightarrow> string"

record RaAttestation =
  ra_quote :: bytes
  ra_raw_event_log :: bytes

record VerifiedAttestation =
  va_report :: VerifiedReport
  va_raw_event_log :: bytes

datatype attest_error =
    BadCertificate string
  | BadExtension string
  | BadOctetString string
  | QuoteTooShort nat
  | AmdNotImplemented
  | BadQuote string
  | KeyNotBound
  | NoPccsUrl
  | CollateralFailed string
  | ClockBeforeEpoch string
  | QuoteRejected string
  | EventLogMissing
  | BadEventLog string
  | NoComposeEvent
  | NoCommonName
  | SubjectNotAllowed string
  | NoAttestation
  | NoComposeHash
  | ComposeHashRejected string
  | MrtdRejected string
  | SgxRejected string string "16 word"


section \<open>Extraction\<close>

definition PHALA_RATLS_QUOTE_OID :: "nat list" where
  "PHALA_RATLS_QUOTE_OID = [1, 3, 6, 1, 4, 1, 62397, 1, 1]"

definition PHALA_RATLS_EVENT_LOG_OID :: "nat list" where
  "PHALA_RATLS_EVENT_LOG_OID = [1, 3, 6, 1, 4, 1, 62397, 1, 2]"

definition RA_TLS_BINDING_TAG :: bytes where
  "RA_TLS_BINDING_TAG = as_bytes ''ratls-cert''"

definition get_extension_octets :: "ratls \<Rightarrow> x509_cert \<Rightarrow> nat list \<Rightarrow> attest_error + bytes option" where
  "get_extension_octets r cert oid_arc =
     bindE (map_err BadExtension (xc_extension cert oid_arc)) (\<lambda>ext.
     case ext of
       None \<Rightarrow> Inr None
     | Some v \<Rightarrow> bindE (map_err BadOctetString (der_octets r v)) (\<lambda>inner. Inr (Some inner)))"

definition attestation_from_der :: "ratls \<Rightarrow> bytes \<Rightarrow> attest_error + RaAttestation option" where
  "attestation_from_der r cert_der =
     bindE (map_err BadCertificate (parse_x509 r cert_der)) (\<lambda>cert.
     bindE (get_extension_octets r cert PHALA_RATLS_QUOTE_OID) (\<lambda>q.
     case q of
       None \<Rightarrow> Inr None
     | Some quote \<Rightarrow>
         bindE (get_extension_octets r cert PHALA_RATLS_EVENT_LOG_OID) (\<lambda>l.
         Inr (Some \<lparr>ra_quote = quote, ra_raw_event_log = (case l of None \<Rightarrow> [] | Some bs \<Rightarrow> bs)\<rparr>))))"


section \<open>Verification\<close>

definition u16_le :: "byte \<Rightarrow> byte \<Rightarrow> nat" where
  "u16_le a b = unat a + 256 * unat b"

definition u32_le :: "byte \<Rightarrow> byte \<Rightarrow> byte \<Rightarrow> byte \<Rightarrow> nat" where
  "u32_le a b c d = unat a + 256 * unat b + 65536 * unat c + 16777216 * unat d"

definition TEE_TYPE_SGX :: nat where "TEE_TYPE_SGX = 0x00000000"
definition TEE_TYPE_TDX :: nat where "TEE_TYPE_TDX = 0x00000081"

definition detect_vendor_from_quote :: "RaAttestation \<Rightarrow> attest_error + TEEVendor" where
  "detect_vendor_from_quote a =
     (let quote = ra_quote a in
      if length quote < 8 then Inl (QuoteTooShort (length quote))
      else
        let version = u16_le (quote ! 0) (quote ! 1);
            tee_type = u32_le (quote ! 4) (quote ! 5) (quote ! 6) (quote ! 7) in
        if version = 3 then Inr IntelSGX
        else if (version = 4 \<or> version = 5) \<and> tee_type = TEE_TYPE_TDX then Inr IntelTDX
        else if (version = 4 \<or> version = 5) \<and> tee_type = TEE_TYPE_SGX then Inr IntelSGX
        else Inr AmdSevSnp)"

definition ratls_decode_report_data :: "ratls \<Rightarrow> bytes \<Rightarrow> attest_error + bytes" where
  "ratls_decode_report_data r quote =
     bindE (map_err BadQuote (quote_parse r quote)) (\<lambda>report.
     case report of
       SgxEnclave e \<Rightarrow> Inr (er_report_data e)
     | TD10 t \<Rightarrow> Inr (td_report_data t)
     | TD15 t \<Rightarrow> Inr (td_report_data t))"

definition expected_report_data :: "ratls \<Rightarrow> bytes \<Rightarrow> bytes" where
  "expected_report_data r pubkey_der = sha512 r (RA_TLS_BINDING_TAG @ as_bytes '':'' @ pubkey_der)"

definition resolve_pccs_url :: "env \<Rightarrow> string option \<Rightarrow> attest_error + string" where
  "resolve_pccs_url e pccs_url =
     (case pccs_url of
        Some url \<Rightarrow> if url \<noteq> [] then Inr url else ok_or NoPccsUrl (env_ok e ''PCCS_URL'')
      | None \<Rightarrow> ok_or NoPccsUrl (env_ok e ''PCCS_URL''))"

definition verify_with_ra_pubkey ::
  "ratls \<Rightarrow> env \<Rightarrow> RaAttestation \<Rightarrow> bytes \<Rightarrow> string option \<Rightarrow> attest_error + VerifiedAttestation" where
  "verify_with_ra_pubkey r e a pubkey_der pccs_url =
     bindE (detect_vendor_from_quote a) (\<lambda>vendor.
     if vendor = AmdSevSnp then Inl AmdNotImplemented
     else
     bindE (ratls_decode_report_data r (ra_quote a)) (\<lambda>actual_report_data.
     if actual_report_data \<noteq> expected_report_data r pubkey_der then Inl KeyNotBound
     else
     bindE (resolve_pccs_url e pccs_url) (\<lambda>url.
     bindE (map_err CollateralFailed (get_collateral r url (ra_quote a))) (\<lambda>collateral.
     bindE (map_err ClockBeforeEpoch (unix_now r)) (\<lambda>now.
     bindE (map_err QuoteRejected (qvl_verify r (ra_quote a) collateral now)) (\<lambda>verified.
     Inr \<lparr>va_report = verified, va_raw_event_log = ra_raw_event_log a\<rparr>))))))"

definition compose_event :: "TdxEventLog \<Rightarrow> bool" where
  "compose_event ev \<longleftrightarrow>
     ev_imr ev = 3 \<and> (ev_event ev = ''compose-hash'' \<or> ev_event ev = ''upgraded-app-id'')"

definition decode_compose_hash :: "ratls \<Rightarrow> VerifiedAttestation \<Rightarrow> attest_error + string" where
  "decode_compose_hash r v =
     (if va_raw_event_log v = [] then Inl EventLogMissing
      else
        bindE (map_err BadEventLog (event_log_json r (va_raw_event_log v))) (\<lambda>events.
        case find compose_event events of
          Some ev \<Rightarrow> Inr (ratls_hex r (ev_event_payload ev))
        | None \<Rightarrow> Inl NoComposeEvent))"


section \<open>Facts\<close>

text \<open>What a successful verification has established.\<close>

lemma verify_with_ra_pubkey_Inr:
  assumes "verify_with_ra_pubkey r e a pk url = Inr v"
  obtains vendor col n rep where
    "detect_vendor_from_quote a = Inr vendor" "vendor \<noteq> AmdSevSnp"
    "ratls_decode_report_data r (ra_quote a) = Inr (expected_report_data r pk)"
    "qvl_verify r (ra_quote a) col n = Inr (va_report v)" "unix_now r = Inr n"
    "va_raw_event_log v = ra_raw_event_log a"
  using assms
  by (auto simp: verify_with_ra_pubkey_def bindE_eq_Inr split: if_splits intro: that)

lemma detect_vendor_total: "8 \<le> length (ra_quote a) \<Longrightarrow> \<exists>v. detect_vendor_from_quote a = Inr v"
  by (auto simp: detect_vendor_from_quote_def Let_def)

text \<open>The event log takes no part in the verification of the quote.\<close>

lemma verify_event_log_irrelevant:
  "verify_with_ra_pubkey r e (a\<lparr>ra_raw_event_log := l\<rparr>) pk url =
     (case verify_with_ra_pubkey r e a pk url of
        Inl err \<Rightarrow> Inl err
      | Inr v \<Rightarrow> Inr (v\<lparr>va_raw_event_log := l\<rparr>))"
  by (auto simp: verify_with_ra_pubkey_def detect_vendor_from_quote_def Let_def bindE_def
      split: sum.split)

end
