(* ===== verification/Ip_Addr.thy ===== *)
theory Ip_Addr
  imports Prelude
begin

text \<open>
  \<^verbatim>\<open>str::parse::<IpAddr>\<close> and \<^verbatim>\<open>IpAddr::is_loopback\<close> of Rust's standard library, which decide
  whether the broker's endpoint is on the loopback interface. A parser returns what it read and
  the rest of the text, and consumes nothing when it fails.
\<close>

section \<open>Parsing\<close>

definition hex_digit_of :: "char \<Rightarrow> nat option" where
  "hex_digit_of c = (let n = of_char c in
     if 48 \<le> n \<and> n \<le> 57 then Some (n - 48)
     else if 65 \<le> n \<and> n \<le> 70 then Some (n - 55)
     else if 97 \<le> n \<and> n \<le> 102 then Some (n - 87) else None)"

fun take_digits :: "(char \<Rightarrow> nat option) \<Rightarrow> string \<Rightarrow> nat list \<times> string" where
  "take_digits dig [] = ([], [])"
| "take_digits dig (c # s) =
     (case dig c of
        None \<Rightarrow> ([], c # s)
      | Some d \<Rightarrow> (let (ds, r) = take_digits dig s in (d # ds, r)))"

definition digits_to_nat :: "nat \<Rightarrow> nat list \<Rightarrow> nat" where
  "digits_to_nat radix ds = foldl (\<lambda>n d. n * radix + d) 0 ds"

text \<open>\<^verbatim>\<open>read_number\<close>: at least one digit, at most \<open>maxd\<close>, the value at most \<open>maxv\<close>.\<close>

definition read_number :: "nat \<Rightarrow> (char \<Rightarrow> nat option) \<Rightarrow> nat \<Rightarrow> bool \<Rightarrow> nat \<Rightarrow> string \<Rightarrow> (nat \<times> string) option" where
  "read_number radix dig maxd zero_prefix maxv s =
     (let (ds, r) = take_digits dig s; v = digits_to_nat radix ds in
      if ds = [] \<or> length ds > maxd \<or> (\<not> zero_prefix \<and> hd ds = 0 \<and> length ds > 1) \<or> v > maxv
      then None else Some (v, r))"

definition read_given_char :: "char \<Rightarrow> string \<Rightarrow> string option" where
  "read_given_char c s = (case s of d # r \<Rightarrow> if d = c then Some r else None | [] \<Rightarrow> None)"

definition read_separator :: "char \<Rightarrow> nat \<Rightarrow> (string \<Rightarrow> ('a \<times> string) option) \<Rightarrow> string \<Rightarrow> ('a \<times> string) option" where
  "read_separator sep i p s =
     (if i > 0 then Option.bind (read_given_char sep s) p else p s)"

definition read_octet :: "string \<Rightarrow> (nat \<times> string) option" where
  "read_octet = read_number 10 digit_of 3 False 255"

definition read_ipv4 :: "string \<Rightarrow> (nat list \<times> string) option" where
  "read_ipv4 s =
     Option.bind (read_separator CHR ''.'' 0 read_octet s) (\<lambda>(a, s).
     Option.bind (read_separator CHR ''.'' 1 read_octet s) (\<lambda>(b, s).
     Option.bind (read_separator CHR ''.'' 2 read_octet s) (\<lambda>(c, s).
     Option.bind (read_separator CHR ''.'' 3 read_octet s) (\<lambda>(d, s).
     Some ([a, b, c, d], s)))))"

definition read_group :: "string \<Rightarrow> (nat \<times> string) option" where
  "read_group = read_number 16 hex_digit_of 4 True 65535"

text \<open>Up to \<open>limit\<close> groups from index \<open>i\<close> on; an embedded IPv4 address ends them and is flagged.\<close>

fun read_groups :: "nat \<Rightarrow> nat \<Rightarrow> nat \<Rightarrow> string \<Rightarrow> nat list \<times> bool \<times> string" where
  "read_groups limit i 0 s = ([], False, s)"
| "read_groups limit i (Suc n) s =
     (case (if i < limit - 1 then read_separator CHR '':'' i read_ipv4 s else None) of
        Some ([a, b, c, d], r) \<Rightarrow> ([256 * a + b, 256 * c + d], True, r)
      | _ \<Rightarrow>
          (case read_separator CHR '':'' i read_group s of
             None \<Rightarrow> ([], False, s)
           | Some (g, r) \<Rightarrow>
               (let (gs, v4, r') = read_groups limit (Suc i) n r in (g # gs, v4, r'))))"

definition read_ipv6 :: "string \<Rightarrow> (nat list \<times> string) option" where
  "read_ipv6 s =
     (let (head, head_ipv4, r) = read_groups 8 0 8 s in
      if length head = 8 then Some (head, r)
      else if head_ipv4 then None
      else Option.bind (read_given_char CHR '':'' r) (\<lambda>r.
           Option.bind (read_given_char CHR '':'' r) (\<lambda>r.
           let limit = 8 - (length head + 1);
               (tail, _, r') = read_groups limit 0 limit r in
           Some (head @ replicate (8 - length head - length tail) 0 @ tail, r'))))"

datatype IpAddr = V4 "nat list" | V6 "nat list"

definition parse_ip :: "string \<Rightarrow> IpAddr option" where
  "parse_ip s =
     (case read_ipv4 s of
        Some (a, r) \<Rightarrow> if r = [] then Some (V4 a) else None
      | None \<Rightarrow>
          (case read_ipv6 s of
             Some (a, r) \<Rightarrow> if r = [] then Some (V6 a) else None
           | None \<Rightarrow> None))"

fun is_loopback :: "IpAddr \<Rightarrow> bool" where
  "is_loopback (V4 a) = (hd a = 127)"
| "is_loopback (V6 a) = (a = [0, 0, 0, 0, 0, 0, 0, 1])"


section \<open>Facts\<close>

lemma read_number_bound: "read_number radix dig maxd z maxv s = Some (v, r) \<Longrightarrow> v \<le> maxv"
  by (auto simp: read_number_def Let_def split: prod.splits if_splits)

lemma read_octet_bound: "read_separator sep i read_octet s = Some (v, r) \<Longrightarrow> v \<le> 255"
  by (auto simp: read_separator_def read_octet_def dest: read_number_bound split: if_splits bind_splits)

lemma read_ipv4_octets:
  "read_ipv4 s = Some (a, r) \<Longrightarrow> length a = 4 \<and> list_all (\<lambda>b. b \<le> 255) a"
  by (auto simp: read_ipv4_def split: bind_splits) (erule read_octet_bound)+

text \<open>The host of an IPv6 URL carries brackets; no such text is an address.\<close>

lemma read_bracket: "read_octet (CHR ''['' # s) = None" "read_group (CHR ''['' # s) = None"
  by (simp_all add: read_octet_def read_group_def read_number_def digit_of_def hex_digit_of_def)

lemma parse_ip_bracket: "parse_ip (CHR ''['' # s) = None"
proof -
  have v4: "read_ipv4 (CHR ''['' # s) = None"
    by (simp add: read_ipv4_def read_separator_def read_bracket)
  have "read_groups 8 0 (Suc 7) (CHR ''['' # s) = ([], False, CHR ''['' # s)"
    by (simp only: read_groups.simps) (simp add: read_separator_def read_bracket v4)
  then have "read_ipv6 (CHR ''['' # s) = None"
    by (simp add: read_ipv6_def read_given_char_def)
  with v4 show ?thesis by (simp add: parse_ip_def)
qed

end
