(* ===== verification/Broker_Policy.thy ===== *)
theory Broker_Policy
  imports Schema Ra_Tls Ip_Addr
begin

text \<open>
  How the secret-broker client decides whom to trust (\<^verbatim>\<open>src/secret_broker_client.rs\<close>): attestation
  modes, measurement policies, the client configuration, SPIFFE identities and the two
  certificate verifiers.

  Parameters: the JSON and file readers, the URL parser, the PEM reader and WebPKI chain validation
  (\<open>host\<close>), and the lower-case mapping of strings that are not ASCII.
\<close>

section \<open>Modes and policies\<close>

datatype AttestationMode = Enforced | Disabled | Spiffe | Local

datatype client_error =
    BadMode string string
  | PolicyFileRequired
  | PolicyUnreadable string
  | PolicyNotJson string
  | PolicyUnrestricted
  | EndpointMissing
  | EndpointInvalid string
  | LoopbackRequired AttestationMode
  | HttpsRequired
  | UnsafeFlagRequired AttestationMode
  | ForbiddenInRelease AttestationMode
  | SubjectsRequired
  | CertUnreadable string
  | KeyUnreadable string
  | CertUnparsable string
  | KeyUnparsable string
  | CertAndKeyTogether
  | IdentityRequired
  | BadTimeout string
  | TimeoutUnreadable string
  | TimeoutZero

text \<open>\<^verbatim>\<open>str::to_lowercase\<close>: the ASCII mapping on ASCII text; \<open>lower\<close> answers for other text.\<close>

definition to_lowercase :: "(string \<Rightarrow> string) \<Rightarrow> string \<Rightarrow> string" where
  "to_lowercase lower s =
     (if list_all (\<lambda>c. (of_char c :: nat) < 128) s then to_ascii_lowercase s else lower s)"

definition mode_from_env_var :: "env \<Rightarrow> string \<Rightarrow> string \<Rightarrow> client_error + AttestationMode" where
  "mode_from_env_var e key dflt =
     (let raw = (case env_ok e key of None \<Rightarrow> dflt | Some v \<Rightarrow> v);
          m = to_ascii_lowercase (trim raw) in
      if m = ''disabled'' then Inr Disabled
      else if m = ''spiffe'' then Inr Spiffe
      else if m = ''local'' then Inr Local
      else if m = ''enforced'' then Inr Enforced
      else Inl (BadMode key raw))"

definition is_enforced :: "AttestationMode \<Rightarrow> bool" where
  "is_enforced m \<longleftrightarrow> m = Enforced"

record MeasurementPolicy =
  allowed_mrtd :: "string set"
  allowed_mrenclave :: "string set"
  allowed_mrsigner :: "string set"
  min_isvsvn :: "16 word option"
  expected_compose_hash :: "string option"

definition allow_all :: MeasurementPolicy where
  "allow_all = \<lparr>allowed_mrtd = {}, allowed_mrenclave = {}, allowed_mrsigner = {}, min_isvsvn = None,
     expected_compose_hash = None\<rparr>"

definition allows_tdx_mrtd :: "(string \<Rightarrow> string) \<Rightarrow> MeasurementPolicy \<Rightarrow> string \<Rightarrow> bool" where
  "allows_tdx_mrtd lower p mrtd \<longleftrightarrow>
     allowed_mrtd p = {} \<or> to_lowercase lower mrtd \<in> allowed_mrtd p"

definition allows_sgx_measurements ::
  "(string \<Rightarrow> string) \<Rightarrow> MeasurementPolicy \<Rightarrow> string \<Rightarrow> string \<Rightarrow> 16 word \<Rightarrow> bool" where
  "allows_sgx_measurements lower p mrenclave mrsigner isvsvn \<longleftrightarrow>
     (let mrenclave_ok = (allowed_mrenclave p = {} \<or> to_lowercase lower mrenclave \<in> allowed_mrenclave p);
          mrsigner_ok = (allowed_mrsigner p = {} \<or> to_lowercase lower mrsigner \<in> allowed_mrsigner p);
          isvsvn_ok = (case min_isvsvn p of Some m \<Rightarrow> m \<le> isvsvn | None \<Rightarrow> True) in
      mrenclave_ok \<and> mrsigner_ok \<and> isvsvn_ok)"

definition allows_compose_hash :: "(string \<Rightarrow> string) \<Rightarrow> MeasurementPolicy \<Rightarrow> string \<Rightarrow> bool" where
  "allows_compose_hash lower p compose_hash \<longleftrightarrow>
     (case expected_compose_hash p of
        Some expected \<Rightarrow> expected = to_lowercase lower compose_hash
      | None \<Rightarrow> True)"

definition expects_compose_hash :: "MeasurementPolicy \<Rightarrow> bool" where
  "expects_compose_hash p \<longleftrightarrow> expected_compose_hash p \<noteq> None"

record ClientPolicy =
  policy_name :: string
  measurement :: MeasurementPolicy

text \<open>Serde's accessors on the policy document.\<close>

fun json_get :: "json \<Rightarrow> string \<Rightarrow> json option" where
  "json_get (JObject kvs) key = map_of kvs key"
| "json_get _ key = None"

fun json_array :: "json \<Rightarrow> json list option" where
  "json_array (JArray xs) = Some xs"
| "json_array _ = None"

fun json_str :: "json \<Rightarrow> string option" where
  "json_str (JString s) = Some s"
| "json_str _ = None"

fun json_u64 :: "json \<Rightarrow> int option" where
  "json_u64 (JInt n) = (if 0 \<le> n \<and> n < 2 ^ 64 then Some n else None)"
| "json_u64 _ = None"

definition string_set :: "(string \<Rightarrow> string) \<Rightarrow> json option \<Rightarrow> string set" where
  "string_set lower v =
     (case Option.bind v json_array of
        None \<Rightarrow> {}
      | Some arr \<Rightarrow> set (map (to_lowercase lower) (List.map_filter json_str arr)))"

text \<open>\<open>policy_document\<close> is what \<^verbatim>\<open>from_file\<close> makes of the parsed file; \<^verbatim>\<open>v as u16\<close> truncates.\<close>

definition policy_document :: "(string \<Rightarrow> string) \<Rightarrow> json \<Rightarrow> client_error + ClientPolicy" where
  "policy_document lower v =
     (let m = \<lparr>allowed_mrtd = string_set lower (json_get v ''allowed_mrtd''),
               allowed_mrenclave = string_set lower (json_get v ''allowed_mrenclave''),
               allowed_mrsigner = string_set lower (json_get v ''allowed_mrsigner''),
               min_isvsvn = map_option word_of_int (Option.bind (json_get v ''min_isvsvn'') json_u64),
               expected_compose_hash =
                 map_option (to_lowercase lower) (Option.bind (json_get v ''expected_compose_hash'') json_str)\<rparr> in
      if allowed_mrtd m = {} \<and> allowed_mrenclave m = {} \<and> allowed_mrsigner m = {}
        \<and> expected_compose_hash m = None
      then Inl PolicyUnrestricted
      else Inr \<lparr>policy_name = (case Option.bind (json_get v ''policy_name'') json_str of
                                None \<Rightarrow> ''default'' | Some s \<Rightarrow> s),
                measurement = m\<rparr>)"

text \<open>A parsed URL: its scheme and \<^verbatim>\<open>host_str()\<close>.\<close>

record url =
  u_scheme :: string
  u_host :: "string option"

datatype pem_item = X509Certificate bytes | Pkcs8Key bytes | Pkcs1Key bytes | Sec1Key bytes | OtherItem

record host =
  read_file :: "string \<Rightarrow> string + bytes"
  read_to_string :: "string \<Rightarrow> string + string"
  parse_json :: "string \<Rightarrow> string + json"
  parse_url :: "string \<Rightarrow> string + url"
  pem_items :: "bytes \<Rightarrow> (string + pem_item) list"
  lower_unicode :: "string \<Rightarrow> string"

definition policy_from_file :: "host \<Rightarrow> string \<Rightarrow> client_error + ClientPolicy" where
  "policy_from_file h path =
     bindE (map_err PolicyUnreadable (read_to_string h path)) (\<lambda>raw.
     bindE (map_err PolicyNotJson (parse_json h raw)) (\<lambda>v.
     policy_document (lower_unicode h) v))"

definition transport_only :: ClientPolicy where
  "transport_only = \<lparr>policy_name = ''transport-only'', measurement = allow_all\<rparr>"

definition policy_from_env :: "host \<Rightarrow> env \<Rightarrow> AttestationMode \<Rightarrow> client_error + ClientPolicy" where
  "policy_from_env h e mode =
     (case env_ok e ''SECRET_BROKER_CLIENT_POLICY_FILE'' of
        Some path \<Rightarrow> policy_from_file h path
      | None \<Rightarrow> if \<not> is_enforced mode then Inr transport_only else Inl PolicyFileRequired)"


section \<open>Client configuration\<close>

definition secret_broker_endpoint_is_loopback :: "url \<Rightarrow> bool" where
  "secret_broker_endpoint_is_loopback endpoint =
     (case u_host endpoint of
        None \<Rightarrow> False
      | Some host \<Rightarrow>
          (let normalized = to_ascii_lowercase (trim host) in
           normalized = ''localhost'' \<or> ends_with normalized ''.localhost''
           \<or> (case parse_ip normalized of Some ip \<Rightarrow> is_loopback ip | None \<Rightarrow> False)))"

definition UNSAFE_FLAG_ENV :: string where
  "UNSAFE_FLAG_ENV = ''SECURE_DB_ALLOW_UNSAFE_BROKER''"

text \<open>\<open>debug_build\<close> is \<^verbatim>\<open>cfg!(debug_assertions)\<close>.\<close>

definition ensure_attestation_mode ::
  "host \<Rightarrow> bool \<Rightarrow> env \<Rightarrow> AttestationMode \<Rightarrow> client_error + unit" where
  "ensure_attestation_mode h debug_build e mode =
     (if is_enforced mode \<or> mode = Spiffe \<or> mode = Local then Inr ()
      else if debug_build then
        (case env_ok e UNSAFE_FLAG_ENV of
           Some raw \<Rightarrow>
             if to_lowercase (lower_unicode h) (trim raw) \<in> set [''1'', ''true'', ''yes''] then Inr ()
             else Inl (UnsafeFlagRequired mode)
         | None \<Rightarrow> Inl (UnsafeFlagRequired mode))
      else Inl (ForbiddenInRelease mode))"

text \<open>The PEM items of a file, read in order; the first unreadable one ends the reading.\<close>

fun collect_certs :: "(string + pem_item) list \<Rightarrow> string + bytes list" where
  "collect_certs [] = Inr []"
| "collect_certs (Inl err # items) = Inl err"
| "collect_certs (Inr (X509Certificate cert) # items) =
     bindE (collect_certs items) (\<lambda>certs. Inr (cert # certs))"
| "collect_certs (Inr _ # items) = collect_certs items"

definition parse_cert_chain :: "host \<Rightarrow> bytes \<Rightarrow> string + bytes list" where
  "parse_cert_chain h bs =
     bindE (collect_certs (pem_items h bs)) (\<lambda>certs.
     if certs = [] then Inl ''no certificates found in client bundle'' else Inr certs)"

fun first_key :: "(string + pem_item) list \<Rightarrow> string + bytes" where
  "first_key [] = Inl ''no private key found in bundle''"
| "first_key (Inl err # items) = Inl err"
| "first_key (Inr (Pkcs8Key key) # items) = Inr key"
| "first_key (Inr (Pkcs1Key key) # items) = Inr key"
| "first_key (Inr (Sec1Key key) # items) = Inr key"
| "first_key (Inr _ # items) = first_key items"

definition parse_private_key :: "host \<Rightarrow> bytes \<Rightarrow> string + bytes" where
  "parse_private_key h bs = first_key (pem_items h bs)"

type_synonym identity = "bytes list option \<times> bytes option \<times> bytes option"

definition load_client_identity :: "host \<Rightarrow> env \<Rightarrow> AttestationMode \<Rightarrow> client_error + identity" where
  "load_client_identity h e mode =
     bindE
       (case (env_ok e ''SECRET_BROKER_CLIENT_CERT'', env_ok e ''SECRET_BROKER_CLIENT_KEY'') of
          (Some cert, Some key) \<Rightarrow>
            bindE (map_err CertUnreadable (read_file h cert)) (\<lambda>cert_bytes.
            bindE (map_err KeyUnreadable (read_file h key)) (\<lambda>key_bytes.
            bindE (map_err CertUnparsable (parse_cert_chain h cert_bytes)) (\<lambda>certs.
            bindE (map_err KeyUnparsable (parse_private_key h key_bytes)) (\<lambda>k.
            Inr (Some certs, Some k, Some (cert_bytes @ key_bytes))))))
        | (None, None) \<Rightarrow> Inr (None, None, None)
        | _ \<Rightarrow> Inl CertAndKeyTogether)
       (\<lambda>(client_cert_chain, client_key, pem).
        if is_enforced mode \<and> client_cert_chain = None then Inl IdentityRequired
        else Inr (client_cert_chain, client_key, pem))"

record SecretBrokerClientConfig =
  sc_endpoint :: url
  sc_attestation_mode :: AttestationMode
  sc_policy :: ClientPolicy
  sc_pccs_url :: "string option"
  sc_subject_allowlist :: "string set option"
  sc_client_cert_chain :: "bytes list option"
  sc_client_key :: "bytes option"
  sc_client_identity_pem :: "bytes option"
  sc_timeout_seconds :: nat
  sc_spiffe_socket_path :: "string option"
  sc_my_spiffe_id :: "string option"

definition subject_allowlist_from_env :: "host \<Rightarrow> env \<Rightarrow> string set option" where
  "subject_allowlist_from_env h e =
     (case env_ok e ''SECRET_BROKER_CLIENT_SUBJECTS'' of
        None \<Rightarrow> None
      | Some raw \<Rightarrow>
          (let s = set (filter (\<lambda>entry. entry \<noteq> [])
                     (map (\<lambda>entry. to_lowercase (lower_unicode h) (trim entry)) (split_on CHR '','' raw)))
           in if s = {} then None else Some s))"

definition client_timeout :: "env \<Rightarrow> client_error + nat" where
  "client_timeout e =
     bindE (case e ''SECRET_BROKER_CLIENT_TIMEOUT_SECS'' of
              Present raw \<Rightarrow> ok_or (BadTimeout raw) (parse_unsigned 64 raw)
            | Unset \<Rightarrow> Inr 10
            | NotUnicode err \<Rightarrow> Inl (TimeoutUnreadable err))
       (\<lambda>n. if n = 0 then Inl TimeoutZero else Inr n)"

definition client_config_from_env ::
  "host \<Rightarrow> bool \<Rightarrow> env \<Rightarrow> client_error + SecretBrokerClientConfig" where
  "client_config_from_env h debug_build e =
     bindE (ok_or EndpointMissing (env_ok e ''SECRET_BROKER_ENDPOINT'')) (\<lambda>raw.
     bindE (map_err EndpointInvalid (parse_url h raw)) (\<lambda>endpoint.
     bindE (mode_from_env_var e ''SECRET_BROKER_CLIENT_MODE'' ''enforced'') (\<lambda>mode.
     if (mode = Local \<or> mode = Disabled) \<and> \<not> secret_broker_endpoint_is_loopback endpoint
     then Inl (LoopbackRequired mode)
     else if mode \<noteq> Disabled \<and> u_scheme endpoint \<noteq> ''https'' then Inl HttpsRequired
     else
     bindE (ensure_attestation_mode h debug_build e mode) (\<lambda>_.
     bindE (policy_from_env h e mode) (\<lambda>policy.
     let subject_allowlist = subject_allowlist_from_env h e in
     if subject_allowlist = None \<and> is_enforced mode then Inl SubjectsRequired
     else
     let pccs_url = env_ok e ''SECRET_BROKER_PCCS_URL'' in
     bindE (load_client_identity h e mode) (\<lambda>(client_cert_chain, client_key, client_identity_pem).
     bindE (client_timeout e) (\<lambda>timeout.
     let spiffe_socket_path =
           (case env_ok e ''SECRET_BROKER_SPIFFE_SOCKET'' of
              Some p \<Rightarrow> Some p
            | None \<Rightarrow> if mode = Spiffe then Some ''/var/run/spire/agent.sock'' else None);
         my_spiffe_id = env_ok e ''SECRET_BROKER_CLIENT_SPIFFE_ID'' in
     Inr \<lparr>sc_endpoint = endpoint, sc_attestation_mode = mode, sc_policy = policy,
          sc_pccs_url = pccs_url, sc_subject_allowlist = subject_allowlist,
          sc_client_cert_chain = client_cert_chain, sc_client_key = client_key,
          sc_client_identity_pem = client_identity_pem, sc_timeout_seconds = timeout,
          sc_spiffe_socket_path = spiffe_socket_path, sc_my_spiffe_id = my_spiffe_id\<rparr>)))))))"


section \<open>SPIFFE\<close>

fun split_at_char :: "char \<Rightarrow> string \<Rightarrow> (string \<times> string) option" where
  "split_at_char c [] = None"
| "split_at_char c (x # s) =
     (if x = c then Some ([], x # s) else map_option (apfst (Cons x)) (split_at_char c s))"

definition normalize_spiffe_id :: "string \<Rightarrow> string option" where
  "normalize_spiffe_id uri =
     (if \<not> starts_with uri ''spiffe://'' then None
      else
        (case split_at_char CHR ''/'' (drop 9 uri) of
           None \<Rightarrow> None
         | Some (td, path) \<Rightarrow>
             if td = [] \<or> \<not> starts_with path ''/'' then None
             else Some (''spiffe://'' @ to_ascii_lowercase td @ path)))"

datatype tls_error =
    ChainRejected string
  | SignatureRejected string
  | VerifierBuild string
  | InvalidTarget string
  | CertParse string
  | NotOneUriSan
  | NotSpiffe
  | NotAuthorised
  | NeedsRuntime string
  | RaTlsFailed attest_error

text \<open>The WebPKI verifier inside is its root store; \<open>webpki_build\<close> is the outcome of building it.\<close>

record SpiffeServerVerifier =
  sv_roots :: "bytes list"
  sv_allowed :: string

definition spiffe_verifier_new ::
  "(string + unit) \<Rightarrow> bytes list \<Rightarrow> string \<Rightarrow> tls_error + SpiffeServerVerifier" where
  "spiffe_verifier_new webpki_build root_store allowed_spiffe_id =
     bindE (map_err VerifierBuild webpki_build) (\<lambda>_.
     bindE (ok_or (InvalidTarget allowed_spiffe_id) (normalize_spiffe_id allowed_spiffe_id)) (\<lambda>allowed.
     Inr \<lparr>sv_roots = root_store, sv_allowed = allowed\<rparr>))"

text \<open>\<open>webpki\<close> is the verdict of the WebPKI verifier on the chain.\<close>

definition spiffe_verify_server_cert ::
  "ratls \<Rightarrow> SpiffeServerVerifier \<Rightarrow> string + unit \<Rightarrow> bytes \<Rightarrow> tls_error + unit" where
  "spiffe_verify_server_cert r v webpki end_entity =
     bindE (map_err ChainRejected webpki) (\<lambda>_.
     bindE (map_err CertParse (parse_x509 r end_entity)) (\<lambda>cert.
     let uris = (case xc_uri_sans cert of Some us \<Rightarrow> us | None \<Rightarrow> []) in
     if length uris \<noteq> 1 then Inl NotOneUriSan
     else
     bindE (ok_or NotSpiffe (normalize_spiffe_id (uris ! 0))) (\<lambda>presented_norm.
     if presented_norm \<noteq> sv_allowed v then Inl NotAuthorised else Inr ())))"


section \<open>RA-TLS\<close>

definition enforce_measurement_policy ::
  "ratls \<Rightarrow> (string \<Rightarrow> string) \<Rightarrow> MeasurementPolicy \<Rightarrow> VerifiedAttestation \<Rightarrow> attest_error + unit" where
  "enforce_measurement_policy r lower p v =
     (case vr_report (va_report v) of
        TD10 td10 \<Rightarrow>
          (let mrtd = ratls_hex r (td_mr_td td10) in
           if \<not> allows_tdx_mrtd lower p mrtd then Inl (MrtdRejected mrtd) else Inr ())
      | TD15 td15 \<Rightarrow>
          (let mrtd = ratls_hex r (td_mr_td td15) in
           if \<not> allows_tdx_mrtd lower p mrtd then Inl (MrtdRejected mrtd) else Inr ())
      | SgxEnclave enclave \<Rightarrow>
          (let mrenclave = ratls_hex r (er_mr_enclave enclave);
               mrsigner = ratls_hex r (er_mr_signer enclave) in
           if \<not> allows_sgx_measurements lower p mrenclave mrsigner (er_isv_svn enclave)
           then Inl (SgxRejected mrenclave mrsigner (er_isv_svn enclave)) else Inr ()))"

definition check_subject ::
  "(string \<Rightarrow> string) \<Rightarrow> string set option \<Rightarrow> x509_cert \<Rightarrow> attest_error + unit" where
  "check_subject lower subject_allowlist cert =
     (let subject_cn = (case xc_common_names cert of [] \<Rightarrow> None | cn # _ \<Rightarrow> cn) in
      case subject_allowlist of
        None \<Rightarrow> Inr ()
      | Some allowlist \<Rightarrow>
          bindE (ok_or NoCommonName subject_cn) (\<lambda>subject.
          if to_lowercase lower (trim subject) \<notin> allowlist then Inl (SubjectNotAllowed subject) else Inr ()))"

definition check_compose_hash ::
  "(string \<Rightarrow> string) \<Rightarrow> MeasurementPolicy \<Rightarrow> string option \<Rightarrow> attest_error + unit" where
  "check_compose_hash lower p compose_hash =
     (if expects_compose_hash p then
        bindE (ok_or NoComposeHash compose_hash) (\<lambda>h.
        if \<not> allows_compose_hash lower p h then Inl (ComposeHashRejected h) else Inr ())
      else
        (case compose_hash of
           Some h \<Rightarrow> if \<not> allows_compose_hash lower p h then Inl (ComposeHashRejected h) else Inr ()
         | None \<Rightarrow> Inr ()))"

definition verify_peer_certificate ::
  "ratls \<Rightarrow> env \<Rightarrow> (string \<Rightarrow> string) \<Rightarrow> bytes \<Rightarrow> ClientPolicy \<Rightarrow> string set option \<Rightarrow> string option \<Rightarrow>
   attest_error + unit" where
  "verify_peer_certificate r e lower certificate policy subject_allowlist pccs_url =
     bindE (map_err BadCertificate (parse_x509 r certificate)) (\<lambda>cert.
     bindE (check_subject lower subject_allowlist cert) (\<lambda>_.
     bindE (attestation_from_der r certificate) (\<lambda>found.
     bindE (ok_or NoAttestation found) (\<lambda>attestation.
     let pubkey = xc_public_key cert in
     bindE (verify_with_ra_pubkey r e attestation pubkey pccs_url) (\<lambda>verified.
     let compose_hash =
           (case decode_compose_hash r verified of
              Inr h \<Rightarrow> if h \<noteq> [] then Some h else None
            | Inl _ \<Rightarrow> None) in
     bindE (check_compose_hash lower (measurement policy) compose_hash) (\<lambda>_.
     enforce_measurement_policy r lower (measurement policy) verified))))))"

record RaTlsServerVerifier =
  rv_policy :: ClientPolicy
  rv_subject_allowlist :: "string set option"
  rv_pccs_url :: "string option"

text \<open>\<open>runtime\<close> is \<^verbatim>\<open>Handle::try_current()\<close>.\<close>

definition ratls_verify_server_cert ::
  "ratls \<Rightarrow> env \<Rightarrow> (string \<Rightarrow> string) \<Rightarrow> string + unit \<Rightarrow> RaTlsServerVerifier \<Rightarrow> bytes \<Rightarrow> tls_error + unit" where
  "ratls_verify_server_cert r e lower runtime v end_entity =
     bindE (map_err NeedsRuntime runtime) (\<lambda>_.
     map_err RaTlsFailed
       (verify_peer_certificate r e lower end_entity (rv_policy v) (rv_subject_allowlist v) (rv_pccs_url v)))"


section \<open>Facts\<close>

lemma split_at_char_Some: "split_at_char c s = Some (a, r) \<Longrightarrow> s = a @ r \<and> c \<notin> set a \<and> r \<noteq> [] \<and> hd r = c"
  by (induction s arbitrary: a) (auto split: if_splits)

lemma split_at_char_append: "c \<notin> set a \<Longrightarrow> split_at_char c (a @ c # r) = Some (a, c # r)"
  by (induction a) auto

lemma to_ascii_lowercase_idem [simp]: "to_ascii_lowercase (to_ascii_lowercase s) = to_ascii_lowercase s"
proof -
  have "ascii_lower (ascii_lower c) = ascii_lower c" for c
    by (auto simp: ascii_lower_def Let_def)
  then show ?thesis by (simp add: to_ascii_lowercase_def)
qed

lemma slash_lower: "ascii_lower c = CHR ''/'' \<longleftrightarrow> c = CHR ''/''"
proof
  assume "ascii_lower c = CHR ''/''"
  then have "(of_char (ascii_lower c) :: nat) = 47" by simp
  then have "(of_char c :: nat) = of_char (CHR ''/'')" by (auto simp: ascii_lower_def Let_def split: if_splits)
  then show "c = CHR ''/''" by (simp only: of_char_eq_iff)
qed (simp add: ascii_lower_def)

end
