(* ===== verification/Broker_Channel.thy ===== *)
theory Broker_Channel
  imports Broker_Policy
begin

text \<open>
  From a client configuration to a channel (\<^verbatim>\<open>src/secret_broker_client.rs\<close>): the TLS
  configuration of each attestation mode, the connector and \<^verbatim>\<open>SecretBrokerClient::new\<close>.

  rustls, tonic, the SPIRE workload API, URL rendering and the network are the fields of
  \<open>transport\<close>. What the code relies on of tonic and rustls is \<open>tonic_connects\<close> and \<open>rustls_verifies\<close>.
\<close>

section \<open>TLS configuration\<close>

datatype verifier = WebPki | SpiffeVerifier SpiffeServerVerifier | RaTlsVerifier RaTlsServerVerifier

record ClientConfig =
  tc_roots :: "bytes list"
  tc_client_auth :: "(bytes list \<times> bytes) option"
  tc_alpn :: "bytes list"
  tc_verifier :: verifier

datatype ServerName = IpAddress IpAddr | DnsName string

record X509Svid =
  svid_trust_domain :: string
  svid_cert_chain :: "bytes list"
  svid_private_key :: bytes

record uri =
  uri_host :: "string option"
  uri_port :: "nat option"

datatype tls_version = Tls12 | Tls13

text \<open>
  What rustls calls back: the check of the certificates, the check of the handshake signature (over a
  message, with the key of a certificate) and the schemes offered.
\<close>

record server_verifier =
  vf_server_cert :: "bytes \<Rightarrow> bytes list \<Rightarrow> tls_error + unit"
  vf_signature :: "tls_version \<Rightarrow> bytes \<Rightarrow> bytes \<Rightarrow> bytes \<Rightarrow> tls_error + unit"
  vf_schemes :: "nat list"

datatype tcp_outcome = TcpConnected | TcpTimedOut | TcpFailed string

record transport =
  tokio_current :: "string + unit"
  safe_versions :: "string + unit"
  accepts_identity :: "bytes list \<Rightarrow> bytes \<Rightarrow> string + unit"
  root_add :: "bytes \<Rightarrow> string + unit"
  pem_certs :: "bytes \<Rightarrow> (string + bytes) list"
  webpki_builder :: "bytes list \<Rightarrow> string + unit"
  webpki_chain :: "bytes list \<Rightarrow> ServerName \<Rightarrow> bytes \<Rightarrow> bytes list \<Rightarrow> string + unit"
  workload_connect :: "string \<Rightarrow> string + unit"
  workload_svid :: "string \<Rightarrow> string + X509Svid"
  workload_bundles :: "string \<Rightarrow> string + (string \<rightharpoonup> bytes list)"
  key_der :: "bytes \<Rightarrow> bytes option"
  set_scheme :: "string \<Rightarrow> url \<Rightarrow> url"
  url_text :: "url \<Rightarrow> string"
  from_shared :: "string \<Rightarrow> string + uri"
  tcp_connect :: "nat \<Rightarrow> string \<Rightarrow> tcp_outcome"
  dns_name :: "string \<Rightarrow> string + unit"
  webpki_signature :: "tls_version \<Rightarrow> bytes \<Rightarrow> bytes \<Rightarrow> bytes \<Rightarrow> string + unit"
  tls12_signature :: "bytes \<Rightarrow> bytes \<Rightarrow> bytes \<Rightarrow> string + unit"
  tls13_signature :: "bytes \<Rightarrow> bytes \<Rightarrow> bytes \<Rightarrow> string + unit"
  provider_schemes :: "nat list"
  tls_handshake :: "ClientConfig \<Rightarrow> server_verifier \<Rightarrow> ServerName \<Rightarrow> string \<Rightarrow> string + unit"
  connect_with_connector :: "uri \<Rightarrow> (uri \<Rightarrow> string + unit) \<Rightarrow> string + unit"
  enabled_roots :: "string + unit"
  connect_plain :: "uri \<Rightarrow> string + unit"

datatype channel_error =
    ConfigInvalid client_error
  | LocalPathMissing string
  | LocalUnreadable string string
  | LocalIdentityUnparsable string
  | CaUnparsable string
  | CaEmpty
  | CaRejected string
  | VersionsFailed string
  | IdentityRejected string
  | NoTokioRuntime string
  | SpireUnreachable string
  | SvidFailed string
  | BundlesFailed string
  | AuthorityRejected
  | NoBundle string
  | SvidKeyUnparsable
  | TargetMissing
  | SpiffeVerifierFailed tls_error
  | EndpointRejected string
  | ConnectFailed string

text \<open>The three \<^verbatim>\<open>local_loopback_*_path\<close> functions and the two loaders built on them.\<close>

definition local_loopback_ca_cert_path :: "env \<Rightarrow> channel_error + string" where
  "local_loopback_ca_cert_path e =
     ok_or (LocalPathMissing ''SECRET_BROKER_TLS_CA_CERT'') (env_ok e ''SECRET_BROKER_TLS_CA_CERT'')"

definition local_loopback_client_cert_path :: "env \<Rightarrow> channel_error + string" where
  "local_loopback_client_cert_path e =
     ok_or (LocalPathMissing ''SECRET_BROKER_CLIENT_CERT'') (env_ok e ''SECRET_BROKER_CLIENT_CERT'')"

definition local_loopback_client_key_path :: "env \<Rightarrow> channel_error + string" where
  "local_loopback_client_key_path e =
     ok_or (LocalPathMissing ''SECRET_BROKER_CLIENT_KEY'') (env_ok e ''SECRET_BROKER_CLIENT_KEY'')"

definition load_local_client_cert_chain :: "host \<Rightarrow> env \<Rightarrow> channel_error + bytes list" where
  "load_local_client_cert_chain h e =
     bindE (local_loopback_client_cert_path e) (\<lambda>cert_path.
     bindE (map_err (LocalUnreadable cert_path) (read_file h cert_path)) (\<lambda>cert_bytes.
     map_err LocalIdentityUnparsable (parse_cert_chain h cert_bytes)))"

definition load_local_client_private_key :: "host \<Rightarrow> env \<Rightarrow> channel_error + bytes" where
  "load_local_client_private_key h e =
     bindE (local_loopback_client_key_path e) (\<lambda>key_path.
     bindE (map_err (LocalUnreadable key_path) (read_file h key_path)) (\<lambda>key_bytes.
     map_err LocalIdentityUnparsable (parse_private_key h key_bytes)))"

text \<open>\<^verbatim>\<open>collect::<Result<Vec<_>, _>>()\<close>, and a loop of fallible calls.\<close>

fun collect_results :: "('e + 'a) list \<Rightarrow> 'e + 'a list" where
  "collect_results [] = Inr []"
| "collect_results (r # rs) = bindE r (\<lambda>a. bindE (collect_results rs) (\<lambda>as. Inr (a # as)))"

fun for_each :: "('a \<Rightarrow> 'e + unit) \<Rightarrow> 'a list \<Rightarrow> 'e + unit" where
  "for_each f [] = Inr ()"
| "for_each f (a # as) = bindE (f a) (\<lambda>_. for_each f as)"

definition ALPN_H2 :: "bytes list" where
  "ALPN_H2 = [as_bytes ''h2'']"

definition build_local_loopback_client_config ::
  "transport \<Rightarrow> host \<Rightarrow> env \<Rightarrow> bytes list \<Rightarrow> bytes \<Rightarrow> channel_error + ClientConfig" where
  "build_local_loopback_client_config tr h e cert_chain private_key =
     bindE (local_loopback_ca_cert_path e) (\<lambda>ca_path.
     bindE (map_err (LocalUnreadable ca_path) (read_file h ca_path)) (\<lambda>ca_bytes.
     bindE (map_err CaUnparsable (collect_results (pem_certs tr ca_bytes))) (\<lambda>ca_certs.
     if ca_certs = [] then Inl CaEmpty
     else
     bindE (for_each (\<lambda>cert. map_err CaRejected (root_add tr cert)) ca_certs) (\<lambda>_.
     bindE (map_err VersionsFailed (safe_versions tr)) (\<lambda>_.
     bindE (map_err IdentityRejected (accepts_identity tr cert_chain private_key)) (\<lambda>_.
     Inr \<lparr>tc_roots = ca_certs, tc_client_auth = Some (cert_chain, private_key), tc_alpn = ALPN_H2,
          tc_verifier = WebPki\<rparr>))))))"

text \<open>The \<^verbatim>\<open>Spiffe\<close> branch of \<^verbatim>\<open>build_tls_config\<close>: identity and trust bundle from the workload API.\<close>

definition build_spiffe_tls_config ::
  "transport \<Rightarrow> env \<Rightarrow> SecretBrokerClientConfig \<Rightarrow> channel_error + ClientConfig" where
  "build_spiffe_tls_config tr e config =
     (let socket_path = (case sc_spiffe_socket_path config of Some p \<Rightarrow> p | None \<Rightarrow> ''/var/run/spire/agent.sock'');
          socket_endpoint = ''unix:'' @ socket_path in
      bindE (map_err NoTokioRuntime (tokio_current tr)) (\<lambda>_.
      bindE (map_err SpireUnreachable (workload_connect tr socket_endpoint)) (\<lambda>_.
      bindE (map_err SvidFailed (workload_svid tr socket_endpoint)) (\<lambda>svid.
      bindE (map_err BundlesFailed (workload_bundles tr socket_endpoint)) (\<lambda>bundles.
      let trust_domain = svid_trust_domain svid in
      bindE (case bundles trust_domain of
               Some authorities \<Rightarrow>
                 bindE (for_each (\<lambda>a. map_err (\<lambda>_. AuthorityRejected) (root_add tr a)) authorities) (\<lambda>_. Inr authorities)
             | None \<Rightarrow> Inl (NoBundle trust_domain)) (\<lambda>root_store.
      bindE (ok_or SvidKeyUnparsable (key_der tr (svid_private_key svid))) (\<lambda>client_key.
      bindE (map_err VersionsFailed (safe_versions tr)) (\<lambda>_.
      bindE (map_err IdentityRejected (accepts_identity tr (svid_cert_chain svid) client_key)) (\<lambda>_.
      bindE (ok_or TargetMissing (env_ok e ''SECRET_BROKER_TARGET_SPIFFE_ID'')) (\<lambda>target_spiffe_id.
      bindE (map_err SpiffeVerifierFailed
               (spiffe_verifier_new (webpki_builder tr root_store) root_store target_spiffe_id)) (\<lambda>verifier.
      Inr \<lparr>tc_roots = root_store, tc_client_auth = Some (svid_cert_chain svid, client_key),
           tc_alpn = ALPN_H2, tc_verifier = SpiffeVerifier verifier\<rparr>)))))))))))"

text \<open>The last branch: attested servers, client authentication when an identity is configured.\<close>

definition build_ratls_tls_config ::
  "transport \<Rightarrow> SecretBrokerClientConfig \<Rightarrow> channel_error + ClientConfig" where
  "build_ratls_tls_config tr config =
     bindE (map_err VersionsFailed (safe_versions tr)) (\<lambda>_.
     bindE (case (sc_client_cert_chain config, sc_client_key config) of
              (Some certs, Some key) \<Rightarrow>
                bindE (map_err IdentityRejected (accepts_identity tr certs key)) (\<lambda>_. Inr (Some (certs, key)))
            | _ \<Rightarrow> Inr None) (\<lambda>client_auth.
     Inr \<lparr>tc_roots = [], tc_client_auth = client_auth, tc_alpn = ALPN_H2,
          tc_verifier = RaTlsVerifier \<lparr>rv_policy = sc_policy config,
            rv_subject_allowlist = sc_subject_allowlist config, rv_pccs_url = sc_pccs_url config\<rparr>\<rparr>))"

definition build_tls_config ::
  "transport \<Rightarrow> host \<Rightarrow> env \<Rightarrow> SecretBrokerClientConfig \<Rightarrow> channel_error + ClientConfig option" where
  "build_tls_config tr h e config =
     (if sc_attestation_mode config = Local then
        bindE (case sc_client_cert_chain config of
                 Some certs \<Rightarrow> Inr certs | None \<Rightarrow> load_local_client_cert_chain h e) (\<lambda>cert_chain.
        bindE (case sc_client_key config of
                 Some key \<Rightarrow> Inr key | None \<Rightarrow> load_local_client_private_key h e) (\<lambda>private_key.
        bindE (build_local_loopback_client_config tr h e cert_chain private_key) (\<lambda>c. Inr (Some c))))
      else if sc_attestation_mode config = Disabled then Inr None
      else if sc_attestation_mode config = Spiffe then
        bindE (build_spiffe_tls_config tr e config) (\<lambda>c. Inr (Some c))
      else bindE (build_ratls_tls_config tr config) (\<lambda>c. Inr (Some c)))"


section \<open>Handshake signatures\<close>

text \<open>
  Both verifiers of the sources leave the signature to the default provider of rustls:
  \<open>tls12_signature\<close>, \<open>tls13_signature\<close> and \<open>provider_schemes\<close>.
\<close>

definition spiffe_verify_tls12_signature :: "transport \<Rightarrow> bytes \<Rightarrow> bytes \<Rightarrow> bytes \<Rightarrow> tls_error + unit" where
  "spiffe_verify_tls12_signature tr message cert dss = map_err SignatureRejected (tls12_signature tr message cert dss)"

definition spiffe_verify_tls13_signature :: "transport \<Rightarrow> bytes \<Rightarrow> bytes \<Rightarrow> bytes \<Rightarrow> tls_error + unit" where
  "spiffe_verify_tls13_signature tr message cert dss = map_err SignatureRejected (tls13_signature tr message cert dss)"

definition spiffe_supported_verify_schemes :: "transport \<Rightarrow> nat list" where
  "spiffe_supported_verify_schemes tr = provider_schemes tr"

definition ratls_verify_tls12_signature :: "transport \<Rightarrow> bytes \<Rightarrow> bytes \<Rightarrow> bytes \<Rightarrow> tls_error + unit" where
  "ratls_verify_tls12_signature tr message cert dss = map_err SignatureRejected (tls12_signature tr message cert dss)"

definition ratls_verify_tls13_signature :: "transport \<Rightarrow> bytes \<Rightarrow> bytes \<Rightarrow> bytes \<Rightarrow> tls_error + unit" where
  "ratls_verify_tls13_signature tr message cert dss = map_err SignatureRejected (tls13_signature tr message cert dss)"

definition ratls_supported_verify_schemes :: "transport \<Rightarrow> nat list" where
  "ratls_supported_verify_schemes tr = provider_schemes tr"

definition verify_signature ::
  "transport \<Rightarrow> ClientConfig \<Rightarrow> tls_version \<Rightarrow> bytes \<Rightarrow> bytes \<Rightarrow> bytes \<Rightarrow> tls_error + unit" where
  "verify_signature tr cfg version message cert dss =
     (case tc_verifier cfg of
        WebPki \<Rightarrow> map_err SignatureRejected (webpki_signature tr version message cert dss)
      | SpiffeVerifier v \<Rightarrow>
          (case version of
             Tls12 \<Rightarrow> spiffe_verify_tls12_signature tr message cert dss
           | Tls13 \<Rightarrow> spiffe_verify_tls13_signature tr message cert dss)
      | RaTlsVerifier v \<Rightarrow>
          (case version of
             Tls12 \<Rightarrow> ratls_verify_tls12_signature tr message cert dss
           | Tls13 \<Rightarrow> ratls_verify_tls13_signature tr message cert dss))"

definition verify_schemes :: "transport \<Rightarrow> ClientConfig \<Rightarrow> nat list" where
  "verify_schemes tr cfg =
     (case tc_verifier cfg of
        WebPki \<Rightarrow> provider_schemes tr
      | SpiffeVerifier v \<Rightarrow> spiffe_supported_verify_schemes tr
      | RaTlsVerifier v \<Rightarrow> ratls_supported_verify_schemes tr)"


section \<open>Connecting\<close>

text \<open>What a configuration makes of a server's certificates: the check rustls calls back.\<close>

definition verify_server ::
  "transport \<Rightarrow> ratls \<Rightarrow> env \<Rightarrow> (string \<Rightarrow> string) \<Rightarrow> ClientConfig \<Rightarrow> ServerName \<Rightarrow> bytes \<Rightarrow> bytes list \<Rightarrow>
   tls_error + unit" where
  "verify_server tr r e lower cfg server_name end_entity intermediates =
     (case tc_verifier cfg of
        WebPki \<Rightarrow> map_err ChainRejected (webpki_chain tr (tc_roots cfg) server_name end_entity intermediates)
      | SpiffeVerifier v \<Rightarrow>
          spiffe_verify_server_cert r v (webpki_chain tr (sv_roots v) server_name end_entity intermediates) end_entity
      | RaTlsVerifier v \<Rightarrow> ratls_verify_server_cert r e lower (tokio_current tr) v end_entity)"

definition callbacks ::
  "transport \<Rightarrow> ratls \<Rightarrow> env \<Rightarrow> (string \<Rightarrow> string) \<Rightarrow> ClientConfig \<Rightarrow> ServerName \<Rightarrow> server_verifier" where
  "callbacks tr r e lower cfg server_name =
     \<lparr>vf_server_cert = verify_server tr r e lower cfg server_name, vf_signature = verify_signature tr cfg,
      vf_schemes = verify_schemes tr cfg\<rparr>"

text \<open>The connector closure of \<^verbatim>\<open>build_channel\<close>.\<close>

definition tls_connector ::
  "transport \<Rightarrow> ratls \<Rightarrow> env \<Rightarrow> (string \<Rightarrow> string) \<Rightarrow> ClientConfig \<Rightarrow> nat \<Rightarrow> uri \<Rightarrow> string + unit" where
  "tls_connector tr r e lower cfg timeout u =
     (let host = (case uri_host u of Some h \<Rightarrow> h | None \<Rightarrow> ''localhost'');
          port = (case uri_port u of Some p \<Rightarrow> p | None \<Rightarrow> 443);
          addr = host @ '':'' @ dec_string port in
      bindE (case tcp_connect tr timeout addr of
               TcpTimedOut \<Rightarrow> Inl (''TCP connect '' @ addr @ '' timed out'')
             | TcpFailed err \<Rightarrow> Inl (''TCP connect '' @ addr @ '': '' @ err)
             | TcpConnected \<Rightarrow> Inr ()) (\<lambda>_.
      bindE (case parse_ip host of
               Some ip \<Rightarrow> Inr (IpAddress ip)
             | None \<Rightarrow> bindE (map_err (\<lambda>err. ''bad DNS name '' @ host @ '': '' @ err) (dns_name tr host))
                         (\<lambda>_. Inr (DnsName host))) (\<lambda>server_name.
      map_err (\<lambda>err. ''TLS handshake '' @ addr @ '': '' @ err)
        (tls_handshake tr cfg (callbacks tr r e lower cfg server_name) server_name addr))))"

datatype security = PlainText | WebRoots | Rustls ClientConfig

record channel =
  ch_uri :: uri
  ch_security :: security
  ch_lazy :: bool

definition build_channel ::
  "transport \<Rightarrow> ratls \<Rightarrow> env \<Rightarrow> (string \<Rightarrow> string) \<Rightarrow> url \<Rightarrow> nat \<Rightarrow> ClientConfig option \<Rightarrow> bool \<Rightarrow>
   channel_error + channel" where
  "build_channel tr r e lower endpoint timeout tls_config lazy =
     (case tls_config of
        Some cfg \<Rightarrow>
          (let canonical = set_scheme tr ''http'' endpoint in
           bindE (map_err EndpointRejected (from_shared tr (url_text tr canonical))) (\<lambda>u.
           let ch = \<lparr>ch_uri = u, ch_security = Rustls cfg, ch_lazy = lazy\<rparr> in
           if lazy then Inr ch
           else
           bindE (map_err (\<lambda>err. ConnectFailed (''connect: '' @ err))
                    (connect_with_connector tr u (tls_connector tr r e lower cfg timeout))) (\<lambda>_. Inr ch)))
      | None \<Rightarrow>
          bindE (map_err EndpointRejected (from_shared tr (url_text tr endpoint))) (\<lambda>u.
          bindE (if u_scheme endpoint = ''https''
                 then bindE (map_err ConnectFailed (enabled_roots tr)) (\<lambda>_. Inr WebRoots)
                 else Inr PlainText) (\<lambda>sec.
          let ch = \<lparr>ch_uri = u, ch_security = sec, ch_lazy = lazy\<rparr> in
          if lazy then Inr ch
          else bindE (map_err ConnectFailed (connect_plain tr u)) (\<lambda>_. Inr ch))))"

definition client_new ::
  "transport \<Rightarrow> ratls \<Rightarrow> host \<Rightarrow> env \<Rightarrow> SecretBrokerClientConfig \<Rightarrow> channel_error + channel" where
  "client_new tr r h e config =
     bindE (build_tls_config tr h e config) (\<lambda>tls.
     let lazy = (sc_attestation_mode config = Disabled) in
     build_channel tr r e (lower_unicode h) (sc_endpoint config) (sc_timeout_seconds config) tls lazy)"

definition client_from_env ::
  "transport \<Rightarrow> ratls \<Rightarrow> host \<Rightarrow> bool \<Rightarrow> env \<Rightarrow> channel_error + channel" where
  "client_from_env tr r h debug_build e =
     bindE (map_err ConfigInvalid (client_config_from_env h debug_build e)) (client_new tr r h e)"


section \<open>What the code relies on\<close>

text \<open>
  tonic's \<^verbatim>\<open>connect_with_connector\<close> succeeds only when the connector it was given does; a rustls
  handshake succeeds only when the configured verifier accepted the certificates presented and a
  signature of the handshake made with the key of the first one.
\<close>

definition tonic_connects :: "transport \<Rightarrow> bool" where
  "tonic_connects tr \<longleftrightarrow> (\<forall>u f. connect_with_connector tr u f = Inr () \<longrightarrow> f u = Inr ())"

definition rustls_verifies :: "transport \<Rightarrow> bool" where
  "rustls_verifies tr \<longleftrightarrow>
     (\<forall>cfg vf name addr. tls_handshake tr cfg vf name addr = Inr () \<longrightarrow>
        (\<exists>end_entity intermediates version message dss.
           vf_server_cert vf end_entity intermediates = Inr () \<and> vf_signature vf version message end_entity dss = Inr ()))"

text \<open>The peer signed with the key of a certificate, as a version's check sees it.\<close>

definition holds_key :: "transport \<Rightarrow> bytes \<Rightarrow> bool" where
  "holds_key tr cert \<longleftrightarrow>
     (\<exists>message dss. tls12_signature tr message cert dss = Inr () \<or> tls13_signature tr message cert dss = Inr ())"


section \<open>Facts\<close>

text \<open>A channel that was connected with TLS has seen a certificate its verifier accepted.\<close>

lemma connected_verified:
  assumes "tonic_connects tr" and "rustls_verifies tr"
    and "build_channel tr r e lower endpoint timeout (Some cfg) False = Inr ch"
  obtains name end_entity intermediates version message dss
  where "verify_server tr r e lower cfg name end_entity intermediates = Inr ()"
    and "verify_signature tr cfg version message end_entity dss = Inr ()"
    and "ch_security ch = Rustls cfg" and "\<not> ch_lazy ch"
proof -
  from assms(3) obtain u where "connect_with_connector tr u (tls_connector tr r e lower cfg timeout) = Inr ()"
    and ch: "ch_security ch = Rustls cfg" "\<not> ch_lazy ch"
    by (auto simp: build_channel_def Let_def bindE_eq_Inr)
  then have "tls_connector tr r e lower cfg timeout u = Inr ()"
    using assms(1) by (simp add: tonic_connects_def)
  then obtain name addr where "tls_handshake tr cfg (callbacks tr r e lower cfg name) name addr = Inr ()"
    by (auto simp: tls_connector_def Let_def bindE_eq_Inr)
  with assms(2) obtain ee ints version message dss where "verify_server tr r e lower cfg name ee ints = Inr ()"
    "verify_signature tr cfg version message ee dss = Inr ()"
    unfolding rustls_verifies_def callbacks_def by fastforce
  then show thesis by (rule that [OF _ _ ch])
qed

lemma signed_holds_key:
  "verify_signature tr cfg version message cert dss = Inr () \<Longrightarrow> tc_verifier cfg \<noteq> WebPki \<Longrightarrow> holds_key tr cert"
  by (auto simp: verify_signature_def holds_key_def spiffe_verify_tls12_signature_def spiffe_verify_tls13_signature_def
      ratls_verify_tls12_signature_def ratls_verify_tls13_signature_def split: verifier.splits tls_version.splits)

lemma local_config_Inr:
  "build_local_loopback_client_config tr h e certs key = Inr c \<Longrightarrow>
     tc_verifier c = WebPki \<and> tc_roots c \<noteq> [] \<and> tc_client_auth c = Some (certs, key)"
  by (auto simp: build_local_loopback_client_config_def bindE_eq_Inr split: if_splits)

lemma spiffe_config_Inr:
  "build_spiffe_tls_config tr e config = Inr c \<Longrightarrow>
     \<exists>v target. tc_verifier c = SpiffeVerifier v \<and> tc_roots c = sv_roots v \<and> tc_client_auth c \<noteq> None
       \<and> e ''SECRET_BROKER_TARGET_SPIFFE_ID'' = Present target
       \<and> normalize_spiffe_id target = Some (sv_allowed v)"
  by (auto simp: build_spiffe_tls_config_def Let_def bindE_eq_Inr spiffe_verifier_new_def env_ok_def
      split: env_var.splits option.splits)

lemma ratls_config_Inr:
  "build_ratls_tls_config tr config = Inr c \<Longrightarrow>
     tc_verifier c = RaTlsVerifier \<lparr>rv_policy = sc_policy config,
       rv_subject_allowlist = sc_subject_allowlist config, rv_pccs_url = sc_pccs_url config\<rparr>
   \<and> tc_client_auth c = (case (sc_client_cert_chain config, sc_client_key config) of
       (Some certs, Some key) \<Rightarrow> Some (certs, key) | _ \<Rightarrow> None)"
  by (auto simp: build_ratls_tls_config_def bindE_eq_Inr split: option.splits)

text \<open>Every client but a disabled one has been connected to a server its verifier accepted.\<close>

lemma client_connected:
  assumes "tonic_connects tr" and "rustls_verifies tr"
    and "client_new tr r h e config = Inr ch" and "sc_attestation_mode config \<noteq> Disabled"
  obtains cfg name end_entity intermediates version message dss where "build_tls_config tr h e config = Inr (Some cfg)"
    and "ch_security ch = Rustls cfg"
    and "verify_server tr r e (lower_unicode h) cfg name end_entity intermediates = Inr ()"
    and "verify_signature tr cfg version message end_entity dss = Inr ()"
proof -
  from assms(3) obtain tls where t: "build_tls_config tr h e config = Inr tls"
    and c: "build_channel tr r e (lower_unicode h) (sc_endpoint config) (sc_timeout_seconds config) tls False = Inr ch"
    using assms(4) by (auto simp: client_new_def bindE_eq_Inr Let_def)
  from t assms(4) obtain cfg where tls: "tls = Some cfg"
    by (auto simp: build_tls_config_def bindE_eq_Inr split: if_splits)
  show thesis
    using connected_verified [OF assms(1,2) c [unfolded tls]] t tls that by metis
qed

text \<open>What a configuration that loads has been checked for.\<close>

definition restricted :: "MeasurementPolicy \<Rightarrow> bool" where
  "restricted m \<longleftrightarrow> allowed_mrtd m \<noteq> {} \<or> allowed_mrenclave m \<noteq> {} \<or> allowed_mrsigner m \<noteq> {}
     \<or> expected_compose_hash m \<noteq> None"

lemma policy_document_restricted: "policy_document lower v = Inr p \<Longrightarrow> restricted (measurement p)"
  by (auto simp: policy_document_def restricted_def Let_def split: if_splits)

lemma policy_from_env_enforced: "policy_from_env h e Enforced = Inr p \<Longrightarrow> restricted (measurement p)"
  by (auto simp: policy_from_env_def is_enforced_def policy_from_file_def bindE_eq_Inr
      dest: policy_document_restricted split: option.splits)

lemma load_identity_enforced: "load_client_identity h e Enforced = Inr (certs, key, pem) \<Longrightarrow> certs \<noteq> None \<and> key \<noteq> None"
  by (auto simp: load_client_identity_def is_enforced_def bindE_eq_Inr split: if_splits option.splits)

lemma config_safe:
  assumes "client_config_from_env h debug_build e = Inr c"
  shows "(sc_attestation_mode c \<noteq> Disabled \<longrightarrow> u_scheme (sc_endpoint c) = ''https'')
    \<and> (sc_attestation_mode c \<in> {Disabled, Local} \<longrightarrow> secret_broker_endpoint_is_loopback (sc_endpoint c))
    \<and> (sc_attestation_mode c = Disabled \<longrightarrow> debug_build \<and> env_ok e UNSAFE_FLAG_ENV \<noteq> None)
    \<and> (sc_attestation_mode c = Enforced \<longrightarrow>
         restricted (measurement (sc_policy c)) \<and> sc_subject_allowlist c \<notin> {None, Some {}}
       \<and> sc_client_cert_chain c \<noteq> None \<and> sc_client_key c \<noteq> None)
    \<and> 0 < sc_timeout_seconds c"
proof -
  from assms obtain mode policy certs key pem where
    m: "sc_attestation_mode c = mode" "sc_policy c = policy" "sc_client_cert_chain c = certs" "sc_client_key c = key"
    and guards: "mode \<in> {Local, Disabled} \<longrightarrow> secret_broker_endpoint_is_loopback (sc_endpoint c)"
      "mode \<noteq> Disabled \<longrightarrow> u_scheme (sc_endpoint c) = ''https''"
    and ok: "ensure_attestation_mode h debug_build e mode = Inr ()" "policy_from_env h e mode = Inr policy"
      "load_client_identity h e mode = Inr (certs, key, pem)" "client_timeout e = Inr (sc_timeout_seconds c)"
    and subj: "sc_subject_allowlist c = subject_allowlist_from_env h e" "mode = Enforced \<longrightarrow> sc_subject_allowlist c \<noteq> None"
    by (auto simp: client_config_from_env_def bindE_eq_Inr Let_def is_enforced_def split: if_splits)
  have "subject_allowlist_from_env h e \<noteq> Some {}"
    by (auto simp: subject_allowlist_from_env_def Let_def split: option.split)
  moreover have "mode = Disabled \<longrightarrow> debug_build \<and> env_ok e UNSAFE_FLAG_ENV \<noteq> None"
    using ok(1) by (auto simp: ensure_attestation_mode_def is_enforced_def split: if_splits option.splits)
  moreover have "0 < sc_timeout_seconds c"
    using ok(4) by (auto simp: client_timeout_def bindE_eq_Inr split: if_splits)
  ultimately show ?thesis
    using m guards ok subj policy_from_env_enforced load_identity_enforced by auto
qed

text \<open>Whom a started client is connected to, by mode.\<close>

lemma client_trusted:
  assumes lib: "tonic_connects tr" "rustls_verifies tr"
    and start: "client_from_env tr r h debug_build e = Inr ch"
  shows "\<exists>config. client_config_from_env h debug_build e = Inr config
    \<and> (case sc_attestation_mode config of
         Enforced \<Rightarrow> restricted (measurement (sc_policy config))
           \<and> (\<exists>cfg cert. ch_security ch = Rustls cfg \<and> tc_client_auth cfg \<noteq> None
                \<and> ratls_verify_server_cert r e (lower_unicode h) (tokio_current tr)
                    \<lparr>rv_policy = sc_policy config, rv_subject_allowlist = sc_subject_allowlist config,
                     rv_pccs_url = sc_pccs_url config\<rparr> cert = Inr () \<and> holds_key tr cert)
       | Spiffe \<Rightarrow> (\<exists>v target name cert ints. e ''SECRET_BROKER_TARGET_SPIFFE_ID'' = Present target
           \<and> normalize_spiffe_id target = Some (sv_allowed v)
           \<and> spiffe_verify_server_cert r v (webpki_chain tr (sv_roots v) name cert ints) cert = Inr () \<and> holds_key tr cert)
       | Local \<Rightarrow> (\<exists>roots name cert ints version message dss. roots \<noteq> [] \<and> webpki_chain tr roots name cert ints = Inr ()
             \<and> webpki_signature tr version message cert dss = Inr ())
           \<and> secret_broker_endpoint_is_loopback (sc_endpoint config)
       | Disabled \<Rightarrow> debug_build \<and> ch_lazy ch \<and> secret_broker_endpoint_is_loopback (sc_endpoint config))"
proof -
  from start obtain config where c: "client_config_from_env h debug_build e = Inr config"
    and new: "client_new tr r h e config = Inr ch"
    by (auto simp: client_from_env_def bindE_eq_Inr)
  note safe = config_safe [OF c]
  show ?thesis
  proof (cases "sc_attestation_mode config = Disabled")
    case True
    then have "ch_lazy ch"
      using new by (auto simp: client_new_def build_tls_config_def build_channel_def bindE_eq_Inr Let_def split: if_splits)
    with c safe True show ?thesis by simp
  next
    case False
    obtain cfg name cert ints version message dss where tls: "build_tls_config tr h e config = Inr (Some cfg)"
      "ch_security ch = Rustls cfg" "verify_server tr r e (lower_unicode h) cfg name cert ints = Inr ()"
      and signed: "verify_signature tr cfg version message cert dss = Inr ()"
      using client_connected [OF lib new False] .
    show ?thesis
    proof (cases "sc_attestation_mode config")
      case Enforced
      then have "build_ratls_tls_config tr config = Inr cfg"
        using tls(1) by (auto simp: build_tls_config_def bindE_eq_Inr)
      from ratls_config_Inr [OF this] tls(2,3) signed_holds_key [OF signed] c safe Enforced show ?thesis
        by (auto simp: verify_server_def split: option.splits)
    next
      case Spiffe
      then have "build_spiffe_tls_config tr e config = Inr cfg"
        using tls(1) by (auto simp: build_tls_config_def bindE_eq_Inr)
      from spiffe_config_Inr [OF this] tls(3) signed_holds_key [OF signed] have "\<exists>v target. e ''SECRET_BROKER_TARGET_SPIFFE_ID'' = Present target
          \<and> normalize_spiffe_id target = Some (sv_allowed v)
          \<and> spiffe_verify_server_cert r v (webpki_chain tr (sv_roots v) name cert ints) cert = Inr () \<and> holds_key tr cert"
        by (auto simp: verify_server_def)
      with c Spiffe show ?thesis by (auto simp del: not_None_eq) blast
    next
      case Local
      then obtain certs key where "build_local_loopback_client_config tr h e certs key = Inr cfg"
        using tls(1) by (auto simp: build_tls_config_def bindE_eq_Inr)
      from local_config_Inr [OF this] tls(3) signed have "tc_roots cfg \<noteq> []"
        "webpki_chain tr (tc_roots cfg) name cert ints = Inr ()" "webpki_signature tr version message cert dss = Inr ()"
        by (auto simp: verify_server_def verify_signature_def)
      with c safe Local show ?thesis by fastforce
    qed (use False in simp)
  qed
qed

end
