(* ===== verification/Pool.thy ===== *)
theory Pool
  imports Config Broker Broker_Channel
begin

text \<open>
  Connection pools (\<^verbatim>\<open>src/lib.rs\<close>): how a pool is created from static or leased credentials, the
  start-up sequence with migrations and the extension allowlist, and the worker that swaps in a
  pool with fresh credentials before a lease expires.

  sqlx's option parser, its connection attempts and migrator, the server's \<^verbatim>\<open>CREATE EXTENSION\<close>,
  what the broker client finds when it starts and how an \<^verbatim>\<open>anyhow\<close> error is printed are the fields
  of \<open>pool_ext\<close>. A pool is identified by the
  reading at which it was opened; a \<^verbatim>\<open>ReloadablePool\<close> is the index of a cell.
\<close>

section \<open>State\<close>

datatype PgSslMode = Disable | Allow | Prefer | Require | VerifyCa | VerifyFull

record PgConnectOptions =
  po_server :: string
  po_username :: "string option"
  po_password :: "string option"
  po_ssl_mode :: PgSslMode
  po_application_name :: "string option"

record PgPoolRec =
  pg_id :: nat
  pg_options :: PgConnectOptions
  pg_max_connections :: nat
  pg_min_connections :: nat
  pg_acquire_timeout :: nat
  pg_idle_timeout :: nat

record server =
  sv_allowlist :: "string list"
  sv_extensions :: "string list"
  sv_migrated :: bool

record features =
  ft_pgaudit :: bool
  ft_pg_stat_statements :: bool
  ft_timescaledb :: bool
  ft_citus :: bool

record client_ext =
  ce_transport :: transport
  ce_ratls :: ratls
  ce_host :: host
  ce_debug_build :: bool

record pool_ext =
  parse_connect_options :: "string \<Rightarrow> string + PgConnectOptions"
  connect_with :: "nat \<Rightarrow> PgConnectOptions \<Rightarrow> string + unit"
  migrator_run :: "nat \<Rightarrow> server \<Rightarrow> string + server"
  server_reply :: "nat \<Rightarrow> string option"
  client_ext_at :: "nat \<Rightarrow> client_ext"
  client_error_text :: "channel_error \<Rightarrow> string"
  lower_url :: "string \<Rightarrow> string"
  enabled :: features

record 'b process =
  ps_world :: "'b world"
  ps_cells :: "PgPoolRec list"
  ps_closed :: "nat list"
  ps_servers :: "string \<Rightarrow> server"
  ps_sleeps :: "time list"
  ps_gauges :: "(string \<times> int) list"

type_synonym ('b, 'a) pop = "(DatabaseError, 'b process, 'a) op"

definition in_world :: "('e, 'b world, 'a) op \<Rightarrow> ('e, 'b process, 'a) op" where
  "in_world m p = (case m (ps_world p) of (r, w) \<Rightarrow> (r, p\<lparr>ps_world := w\<rparr>))"

definition reading :: "('e, 'b process, nat) op" where
  "reading = in_world tick"

text \<open>One statement on the server a pool is connected to.\<close>

definition on_server :: "pool_ext \<Rightarrow> PgPoolRec \<Rightarrow> (server \<Rightarrow> 'a \<times> server) \<Rightarrow> ('b, 'a) pop" where
  "on_server pe pool f =
     bindM reading (\<lambda>n p.
       case server_reply pe n of
         Some err \<Rightarrow> (Inl (Query err), p)
       | None \<Rightarrow>
           (let key = po_server (pg_options pool); (a, s) = f (ps_servers p key) in
            (Inr a, p\<lparr>ps_servers := (ps_servers p)(key := s)\<rparr>)))"


section \<open>Creating a pool\<close>

record PoolContext =
  cx_application_name :: string
  cx_pool_label :: string
  cx_max_connections :: nat
  cx_min_connections :: nat
  cx_connect_timeout_seconds :: nat
  cx_idle_timeout_seconds :: nat

record BrokerLeaseWorker =
  bw_cell :: nat
  bw_credential :: BrokerCredentialConfig
  bw_context :: PoolContext
  bw_next_expiry :: "time option"

record PoolInit =
  pi_pool :: nat
  pi_worker :: "BrokerLeaseWorker option"

definition LEASE_REFRESH_GRACE_SECS :: int where "LEASE_REFRESH_GRACE_SECS = 60"
definition LEASE_REFRESH_RETRY_SECS :: int where "LEASE_REFRESH_RETRY_SECS = 15"

definition obtain_broker_lease ::
  "('b, 'z) ext_scheme \<Rightarrow> BrokerCredentialConfig \<Rightarrow> string \<Rightarrow> ('b, PostgresCredentialLease) pop" where
  "obtain_broker_lease x credential application_name =
     map_errM (\<lambda>e. Configuration (''failed to obtain PostgreSQL credentials from secret broker: '' @ e))
       (in_world (issue_postgres_credentials x
          \<lparr>pr_audience = bc_audience credential, pr_scope = bc_scope credential,
           pr_ttl_seconds = bc_ttl_seconds credential, pr_application_name = Some application_name\<rparr>))"

definition record_lease_metrics ::
  "('b, 'z) ext_scheme \<Rightarrow> time option \<Rightarrow> string \<Rightarrow> ('b, unit) pop" where
  "record_lease_metrics x expires_at pool_label =
     (case expires_at of
        None \<Rightarrow> returnM ()
      | Some expiry \<Rightarrow>
          bindM reading (\<lambda>n p.
            (Inr (), p\<lparr>ps_gauges := ps_gauges p @ [(pool_label, max ((expiry - clock x n) div second) 0)]\<rparr>)))"

definition connect_options_from_lease ::
  "pool_ext \<Rightarrow> PostgresCredentialLease \<Rightarrow> string \<Rightarrow> string \<Rightarrow> PgConnectOptions db_result" where
  "connect_options_from_lease pe lease application_name pool_label =
     bindE (map_err (\<lambda>e. Configuration (''invalid database_url from secret broker lease for ''
              @ pool_label @ '': '' @ e)) (parse_connect_options pe (pl_database_url lease))) (\<lambda>options.
     let options = options\<lparr>po_ssl_mode := Require, po_application_name := Some application_name\<rparr>;
         options = (case pl_username lease of None \<Rightarrow> options | Some u \<Rightarrow> options\<lparr>po_username := Some u\<rparr>);
         options = (case pl_password lease of None \<Rightarrow> options | Some pw \<Rightarrow> options\<lparr>po_password := Some pw\<rparr>)
     in Inr options)"

definition instantiate_pool :: "pool_ext \<Rightarrow> PgConnectOptions \<Rightarrow> PoolContext \<Rightarrow> ('b, PgPoolRec) pop" where
  "instantiate_pool pe options cx =
     bindM reading (\<lambda>n.
     bindM (liftE (map_err (\<lambda>e. Configuration (''failed to instantiate connection pool: '' @ e))
              (connect_with pe n options))) (\<lambda>_.
     returnM \<lparr>pg_id = n, pg_options = options, pg_max_connections = cx_max_connections cx,
              pg_min_connections = cx_min_connections cx,
              pg_acquire_timeout = cx_connect_timeout_seconds cx,
              pg_idle_timeout = cx_idle_timeout_seconds cx\<rparr>))"

text \<open>\<^verbatim>\<open>ReloadablePool::new\<close>, \<^verbatim>\<open>load\<close> and \<^verbatim>\<open>replace\<close>.\<close>

definition reloadable_new :: "PgPoolRec \<Rightarrow> ('b, nat) pop" where
  "reloadable_new pool p = (Inr (length (ps_cells p)), p\<lparr>ps_cells := ps_cells p @ [pool]\<rparr>)"

definition reloadable_load :: "nat \<Rightarrow> ('b, PgPoolRec) pop" where
  "reloadable_load cell p = (Inr (ps_cells p ! cell), p)"

definition reloadable_replace :: "nat \<Rightarrow> PgPoolRec \<Rightarrow> ('b, PgPoolRec) pop" where
  "reloadable_replace cell pool p = (Inr (ps_cells p ! cell), p\<lparr>ps_cells := (ps_cells p)[cell := pool]\<rparr>)"

definition pool_close :: "PgPoolRec \<Rightarrow> ('b, unit) pop" where
  "pool_close pool p = (Inr (), p\<lparr>ps_closed := pg_id pool # ps_closed p\<rparr>)"

definition ratls_disabled :: "env \<Rightarrow> bool" where
  "ratls_disabled e =
     eq_ignore_ascii_case (case env_ok e ''SECURE_DB_RATLS_MODE'' of None \<Rightarrow> ''enforced'' | Some v \<Rightarrow> v) ''disabled''"

definition ensure_pgbouncer_dsn :: "(string \<Rightarrow> string) \<Rightarrow> string \<Rightarrow> unit db_result" where
  "ensure_pgbouncer_dsn lower url =
     (let l = to_lowercase lower url;
          has_host = str_contains l ''@pgbouncer:'' \<or> str_contains l ''//pgbouncer:'';
          has_port = str_contains l '':6432/'' \<or> ends_with l '':6432'' \<or> str_contains l '':6432?'' in
      if has_host \<or> has_port then Inr ()
      else Inl (Configuration (''PgBouncer DSN required (port 6432 or host pgbouncer): '' @ url @
        ''. Set SECURE_DB_ALLOW_DIRECT_BOOTSTRAP=1 for admin bootstrap or SECURE_DB_RATLS_MODE=disabled for development.'')))"

text \<open>\<^verbatim>\<open>||\<close> does not read the bootstrap flag when RA-TLS is disabled.\<close>

definition skip_pgbouncer_check :: "env \<Rightarrow> bool db_result" where
  "skip_pgbouncer_check e =
     (if ratls_disabled e then Inr True else env_flag e ''SECURE_DB_ALLOW_DIRECT_BOOTSTRAP'')"

definition create_static_pool :: "pool_ext \<Rightarrow> env \<Rightarrow> string \<Rightarrow> PoolContext \<Rightarrow> ('b, PoolInit) pop" where
  "create_static_pool pe e database_url cx =
     bindM (liftE (skip_pgbouncer_check e)) (\<lambda>skip.
     bindM (liftE (if \<not> skip then ensure_pgbouncer_dsn (lower_url pe) database_url else Inr ())) (\<lambda>_.
     bindM (liftE (map_err (\<lambda>err. Configuration (''invalid DATABASE_URL: '' @ err))
              (parse_connect_options pe database_url))) (\<lambda>options.
     let ssl_mode = (if ratls_disabled e then Prefer else Require);
         options = options\<lparr>po_ssl_mode := ssl_mode, po_application_name := Some (cx_application_name cx)\<rparr> in
     bindM (instantiate_pool pe options cx) (\<lambda>pool.
     bindM (reloadable_new pool) (\<lambda>cell.
     returnM \<lparr>pi_pool = cell, pi_worker = None\<rparr>)))))"

text \<open>\<^verbatim>\<open>SecretBrokerClient::from_env\<close> at a reading.\<close>

definition start_client :: "pool_ext \<Rightarrow> env \<Rightarrow> nat \<Rightarrow> channel_error + channel" where
  "start_client pe e n =
     (let c = client_ext_at pe n in
      client_from_env (ce_transport c) (ce_ratls c) (ce_host c) (ce_debug_build c) e)"

definition create_broker_pool ::
  "('b, 'z) ext_scheme \<Rightarrow> pool_ext \<Rightarrow> env \<Rightarrow> BrokerCredentialConfig \<Rightarrow> PoolContext \<Rightarrow> ('b, PoolInit) pop" where
  "create_broker_pool x pe e broker cx =
     bindM reading (\<lambda>n.
     bindM (liftE (map_err (\<lambda>err. Configuration
              (''failed to initialise secret-broker client for Postgres credentials: '' @ client_error_text pe err))
              (start_client pe e n))) (\<lambda>_.
     bindM (obtain_broker_lease x broker (cx_application_name cx)) (\<lambda>lease.
     bindM (record_lease_metrics x (pl_expires_at lease) (cx_pool_label cx)) (\<lambda>_.
     bindM (liftE (connect_options_from_lease pe lease (cx_application_name cx) (cx_pool_label cx))) (\<lambda>options.
     bindM (instantiate_pool pe options cx) (\<lambda>pool.
     bindM (reloadable_new pool) (\<lambda>cell.
     returnM \<lparr>pi_pool = cell,
              pi_worker = Some \<lparr>bw_cell = cell, bw_credential = broker, bw_context = cx,
                                bw_next_expiry = pl_expires_at lease\<rparr>\<rparr>)))))))"

definition create_pool ::
  "('b, 'z) ext_scheme \<Rightarrow> pool_ext \<Rightarrow> env \<Rightarrow> NativeAuthConfig \<Rightarrow> PoolContext \<Rightarrow> ('b, PoolInit) pop" where
  "create_pool x pe e auth cx =
     (case auth of
        StaticUrl database_url \<Rightarrow> create_static_pool pe e database_url cx
      | BrokerAuth broker \<Rightarrow> create_broker_pool x pe e broker cx)"


section \<open>Start-up\<close>

datatype PoolKind = Data | Secrets

text \<open>What \<^verbatim>\<open>migrations/0001_initial.sql\<close> does to the extensions of a server and to the allowlist.\<close>

definition migration_0001 :: "server \<Rightarrow> server" where
  "migration_0001 s =
     s\<lparr>sv_extensions := List.insert ''pgcrypto'' (sv_extensions s), sv_allowlist := [''plpgsql'', ''pgcrypto''],
       sv_migrated := True\<rparr>"

definition run_migrations :: "pool_ext \<Rightarrow> env \<Rightarrow> PgPoolRec \<Rightarrow> ('b, unit) pop" where
  "run_migrations pe e pool =
     bindM (liftE (env_flag e ''SECURE_DB_SKIP_MIGRATIONS'')) (\<lambda>skip.
     if skip then returnM ()
     else
       bindM reading (\<lambda>n p.
         let key = po_server (pg_options pool) in
         case migrator_run pe n (ps_servers p key) of
           Inl err \<Rightarrow> (Inl (Migration err), p)
         | Inr s \<Rightarrow> (Inr (), p\<lparr>ps_servers := (ps_servers p)(key := s)\<rparr>)))"

definition upsert_extension_allowlist :: "pool_ext \<Rightarrow> PgPoolRec \<Rightarrow> string \<Rightarrow> ('b, unit) pop" where
  "upsert_extension_allowlist pe pool extension =
     on_server pe pool (\<lambda>s. ((), s\<lparr>sv_allowlist := List.insert extension (sv_allowlist s)\<rparr>))"

definition create_extension :: "pool_ext \<Rightarrow> PgPoolRec \<Rightarrow> string \<Rightarrow> ('b, unit) pop" where
  "create_extension pe pool extension =
     on_server pe pool (\<lambda>s. ((), s\<lparr>sv_extensions := List.insert extension (sv_extensions s)\<rparr>))"

text \<open>The calls that turn tables into hypertables or distributed tables change no modelled state.\<close>

definition table_call :: "pool_ext \<Rightarrow> PgPoolRec \<Rightarrow> ('b, unit) pop" where
  "table_call pe pool = on_server pe pool (\<lambda>s. ((), s))"

definition ensure_timescaledb :: "pool_ext \<Rightarrow> PgPoolRec \<Rightarrow> ('b, unit) pop" where
  "ensure_timescaledb pe pool =
     bindM (create_extension pe pool ''timescaledb'') (\<lambda>_. table_call pe pool)"

definition ensure_citus :: "pool_ext \<Rightarrow> PgPoolRec \<Rightarrow> ('b, unit) pop" where
  "ensure_citus pe pool =
     bindM (create_extension pe pool ''citus'') (\<lambda>_.
     bindM (table_call pe pool) (\<lambda>_. table_call pe pool))"

definition whenM :: "bool \<Rightarrow> ('e, 's, unit) op \<Rightarrow> ('e, 's, unit) op" where
  "whenM b m = (if b then m else returnM ())"

fun join_with :: "string \<Rightarrow> string list \<Rightarrow> string" where
  "join_with sep [] = []"
| "join_with sep [s] = s"
| "join_with sep (s # ss) = s @ sep @ join_with sep ss"

definition unlisted :: "server \<Rightarrow> string list" where
  "unlisted s = filter (\<lambda>ext. ext \<notin> set (sv_allowlist s)) (sv_extensions s)"

definition enforce_extension_allowlist :: "pool_ext \<Rightarrow> env \<Rightarrow> PgPoolRec \<Rightarrow> ('b, unit) pop" where
  "enforce_extension_allowlist pe e pool =
     bindM (liftE (env_flag e ''SECURE_DB_ALLOW_UNLISTED_EXTENSIONS'')) (\<lambda>allow.
     if allow then returnM ()
     else
       bindM (on_server pe pool (\<lambda>s. (unlisted s, s))) (\<lambda>unauthorized.
       if unauthorized = [] then returnM ()
       else throwM (Configuration (''found disallowed extensions: '' @ join_with '', '' unauthorized
              @ '' (set SECURE_DB_ALLOW_UNLISTED_EXTENSIONS=1 to override)''))))"

definition ensure_postgres_extensions ::
  "pool_ext \<Rightarrow> env \<Rightarrow> PgPoolRec \<Rightarrow> PoolKind \<Rightarrow> ('b, unit) pop" where
  "ensure_postgres_extensions pe e pool kind =
     bindM (upsert_extension_allowlist pe pool ''pgcrypto'') (\<lambda>_.
     bindM (whenM (ft_pgaudit (enabled pe))
              (bindM (create_extension pe pool ''pgaudit'') (\<lambda>_.
               upsert_extension_allowlist pe pool ''pgaudit''))) (\<lambda>_.
     bindM (whenM (ft_pg_stat_statements (enabled pe))
              (bindM (create_extension pe pool ''pg_stat_statements'') (\<lambda>_.
               upsert_extension_allowlist pe pool ''pg_stat_statements''))) (\<lambda>_.
     bindM (whenM (kind = Data \<and> ft_timescaledb (enabled pe))
              (bindM (ensure_timescaledb pe pool) (\<lambda>_.
               upsert_extension_allowlist pe pool ''timescaledb''))) (\<lambda>_.
     bindM (whenM (kind = Data \<and> ft_citus (enabled pe))
              (bindM (ensure_citus pe pool) (\<lambda>_.
               upsert_extension_allowlist pe pool ''citus''))) (\<lambda>_.
     enforce_extension_allowlist pe e pool)))))"

text \<open>Pool, migrations, extensions: what \<^verbatim>\<open>connect_postgres\<close> does for each of the two pools.\<close>

definition open_checked_pool :: "('b, 'z) ext_scheme \<Rightarrow> pool_ext \<Rightarrow> env \<Rightarrow> NativeAuthConfig \<Rightarrow> PoolContext \<Rightarrow>
  PoolKind \<Rightarrow> ('b, PoolInit) pop" where
  "open_checked_pool x pe e auth cx kind =
     bindM (create_pool x pe e auth cx) (\<lambda>init.
     bindM (reloadable_load (pi_pool init)) (\<lambda>pool.
     bindM (run_migrations pe e pool) (\<lambda>_.
     bindM (ensure_postgres_extensions pe e pool kind) (\<lambda>_.
     returnM init))))"

definition context_of :: "NativeConfig \<Rightarrow> string \<Rightarrow> PoolContext" where
  "context_of cfg label =
     \<lparr>cx_application_name = nc_application_name cfg, cx_pool_label = label,
      cx_max_connections = nc_max_connections cfg, cx_min_connections = nc_min_connections cfg,
      cx_connect_timeout_seconds = nc_connect_timeout_seconds cfg,
      cx_idle_timeout_seconds = nc_idle_timeout_seconds cfg\<rparr>"

text \<open>A worker is only spawned when its lease expires.\<close>

definition spawned :: "BrokerLeaseWorker option \<Rightarrow> BrokerLeaseWorker list" where
  "spawned w = (case w of Some wk \<Rightarrow> if bw_next_expiry wk = None then [] else [wk] | None \<Rightarrow> [])"

record PgPool =
  pp_data :: nat
  pp_secrets :: nat

definition connect_postgres ::
  "('b, 'z) ext_scheme \<Rightarrow> pool_ext \<Rightarrow> env \<Rightarrow> NativeConfig \<Rightarrow> ('b, PgPool \<times> BrokerLeaseWorker list) pop" where
  "connect_postgres x pe e cfg =
     bindM (open_checked_pool x pe e (nc_data_auth cfg) (context_of cfg ''data'') Data) (\<lambda>data_init.
     bindM (case nc_secrets_auth cfg of
              Some auth \<Rightarrow> open_checked_pool x pe e auth (context_of cfg ''secrets'') Secrets
            | None \<Rightarrow> returnM \<lparr>pi_pool = pi_pool data_init, pi_worker = None\<rparr>) (\<lambda>secrets_init.
     returnM (\<lparr>pp_data = pi_pool data_init, pp_secrets = pi_pool secrets_init\<rparr>,
              spawned (pi_worker data_init) @ spawned (pi_worker secrets_init))))"


text \<open>\<^verbatim>\<open>SecureDatabase::connect_native\<close>.\<close>

datatype native_error = BadConfig config_error | DbFailed DatabaseError

definition connect_native :: "('b, 'z) ext_scheme \<Rightarrow> pool_ext \<Rightarrow> env \<Rightarrow>
  (native_error, 'b process, PgPool \<times> BrokerLeaseWorker list) op" where
  "connect_native x pe e =
     bindM (liftE (map_err BadConfig (load_native_config e))) (\<lambda>cfg.
     map_errM DbFailed (connect_postgres x pe e cfg))"


section \<open>Lease rotation\<close>

definition refresh_once ::
  "('b, 'z) ext_scheme \<Rightarrow> pool_ext \<Rightarrow> BrokerLeaseWorker \<Rightarrow> ('b, time option) pop" where
  "refresh_once x pe wk =
     (let cx = bw_context wk in
      bindM (obtain_broker_lease x (bw_credential wk) (cx_application_name cx)) (\<lambda>lease.
      bindM (record_lease_metrics x (pl_expires_at lease) (cx_pool_label cx)) (\<lambda>_.
      bindM (liftE (connect_options_from_lease pe lease (cx_application_name cx) (cx_pool_label cx))) (\<lambda>options.
      bindM (instantiate_pool pe options cx) (\<lambda>pool.
      bindM (reloadable_replace (bw_cell wk) pool) (\<lambda>old_pool.
      bindM (pool_close old_pool) (\<lambda>_.
      returnM (pl_expires_at lease))))))))"

definition sleep :: "time \<Rightarrow> ('e, 'b process, unit) op" where
  "sleep d p = (Inr (), p\<lparr>ps_sleeps := ps_sleeps p @ [d]\<rparr>)"

text \<open>
  One pass of the loop in \<^verbatim>\<open>run\<close>. \<open>None\<close> is a worker that has returned.
\<close>

definition worker_pass ::
  "('b, 'z) ext_scheme \<Rightarrow> pool_ext \<Rightarrow> BrokerLeaseWorker \<Rightarrow> 'b process \<Rightarrow>
   BrokerLeaseWorker option \<times> 'b process" where
  "worker_pass x pe wk p =
     (case bw_next_expiry wk of
        None \<Rightarrow> (None, p)
      | Some expiry \<Rightarrow>
          (let refresh_at = expiry - LEASE_REFRESH_GRACE_SECS * second;
               now = clock x (w_ticks (ps_world p));
               p = snd ((reading :: (unit, 'b process, nat) op) p);
               wait_duration = (if refresh_at > now then refresh_at - now else 0);
               p = (if wait_duration \<noteq> 0 then snd ((sleep wait_duration :: (unit, 'b process, unit) op) p) else p) in
           case refresh_once x pe wk p of
             (Inr next, p') \<Rightarrow>
               if next = None then (None, p') else (Some (wk\<lparr>bw_next_expiry := next\<rparr>), p')
           | (Inl err, p') \<Rightarrow>
               (Some wk, snd ((sleep (LEASE_REFRESH_RETRY_SECS * second) :: (unit, 'b process, unit) op) p'))))"

definition worker_step ::
  "('b, 'z) ext_scheme \<Rightarrow> pool_ext \<Rightarrow> BrokerLeaseWorker option \<times> 'b process \<Rightarrow>
   BrokerLeaseWorker option \<times> 'b process" where
  "worker_step x pe s = (case s of (None, p) \<Rightarrow> (None, p) | (Some wk, p) \<Rightarrow> worker_pass x pe wk p)"

text \<open>
  The spawned tasks: each holds its worker, and the scheduler picks whose pass is next. \<open>ws\<close> has
  \<open>None\<close> for a task that has ended.
\<close>

definition tasks_step ::
  "('b, 'z) ext_scheme \<Rightarrow> pool_ext \<Rightarrow> BrokerLeaseWorker option list \<times> 'b process \<Rightarrow> nat \<Rightarrow>
   BrokerLeaseWorker option list \<times> 'b process" where
  "tasks_step x pe s i =
     (let (ws, p) = s in
      if i < length ws then (case worker_step x pe (ws ! i, p) of (w, p') \<Rightarrow> (ws[i := w], p')) else s)"


section \<open>Facts: pools in cells are open\<close>

text \<open>
  At least \<open>k\<close> cells; each holds a pool of its own that has not been closed and was opened with
  options satisfying \<open>Q\<close>; ids are readings that have been taken.
\<close>

definition pool_inv :: "(PgConnectOptions \<Rightarrow> bool) \<Rightarrow> nat \<Rightarrow> 'b process \<Rightarrow> bool" where
  "pool_inv Q k p \<longleftrightarrow>
     k \<le> length (ps_cells p) \<and> distinct (map pg_id (ps_cells p))
   \<and> (\<forall>c \<in> set (ps_cells p). pg_id c \<notin> set (ps_closed p) \<and> Q (pg_options c))
   \<and> (\<forall>i \<in> pg_id ` set (ps_cells p) \<union> set (ps_closed p). i < w_ticks (ps_world p))"

text \<open>Predicates of the cells and closed pools that survive an advance of the readings.\<close>

definition cell_pred :: "('b process \<Rightarrow> bool) \<Rightarrow> bool" where
  "cell_pred P \<longleftrightarrow>
     (\<forall>p p'. P p \<longrightarrow> ps_cells p' = ps_cells p \<longrightarrow> ps_closed p' = ps_closed p \<longrightarrow>
        w_ticks (ps_world p) \<le> w_ticks (ps_world p') \<longrightarrow> P p')"

lemma cell_predD:
  "cell_pred P \<Longrightarrow> P p \<Longrightarrow> ps_cells p' = ps_cells p \<Longrightarrow> ps_closed p' = ps_closed p \<Longrightarrow>
     w_ticks (ps_world p) \<le> w_ticks (ps_world p') \<Longrightarrow> P p'"
  unfolding cell_pred_def by blast

text \<open>Predicates that also read the servers: what only talks to the broker or opens a pool keeps them.\<close>

definition quiet_pred :: "('b process \<Rightarrow> bool) \<Rightarrow> bool" where
  "quiet_pred P \<longleftrightarrow>
     (\<forall>p p'. P p \<longrightarrow> ps_cells p' = ps_cells p \<longrightarrow> ps_closed p' = ps_closed p \<longrightarrow> ps_servers p' = ps_servers p \<longrightarrow>
        ps_sleeps p' = ps_sleeps p \<longrightarrow> w_ticks (ps_world p) \<le> w_ticks (ps_world p') \<longrightarrow> P p')"

lemma quiet_predD:
  "quiet_pred P \<Longrightarrow> P p \<Longrightarrow> ps_cells p' = ps_cells p \<Longrightarrow> ps_closed p' = ps_closed p \<Longrightarrow>
     ps_servers p' = ps_servers p \<Longrightarrow> ps_sleeps p' = ps_sleeps p \<Longrightarrow> w_ticks (ps_world p) \<le> w_ticks (ps_world p') \<Longrightarrow> P p'"
  unfolding quiet_pred_def by blast

lemma cell_pred_quiet: "cell_pred P \<Longrightarrow> quiet_pred P"
  unfolding cell_pred_def quiet_pred_def by blast

lemma cell_pred_pool_inv: "cell_pred (pool_inv Q k)"
  unfolding cell_pred_def pool_inv_def by (auto dest: order.strict_trans2)

lemmas quiet_pool_inv = cell_pred_quiet [OF cell_pred_pool_inv]

lemma preserves_reading: "quiet_pred P \<Longrightarrow> preserves P reading"
  by (auto simp: reading_def in_world_def preserves_def elim: quiet_predD)

lemma preserves_obtain: "quiet_pred P \<Longrightarrow> preserves P (obtain_broker_lease x c a)"
proof (rule preservesI)
  fix p :: "'a process"
  assume P: "quiet_pred P" "P p"
  let ?q = "\<lparr>pr_audience = bc_audience c, pr_scope = bc_scope c, pr_ttl_seconds = bc_ttl_seconds c,
    pr_application_name = Some a\<rparr>"
  obtain r b where "adapter_issue_postgres_credentials x
      \<lparr>pp_audience = trim (pr_audience ?q), pp_scope = pr_scope ?q,
       pp_ttl_seconds = (if pr_ttl_seconds ?q = 0 then None else Some (pr_ttl_seconds ?q)),
       pp_application_name = pr_application_name ?q\<rparr> (w_broker (ps_world p)) = (r, b)"
    by fastforce
  then show "P (snd (obtain_broker_lease x c a p))"
    using P by (auto simp: obtain_broker_lease_def in_world_def issue_postgres_credentials_def counted_app
        elim!: quiet_predD)
qed

lemma preserves_gauge: "quiet_pred P \<Longrightarrow> preserves P (record_lease_metrics x e l)"
  by (auto simp: record_lease_metrics_def reading_def in_world_def preserves_def bindM_def elim!: quiet_predD
      split: option.split)

lemma preserves_on_server: "cell_pred P \<Longrightarrow> preserves P (on_server pe pool f)"
  by (auto simp: on_server_def reading_def in_world_def preserves_def bindM_def Let_def elim!: cell_predD
      split: option.split prod.split)

lemma preserves_migrations: "cell_pred P \<Longrightarrow> preserves P (run_migrations pe e pool)"
  unfolding run_migrations_def
  by (rule preserves_bind, simp)
     (auto simp: reading_def in_world_def preserves_def bindM_def Let_def elim!: cell_predD split: sum.split)

lemma preserves_whenM: "preserves P m \<Longrightarrow> preserves P (whenM b m)"
  by (simp add: whenM_def)

lemma preserves_extensions: "cell_pred P \<Longrightarrow> preserves P (ensure_postgres_extensions pe e pool kind)"
  unfolding ensure_postgres_extensions_def upsert_extension_allowlist_def create_extension_def
    ensure_timescaledb_def ensure_citus_def table_call_def enforce_extension_allowlist_def
  by (auto intro!: preserves_bind preserves_whenM preserves_on_server)

lemma instantiate_InrD:
  assumes "instantiate_pool pe options cx p = (Inr pool, p')"
  shows "pg_id pool = w_ticks (ps_world p)" and "pg_options pool = options"
    and "ps_cells p' = ps_cells p" and "ps_closed p' = ps_closed p"
    and "w_ticks (ps_world p') = Suc (w_ticks (ps_world p))"
  using assms
  by (auto simp: instantiate_pool_def reading_def in_world_def bindM_def split: sum.splits)

lemma preserves_instantiate: "quiet_pred P \<Longrightarrow> preserves P (instantiate_pool pe options cx)"
  unfolding instantiate_pool_def by (intro preserves_bind preserves_reading) simp_all

text \<open>Opening a pool and putting it into a new cell, or in place of the one in a cell, which is closed.\<close>

lemma preserves_open_new:
  assumes "\<And>cell. preserves (pool_inv Q k) (f cell)" and "Q options"
  shows "preserves (pool_inv Q k) (bindM (instantiate_pool pe options cx) (\<lambda>pool. bindM (reloadable_new pool) f))"
proof (rule preservesI)
  fix p :: "'a process"
  assume inv: "pool_inv Q k p"
  obtain r p1 where run: "instantiate_pool pe options cx p = (r, p1)" by fastforce
  show "pool_inv Q k (snd (bindM (instantiate_pool pe options cx) (\<lambda>pool. bindM (reloadable_new pool) f) p))"
  proof (cases r)
    case (Inl e)
    with run preservesD [OF preserves_instantiate [OF quiet_pool_inv] inv, of pe options cx]
    show ?thesis by simp
  next
    case (Inr pool)
    note d = instantiate_InrD [OF run [unfolded Inr]]
    have "pool_inv Q k (snd (reloadable_new pool p1 :: (DatabaseError + nat) \<times> 'a process))"
      using inv d assms(2) unfolding pool_inv_def reloadable_new_def by (auto simp: less_Suc_eq)
    then show ?thesis
      using run Inr assms(1) by (auto simp: bindM_def reloadable_new_def preserves_def)
  qed
qed

lemma replaced_cell_inv:
  assumes "pool_inv Q k p" and "cell < length (ps_cells p)" and "pg_id pool = w_ticks (ps_world p)"
  shows "distinct (map pg_id ((ps_cells p)[cell := pool]))"
    and "\<forall>c \<in> set ((ps_cells p)[cell := pool]). pg_id c \<notin> set (pg_id (ps_cells p ! cell) # ps_closed p)"
    and "\<forall>i \<in> pg_id ` set ((ps_cells p)[cell := pool]) \<union> set (pg_id (ps_cells p ! cell) # ps_closed p).
      i < Suc (w_ticks (ps_world p))"
proof -
  have ids: "distinct (map pg_id (ps_cells p))"
    and lt: "\<And>c. c \<in> set (ps_cells p) \<Longrightarrow> pg_id c < w_ticks (ps_world p)"
    and clt: "\<And>i. i \<in> set (ps_closed p) \<Longrightarrow> i < w_ticks (ps_world p)"
    and op: "\<And>c. c \<in> set (ps_cells p) \<Longrightarrow> pg_id c \<notin> set (ps_closed p)"
    using assms(1) by (auto simp: pool_inv_def)
  have fresh: "pg_id pool \<notin> set (map pg_id (ps_cells p))" using lt assms(3) by fastforce
  then show "distinct (map pg_id ((ps_cells p)[cell := pool]))"
    using ids by (simp add: map_update distinct_list_update)
  have others: "pg_id ((ps_cells p) ! j) \<noteq> pg_id (ps_cells p ! cell)"
    if "j < length (ps_cells p)" "j \<noteq> cell" for j
    using ids that assms(2) by (simp add: distinct_conv_nth)
  show "\<forall>c \<in> set ((ps_cells p)[cell := pool]). pg_id c \<notin> set (pg_id (ps_cells p ! cell) # ps_closed p)"
  proof
    fix c assume "c \<in> set ((ps_cells p)[cell := pool])"
    then obtain j where j: "j < length (ps_cells p)" "c = (ps_cells p)[cell := pool] ! j"
      by (auto simp: in_set_conv_nth)
    show "pg_id c \<notin> set (pg_id (ps_cells p ! cell) # ps_closed p)"
    proof (cases "j = cell")
      case True
      then have "c = pool" using j by simp
      then show ?thesis using assms(2,3) lt [of "ps_cells p ! cell"] clt by fastforce
    next
      case False
      then have "c = ps_cells p ! j" using j by simp
      then show ?thesis using others [OF j(1) False] op [of c] j by simp
    qed
  qed
  show "\<forall>i \<in> pg_id ` set ((ps_cells p)[cell := pool]) \<union> set (pg_id (ps_cells p ! cell) # ps_closed p).
      i < Suc (w_ticks (ps_world p))"
    using assms(2,3) lt clt set_update_subset_insert [of "ps_cells p" cell pool]
    by (auto simp: less_Suc_eq)
qed

lemma preserves_open_replace:
  assumes "\<And>u. preserves (pool_inv Q k) (f u)" and "cell < k" and "Q options"
  shows "preserves (pool_inv Q k) (bindM (instantiate_pool pe options cx) (\<lambda>pool.
    bindM (reloadable_replace cell pool) (\<lambda>old. bindM (pool_close old) f)))"
proof (rule preservesI)
  fix p :: "'a process"
  assume inv: "pool_inv Q k p"
  obtain r p1 where run: "instantiate_pool pe options cx p = (r, p1)" by fastforce
  show "pool_inv Q k (snd (bindM (instantiate_pool pe options cx) (\<lambda>pool.
      bindM (reloadable_replace cell pool) (\<lambda>old. bindM (pool_close old) f)) p))"
  proof (cases r)
    case (Inl e)
    with run preservesD [OF preserves_instantiate [OF quiet_pool_inv] inv, of pe options cx]
    show ?thesis by simp
  next
    case (Inr pool)
    note d = instantiate_InrD [OF run [unfolded Inr]]
    let ?cells = "(ps_cells p)[cell := pool]" and ?old = "ps_cells p ! cell"
    let ?p2 = "p1\<lparr>ps_cells := ?cells, ps_closed := pg_id ?old # ps_closed p\<rparr>"
    have c: "cell < length (ps_cells p)" using inv assms(2) by (auto simp: pool_inv_def)
    have "pool_inv Q k ?p2"
      using inv replaced_cell_inv [OF inv c d(1)] d assms(3) set_update_subset_insert [of "ps_cells p" cell pool]
      by (auto simp: pool_inv_def)
    then show ?thesis
      using run Inr assms(1) d
      by (auto simp: bindM_def reloadable_replace_def pool_close_def preserves_def)
  qed
qed

text \<open>What the options a pool is opened with say about encryption.\<close>

definition ssl_policy :: "env \<Rightarrow> PgConnectOptions \<Rightarrow> bool" where
  "ssl_policy e opts \<longleftrightarrow> po_ssl_mode opts = Require \<or> ratls_disabled e \<and> po_ssl_mode opts = Prefer"

definition ssl_required :: "PgConnectOptions \<Rightarrow> bool" where
  "ssl_required opts \<longleftrightarrow> po_ssl_mode opts = Require"

lemma lease_options_ssl: "connect_options_from_lease pe lease a l = Inr options \<Longrightarrow> ssl_required options"
  by (auto simp: connect_options_from_lease_def bindE_eq_Inr Let_def ssl_required_def split: option.splits)

lemma ssl_required_policy: "ssl_required options \<Longrightarrow> ssl_policy e options"
  by (simp add: ssl_required_def ssl_policy_def)

lemma yields_lift: "(\<And>a. r = Inr a \<Longrightarrow> Q a) \<Longrightarrow> yields Q (liftE r)"
  by (simp add: yields_def)

lemma preserves_create_static: "preserves (pool_inv (ssl_policy e) k) (create_static_pool pe e url cx)"
  unfolding create_static_pool_def Let_def
  by (intro preserves_bind preserves_lift preserves_open_new preserves_return)
     (simp add: ssl_policy_def)

lemma preserves_create_broker:
  assumes "\<And>opts. ssl_required opts \<Longrightarrow> Q opts"
  shows "preserves (pool_inv Q k) (create_broker_pool x pe e b cx)"
  unfolding create_broker_pool_def
  by (intro preserves_bind preserves_lift preserves_reading preserves_obtain preserves_gauge quiet_pool_inv
      preserves_bind_yields [where Q = ssl_required] yields_lift preserves_open_new preserves_return assms)
     (auto intro: lease_options_ssl)

lemma preserves_create: "preserves (pool_inv (ssl_policy e) k) (create_pool x pe e auth cx)"
  by (cases auth) (simp_all add: create_pool_def preserves_create_static preserves_create_broker ssl_required_policy)

lemma preserves_open_checked: "preserves (pool_inv (ssl_policy e) k) (open_checked_pool x pe e auth cx kind)"
  unfolding open_checked_pool_def
  by (intro preserves_bind preserves_create preserves_migrations preserves_extensions cell_pred_pool_inv preserves_return)
     (simp add: preserves_def reloadable_load_def)

lemma preserves_connect: "preserves (pool_inv (ssl_policy e) k) (connect_postgres x pe e cfg)"
  unfolding connect_postgres_def
  by (intro preserves_bind preserves_open_checked preserves_return)
     (simp split: option.split add: preserves_open_checked)

lemma preserves_refresh:
  assumes "bw_cell wk < k" and "\<And>opts. ssl_required opts \<Longrightarrow> Q opts"
  shows "preserves (pool_inv Q k) (refresh_once x pe wk)"
  unfolding refresh_once_def Let_def
  by (intro preserves_bind preserves_obtain preserves_gauge quiet_pool_inv
      preserves_bind_yields [where Q = ssl_required] yields_lift preserves_open_replace preserves_return assms)
     (auto intro: lease_options_ssl)


section \<open>Facts: what a successful start leaves behind\<close>

definition frame :: "PgPoolRec list \<Rightarrow> nat list \<Rightarrow> (string \<Rightarrow> server) \<Rightarrow> 'b process \<Rightarrow> bool" where
  "frame cs cl sv p \<longleftrightarrow> ps_cells p = cs \<and> ps_closed p = cl \<and> ps_servers p = sv"

lemma quiet_frame: "quiet_pred (frame cs cl sv)"
  by (auto simp: quiet_pred_def frame_def)

lemma frame_self: "frame (ps_cells p) (ps_closed p) (ps_servers p) p"
  by (simp add: frame_def)

lemmas frame_rules =
  preserves_reading [OF quiet_frame] preserves_obtain [OF quiet_frame] preserves_gauge [OF quiet_frame]
  preserves_instantiate [OF quiet_frame] preserves_lift preserves_return

text \<open>A creation puts one pool into a new last cell and touches no server.\<close>

definition appends :: "('b, PoolInit) pop \<Rightarrow> bool" where
  "appends m \<longleftrightarrow>
     (\<forall>p init p'. m p = (Inr init, p') \<longrightarrow>
        pi_pool init = length (ps_cells p) \<and> ps_servers p' = ps_servers p \<and> (\<exists>pool. ps_cells p' = ps_cells p @ [pool])
        \<and> pred_option (\<lambda>wk. bw_cell wk = pi_pool init) (pi_worker init))"

lemma appends_bind:
  assumes pre: "\<And>cs cl sv. preserves (frame cs cl sv) m" and f: "\<And>a. appends (f a)"
  shows "appends (bindM m f)"
  unfolding appends_def
proof (intro allI impI)
  fix p init p'
  assume "bindM m f p = (Inr init, p')"
  then obtain a p1 where 1: "m p = (Inr a, p1)" and 2: "f a p1 = (Inr init, p')" by (rule bindM_eq_InrE)
  have "frame (ps_cells p) (ps_closed p) (ps_servers p) (snd (m p))"
    by (rule preservesD [OF pre frame_self])
  moreover have "pi_pool init = length (ps_cells p1) \<and> ps_servers p' = ps_servers p1
      \<and> (\<exists>pool. ps_cells p' = ps_cells p1 @ [pool]) \<and> pred_option (\<lambda>wk. bw_cell wk = pi_pool init) (pi_worker init)"
    using f [of a] 2 unfolding appends_def by blast
  ultimately show "pi_pool init = length (ps_cells p) \<and> ps_servers p' = ps_servers p
      \<and> (\<exists>pool. ps_cells p' = ps_cells p @ [pool]) \<and> pred_option (\<lambda>wk. bw_cell wk = pi_pool init) (pi_worker init)"
    using 1 by (cases "pi_worker init") (auto simp: frame_def)
qed

lemma appends_new:
  "(\<And>cell. pi_pool (f cell) = cell \<and> pred_option (\<lambda>wk. bw_cell wk = cell) (pi_worker (f cell))) \<Longrightarrow>
     appends (bindM (reloadable_new pool) (\<lambda>cell. returnM (f cell)))"
  by (simp add: appends_def bindM_def reloadable_new_def)

lemma appends_create: "appends (create_pool x pe e auth cx)"
proof (cases auth)
  case (StaticUrl url)
  then show ?thesis
    by (simp only: create_pool_def create_static_pool_def Let_def NativeAuthConfig.case)
       (intro appends_bind frame_rules appends_new, simp)
next
  case (BrokerAuth b)
  then show ?thesis
    by (simp only: create_pool_def create_broker_pool_def NativeAuthConfig.case)
       (intro appends_bind frame_rules appends_new, simp)
qed

text \<open>A statement on one server leaves every other server alone.\<close>

lemma other_server:
  "key \<noteq> po_server (pg_options pool) \<Longrightarrow> preserves (\<lambda>p. ps_servers p key = sv) (on_server pe pool f)"
  by (auto simp: on_server_def reading_def in_world_def preserves_def bindM_def Let_def
      split: option.split prod.split)

lemma other_server_migrations:
  "key \<noteq> po_server (pg_options pool) \<Longrightarrow> preserves (\<lambda>p. ps_servers p key = sv) (run_migrations pe e pool)"
  unfolding run_migrations_def
  by (rule preserves_bind, simp)
     (auto simp: reading_def in_world_def preserves_def bindM_def Let_def split: sum.split)

lemma other_server_extensions:
  "key \<noteq> po_server (pg_options pool) \<Longrightarrow>
     preserves (\<lambda>p. ps_servers p key = sv) (ensure_postgres_extensions pe e pool kind)"
  unfolding ensure_postgres_extensions_def upsert_extension_allowlist_def create_extension_def
    ensure_timescaledb_def ensure_citus_def table_call_def enforce_extension_allowlist_def
  by (auto intro!: preserves_bind preserves_whenM other_server)

definition all_listed :: "env \<Rightarrow> server \<Rightarrow> bool" where
  "all_listed e s \<longleftrightarrow> env_flag e ''SECURE_DB_ALLOW_UNLISTED_EXTENSIONS'' = Inr True \<or> unlisted s = []"

lemma enforced:
  assumes "enforce_extension_allowlist pe e pool p = (Inr (), p')"
  shows "all_listed e (ps_servers p' (po_server (pg_options pool)))"
  using assms
  by (auto simp: enforce_extension_allowlist_def all_listed_def on_server_def reading_def in_world_def bindM_def Let_def
      split: sum.splits if_splits option.splits)

lemma ensured:
  assumes "ensure_postgres_extensions pe e pool kind p = (Inr u, p')"
  shows "all_listed e (ps_servers p' (po_server (pg_options pool)))"
  using assms unfolding ensure_postgres_extensions_def
  by (auto elim!: bindM_eq_InrE intro: enforced)

text \<open>What is true once a pool has been opened, migrated and checked.\<close>

lemma open_checkedE:
  assumes "open_checked_pool x pe e auth cx kind p = (Inr init, p')"
  obtains pool where "pi_pool init = length (ps_cells p)" and "ps_cells p' = ps_cells p @ [pool]"
    and "pred_option (\<lambda>wk. bw_cell wk = pi_pool init) (pi_worker init)"
    and "all_listed e (ps_servers p' (po_server (pg_options pool)))"
    and "\<And>key. key \<noteq> po_server (pg_options pool) \<Longrightarrow> ps_servers p' key = ps_servers p key"
proof -
  from assms [unfolded open_checked_pool_def] obtain i p1 where
    1: "create_pool x pe e auth cx p = (Inr i, p1)" and
    r: "bindM (reloadable_load (pi_pool i)) (\<lambda>pool. bindM (run_migrations pe e pool) (\<lambda>_.
      bindM (ensure_postgres_extensions pe e pool kind) (\<lambda>_. returnM i))) p1 = (Inr init, p')"
    by (rule bindM_eq_InrE)
  obtain pool where c: "pi_pool i = length (ps_cells p)" "ps_servers p1 = ps_servers p"
      "ps_cells p1 = ps_cells p @ [pool]" "pred_option (\<lambda>wk. bw_cell wk = pi_pool i) (pi_worker i)"
    using appends_create [of x pe e auth cx] 1 unfolding appends_def by blast
  have "(reloadable_load (pi_pool i) :: ('a, PgPoolRec) pop) p1 = (Inr pool, p1)"
    using c by (simp add: reloadable_load_def)
  with r have "bindM (run_migrations pe e pool) (\<lambda>_. bindM (ensure_postgres_extensions pe e pool kind)
      (\<lambda>_. returnM i)) p1 = (Inr init, p')" by simp
  then obtain u p2 v p3 where 2: "run_migrations pe e pool p1 = (Inr u, p2)"
    and 3: "ensure_postgres_extensions pe e pool kind p2 = (Inr v, p3)" and e: "init = i" "p' = p3"
    by (auto elim!: bindM_eq_InrE)
  have "ps_cells p2 = ps_cells p1"
    using preservesD [OF preserves_migrations, of "\<lambda>p. ps_cells p = ps_cells p1" p1 pe e pool] 2
    by (simp add: cell_pred_def)
  then have cells: "ps_cells p' = ps_cells p @ [pool]"
    using preservesD [OF preserves_extensions, of "\<lambda>p. ps_cells p = ps_cells p1" p2 pe e pool kind] 3 c e
    by (simp add: cell_pred_def)
  have others: "ps_servers p' key = ps_servers p key" if "key \<noteq> po_server (pg_options pool)" for key
    using preservesD [OF other_server_migrations [OF that, of "ps_servers p key"], of p1 pe e] 2 c
      preservesD [OF other_server_extensions [OF that, of "ps_servers p key"], of p2 pe e kind] 3 e by simp
  show thesis using that [of pool] c(1,4) e cells others ensured [OF 3] by blast
qed

lemma connectE:
  assumes "connect_postgres x pe e cfg p = (Inr (pool, workers), p')"
  shows "pp_data pool < length (ps_cells p')" and "pp_secrets pool < length (ps_cells p')"
    and "all_listed e (ps_servers p' (po_server (pg_options (ps_cells p' ! pp_data pool))))"
    and "all_listed e (ps_servers p' (po_server (pg_options (ps_cells p' ! pp_secrets pool))))"
    and "\<forall>wk \<in> set workers. bw_cell wk < length (ps_cells p')"
proof -
  from assms [unfolded connect_postgres_def] obtain d p1 where
    1: "open_checked_pool x pe e (nc_data_auth cfg) (context_of cfg ''data'') Data p = (Inr d, p1)" and
    r: "bindM (case nc_secrets_auth cfg of
             Some auth \<Rightarrow> open_checked_pool x pe e auth (context_of cfg ''secrets'') Secrets
           | None \<Rightarrow> returnM \<lparr>pi_pool = pi_pool d, pi_worker = None\<rparr>) (\<lambda>i.
        returnM (\<lparr>pp_data = pi_pool d, pp_secrets = pi_pool i\<rparr>,
          spawned (pi_worker d) @ spawned (pi_worker i))) p1 = (Inr (pool, workers), p')"
    by (rule bindM_eq_InrE)
  obtain dp where d: "pi_pool d = length (ps_cells p)" "ps_cells p1 = ps_cells p @ [dp]"
      "all_listed e (ps_servers p1 (po_server (pg_options dp)))"
      "pred_option (\<lambda>wk. bw_cell wk = pi_pool d) (pi_worker d)"
    using open_checkedE [OF 1] by metis
  have "pp_data pool < length (ps_cells p') \<and> pp_secrets pool < length (ps_cells p')
    \<and> all_listed e (ps_servers p' (po_server (pg_options (ps_cells p' ! pp_data pool))))
    \<and> all_listed e (ps_servers p' (po_server (pg_options (ps_cells p' ! pp_secrets pool))))
    \<and> (\<forall>wk \<in> set workers. bw_cell wk < length (ps_cells p'))"
  proof (cases "nc_secrets_auth cfg")
    case None
    then show ?thesis using r d by (auto simp: spawned_def split: option.splits if_splits)
  next
    case (Some auth)
    with r obtain i where
      2: "open_checked_pool x pe e auth (context_of cfg ''secrets'') Secrets p1 = (Inr i, p')"
      and pool: "pp_data pool = pi_pool d" "pp_secrets pool = pi_pool i"
      and ws: "workers = spawned (pi_worker d) @ spawned (pi_worker i)"
      by (auto elim!: bindM_eq_InrE)
    obtain sp where s: "pi_pool i = length (ps_cells p1)" "ps_cells p' = ps_cells p1 @ [sp]"
        "all_listed e (ps_servers p' (po_server (pg_options sp)))"
        "pred_option (\<lambda>wk. bw_cell wk = pi_pool i) (pi_worker i)"
        "\<And>key. key \<noteq> po_server (pg_options sp) \<Longrightarrow> ps_servers p' key = ps_servers p1 key"
      using open_checkedE [OF 2] by metis
    moreover have "\<forall>wk \<in> set workers. bw_cell wk < length (ps_cells p')"
      using ws s d by (auto simp: spawned_def split: option.splits if_splits)
    ultimately show ?thesis using d pool by (cases "po_server (pg_options dp) = po_server (pg_options sp)")
      (simp_all add: nth_append)
  qed
  then show "pp_data pool < length (ps_cells p')" and "pp_secrets pool < length (ps_cells p')"
    and "all_listed e (ps_servers p' (po_server (pg_options (ps_cells p' ! pp_data pool))))"
    and "all_listed e (ps_servers p' (po_server (pg_options (ps_cells p' ! pp_secrets pool))))"
    and "\<forall>wk \<in> set workers. bw_cell wk < length (ps_cells p')" by blast+
qed


text \<open>
  Where pools go: every server that the URL of a static configuration names, or a lease for the
  audience of a leased one, is among \<open>S\<close>.
\<close>

definition leads_to :: "('b, 'z) ext_scheme \<Rightarrow> pool_ext \<Rightarrow> NativeAuthConfig \<Rightarrow> string set \<Rightarrow> bool" where
  "leads_to x pe auth S \<longleftrightarrow>
     (case auth of
        StaticUrl url \<Rightarrow> \<forall>opts. parse_connect_options pe url = Inr opts \<longrightarrow> po_server opts \<in> S
      | BrokerAuth credential \<Rightarrow> \<forall>params b lease b' opts.
          pp_audience params = trim (bc_audience credential) \<longrightarrow>
          adapter_issue_postgres_credentials x params b = (Inr lease, b') \<longrightarrow>
          parse_connect_options pe (pl_database_url lease) = Inr opts \<longrightarrow> po_server opts \<in> S)"

lemma lease_leads:
  assumes "obtain_broker_lease x c a p = (Inr lease, p')" and "connect_options_from_lease pe lease a' l = Inr options"
    and "leads_to x pe (BrokerAuth c) S"
  shows "po_server options \<in> S"
proof -
  from assms(1) obtain b b' where issued: "adapter_issue_postgres_credentials x
      \<lparr>pp_audience = trim (bc_audience c), pp_scope = bc_scope c,
       pp_ttl_seconds = (if bc_ttl_seconds c = 0 then None else Some (bc_ttl_seconds c)),
       pp_application_name = Some a\<rparr> b = (Inr lease, b')"
    by (auto simp: obtain_broker_lease_def in_world_def map_errM_def issue_postgres_credentials_def counted_def
        broker_call_def bindM_def split: prod.splits sum.splits cong: if_cong)
  from assms(2) obtain opts where "parse_connect_options pe (pl_database_url lease) = Inr opts"
    "po_server options = po_server opts"
    by (auto simp: connect_options_from_lease_def bindE_eq_Inr Let_def map_err_def split: option.splits sum.splits)
  with assms(3) [unfolded leads_to_def NativeAuthConfig.case, rule_format, OF _ issued this(1)] show ?thesis by simp
qed

lemma create_placed:
  assumes "create_pool x pe e auth cx p = (Inr init, p')" and "leads_to x pe auth S"
  shows "\<exists>pool. ps_cells p' = ps_cells p @ [pool] \<and> po_server (pg_options pool) \<in> S"
    and "pi_pool init = length (ps_cells p)"
    and "pred_option (\<lambda>wk. bw_cell wk = length (ps_cells p) \<and> leads_to x pe (BrokerAuth (bw_credential wk)) S) (pi_worker init)"
proof -
  have app: "pi_pool init = length (ps_cells p)" "pred_option (\<lambda>wk. bw_cell wk = pi_pool init) (pi_worker init)"
    using appends_create [of x pe e auth cx] assms(1) unfolding appends_def by blast+
  then show "pi_pool init = length (ps_cells p)" by simp
  have "(\<exists>pool. ps_cells p' = ps_cells p @ [pool] \<and> po_server (pg_options pool) \<in> S)
      \<and> pred_option (\<lambda>wk. leads_to x pe (BrokerAuth (bw_credential wk)) S) (pi_worker init)"
  proof (cases auth)
    case (StaticUrl url)
    with assms(1) obtain opts pool p1 where "parse_connect_options pe url = Inr opts"
      and i: "instantiate_pool pe (opts\<lparr>po_ssl_mode := if ratls_disabled e then Prefer else Require,
          po_application_name := Some (cx_application_name cx)\<rparr>) cx p = (Inr pool, p1)"
      and "ps_cells p' = ps_cells p1 @ [pool]" "pi_worker init = None"
      by (auto simp: create_pool_def create_static_pool_def Let_def bindM_def reloadable_new_def
          split: sum.splits prod.splits if_splits)
    with instantiate_InrD(2,3) [OF i] assms(2) StaticUrl show ?thesis by (simp add: leads_to_def)
  next
    case (BrokerAuth b)
    from assms(1) obtain n p0 lease p1 u p2 opts pool p3 where
      0: "(reading :: ('a, nat) pop) p = (Inr n, p0)"
      and 1: "obtain_broker_lease x b (cx_application_name cx) p0 = (Inr lease, p1)"
      and 2: "record_lease_metrics x (pl_expires_at lease) (cx_pool_label cx) p1 = (Inr u, p2)"
      and o: "connect_options_from_lease pe lease (cx_application_name cx) (cx_pool_label cx) = Inr opts"
      and 3: "instantiate_pool pe opts cx p2 = (Inr pool, p3)"
      and 4: "ps_cells p' = ps_cells p3 @ [pool]" "pred_option (\<lambda>wk. bw_credential wk = b) (pi_worker init)"
      unfolding create_pool_def BrokerAuth NativeAuthConfig.case create_broker_pool_def
      by (auto simp: reloadable_new_def elim!: bindM_eq_InrE)
    let ?fr = "frame (ps_cells p) (ps_closed p) (ps_servers p)"
    have "?fr p0" using preservesD [OF frame_rules(1) frame_self] 0 by (metis snd_conv)
    then have "?fr p1" using preservesD [OF frame_rules(2)] 1 by (metis snd_conv)
    then have "?fr p2" using preservesD [OF frame_rules(3)] 2 by (metis snd_conv)
    then have "ps_cells p3 = ps_cells p" using instantiate_InrD(3) [OF 3] by (simp add: frame_def)
    moreover have "po_server (pg_options pool) \<in> S"
      using lease_leads [OF 1 o] assms(2) instantiate_InrD(2) [OF 3] by (simp add: BrokerAuth)
    ultimately show ?thesis using 4 assms(2) by (cases "pi_worker init") (auto simp: BrokerAuth)
  qed
  with app show "\<exists>pool. ps_cells p' = ps_cells p @ [pool] \<and> po_server (pg_options pool) \<in> S"
    and "pred_option (\<lambda>wk. bw_cell wk = length (ps_cells p) \<and> leads_to x pe (BrokerAuth (bw_credential wk)) S) (pi_worker init)"
    by (cases "pi_worker init"; simp)+
qed

text \<open>Where the pools of a static configuration go.\<close>

lemma create_staticE:
  assumes "create_pool x pe e (StaticUrl url) cx p = (Inr init, p')"
  obtains opts where "parse_connect_options pe url = Inr opts" and "pi_pool init = length (ps_cells p)"
    and "po_server (pg_options (ps_cells p' ! length (ps_cells p))) = po_server opts"
    and "length (ps_cells p') = Suc (length (ps_cells p))"
proof -
  from assms obtain opts pool p1 where o: "parse_connect_options pe url = Inr opts"
    and i: "instantiate_pool pe (opts\<lparr>po_ssl_mode := if ratls_disabled e then Prefer else Require,
        po_application_name := Some (cx_application_name cx)\<rparr>) cx p = (Inr pool, p1)"
    and n: "ps_cells p' = ps_cells p1 @ [pool]" "pi_pool init = length (ps_cells p1)"
    by (auto simp: create_pool_def create_static_pool_def Let_def bindM_def reloadable_new_def
        split: sum.splits prod.splits if_splits)
  from instantiate_InrD(2,3) [OF i] n show thesis by (intro that [OF o]) simp_all
qed

lemma open_checked_create:
  assumes "open_checked_pool x pe e auth cx kind p = (Inr init, p')"
  obtains p1 where "create_pool x pe e auth cx p = (Inr init, p1)" and "ps_cells p' = ps_cells p1"
proof -
  from assms obtain i p1 u p2 v p3 where 1: "create_pool x pe e auth cx p = (Inr i, p1)"
    and 2: "run_migrations pe e (ps_cells p1 ! pi_pool i) p1 = (Inr u, p2)"
    and 3: "ensure_postgres_extensions pe e (ps_cells p1 ! pi_pool i) kind p2 = (Inr v, p3)"
    and e: "init = i" "p' = p3"
    by (auto simp: open_checked_pool_def reloadable_load_def elim!: bindM_eq_InrE)
  have "ps_cells p2 = ps_cells p1"
    using preservesD [OF preserves_migrations, of "\<lambda>p. ps_cells p = ps_cells p1" p1 pe e "ps_cells p1 ! pi_pool i"] 2
    by (simp add: cell_pred_def)
  moreover have "ps_cells p3 = ps_cells p2"
    using preservesD [OF preserves_extensions, of "\<lambda>p. ps_cells p = ps_cells p2" p2 pe e "ps_cells p1 ! pi_pool i" kind] 3
    by (simp add: cell_pred_def)
  ultimately show thesis using that 1 e by simp
qed

lemma connect_staticE:
  assumes "connect_postgres x pe e cfg p = (Inr (pool, workers), p')" and "nc_data_auth cfg = StaticUrl url"
  obtains opts where "parse_connect_options pe url = Inr opts"
    and "po_server (pg_options (ps_cells p' ! pp_data pool)) = po_server opts"
proof -
  from assms(1) [unfolded connect_postgres_def] obtain d p1 where
    1: "open_checked_pool x pe e (nc_data_auth cfg) (context_of cfg ''data'') Data p = (Inr d, p1)" and
    r: "bindM (case nc_secrets_auth cfg of
             Some auth \<Rightarrow> open_checked_pool x pe e auth (context_of cfg ''secrets'') Secrets
           | None \<Rightarrow> returnM \<lparr>pi_pool = pi_pool d, pi_worker = None\<rparr>) (\<lambda>i.
        returnM (\<lparr>pp_data = pi_pool d, pp_secrets = pi_pool i\<rparr>,
          spawned (pi_worker d) @ spawned (pi_worker i))) p1 = (Inr (pool, workers), p')"
    by (rule bindM_eq_InrE)
  obtain p0 where "create_pool x pe e (StaticUrl url) (context_of cfg ''data'') p = (Inr d, p0)" "ps_cells p1 = ps_cells p0"
    using open_checked_create [OF 1 [unfolded assms(2)]] .
  then obtain opts where o: "parse_connect_options pe url = Inr opts" and d: "pi_pool d = length (ps_cells p)"
    "po_server (pg_options (ps_cells p1 ! length (ps_cells p))) = po_server opts"
    "length (ps_cells p1) = Suc (length (ps_cells p))"
    using create_staticE by metis
  have "pp_data pool = pi_pool d \<and> (\<exists>cs. ps_cells p' = ps_cells p1 @ cs)"
  proof (cases "nc_secrets_auth cfg")
    case None
    with r show ?thesis by auto
  next
    case (Some auth)
    with r obtain i where "open_checked_pool x pe e auth (context_of cfg ''secrets'') Secrets p1 = (Inr i, p')"
      "pp_data pool = pi_pool d"
      by (auto elim!: bindM_eq_InrE)
    then show ?thesis by (metis open_checkedE)
  qed
  with d show thesis by (intro that [OF o]) (auto simp: nth_append)
qed


section \<open>Facts: rotation\<close>

lemma refresh_failure: "failure_keeps (frame cs cl sv) (refresh_once x pe wk)"
  unfolding refresh_once_def Let_def
  by (intro failure_keeps_bind frame_rules failure_keeps_total)
     (simp add: bindM_def reloadable_replace_def pool_close_def)

lemma refreshE:
  assumes "refresh_once x pe wk p = (Inr next, p')"
  obtains pool where "ps_cells p' = (ps_cells p)[bw_cell wk := pool]" and "ssl_required (pg_options pool)"
    and "ps_closed p' = pg_id (ps_cells p ! bw_cell wk) # ps_closed p" and "ps_servers p' = ps_servers p"
    and "\<And>S. leads_to x pe (BrokerAuth (bw_credential wk)) S \<Longrightarrow> po_server (pg_options pool) \<in> S"
proof -
  let ?cx = "bw_context wk"
  from assms obtain lease p1 p2 u opts pool p3 where
    1: "obtain_broker_lease x (bw_credential wk) (cx_application_name ?cx) p = (Inr lease, p1)"
    and 2: "record_lease_metrics x (pl_expires_at lease) (cx_pool_label ?cx) p1 = (Inr u, p2)"
    and o: "connect_options_from_lease pe lease (cx_application_name ?cx) (cx_pool_label ?cx) = Inr opts"
    and 3: "instantiate_pool pe opts ?cx p2 = (Inr pool, p3)"
    and r: "bindM (reloadable_replace (bw_cell wk) pool) (\<lambda>old_pool.
      bindM (pool_close old_pool) (\<lambda>_. returnM (pl_expires_at lease))) p3 = (Inr next, p')"
    unfolding refresh_once_def Let_def by (auto elim!: bindM_eq_InrE)
  let ?fr = "frame (ps_cells p) (ps_closed p) (ps_servers p)"
  have "?fr p1" using preservesD [OF frame_rules(2) frame_self] 1 by (metis snd_conv)
  then have "?fr p2" using preservesD [OF frame_rules(3)] 2 by (metis snd_conv)
  then have "?fr p3" using preservesD [OF frame_rules(4)] 3 by (metis snd_conv)
  then show thesis
    using r lease_options_ssl [OF o] lease_leads [OF 1 o] instantiate_InrD(2) [OF 3]
    by (intro that [of pool]) (auto simp: bindM_def reloadable_replace_def pool_close_def frame_def)
qed

lemma preserves_sleeps:
  "preserves (\<lambda>p. ps_sleeps p = l) (refresh_once x pe wk)"
  unfolding refresh_once_def Let_def
  by (intro preserves_bind preserves_obtain preserves_gauge preserves_instantiate preserves_lift preserves_return)
     (simp_all add: quiet_pred_def preserves_def reloadable_replace_def pool_close_def)

text \<open>The machine of one worker, on runs of any number of passes.\<close>

definition worker_inv :: "(PgConnectOptions \<Rightarrow> bool) \<Rightarrow> nat \<Rightarrow> BrokerLeaseWorker option \<times> 'b process \<Rightarrow> bool" where
  "worker_inv Q k s \<longleftrightarrow>
     pool_inv Q k (snd s) \<and> (case fst s of None \<Rightarrow> True | Some wk \<Rightarrow> bw_cell wk < k)
   \<and> (\<forall>opts. ssl_required opts \<longrightarrow> Q opts)"

definition before_refresh :: "('b, 'z) ext_scheme \<Rightarrow> time \<Rightarrow> 'b process \<Rightarrow> 'b process" where
  "before_refresh x expiry p =
     (let refresh_at = expiry - LEASE_REFRESH_GRACE_SECS * second; now = clock x (w_ticks (ps_world p)) in
      p\<lparr>ps_world := (ps_world p)\<lparr>w_ticks := Suc (w_ticks (ps_world p))\<rparr>,
        ps_sleeps := ps_sleeps p @ (if refresh_at > now then [refresh_at - now] else [])\<rparr>)"

lemma worker_pass_eq:
  "bw_next_expiry wk = Some expiry \<Longrightarrow>
   worker_pass x pe wk p =
     (case refresh_once x pe wk (before_refresh x expiry p) of
        (Inr next, p') \<Rightarrow> if next = None then (None, p') else (Some (wk\<lparr>bw_next_expiry := next\<rparr>), p')
      | (Inl err, p') \<Rightarrow> (Some wk, p'\<lparr>ps_sleeps := ps_sleeps p' @ [LEASE_REFRESH_RETRY_SECS * second]\<rparr>))"
  by (simp add: worker_pass_def before_refresh_def Let_def reading_def in_world_def tick_def sleep_def
      split: prod.split sum.split)

lemma pool_inv_sleeps [simp]: "pool_inv Q k (p\<lparr>ps_sleeps := l\<rparr>) = pool_inv Q k p"
  by (simp add: pool_inv_def)

lemma pool_inv_before: "pool_inv Q k p \<Longrightarrow> pool_inv Q k (before_refresh x expiry p)"
  by (erule cell_predD [OF cell_pred_pool_inv]) (simp_all add: before_refresh_def Let_def)

lemma worker_pass_inv:
  assumes "worker_inv Q k (Some wk, p)"
  shows "worker_inv Q k (worker_pass x pe wk p)"
proof (cases "bw_next_expiry wk")
  case None
  then show ?thesis using assms by (simp add: worker_pass_def worker_inv_def)
next
  case (Some expiry)
  obtain r p' where run: "refresh_once x pe wk (before_refresh x expiry p) = (r, p')" by fastforce
  have "preserves (pool_inv Q k) (refresh_once x pe wk)"
    using assms by (intro preserves_refresh) (auto simp: worker_inv_def)
  from preservesD [OF this pool_inv_before] have "pool_inv Q k p'"
    using assms run by (metis snd_conv worker_inv_def)
  then show ?thesis
    using assms run Some by (cases r) (auto simp: worker_pass_eq worker_inv_def)
qed

lemma worker_step_inv: "worker_inv Q k s \<Longrightarrow> worker_inv Q k (worker_step x pe s)"
  by (cases s; cases "fst s") (auto simp: worker_step_def intro: worker_pass_inv)

definition tasks_inv ::
  "(PgConnectOptions \<Rightarrow> bool) \<Rightarrow> nat \<Rightarrow> BrokerLeaseWorker option list \<times> 'b process \<Rightarrow> bool" where
  "tasks_inv Q k s \<longleftrightarrow> pool_inv Q k (snd s) \<and> (\<forall>w \<in> set (fst s). pred_option (\<lambda>wk. bw_cell wk < k) w)
     \<and> (\<forall>opts. ssl_required opts \<longrightarrow> Q opts)"

interpretation rotation: invariant_machine "tasks_step x pe" "tasks_inv Q k"
proof
  fix s :: "BrokerLeaseWorker option list \<times> 'a process" and i :: nat
  assume inv: "tasks_inv Q k s"
  obtain ws p where s: "s = (ws, p)" by fastforce
  show "tasks_inv Q k (tasks_step x pe s i)"
  proof (cases "i < length ws")
    case True
    then have "pred_option (\<lambda>wk. bw_cell wk < k) (ws ! i)" using inv by (simp add: tasks_inv_def s)
    then have "worker_inv Q k (ws ! i, p)"
      using inv by (cases "ws ! i") (simp_all add: worker_inv_def tasks_inv_def s)
    from worker_step_inv [OF this, of x pe] True inv show ?thesis
      by (auto simp: tasks_step_def tasks_inv_def worker_inv_def s split: prod.splits option.splits
          dest!: set_update_subset_insert [THEN subsetD])
  qed (use inv in \<open>simp add: tasks_step_def s\<close>)
qed

text \<open>The servers each cell may be connected to, now and after every rotation.\<close>

definition placed :: "('b, 'z) ext_scheme \<Rightarrow> pool_ext \<Rightarrow> (nat \<Rightarrow> string set) \<Rightarrow>
  BrokerLeaseWorker option list \<times> 'b process \<Rightarrow> bool" where
  "placed x pe F s \<longleftrightarrow>
     (\<forall>i < length (ps_cells (snd s)). po_server (pg_options (ps_cells (snd s) ! i)) \<in> F i)
   \<and> (\<forall>w \<in> set (fst s). pred_option (\<lambda>wk. leads_to x pe (BrokerAuth (bw_credential wk)) (F (bw_cell wk))) w)"

lemma pass_placed:
  assumes "\<forall>i < length (ps_cells p). po_server (pg_options (ps_cells p ! i)) \<in> F i"
    and "leads_to x pe (BrokerAuth (bw_credential wk)) (F (bw_cell wk))"
    and "worker_pass x pe wk p = (w, p')"
  shows "\<forall>i < length (ps_cells p'). po_server (pg_options (ps_cells p' ! i)) \<in> F i"
    and "pred_option (\<lambda>wk. leads_to x pe (BrokerAuth (bw_credential wk)) (F (bw_cell wk))) w"
proof -
  have "(\<forall>i < length (ps_cells p'). po_server (pg_options (ps_cells p' ! i)) \<in> F i)
      \<and> pred_option (\<lambda>wk. leads_to x pe (BrokerAuth (bw_credential wk)) (F (bw_cell wk))) w"
  proof (cases "bw_next_expiry wk")
    case None
    with assms show ?thesis by (auto simp: worker_pass_def)
  next
    case (Some expiry)
    let ?q = "before_refresh x expiry p"
    have q: "ps_cells ?q = ps_cells p" by (simp add: before_refresh_def Let_def)
    obtain r p1 where run: "refresh_once x pe wk ?q = (r, p1)" by fastforce
    have "\<forall>i < length (ps_cells p1). po_server (pg_options (ps_cells p1 ! i)) \<in> F i"
    proof (cases r)
      case (Inl err)
      from failure_keepsD [OF refresh_failure frame_self run [unfolded Inl]] q assms(1)
      show ?thesis by (simp add: frame_def)
    next
      case (Inr nx)
      obtain pool where "ps_cells p1 = (ps_cells p)[bw_cell wk := pool]"
        and "leads_to x pe (BrokerAuth (bw_credential wk)) (F (bw_cell wk)) \<Longrightarrow> po_server (pg_options pool) \<in> F (bw_cell wk)"
        using refreshE [OF run [unfolded Inr]] q by metis
      with assms(1,2) show ?thesis by (metis length_list_update nth_list_update_eq nth_list_update_neq)
    qed
    with assms(2,3) run Some show ?thesis by (cases r) (auto simp: worker_pass_eq split: if_splits)
  qed
  then show "\<forall>i < length (ps_cells p'). po_server (pg_options (ps_cells p' ! i)) \<in> F i"
    and "pred_option (\<lambda>wk. leads_to x pe (BrokerAuth (bw_credential wk)) (F (bw_cell wk))) w" by simp_all
qed

interpretation placement: invariant_machine "tasks_step x pe" "placed x pe F"
proof
  fix s :: "BrokerLeaseWorker option list \<times> 'a process" and i :: nat
  assume inv: "placed x pe F s"
  obtain ws p where s: "s = (ws, p)" by fastforce
  show "placed x pe F (tasks_step x pe s i)"
  proof (cases "i < length ws \<and> ws ! i \<noteq> None")
    case True
    then obtain wk where wk: "ws ! i = Some wk" by auto
    with True have "Some wk \<in> set ws" by (metis nth_mem)
    with inv have "leads_to x pe (BrokerAuth (bw_credential wk)) (F (bw_cell wk))"
      by (auto simp: placed_def s)
    moreover obtain w p' where run: "worker_pass x pe wk p = (w, p')" by fastforce
    ultimately have "\<forall>i < length (ps_cells p'). po_server (pg_options (ps_cells p' ! i)) \<in> F i"
      "pred_option (\<lambda>wk. leads_to x pe (BrokerAuth (bw_credential wk)) (F (bw_cell wk))) w"
      using pass_placed [of p F x pe wk w p'] inv by (simp_all add: placed_def s)
    moreover have "tasks_step x pe s i = (ws[i := w], p')"
      using True wk run by (simp add: tasks_step_def worker_step_def s)
    moreover have "\<forall>w' \<in> set (ws[i := w]). pred_option (\<lambda>wk. leads_to x pe (BrokerAuth (bw_credential wk)) (F (bw_cell wk))) w'"
    proof
      fix w' assume "w' \<in> set (ws[i := w])"
      then have "w' = w \<or> w' \<in> set ws" using set_update_subset_insert by fastforce
      with inv calculation(2) show "pred_option (\<lambda>wk. leads_to x pe (BrokerAuth (bw_credential wk)) (F (bw_cell wk))) w'"
        unfolding placed_def s fst_conv by blast
    qed
    ultimately show ?thesis by (simp add: placed_def)
  next
    case False
    then have "tasks_step x pe s i = s" by (auto simp: tasks_step_def worker_step_def s) (metis list_update_id)
    with inv show ?thesis by simp
  qed
qed

lemma connect_placed:
  assumes start: "connect_postgres x pe e cfg p = (Inr (pg, workers), p')" and "ps_cells p = []"
    and "nc_secrets_auth cfg = Some auth" and "leads_to x pe (nc_data_auth cfg) D" and "leads_to x pe auth S"
  shows "pp_data pg = 0" and "pp_secrets pg = 1" and "length (ps_cells p') = 2"
    and "placed x pe (\<lambda>i. if i = 0 then D else S) (map Some workers, p')"
proof -
  from start assms(3) obtain d p1 s where
    1: "open_checked_pool x pe e (nc_data_auth cfg) (context_of cfg ''data'') Data p = (Inr d, p1)"
    and 2: "open_checked_pool x pe e auth (context_of cfg ''secrets'') Secrets p1 = (Inr s, p')"
    and pg: "pg = \<lparr>pp_data = pi_pool d, pp_secrets = pi_pool s\<rparr>"
    and ws: "workers = spawned (pi_worker d) @ spawned (pi_worker s)"
    unfolding connect_postgres_def by (auto elim!: bindM_eq_InrE)
  obtain p0 where c1: "create_pool x pe e (nc_data_auth cfg) (context_of cfg ''data'') p = (Inr d, p0)"
    "ps_cells p1 = ps_cells p0" using open_checked_create [OF 1] .
  obtain p2 where c2: "create_pool x pe e auth (context_of cfg ''secrets'') p1 = (Inr s, p2)"
    "ps_cells p' = ps_cells p2" using open_checked_create [OF 2] .
  note d = create_placed [OF c1(1) assms(4)] and s = create_placed [OF c2(1) assms(5)]
  from d(1) obtain dp where dp: "ps_cells p1 = [dp]" "po_server (pg_options dp) \<in> D"
    using c1(2) assms(2) by auto
  from s(1) obtain sp where sp: "ps_cells p' = [dp, sp]" "po_server (pg_options sp) \<in> S"
    using c2(2) dp by auto
  show "pp_data pg = 0" "pp_secrets pg = 1" "length (ps_cells p') = 2"
    using pg d(2) s(2) assms(2) dp sp by simp_all
  show "placed x pe (\<lambda>i. if i = 0 then D else S) (map Some workers, p')"
    using d(3) s(3) assms(2) dp sp ws
    by (auto simp: placed_def spawned_def less_Suc_eq split: option.splits if_splits)
qed

lemma connect_tasks_inv:
  assumes start: "connect_postgres x pe e cfg p = (Inr (pg, workers), p')" and init: "ps_cells p = []" "ps_closed p = []"
  shows "tasks_inv (ssl_policy e) (length (ps_cells p')) (map Some workers, p')"
proof -
  have "pool_inv (ssl_policy e) 0 p" by (simp add: pool_inv_def init)
  from preservesD [OF preserves_connect this] start have "pool_inv (ssl_policy e) 0 p'" by (metis snd_conv)
  then have "pool_inv (ssl_policy e) (length (ps_cells p')) p'" by (simp add: pool_inv_def)
  then show ?thesis using connectE(5) [OF start] by (simp add: tasks_inv_def ssl_required_policy)
qed

end
