(* ===== verification/Reference_Client.thy ===== *)
theory Reference_Client
  imports Reference Pool
begin

text \<open>
  A host, an attested broker and a transport on which the broker client starts in its enforced
  mode, and a process with a server: concrete parameters for the witnesses about trust and pools.
\<close>

section \<open>The broker client\<close>

definition no_env :: env where
  "no_env = (\<lambda>key. Unset)"

definition ref_cert :: x509_cert where
  "ref_cert = \<lparr>xc_common_names = [Some ''broker''], xc_extension = (\<lambda>oid. Inr (Some [])), xc_public_key = [9],
     xc_uri_sans = Some [''spiffe://Prod.Example/broker'']\<rparr>"

definition ref_ratls :: ratls where
  "ref_ratls = \<lparr>parse_x509 = (\<lambda>der. Inr ref_cert), der_octets = (\<lambda>bs. Inr (3 # replicate 7 0)),
     quote_parse = (\<lambda>q. Inr (SgxEnclave \<lparr>er_mr_enclave = [1], er_mr_signer = [2], er_isv_svn = 5,
       er_report_data = RA_TLS_BINDING_TAG @ as_bytes '':'' @ [9]\<rparr>)),
     sha512 = id, get_collateral = (\<lambda>url q. Inr []),
     qvl_verify = (\<lambda>q col now. Inr \<lparr>vr_report = SgxEnclave \<lparr>er_mr_enclave = [1], er_mr_signer = [2], er_isv_svn = 5,
       er_report_data = []\<rparr>, vr_status = ''UpToDate''\<rparr>),
     unix_now = Inr 0, event_log_json = (\<lambda>l. Inr [\<lparr>ev_imr = 3, ev_event = ''compose-hash'', ev_event_payload = l\<rparr>]),
     ratls_hex = hex_text\<rparr>"

definition ref_host :: host where
  "ref_host = \<lparr>read_file = (\<lambda>path. Inr []), read_to_string = (\<lambda>path. Inr []),
     parse_json = (\<lambda>s. Inr (JObject [(''allowed_mrenclave'', JArray [JString ''01''])])),
     parse_url = (\<lambda>s. Inr \<lparr>u_scheme = ''https'', u_host = Some ''localhost''\<rparr>),
     pem_items = (\<lambda>bs. [Inr (X509Certificate [1]), Inr (Pkcs8Key [2])]), lower_unicode = id\<rparr>"

definition enforced_env :: env where
  "enforced_env = no_env(''SECRET_BROKER_ENDPOINT'' := Present ''https://localhost'',
     ''SECRET_BROKER_CLIENT_POLICY_FILE'' := Present ''policy.json'',
     ''SECRET_BROKER_CLIENT_SUBJECTS'' := Present ''broker'',
     ''SECRET_BROKER_CLIENT_CERT'' := Present ''cert.pem'', ''SECRET_BROKER_CLIENT_KEY'' := Present ''key.pem'',
     ''SECRET_BROKER_PCCS_URL'' := Present ''https://pccs'', ''API_KEY'' := Present ''k1'')"

definition ref_transport :: transport where
  "ref_transport = \<lparr>tokio_current = Inr (), safe_versions = Inr (), accepts_identity = (\<lambda>certs key. Inr ()),
     root_add = (\<lambda>c. Inr ()), pem_certs = (\<lambda>bs. [Inr [1]]), webpki_builder = (\<lambda>roots. Inr ()),
     webpki_chain = (\<lambda>roots name ee ints. Inr ()), workload_connect = (\<lambda>s. Inr ()),
     workload_svid = (\<lambda>s. Inl ''none''), workload_bundles = (\<lambda>s. Inl ''none''), key_der = (\<lambda>k. Some k),
     set_scheme = (\<lambda>s u. u\<lparr>u_scheme := s\<rparr>), url_text = (\<lambda>u. u_scheme u @ ''://'' @ the (u_host u)),
     from_shared = (\<lambda>s. Inr \<lparr>uri_host = Some ''localhost'', uri_port = None\<rparr>),
     tcp_connect = (\<lambda>t a. TcpConnected), dns_name = (\<lambda>s. Inr ()),
     webpki_signature = (\<lambda>v message cert dss. Inr ()), tls12_signature = (\<lambda>message cert dss. Inl ''TLS 1.3 only''),
     tls13_signature = (\<lambda>message cert dss. if dss = message then Inr () else Inl ''bad signature''), provider_schemes = [1027],
     tls_handshake = (\<lambda>cfg vf name addr. map_err (\<lambda>_. ''rejected'')
       (bindE (vf_server_cert vf [] []) (\<lambda>_. vf_signature vf Tls13 [7] [] [7]))),
     connect_with_connector = (\<lambda>u f. f u), enabled_roots = Inr (), connect_plain = (\<lambda>u. Inr ())\<rparr>"

lemma ref_tonic: "tonic_connects ref_transport"
  by (simp add: tonic_connects_def ref_transport_def)

lemma ref_rustls: "rustls_verifies ref_transport"
  by (auto simp: rustls_verifies_def ref_transport_def bindE_eq_Inr)

definition ref_client_ext :: client_ext where
  "ref_client_ext = \<lparr>ce_transport = ref_transport, ce_ratls = ref_ratls, ce_host = ref_host, ce_debug_build = False\<rparr>"

definition ref_client_config :: SecretBrokerClientConfig where
  "ref_client_config = \<lparr>sc_endpoint = \<lparr>u_scheme = ''https'', u_host = Some ''localhost''\<rparr>,
     sc_attestation_mode = Enforced,
     sc_policy = \<lparr>policy_name = ''default'', measurement = allow_all\<lparr>allowed_mrenclave := {''01''}\<rparr>\<rparr>,
     sc_pccs_url = Some ''https://pccs'', sc_subject_allowlist = Some {''broker''},
     sc_client_cert_chain = Some [[1]], sc_client_key = Some [2], sc_client_identity_pem = Some [],
     sc_timeout_seconds = 10, sc_spiffe_socket_path = None, sc_my_spiffe_id = None\<rparr>"

lemma ref_strings:
  "to_ascii_lowercase (trim ''enforced'') = ''enforced''" "to_lowercase id ''01'' = ''01''"
  "to_lowercase id (trim ''broker'') = ''broker''" "split_on CHR '','' ''broker'' = [''broker'']"
  by code_simp+

lemma ref_client_config: "client_config_from_env ref_host False enforced_env = Inr ref_client_config"
  by (simp add: client_config_from_env_def enforced_env_def no_env_def env_ok_def ref_host_def mode_from_env_var_def
      Let_def ref_strings ensure_attestation_mode_def policy_from_env_def policy_from_file_def policy_document_def
      string_set_def map_filter_simps is_enforced_def subject_allowlist_from_env_def load_client_identity_def
      client_timeout_def parse_cert_chain_def parse_private_key_def allow_all_def ref_client_config_def)

definition ref_verifier :: RaTlsServerVerifier where
  "ref_verifier = \<lparr>rv_policy = sc_policy ref_client_config,
     rv_subject_allowlist = sc_subject_allowlist ref_client_config, rv_pccs_url = sc_pccs_url ref_client_config\<rparr>"

lemma ref_ratls_accepts: "ratls_verify_server_cert ref_ratls e id (Inr ()) ref_verifier [] = Inr ()"
proof -
  have "trim ''broker'' = ''broker''" "to_lowercase id ''broker'' = ''broker''"
    "to_lowercase id (hex_text [1]) = ''01''"
    by code_simp+
  then show ?thesis
    by (simp add: ratls_verify_server_cert_def verify_peer_certificate_def ref_ratls_def ref_cert_def ref_verifier_def
        ref_client_config_def check_subject_def attestation_from_der_def get_extension_octets_def verify_with_ra_pubkey_def
        detect_vendor_from_quote_def u16_le_def u32_le_def TEE_TYPE_TDX_def TEE_TYPE_SGX_def Let_def
        ratls_decode_report_data_def expected_report_data_def resolve_pccs_url_def decode_compose_hash_def
        check_compose_hash_def expects_compose_hash_def allows_compose_hash_def allow_all_def
        enforce_measurement_policy_def allows_sgx_measurements_def compose_event_def nth_Cons' flip: as_bytes_append)
qed

lemma ref_client: "\<exists>ch. client_from_env ref_transport ref_ratls ref_host False enforced_env = Inr ch"
proof -
  let ?cfg = "\<lparr>tc_roots = [], tc_client_auth = Some ([[1]], [2]), tc_alpn = ALPN_H2, tc_verifier = RaTlsVerifier ref_verifier\<rparr>"
  have tls: "build_tls_config ref_transport ref_host enforced_env ref_client_config = Inr (Some ?cfg)"
    by (simp add: build_tls_config_def build_ratls_tls_config_def ref_client_config_def ref_transport_def ref_verifier_def)
  have v: "verify_server ref_transport ref_ratls enforced_env id ?cfg name [] [] = Inr ()" for name
    using ref_ratls_accepts [of enforced_env] by (simp add: verify_server_def ref_transport_def)
  have "verify_signature ref_transport ?cfg Tls13 [7] [] [7] = Inr ()"
    by (simp add: verify_signature_def ratls_verify_tls13_signature_def ref_transport_def)
  with v have "vf_server_cert (callbacks ref_transport ref_ratls enforced_env id ?cfg name) [] [] = Inr ()"
    "vf_signature (callbacks ref_transport ref_ratls enforced_env id ?cfg name) Tls13 [7] [] [7] = Inr ()" for name
    by (simp_all add: callbacks_def)
  then have "tls_connector ref_transport ref_ratls enforced_env id ?cfg t \<lparr>uri_host = Some ''localhost'', uri_port = None\<rparr>
      = Inr ()" for t
    by (simp add: tls_connector_def ref_transport_def Let_def split: option.split)
  then have "\<exists>ch. build_channel ref_transport ref_ratls enforced_env id u t (Some ?cfg) False = Inr ch" for u t
    by (simp add: build_channel_def ref_transport_def Let_def)
  then show ?thesis
    by (simp add: client_from_env_def ref_client_config client_new_def tls)
       (simp add: ref_client_config_def ref_host_def)
qed

lemma ref_flags: "env_flag enforced_env ''SECURE_DB_SKIP_MIGRATIONS'' = Inr False"
  "env_flag enforced_env ''SECURE_DB_ALLOW_UNLISTED_EXTENSIONS'' = Inr False"
  by (simp_all add: env_flag_def enforced_env_def no_env_def)


section \<open>A server and a broker that leases credentials\<close>

definition lease_env :: "nat ext" where
  "lease_env = ref_env\<lparr>adapter_issue_postgres_credentials := (\<lambda>p b.
     (Inr \<lparr>pl_database_url = ''postgres://db'', pl_username = Some ''lease'', pl_password = Some ''pw'',
       pl_expires_at = Some (600 * second)\<rparr>, b))\<rparr>"

definition ref_pool_ext :: pool_ext where
  "ref_pool_ext = \<lparr>
     parse_connect_options = (\<lambda>url. Inr \<lparr>po_server = url, po_username = None, po_password = None,
       po_ssl_mode = Prefer, po_application_name = None\<rparr>),
     connect_with = (\<lambda>n opts. Inr ()), migrator_run = (\<lambda>n s. Inr (s\<lparr>sv_migrated := True\<rparr>)),
     server_reply = (\<lambda>n. None), client_ext_at = (\<lambda>n. ref_client_ext), client_error_text = (\<lambda>err. ''''), lower_url = id,
     enabled = \<lparr>ft_pgaudit = True, ft_pg_stat_statements = False, ft_timescaledb = False, ft_citus = False\<rparr>\<rparr>"

definition ref_process :: "nat process" where
  "ref_process = \<lparr>ps_world = ref_world, ps_cells = [], ps_closed = [],
     ps_servers = (\<lambda>s. \<lparr>sv_allowlist = [''plpgsql''], sv_extensions = [''plpgsql'', ''pgcrypto''], sv_migrated = False\<rparr>),
     ps_sleeps = [], ps_gauges = []\<rparr>"

definition ref_config :: NativeConfig where
  "ref_config = \<lparr>nc_data_auth = BrokerAuth \<lparr>bc_audience = ''db'', bc_scope = [], bc_ttl_seconds = 900\<rparr>,
     nc_secrets_auth = None, nc_max_connections = 20, nc_min_connections = 5,
     nc_connect_timeout_seconds = 10, nc_idle_timeout_seconds = 300, nc_application_name = ''app''\<rparr>"

definition ref_pool :: PgPoolRec where
  "ref_pool = \<lparr>pg_id = 0, pg_options = \<lparr>po_server = ''postgres://db'', po_username = None, po_password = None,
     po_ssl_mode = Require, po_application_name = None\<rparr>, pg_max_connections = 20, pg_min_connections = 5,
     pg_acquire_timeout = 10, pg_idle_timeout = 300\<rparr>"

lemma ref_connect:
  "\<exists>wk p'. connect_postgres lease_env ref_pool_ext enforced_env ref_config ref_process
     = (Inr (\<lparr>pp_data = 0, pp_secrets = 0\<rparr>, [wk]), p')"
proof -
  have "\<exists>ch. \<forall>n. start_client ref_pool_ext enforced_env n = Inr ch"
    using ref_client by (simp add: start_client_def ref_pool_ext_def ref_client_ext_def Let_def)
  then obtain ch where start: "\<And>n. start_client ref_pool_ext enforced_env n = Inr ch" by blast
  show ?thesis
    by (simp add: start [unfolded ref_pool_ext_def] connect_postgres_def open_checked_pool_def create_pool_def ref_config_def create_broker_pool_def
      bindM_def reading_def in_world_def ref_pool_ext_def obtain_broker_lease_def map_errM_def issue_postgres_credentials_def
      counted_def broker_call_def lease_env_def record_lease_metrics_def connect_options_from_lease_def
      instantiate_pool_def reloadable_new_def reloadable_load_def run_migrations_def ref_flags
      ensure_postgres_extensions_def upsert_extension_allowlist_def create_extension_def on_server_def whenM_def
      enforce_extension_allowlist_def unlisted_def spawned_def context_of_def Let_def ref_process_def ref_world_def)
qed


end
