(* ===== verification/Cli.thy ===== *)
theory Cli
  imports Pool "HOL-Library.List_Lexorder"
begin

text \<open>
  The command line tool (\<^verbatim>\<open>src/bin/secure-database-cli.rs\<close>): the migrate command with the
  environment it prepares and the repair of roles the broker's leases left behind, on a catalog
  of roles and owned objects. The URL parser is an argument; \<open>fault\<close> says which statements the
  server refuses.
\<close>

section \<open>Arguments and environment\<close>

datatype cli_error =
    NoDatabaseUrl
  | NoOwnerRole
  | OwnerMissing string
  | SqlFailed string
  | BadLifecycle string
  | PlaintextMissing string
  | PlaintextEmpty string
  | BrokerFailed anyhow
  | ClientFailed channel_error
  | MigrationFailed native_error
  | CreateDirFailed string string
  | SerializeFailed string
  | WriteFailed string string
  | ChmodFailed string string
  | RenameFailed string string string
  | LoggingFailed string

definition resolve_database_url :: "env \<Rightarrow> string option \<Rightarrow> cli_error + string" where
  "resolve_database_url e explicit_database_url =
     (case (case explicit_database_url of Some u \<Rightarrow> Some u | None \<Rightarrow> env_ok e ''SECURE_DB_URL'') of
        None \<Rightarrow> Inl NoDatabaseUrl
      | Some url \<Rightarrow> if trim url = [] then Inl NoDatabaseUrl else Inr url)"

text \<open>\<open>url_username\<close> is \<^verbatim>\<open>Url::parse(..).username()\<close>, \<open>None\<close> when the text is no URL.\<close>

definition owner_role_from_database_url :: "(string \<Rightarrow> string option) \<Rightarrow> string \<Rightarrow> string option" where
  "owner_role_from_database_url url_username database_url =
     (case url_username database_url of
        None \<Rightarrow> None
      | Some u \<Rightarrow> (let username = trim u in if username = [] then None else Some username))"

record MigrateArgs =
  ma_database_url :: "string option"
  ma_pool_max :: "32 word option"
  ma_pool_min :: "32 word option"
  ma_connect_timeout :: "64 word option"
  ma_idle_timeout :: "64 word option"
  ma_application_name :: "string option"
  ma_owner_role :: "string option"
  ma_repair_lease_audiences :: "string list"

definition set_opt :: "string \<Rightarrow> string option \<Rightarrow> env \<Rightarrow> env" where
  "set_opt key v e = (case v of None \<Rightarrow> e | Some s \<Rightarrow> e(key := Present s))"

definition migrate_env :: "MigrateArgs \<Rightarrow> string \<Rightarrow> env \<Rightarrow> env" where
  "migrate_env a url e =
     set_opt ''SECURE_DB_APP_NAME'' (ma_application_name a)
    (set_opt ''SECURE_DB_IDLE_TIMEOUT'' (map_option (\<lambda>n. dec_string (unat n)) (ma_idle_timeout a))
    (set_opt ''SECURE_DB_CONNECT_TIMEOUT'' (map_option (\<lambda>n. dec_string (unat n)) (ma_connect_timeout a))
    (set_opt ''SECURE_DB_POOL_MIN'' (map_option (\<lambda>n. dec_string (unat n)) (ma_pool_min a))
    (set_opt ''SECURE_DB_POOL_MAX'' (map_option (\<lambda>n. dec_string (unat n)) (ma_pool_max a))
    (e(''SECURE_DB_ALLOW_STATIC'' := Present ''1'',
       ''SECURE_DB_ALLOW_DIRECT_BOOTSTRAP'' := Present ''1'',
       ''SECURE_DB_CREDENTIAL_SOURCE'' := Present ''static'',
       ''SECURE_DB_URL'' := Present url))))))"


section \<open>Identifiers\<close>

definition ascii_alphanumeric :: "char \<Rightarrow> bool" where
  "ascii_alphanumeric c = (let n = (of_char c :: nat) in
     (48 \<le> n \<and> n \<le> 57) \<or> (65 \<le> n \<and> n \<le> 90) \<or> (97 \<le> n \<and> n \<le> 122))"

definition sanitize_identifier :: "string \<Rightarrow> string option" where
  "sanitize_identifier input =
     (let sanitized = filter (\<lambda>c. ascii_alphanumeric c \<or> c = CHR ''_'' \<or> c = CHR ''-'') input in
      if sanitized = [] then None else Some (to_ascii_lowercase sanitized))"

fun double_quotes :: "string \<Rightarrow> string" where
  "double_quotes [] = []"
| "double_quotes (c # s) =
     (if c = CHR 0x22 then CHR 0x22 # CHR 0x22 # double_quotes s else c # double_quotes s)"

definition quote_identifier :: "string \<Rightarrow> string" where
  "quote_identifier input = CHR 0x22 # double_quotes input @ [CHR 0x22]"

text \<open>PostgreSQL's reading of a quoted identifier after its opening quote.\<close>

fun read_quoted :: "string \<Rightarrow> (string \<times> string) option" where
  "read_quoted [] = None"
| "read_quoted (c # s) =
     (if c = CHR 0x22 then
        (case s of
           d # r \<Rightarrow> if d = CHR 0x22 then map_option (apfst (Cons CHR 0x22)) (read_quoted r) else Some ([], s)
         | [] \<Rightarrow> Some ([], []))
      else map_option (apfst (Cons c)) (read_quoted s))"

text \<open>SQL's \<^verbatim>\<open>LIKE ... ESCAPE\<close> with a backslash; a wildcard stands for whole characters.\<close>

definition drop_char :: "string \<Rightarrow> string" where
  "drop_char s = dropWhile (\<lambda>c. 128 \<le> (of_char c :: nat) \<and> (of_char c :: nat) \<le> 191) (tl s)"

lemma length_drop_char: "s \<noteq> [] \<Longrightarrow> length (drop_char s) < length s"
  using length_dropWhile_le [of "\<lambda>c. 128 \<le> (of_char c :: nat) \<and> (of_char c :: nat) \<le> 191" "tl s"]
  by (cases s) (auto simp: drop_char_def)

function like :: "string \<Rightarrow> string \<Rightarrow> bool" where
  "like [] s = (s = [])"
| "like (c # p) s =
     (if c = CHR 0x25 then
        (if like p s then True else if s = [] then False else like (c # p) (drop_char s))
      else if c = CHR ''_'' then (if s = [] then False else like p (drop_char s))
      else if c = CHR 0x5C then
        (case p of [] \<Rightarrow> False | d # q \<Rightarrow> (case s of [] \<Rightarrow> False | x # r \<Rightarrow> x = d \<and> like q r))
      else (case s of [] \<Rightarrow> False | x # r \<Rightarrow> x = c \<and> like p r))"
  by pat_completeness auto
termination
  by (relation "measure (\<lambda>(p, s). length p + length s)") (auto dest: length_drop_char)


section \<open>Repair of lease roles\<close>

record catalog =
  pc_roles :: "string list"
  pc_owned :: "(string \<times> string) list"
  pc_steps :: nat

definition cat_stmt ::
  "(nat \<Rightarrow> string option) \<Rightarrow> (catalog \<Rightarrow> string + 'a \<times> catalog) \<Rightarrow> (cli_error, catalog, 'a) op" where
  "cat_stmt fault f c =
     (let c1 = c\<lparr>pc_steps := Suc (pc_steps c)\<rparr> in
      case fault (pc_steps c) of
        Some err \<Rightarrow> (Inl (SqlFailed err), c1)
      | None \<Rightarrow> (case f c1 of Inl err \<Rightarrow> (Inl (SqlFailed err), c1) | Inr (a, c2) \<Rightarrow> (Inr a, c2)))"

definition role_exists :: "string \<Rightarrow> catalog \<Rightarrow> string + bool \<times> catalog" where
  "role_exists role c = Inr (role \<in> set (pc_roles c), c)"

text \<open>\<^verbatim>\<open>ORDER BY rolname\<close>: the type \<^verbatim>\<open>name\<close> is compared byte by byte.\<close>

definition lease_roles :: "string \<Rightarrow> string \<Rightarrow> catalog \<Rightarrow> string + string list \<times> catalog" where
  "lease_roles pattern owner_role c =
     Inr (sort_key (map (of_char :: char \<Rightarrow> nat))
           (filter (\<lambda>role. like pattern role \<and> role \<noteq> owner_role) (pc_roles c)), c)"

definition reassign_owned :: "string \<Rightarrow> string \<Rightarrow> catalog \<Rightarrow> string + unit \<times> catalog" where
  "reassign_owned lease_role owner_role c =
     (if lease_role \<notin> set (pc_roles c) \<or> owner_role \<notin> set (pc_roles c) then Inl ''role does not exist''
      else Inr ((), c\<lparr>pc_owned := map (\<lambda>(obj, r). (obj, if r = lease_role then owner_role else r)) (pc_owned c)\<rparr>))"

definition drop_owned :: "string \<Rightarrow> catalog \<Rightarrow> string + unit \<times> catalog" where
  "drop_owned lease_role c =
     (if lease_role \<notin> set (pc_roles c) then Inl ''role does not exist''
      else Inr ((), c\<lparr>pc_owned := filter (\<lambda>(obj, r). r \<noteq> lease_role) (pc_owned c)\<rparr>))"

definition drop_role :: "string \<Rightarrow> catalog \<Rightarrow> string + unit \<times> catalog" where
  "drop_role lease_role c = Inr ((), c\<lparr>pc_roles := filter (\<lambda>r. r \<noteq> lease_role) (pc_roles c)\<rparr>)"

text \<open>The roles named in the three statements travel through the text as quoted identifiers.\<close>

definition quoted_role :: "string \<Rightarrow> string" where
  "quoted_role role =
     (case read_quoted (tl (quote_identifier role)) of Some (r, []) \<Rightarrow> r | _ \<Rightarrow> [])"

fun repair_roles :: "(nat \<Rightarrow> string option) \<Rightarrow> string \<Rightarrow> string list \<Rightarrow> (cli_error, catalog, unit) op" where
  "repair_roles fault owner_role [] = returnM ()"
| "repair_roles fault owner_role (lease_role # rest) =
     bindM (cat_stmt fault (reassign_owned (quoted_role lease_role) (quoted_role owner_role))) (\<lambda>_.
     bindM (cat_stmt fault (drop_owned (quoted_role lease_role))) (\<lambda>_.
     bindM (cat_stmt fault (drop_role (quoted_role lease_role))) (\<lambda>_.
     repair_roles fault owner_role rest)))"

fun repair_audiences ::
  "(nat \<Rightarrow> string option) \<Rightarrow> string \<Rightarrow> string list \<Rightarrow> string list \<Rightarrow> (cli_error, catalog, unit) op" where
  "repair_audiences fault owner_role seen [] = returnM ()"
| "repair_audiences fault owner_role seen (audience # rest) =
     (case sanitize_identifier audience of
        None \<Rightarrow> repair_audiences fault owner_role seen rest
      | Some pfx \<Rightarrow>
          if pfx \<in> set seen then repair_audiences fault owner_role seen rest
          else
            bindM (cat_stmt fault (lease_roles (pfx @ [CHR 0x5C, CHR ''_'', CHR 0x25]) owner_role)) (\<lambda>roles.
            bindM (repair_roles fault owner_role roles) (\<lambda>_.
            repair_audiences fault owner_role (pfx # seen) rest)))"

text \<open>The first step opens the one connection the others use.\<close>

definition repair_postgres_lease_ownership ::
  "(nat \<Rightarrow> string option) \<Rightarrow> string \<Rightarrow> string list \<Rightarrow> (cli_error, catalog, unit) op" where
  "repair_postgres_lease_ownership fault owner_role audiences =
     (if audiences = [] then returnM ()
      else
        bindM (cat_stmt fault (\<lambda>c. Inr ((), c))) (\<lambda>_.
        bindM (cat_stmt fault (role_exists owner_role)) (\<lambda>owner_exists.
        if \<not> owner_exists then throwM (OwnerMissing owner_role)
        else repair_audiences fault owner_role [] audiences)))"


section \<open>The migrate command\<close>

record 'b machine =
  mc_env :: env
  mc_catalog :: catalog
  mc_process :: "'b process"

definition on_catalog :: "('e, catalog, 'a) op \<Rightarrow> ('e, 'b machine, 'a) op" where
  "on_catalog f m = (case f (mc_catalog m) of (r, c) \<Rightarrow> (r, m\<lparr>mc_catalog := c\<rparr>))"

definition on_process :: "('e, 'b process, 'a) op \<Rightarrow> ('e, 'b machine, 'a) op" where
  "on_process f m = (case f (mc_process m) of (r, p) \<Rightarrow> (r, m\<lparr>mc_process := p\<rparr>))"

definition migrate_postgres :: "('b, 'z) ext_scheme \<Rightarrow> pool_ext \<Rightarrow> (string \<Rightarrow> string option) \<Rightarrow>
  (nat \<Rightarrow> string option) \<Rightarrow> MigrateArgs \<Rightarrow> (cli_error, 'b machine, unit) op" where
  "migrate_postgres x pe url_username fault a m =
     (bindM (liftE (resolve_database_url (mc_env m) (ma_database_url a))) (\<lambda>url.
      bindM (liftE (ok_or NoOwnerRole (case ma_owner_role a of
               Some role \<Rightarrow> Some role
             | None \<Rightarrow> owner_role_from_database_url url_username url))) (\<lambda>owner_role.
      bindM (\<lambda>m. (Inr (), m\<lparr>mc_env := migrate_env a url (mc_env m)\<rparr>)) (\<lambda>_.
      bindM (on_catalog (repair_postgres_lease_ownership fault owner_role (ma_repair_lease_audiences a))) (\<lambda>_.
      bindM (\<lambda>m. on_process (map_errM MigrationFailed (connect_native x pe (mc_env m))) m) (\<lambda>_.
      returnM ())))))) m"


section \<open>Facts\<close>

lemma read_double_quotes:
  "(\<And>r. rest \<noteq> CHR 0x22 # r) \<Longrightarrow> read_quoted (double_quotes s @ CHR 0x22 # rest) = Some (s, rest)"
  by (induction s) (auto split: list.split)

lemma quoted_role_id [simp]: "quoted_role role = role"
  using read_double_quotes [of "[]" role] by (simp add: quoted_role_def quote_identifier_def)

text \<open>Predicates of the catalog that statements keep.\<close>

lemma preserves_cat_stmt [preserves_rules]:
  assumes "\<And>c a c'. P c \<Longrightarrow> f c = Inr (a, c') \<Longrightarrow> P c'" and "\<And>c n. P c \<Longrightarrow> P (c\<lparr>pc_steps := n\<rparr>)"
  shows "preserves P (cat_stmt fault f)"
  using assms by (auto simp: preserves_def cat_stmt_def Let_def split: option.split sum.split) blast

lemma cat_stmt_InrD:
  assumes "cat_stmt fault f c = (Inr a, c')"
  shows "f (c\<lparr>pc_steps := Suc (pc_steps c)\<rparr>) = Inr (a, c')"
  using assms by (auto simp: cat_stmt_def Let_def split: option.splits sum.splits)

lemma yields_lease_roles: "yields (\<lambda>roles. owner \<notin> set roles) (cat_stmt fault (lease_roles pattern owner))"
  by (auto simp: yields_def lease_roles_def dest!: cat_stmt_InrD)

text \<open>
  Objects are never lost: what \<^verbatim>\<open>DROP OWNED\<close> would drop has just been handed to the owner. And
  the owner role stays.
\<close>

definition repair_inv :: "string list \<Rightarrow> string \<Rightarrow> catalog \<Rightarrow> bool" where
  "repair_inv objs owner c \<longleftrightarrow> map fst (pc_owned c) = objs \<and> owner \<in> set (pc_roles c)"

lemma repair_inv_steps [simp]: "repair_inv objs owner (c\<lparr>pc_steps := n\<rparr>) = repair_inv objs owner c"
  by (simp add: repair_inv_def)

lemma reassign_keeps: "preserves (repair_inv objs owner) (cat_stmt fault (reassign_owned r owner))"
  by (rule preserves_cat_stmt) (auto simp: reassign_owned_def repair_inv_def split_def split: if_splits)

lemma drop_role_keeps: "r \<noteq> owner \<Longrightarrow> preserves (repair_inv objs owner) (cat_stmt fault (drop_role r))"
  by (rule preserves_cat_stmt) (auto simp: drop_role_def repair_inv_def)

lemma drop_owned_keeps:
  assumes "repair_inv objs owner c" and "\<forall>(obj, r') \<in> set (pc_owned c). r' \<noteq> r"
  shows "repair_inv objs owner (snd (cat_stmt fault (drop_owned r) c))"
proof -
  have "filter (\<lambda>(obj, r'). r' \<noteq> r) (pc_owned c) = pc_owned c"
    using assms(2) by (auto simp: filter_id_conv)
  with assms(1) show ?thesis
    by (auto simp: cat_stmt_def drop_owned_def repair_inv_def Let_def split: option.split)
qed

lemma reassign_empties:
  "cat_stmt fault (reassign_owned r owner) c = (Inr u, c') \<Longrightarrow> r \<noteq> owner \<Longrightarrow>
     \<forall>(obj, r') \<in> set (pc_owned c'). r' \<noteq> r"
  by (auto dest!: cat_stmt_InrD simp: reassign_owned_def split: if_splits)

lemma reassign_drop_keeps:
  assumes "r \<noteq> owner" and "\<And>u. preserves (repair_inv objs owner) (f u)"
  shows "preserves (repair_inv objs owner)
    (bindM (cat_stmt fault (reassign_owned r owner)) (\<lambda>_. bindM (cat_stmt fault (drop_owned r)) f))"
proof (rule preservesI)
  fix c assume inv: "repair_inv objs owner c"
  obtain res c1 where run: "cat_stmt fault (reassign_owned r owner) c = (res, c1)" by fastforce
  from preservesD [OF reassign_keeps inv, of fault r] run have inv1: "repair_inv objs owner c1" by simp
  show "repair_inv objs owner (snd (bindM (cat_stmt fault (reassign_owned r owner))
      (\<lambda>_. bindM (cat_stmt fault (drop_owned r)) f) c))"
  proof (cases res)
    case (Inl e)
    with run inv1 show ?thesis by simp
  next
    case (Inr u)
    with run have "repair_inv objs owner (snd (cat_stmt fault (drop_owned r) c1))"
      using drop_owned_keeps [OF inv1 reassign_empties [OF _ assms(1)]] by simp
    with run Inr assms(2) show ?thesis
      by (cases "cat_stmt fault (drop_owned r) c1") (auto simp: bindM_def preserves_def split: sum.split)
  qed
qed

lemma repair_roles_keeps:
  "owner \<notin> set roles \<Longrightarrow> preserves (repair_inv objs owner) (repair_roles fault owner roles)"
proof (induction roles)
  case (Cons r roles)
  then have "r \<noteq> owner" by auto
  then have "preserves (repair_inv objs owner)
      (bindM (cat_stmt fault (drop_role r)) (\<lambda>_. repair_roles fault owner roles))"
    using Cons by (intro preserves_bind drop_role_keeps) auto
  with \<open>r \<noteq> owner\<close> show ?case by (simp add: reassign_drop_keeps)
qed simp

lemma lease_roles_keeps: "preserves (repair_inv objs owner) (cat_stmt fault (lease_roles pattern owner))"
  by (rule preserves_cat_stmt) (auto simp: lease_roles_def)

lemma repair_audiences_keeps:
  "preserves (repair_inv objs owner) (repair_audiences fault owner seen audiences)"
proof (induction audiences arbitrary: seen)
  case (Cons a audiences)
  then show ?case
    by (auto split: option.split
        intro!: preserves_bind_yields [OF lease_roles_keeps yields_lease_roles] preserves_bind repair_roles_keeps)
qed simp

text \<open>What a repair that ends well has done.\<close>

definition lease_pattern :: "string \<Rightarrow> string" where
  "lease_pattern pfx = pfx @ [CHR 0x5C, CHR ''_'', CHR 0x25]"

definition leased_for :: "string \<Rightarrow> string list \<Rightarrow> string \<Rightarrow> bool" where
  "leased_for owner audiences role \<longleftrightarrow>
     role \<noteq> owner \<and> (\<exists>a \<in> set audiences. \<exists>pfx. sanitize_identifier a = Some pfx \<and> like (lease_pattern pfx) role)"

definition handed_over :: "(string \<Rightarrow> bool) \<Rightarrow> string \<Rightarrow> catalog \<Rightarrow> catalog \<Rightarrow> bool" where
  "handed_over P owner c c' \<longleftrightarrow>
     pc_roles c' = filter (\<lambda>r. \<not> P r) (pc_roles c)
   \<and> pc_owned c' = map (\<lambda>(obj, r). (obj, if P r then owner else r)) (pc_owned c)"

lemma handed_over_refl: "(\<And>r. \<not> P r) \<Longrightarrow> handed_over P owner c (c\<lparr>pc_steps := n\<rparr>)"
  by (simp add: handed_over_def)

lemma handed_over_trans:
  "handed_over P owner c c1 \<Longrightarrow> handed_over Q owner c1 c2 \<Longrightarrow> \<not> Q owner \<Longrightarrow>
     handed_over (\<lambda>r. P r \<or> Q r) owner c c2"
  by (auto simp: handed_over_def)

lemma repair_role_done:
  assumes "cat_stmt fault (reassign_owned r owner) c = (Inr u, c1)" and "cat_stmt fault (drop_owned r) c1 = (Inr v, c2)"
    and "cat_stmt fault (drop_role r) c2 = (Inr x, c3)" and "r \<noteq> owner"
  shows "handed_over (\<lambda>r'. r' = r) owner c c3"
proof -
  have "filter (\<lambda>(obj, r'). r' \<noteq> r) (pc_owned c1) = pc_owned c1"
    using reassign_empties [OF assms(1,4)] by (auto simp: filter_id_conv)
  with assms(1-3) [THEN cat_stmt_InrD] show ?thesis
    by (auto simp: handed_over_def reassign_owned_def drop_owned_def drop_role_def split: if_splits)
qed

lemma repair_roles_done:
  assumes "repair_roles fault owner roles c = (Inr u, c')" and "owner \<notin> set roles"
  shows "handed_over (\<lambda>r. r \<in> set roles) owner c c'"
  using assms
proof (induction roles arbitrary: c)
  case Nil
  then show ?case by (simp add: handed_over_def)
next
  case (Cons r roles)
  from Cons.prems(1) obtain u1 c1 u2 c2 u3 c3 where
    1: "cat_stmt fault (reassign_owned r owner) c = (Inr u1, c1)" and
    2: "cat_stmt fault (drop_owned r) c1 = (Inr u2, c2)" and
    3: "cat_stmt fault (drop_role r) c2 = (Inr u3, c3)" and
    rest: "repair_roles fault owner roles c3 = (Inr u, c')"
    by (auto elim!: bindM_eq_InrE)
  from Cons.prems(2) have "r \<noteq> owner" by auto
  from handed_over_trans [OF repair_role_done [OF 1 2 3 this] Cons.IH [OF rest]] Cons.prems(2)
  show ?case by simp
qed

lemma handed_over_cong: "handed_over P owner c c' \<Longrightarrow> (\<And>r. P r = Q r) \<Longrightarrow> handed_over Q owner c c'"
  by (simp add: handed_over_def)

lemma repair_audiences_done:
  assumes "repair_audiences fault owner seen audiences c = (Inr u, c')"
    and "\<forall>pfx \<in> set seen. \<forall>r \<in> set (pc_roles c). like (lease_pattern pfx) r \<longrightarrow> r = owner"
  shows "handed_over (\<lambda>r. r \<in> set (pc_roles c) \<and> leased_for owner audiences r) owner c c'"
  using assms
proof (induction audiences arbitrary: seen c)
  case Nil
  then show ?case by (simp add: handed_over_def leased_for_def)
next
  case (Cons a audiences)
  show ?case
  proof (cases "sanitize_identifier a")
    case None
    with Cons.prems Cons.IH [of seen c] show ?thesis by (simp add: leased_for_def)
  next
    case (Some pfx)
    show ?thesis
    proof (cases "pfx \<in> set seen")
      case True
      then have "handed_over (\<lambda>r. r \<in> set (pc_roles c) \<and> leased_for owner audiences r) owner c c'"
        using Some Cons.prems Cons.IH [of seen c] by simp
      then show ?thesis
        by (rule handed_over_cong) (use True Some Cons.prems(2) in \<open>auto simp: leased_for_def\<close>)
    next
      case False
      with Some Cons.prems(1) obtain roles c1 u1 c2 where
        1: "cat_stmt fault (lease_roles (lease_pattern pfx) owner) c = (Inr roles, c1)" and
        2: "repair_roles fault owner roles c1 = (Inr u1, c2)" and
        3: "repair_audiences fault owner (pfx # seen) audiences c2 = (Inr u, c')"
        by (auto simp: lease_pattern_def elim!: bindM_eq_InrE)
      from cat_stmt_InrD [OF 1] have roles: "set roles = {r \<in> set (pc_roles c). like (lease_pattern pfx) r \<and> r \<noteq> owner}"
        and c1: "c1 = c\<lparr>pc_steps := Suc (pc_steps c)\<rparr>" by (auto simp: lease_roles_def)
      have h: "handed_over (\<lambda>r. r \<in> set roles) owner c c2"
        using repair_roles_done [OF 2] roles c1 by (auto simp: handed_over_def)
      then have c2: "set (pc_roles c2) = set (pc_roles c) - set roles" by (auto simp: handed_over_def)
      have "handed_over (\<lambda>r. r \<in> set (pc_roles c2) \<and> leased_for owner audiences r) owner c2 c'"
        by (rule Cons.IH [OF 3]) (use Cons.prems(2) c2 roles in auto)
      from handed_over_trans [OF h this]
      have "handed_over (\<lambda>r. r \<in> set roles \<or> r \<in> set (pc_roles c2) \<and> leased_for owner audiences r) owner c c'"
        by (simp add: leased_for_def)
      then show ?thesis
        by (rule handed_over_cong) (use roles c2 Some in \<open>auto simp: leased_for_def\<close>)
    qed
  qed
qed

lemma repair_done:
  assumes "repair_postgres_lease_ownership fault owner audiences c = (Inr u, c')"
  shows "handed_over (\<lambda>r. r \<in> set (pc_roles c) \<and> leased_for owner audiences r) owner c c'"
proof (cases "audiences = []")
  case True
  with assms show ?thesis by (simp add: repair_postgres_lease_ownership_def handed_over_def leased_for_def)
next
  case False
  with assms obtain u1 c1 ok c2 where
    1: "cat_stmt fault (\<lambda>c. Inr ((), c)) c = (Inr u1, c1)" and
    2: "cat_stmt fault (role_exists owner) c1 = (Inr ok, c2)" and
    3: "repair_audiences fault owner [] audiences c2 = (Inr u, c')"
    by (auto simp: repair_postgres_lease_ownership_def elim!: bindM_eq_InrE split: if_splits)
  from 1 2 [THEN cat_stmt_InrD] have "pc_roles c2 = pc_roles c" "pc_owned c2 = pc_owned c"
    by (auto dest!: cat_stmt_InrD simp: role_exists_def)
  with repair_audiences_done [OF 3] show ?thesis by (simp add: handed_over_def)
qed

text \<open>SQL's reading of the pattern when the prefix has no wildcard of its own.\<close>

lemma like_any: "like [CHR 0x25] s"
proof (induction s rule: length_induct)
  case (1 s)
  show ?case
  proof (cases "s = []")
    case False
    with 1 have "like [CHR 0x25] (drop_char s)" using length_drop_char by blast
    with False show ?thesis by simp
  qed simp
qed

lemma like_step:
  "c \<notin> {CHR 0x25, CHR ''_'', CHR 0x5C} \<Longrightarrow> like (c # p) s = (case s of [] \<Rightarrow> False | x # r \<Rightarrow> x = c \<and> like p r)"
  by (subst like.simps) simp

declare like.simps(2) [simp del]

lemma like_literal:
  "set pfx \<inter> {CHR 0x25, CHR ''_'', CHR 0x5C} = {} \<Longrightarrow> like (pfx @ p) s \<longleftrightarrow> (\<exists>t. s = pfx @ t \<and> like p t)"
proof (induction pfx arbitrary: s)
  case (Cons c pfx)
  then have "like (c # pfx @ p) s = (case s of [] \<Rightarrow> False | x # r \<Rightarrow> x = c \<and> like (pfx @ p) r)"
    by (intro like_step) auto
  with Cons show ?case by (cases s) simp_all
qed simp

lemma sanitize_chars:
  assumes "sanitize_identifier a = Some pfx" and "c \<in> set pfx"
  shows "ascii_alphanumeric c \<or> c = CHR ''_'' \<or> c = CHR ''-''"
proof -
  have "ascii_alphanumeric (ascii_lower d)" if "ascii_alphanumeric d" for d
    using that by (auto simp: ascii_alphanumeric_def ascii_lower_def Let_def)
  moreover have "ascii_lower CHR ''_'' = CHR ''_''" "ascii_lower CHR ''-'' = CHR ''-''" by code_simp+
  ultimately show ?thesis
    using assms by (auto simp: sanitize_identifier_def Let_def to_ascii_lowercase_def split: if_splits)
qed

lemma like_lease_pattern:
  assumes "sanitize_identifier a = Some pfx" and "CHR ''_'' \<notin> set pfx"
  shows "like (lease_pattern pfx) role \<longleftrightarrow> (\<exists>rest. role = pfx @ CHR ''_'' # rest)"
proof -
  have "\<not> ascii_alphanumeric CHR 0x25" "\<not> ascii_alphanumeric CHR 0x5C" by code_simp+
  then have "set pfx \<inter> {CHR 0x25, CHR ''_'', CHR 0x5C} = {}"
    using sanitize_chars [OF assms(1)] assms(2) by auto
  moreover have "like [CHR 0x5C, CHR ''_'', CHR 0x25] t \<longleftrightarrow> (\<exists>rest. t = CHR ''_'' # rest)" for t
    using like_any by (cases t) (auto simp: like.simps(2) [of "CHR 0x5C"])
  ultimately show ?thesis unfolding lease_pattern_def by (simp only: like_literal) blast
qed

end
