(* ===== verification/Telemetry.thy ===== *)
theory Telemetry
  imports Schema
begin

text \<open>
  The global subscriber of log events: \<^verbatim>\<open>install_jaeger_tracing\<close> of \<^verbatim>\<open>src/lib.rs\<close> and \<^verbatim>\<open>init_logging\<close> of
  \<^verbatim>\<open>src/bin/secure-database-cli.rs\<close>. What the tracing and OpenTelemetry crates answer is an argument; the
  state records the exporters and subscribers they accepted.
\<close>

section \<open>Definitions\<close>

datatype subscriber = FmtLayer | OtelLayers string

record telemetry =
  tl_exporters :: "string list"
  tl_subscribers :: "subscriber list"

record tracing_ext =
  tx_install_simple :: "string \<Rightarrow> string + string"
  tx_set_global_default :: "telemetry \<Rightarrow> subscriber \<Rightarrow> string + unit"

definition install_simple :: "tracing_ext \<Rightarrow> string \<Rightarrow> (string, telemetry, string) op" where
  "install_simple tx service t =
     (case tx_install_simple tx service of
        Inl err \<Rightarrow> (Inl err, t)
      | Inr tracer \<Rightarrow> (Inr tracer, t\<lparr>tl_exporters := tl_exporters t @ [service]\<rparr>))"

definition set_global_default :: "tracing_ext \<Rightarrow> subscriber \<Rightarrow> (string, telemetry, unit) op" where
  "set_global_default tx sub t =
     (case tx_set_global_default tx t sub of
        Inl err \<Rightarrow> (Inl err, t)
      | Inr _ \<Rightarrow> (Inr (), t\<lparr>tl_subscribers := tl_subscribers t @ [sub]\<rparr>))"

definition install_jaeger_tracing :: "tracing_ext \<Rightarrow> (DatabaseError, telemetry, unit) op" where
  "install_jaeger_tracing tx =
     bindM (map_errM (\<lambda>error. Configuration (''failed to initialise OpenTelemetry exporter: '' @ error))
              (install_simple tx ''secure-database'')) (\<lambda>tracer.
     map_errM (\<lambda>error. Configuration (''failed to install tracing subscriber: '' @ error))
       (set_global_default tx (OtelLayers tracer)))"

definition init_logging :: "tracing_ext \<Rightarrow> (string, telemetry, unit) op" where
  "init_logging tx =
     map_errM (\<lambda>error. ''failed to initialise logging: '' @ error) (set_global_default tx FmtLayer)"


section \<open>Facts\<close>

text \<open>The crate's contract: a process has one global subscriber.\<close>

definition set_once :: "tracing_ext \<Rightarrow> bool" where
  "set_once tx \<longleftrightarrow> (\<forall>t sub. tx_set_global_default tx t sub = Inr () \<longrightarrow> tl_subscribers t = [])"

definition one_subscriber :: "telemetry \<Rightarrow> bool" where
  "one_subscriber t \<longleftrightarrow> length (tl_subscribers t) \<le> 1"

lemma set_global_default_one:
  "set_once tx \<Longrightarrow> preserves one_subscriber (set_global_default tx sub)"
  unfolding preserves_def
proof (intro allI impI)
  fix t
  assume once: "set_once tx" and one: "one_subscriber t"
  show "one_subscriber (snd (set_global_default tx sub t))"
    using once one
    by (cases "tl_subscribers t = []"; cases "tx_set_global_default tx t sub")
      (auto simp: one_subscriber_def set_once_def set_global_default_def)
qed

lemma install_one:
  assumes "set_once tx"
  shows "preserves one_subscriber (install_jaeger_tracing tx)" "preserves one_subscriber (init_logging tx)"
proof -
  have "preserves one_subscriber (install_simple tx service)" for service
    by (simp add: preserves_def one_subscriber_def install_simple_def split: sum.split)
  with set_global_default_one [OF assms] show "preserves one_subscriber (install_jaeger_tracing tx)"
    "preserves one_subscriber (init_logging tx)"
    by (auto simp: install_jaeger_tracing_def init_logging_def intro!: preserves_bind preserves_map_errM)
qed

text \<open>A subscriber that is refused leaves the exporter installed.\<close>

lemma refused_leaves_exporter:
  assumes "tx_install_simple tx ''secure-database'' = Inr tracer"
    and "tx_set_global_default tx (t\<lparr>tl_exporters := tl_exporters t @ [''secure-database'']\<rparr>) (OtelLayers tracer) = Inl err"
  shows "install_jaeger_tracing tx t =
    (Inl (Configuration (''failed to install tracing subscriber: '' @ err)),
     t\<lparr>tl_exporters := tl_exporters t @ [''secure-database'']\<rparr>)"
  using assms by (simp add: install_jaeger_tracing_def bindM_def map_errM_def install_simple_def set_global_default_def)

end
