(* ===== verification/Secret_File.thy ===== *)
theory Secret_File
  imports Cli Telemetry
begin

text \<open>
  The wrap command of \<^verbatim>\<open>src/bin/secure-database-cli.rs\<close>: a secret is wrapped by the broker, and the
  document about it is written to a temporary file beside the output, restricted to its owner and
  renamed. The path operations are those of \<^verbatim>\<open>std::path\<close> on Unix. Then \<^verbatim>\<open>main\<close>.
\<close>

section \<open>Wrapping a secret\<close>

definition parse_wrap_lifecycle :: "string \<Rightarrow> cli_error + SecretLifecycle" where
  "parse_wrap_lifecycle raw =
     (let v = to_ascii_lowercase (trim raw) in
      if v \<in> set [''single_use_unwrap'', ''single-use-unwrap'', ''singleuseunwrap''] then Inr SingleUseUnwrap
      else if v \<in> set [''renewable_lease'', ''renewable-lease'', ''renewablelease''] then Inr RenewableLease
      else if v \<in> set [''service_bootstrap'', ''service-bootstrap'', ''servicebootstrap''] then Inr ServiceBootstrap
      else Inl (BadLifecycle v))"

definition trimmed_option :: "string option \<Rightarrow> string option" where
  "trimmed_option v =
     (case v of None \<Rightarrow> None | Some s \<Rightarrow> (let t = trim s in if t = [] then None else Some t))"

text \<open>The part of \<^verbatim>\<open>wrap_secret_v2_to_file\<close> up to the JSON document; \<open>rfc3339\<close> prints a timestamp.\<close>

definition wrap_secret_document ::
  "('b, 'z) ext_scheme \<Rightarrow> client_ext \<Rightarrow> (time \<Rightarrow> string) \<Rightarrow> env \<Rightarrow> string \<Rightarrow> string \<Rightarrow> string option \<Rightarrow> string option \<Rightarrow>
   (cli_error, 'b world, json) op" where
  "wrap_secret_document x ce rfc3339 e plaintext_env lifecycle label unwrap_principal_id =
     bindM (liftE (ok_or (PlaintextMissing plaintext_env) (env_ok e plaintext_env))) (\<lambda>plaintext.
     if trim plaintext = [] then throwM (PlaintextEmpty plaintext_env)
     else
     bindM (liftE (parse_wrap_lifecycle lifecycle)) (\<lambda>lc.
     bindM (liftE (map_err ClientFailed
              (client_from_env (ce_transport ce) (ce_ratls ce) (ce_host ce) (ce_debug_build ce) e))) (\<lambda>_.
     bindM (map_errM BrokerFailed (wrap_secret_v2 x (as_bytes plaintext)
              \<lparr>wp_lifecycle = Some lc, wp_label = trimmed_option label,
               wp_unwrap_principal_id = trimmed_option unwrap_principal_id\<rparr>)) (\<lambda>wrapped.
     returnM (JObject [(''handle'', JString (wr_handle wrapped)),
       (''redeem_token'', (case wr_redeem_token wrapped of None \<Rightarrow> JNull | Some t \<Rightarrow> JString t)),
       (''issued_at'', JString (rfc3339 (wr_created_at wrapped)))])))))"


section \<open>Paths\<close>

text \<open>On a reversed path: separators and \<^verbatim>\<open>.\<close> components at the end do not count.\<close>

fun trim_tail_rev :: "string \<Rightarrow> string" where
  "trim_tail_rev (c # r) =
     (if c = CHR ''/'' then trim_tail_rev r
      else case r of
        d # r' \<Rightarrow> if c = CHR ''.'' \<and> d = CHR ''/'' then trim_tail_rev r' else c # r
      | [] \<Rightarrow> c # r)"
| "trim_tail_rev [] = []"

definition path_file_name :: "string \<Rightarrow> string option" where
  "path_file_name p =
     (let t = rev (takeWhile (\<lambda>c. c \<noteq> CHR ''/'') (trim_tail_rev (rev p))) in
      if t \<in> set [[], ''.'', ''..''] then None else Some t)"

definition path_file_stem :: "string \<Rightarrow> string" where
  "path_file_stem f =
     (case dropWhile (\<lambda>c. c \<noteq> CHR ''.'') (rev f) of
        [] \<Rightarrow> f
      | _ # before \<Rightarrow> if before = [] then f else rev before)"

definition path_with_extension :: "string \<Rightarrow> string \<Rightarrow> string" where
  "path_with_extension p ext =
     (case path_file_name p of
        None \<Rightarrow> p
      | Some f \<Rightarrow>
          (let q = rev (trim_tail_rev (rev p)) in
           take (length q - length f) q @ path_file_stem f @ ''.'' @ ext))"

definition path_parent :: "string \<Rightarrow> string option" where
  "path_parent p =
     (let r = trim_tail_rev (rev p);
          d = dropWhile (\<lambda>c. c \<noteq> CHR ''/'') r;
          q = trim_tail_rev d in
      if r = [] then None else if q = [] \<and> d \<noteq> [] then Some ''/'' else Some (rev q))"


section \<open>The file system\<close>

text \<open>
  Files with their permission bits, the directories made so far, and a count of the calls. A call
  may fail; a write that fails may leave other content behind.
\<close>

record file_entry =
  fe_content :: string
  fe_mode :: nat

record file_system =
  fs_files :: "string \<rightharpoonup> file_entry"
  fs_dirs :: "string list"
  fs_calls :: nat

record disk =
  dk_fault :: "nat \<Rightarrow> (string \<times> string option) option"
  dk_create_mode :: nat
  dk_pretty :: "json \<Rightarrow> string + string"

definition put_file :: "disk \<Rightarrow> string \<Rightarrow> string \<Rightarrow> file_system \<Rightarrow> file_system" where
  "put_file dk path content s =
     s\<lparr>fs_files := (fs_files s)(path \<mapsto> \<lparr>fe_content = content,
        fe_mode = (case fs_files s path of Some f \<Rightarrow> fe_mode f | None \<Rightarrow> dk_create_mode dk)\<rparr>)\<rparr>"

definition fs_call :: "disk \<Rightarrow> (string option \<Rightarrow> file_system \<Rightarrow> file_system) \<Rightarrow> (file_system \<Rightarrow> string + file_system) \<Rightarrow>
  (string, file_system, unit) op" where
  "fs_call dk failed f s =
     (let s' = s\<lparr>fs_calls := Suc (fs_calls s)\<rparr> in
      case dk_fault dk (fs_calls s) of
        Some (err, left) \<Rightarrow> (Inl err, failed left s')
      | None \<Rightarrow> (case f s' of Inl err \<Rightarrow> (Inl err, s') | Inr s'' \<Rightarrow> (Inr (), s'')))"

definition create_dir_all :: "disk \<Rightarrow> string \<Rightarrow> (string, file_system, unit) op" where
  "create_dir_all dk path = fs_call dk (\<lambda>_ s. s) (\<lambda>s. Inr (s\<lparr>fs_dirs := List.insert path (fs_dirs s)\<rparr>))"

definition write_file :: "disk \<Rightarrow> string \<Rightarrow> string \<Rightarrow> (string, file_system, unit) op" where
  "write_file dk path content =
     fs_call dk (\<lambda>left s. case left of None \<Rightarrow> s | Some c \<Rightarrow> put_file dk path c s)
       (\<lambda>s. Inr (put_file dk path content s))"

definition set_permissions :: "disk \<Rightarrow> string \<Rightarrow> nat \<Rightarrow> (string, file_system, unit) op" where
  "set_permissions dk path mode =
     fs_call dk (\<lambda>_ s. s) (\<lambda>s. case fs_files s path of
        None \<Rightarrow> Inl ''No such file or directory''
      | Some f \<Rightarrow> Inr (s\<lparr>fs_files := (fs_files s)(path \<mapsto> f\<lparr>fe_mode := mode\<rparr>)\<rparr>))"

definition rename_file :: "disk \<Rightarrow> string \<Rightarrow> string \<Rightarrow> (string, file_system, unit) op" where
  "rename_file dk source target =
     fs_call dk (\<lambda>_ s. s) (\<lambda>s. case fs_files s source of
        None \<Rightarrow> Inl ''No such file or directory''
      | Some f \<Rightarrow> Inr (s\<lparr>fs_files := (fs_files s)(source := None, target := Some f)\<rparr>))"


section \<open>The command\<close>

record 'b cli_state =
  cs_machine :: "'b machine"
  cs_fs :: file_system
  cs_telemetry :: telemetry

definition on_machine :: "('e, 'b machine, 'a) op \<Rightarrow> ('e, 'b cli_state, 'a) op" where
  "on_machine f s = (case f (cs_machine s) of (r, m) \<Rightarrow> (r, s\<lparr>cs_machine := m\<rparr>))"

definition on_disk :: "(string \<Rightarrow> cli_error) \<Rightarrow> (string, file_system, unit) op \<Rightarrow> (cli_error, 'b cli_state, unit) op" where
  "on_disk err f s = (case f (cs_fs s) of (r, fs) \<Rightarrow> (map_err err r, s\<lparr>cs_fs := fs\<rparr>))"

definition OWNER_ONLY :: nat where "OWNER_ONLY = 6 * 8 ^ 2"

definition publish_document :: "disk \<Rightarrow> string \<Rightarrow> json \<Rightarrow> (cli_error, 'b cli_state, unit) op" where
  "publish_document dk output_path payload =
     (let parent = (case path_parent output_path of Some p \<Rightarrow> p | None \<Rightarrow> ''.'') in
      bindM (on_disk (CreateDirFailed parent) (create_dir_all dk parent)) (\<lambda>_.
      bindM (liftE (map_err SerializeFailed (dk_pretty dk payload))) (\<lambda>serialized.
      let tmp_path = path_with_extension output_path ''tmp'' in
      bindM (on_disk (WriteFailed tmp_path) (write_file dk tmp_path (serialized @ [CHR 0x0A]))) (\<lambda>_.
      bindM (on_disk (ChmodFailed tmp_path) (set_permissions dk tmp_path OWNER_ONLY)) (\<lambda>_.
      on_disk (RenameFailed tmp_path output_path) (rename_file dk tmp_path output_path))))))"

record WrapArgs =
  wa_plaintext_env :: string
  wa_output_file :: string
  wa_lifecycle :: string
  wa_label :: "string option"
  wa_unwrap_principal_id :: "string option"

definition wrap_secret_v2_to_file ::
  "('b, 'z) ext_scheme \<Rightarrow> client_ext \<Rightarrow> (time \<Rightarrow> string) \<Rightarrow> disk \<Rightarrow> WrapArgs \<Rightarrow> (cli_error, 'b cli_state, unit) op" where
  "wrap_secret_v2_to_file x ce rfc3339 dk a s =
     bindM (on_machine (on_process (in_world
              (wrap_secret_document x ce rfc3339 (mc_env (cs_machine s)) (wa_plaintext_env a) (wa_lifecycle a)
                 (wa_label a) (wa_unwrap_principal_id a)))))
       (publish_document dk (wa_output_file a)) s"

datatype Command = MigratePostgres MigrateArgs | WrapSecretV2 WrapArgs

definition run_command :: "('b, 'z) ext_scheme \<Rightarrow> pool_ext \<Rightarrow> (string \<Rightarrow> string option) \<Rightarrow> (nat \<Rightarrow> string option) \<Rightarrow>
  client_ext \<Rightarrow> (time \<Rightarrow> string) \<Rightarrow> disk \<Rightarrow> Command \<Rightarrow> (cli_error, 'b cli_state, unit) op" where
  "run_command x pe url_username fault ce rfc3339 dk command =
     (case command of
        MigratePostgres a \<Rightarrow> on_machine (migrate_postgres x pe url_username fault a)
      | WrapSecretV2 a \<Rightarrow> wrap_secret_v2_to_file x ce rfc3339 dk a)"

text \<open>\<^verbatim>\<open>main\<close>; parsing the command line is an argument.\<close>

definition cli_main :: "('b, 'z) ext_scheme \<Rightarrow> pool_ext \<Rightarrow> (string \<Rightarrow> string option) \<Rightarrow> (nat \<Rightarrow> string option) \<Rightarrow>
  client_ext \<Rightarrow> (time \<Rightarrow> string) \<Rightarrow> disk \<Rightarrow> tracing_ext \<Rightarrow> cli_error + Command \<Rightarrow> (cli_error, 'b cli_state, unit) op" where
  "cli_main x pe url_username fault ce rfc3339 dk tx parsed =
     bindM (\<lambda>s. case init_logging tx (cs_telemetry s) of (r, t) \<Rightarrow> (map_err LoggingFailed r, s\<lparr>cs_telemetry := t\<rparr>)) (\<lambda>_.
     bindM (liftE parsed) (run_command x pe url_username fault ce rfc3339 dk))"


section \<open>Facts\<close>

text \<open>The files other than the temporary one.\<close>

definition others :: "string \<Rightarrow> (string \<rightharpoonup> file_entry) \<Rightarrow> 'b cli_state \<Rightarrow> bool" where
  "others tmp files s \<longleftrightarrow> (\<forall>p. p \<noteq> tmp \<longrightarrow> fs_files (cs_fs s) p = files p)"

lemma on_disk_InrE:
  assumes "on_disk err f s = (Inr u, s')"
  obtains fs where "f (cs_fs s) = (Inr u, fs)" "s' = s\<lparr>cs_fs := fs\<rparr>"
  using assms by (auto simp: on_disk_def map_err_def split: prod.splits sum.splits)

lemma disk_keeps:
  "preserves (others tmp files) (on_disk err (create_dir_all dk d))"
  "preserves (others tmp files) (on_disk err (write_file dk tmp content))"
  "preserves (others tmp files) (on_disk err (set_permissions dk tmp mode))"
  "failure_keeps (others tmp files) (on_disk err (rename_file dk tmp out))"
  by (auto simp: preserves_def failure_keeps_def others_def on_disk_def create_dir_all_def write_file_def
      set_permissions_def rename_file_def fs_call_def put_file_def Let_def map_err_def
      split: option.splits sum.splits prod.splits)

lemma publish_failure:
  "failure_keeps (others (path_with_extension out ''tmp'') files) (publish_document dk out doc)"
  unfolding publish_document_def Let_def
  by (intro failure_keeps_bind disk_keeps preserves_lift)

lemma create_done: "create_dir_all dk d s = (Inr u, s') \<Longrightarrow> fs_files s' = fs_files s"
  by (auto simp: create_dir_all_def fs_call_def Let_def split: option.splits)

lemma write_done:
  "write_file dk path content s = (Inr u, s') \<Longrightarrow>
     \<exists>mode. fs_files s' = (fs_files s)(path \<mapsto> \<lparr>fe_content = content, fe_mode = mode\<rparr>)"
  by (auto simp: write_file_def fs_call_def put_file_def Let_def split: option.splits)

lemma chmod_done:
  "set_permissions dk path mode s = (Inr u, s') \<Longrightarrow>
     \<exists>f. fs_files s path = Some f \<and> fs_files s' = (fs_files s)(path \<mapsto> f\<lparr>fe_mode := mode\<rparr>)"
  by (auto simp: set_permissions_def fs_call_def Let_def split: option.splits)

lemma rename_done:
  "rename_file dk source target s = (Inr u, s') \<Longrightarrow>
     \<exists>f. fs_files s source = Some f \<and> fs_files s' = (fs_files s)(source := None, target := Some f)"
  by (auto simp: rename_file_def fs_call_def Let_def split: option.splits)

lemma publish_done:
  assumes "publish_document dk out doc s = (Inr u, s')"
  obtains body where "dk_pretty dk doc = Inr body"
    and "fs_files (cs_fs s') = (fs_files (cs_fs s))(path_with_extension out ''tmp'' := None,
      out \<mapsto> \<lparr>fe_content = body @ [CHR 0x0A], fe_mode = OWNER_ONLY\<rparr>)"
  using assms unfolding publish_document_def Let_def
  by (auto elim!: bindM_eq_InrE on_disk_InrE dest!: create_done write_done chmod_done rename_done
      simp: map_err_def split: sum.splits)

lemma publish_machine: "cs_machine (snd (publish_document dk out doc s)) = cs_machine s"
  by (simp add: publish_document_def Let_def bindM_def on_disk_def split: prod.split sum.split)

lemma wrap_runE:
  assumes "wrap_secret_v2_to_file x ce rfc3339 dk a s = (r, s')"
  obtains (unwrapped) e m where "r = Inl e" "s' = s\<lparr>cs_machine := m\<rparr>"
  | (wrapped) doc w m where "wrap_secret_document x ce rfc3339 (mc_env (cs_machine s)) (wa_plaintext_env a)
        (wa_lifecycle a) (wa_label a) (wa_unwrap_principal_id a) (ps_world (mc_process (cs_machine s))) = (Inr doc, w)"
      "publish_document dk (wa_output_file a) doc (s\<lparr>cs_machine := m\<rparr>) = (r, s')"
  using assms
  by (auto simp: wrap_secret_v2_to_file_def bindM_def on_machine_def on_process_def in_world_def
      split: prod.splits sum.splits)

end
