(* ===== verification/Props_Trust.thy ===== *)
theory Props_Trust
  imports Reference_Client Secret_File
begin

text \<open>
  The properties of configuration, command line, broker trust and connection pools.
\<close>

section \<open>Configuration\<close>

text \<open>
  C28. Every configuration the loader accepts is usable (audience or URL not blank, leases of at
  least a second, at least one connection, minimum within maximum, timeouts not zero, both pools
  from the same kind of source), and a static URL is used only after the operator named the source
  and allowed it.
\<close>

theorem accepted_config_is_safe:
  assumes "load_native_config e = Inr c"
  shows "config_ok c
    \<and> (\<forall>url. nc_data_auth c = StaticUrl url \<longrightarrow>
         credential_source e = ''static'' \<and> env_flag e ''SECURE_DB_ALLOW_STATIC'' = Inr True
       \<and> e ''SECURE_DB_URL'' = Present url)"
proof -
  from assms have "load_data_auth e = Inr (nc_data_auth c)"
    by (auto simp: load_native_config_def bindE_eq_Inr Let_def split: if_splits)
  with load_native_config_ok [OF assms] static_needs_opt_in show ?thesis by auto
qed

theorem accepted_config_is_safe_witness:
  "\<exists>c. load_native_config (no_env(''SECURE_DB_BROKER_AUDIENCE'' := Present ''db'')) = Inr c \<and> config_ok c"
proof -
  have "\<exists>c. load_native_config (no_env(''SECURE_DB_BROKER_AUDIENCE'' := Present ''db'')) = Inr c"
    by (simp add: load_native_config_def load_data_auth_def load_broker_auth_def load_secrets_auth_def
        credential_source_def required_env_def parse_u32_env_def parse_u64_env_def env_ok_def no_env_def Let_def
        trim_def trim_start_def trim_end_def whitespace_def starts_with_def to_ascii_lowercase_def ascii_lower_def)
  with accepted_config_is_safe show ?thesis by blast
qed

lemma set_opt_simps:
  "k \<noteq> key \<Longrightarrow> set_opt key v env k = env k" "set_opt key (Some s) env key = Present s"
  by (simp_all add: set_opt_def split: option.split)

lemma migrate_env_static:
  assumes "trim url \<noteq> []"
  shows "load_data_auth (migrate_env a url e) = Inr (StaticUrl url)"
proof -
  have "to_ascii_lowercase (trim ''1'') = ''1''" "to_ascii_lowercase ''static'' = ''static''"
    by code_simp+
  with assms show ?thesis
    by (simp add: load_data_auth_def load_static_auth_def credential_source_def env_ok_def migrate_env_def set_opt_simps
        env_flag_def required_env_def Let_def)
qed

lemma migrate_env_other:
  "env_flag (migrate_env a url e) ''SECURE_DB_ALLOW_UNLISTED_EXTENSIONS'' = env_flag e ''SECURE_DB_ALLOW_UNLISTED_EXTENSIONS''"
  by (simp add: migrate_env_def env_flag_def set_opt_simps)

text \<open>
  The environment the migrate command prepares is read back as the arguments it was given: the
  URL as a static source, each number as itself, and the PgBouncer check is skipped for the
  bootstrap connection.
\<close>

lemma migration_env_read_back:
  assumes "trim url \<noteq> []"
  shows "load_data_auth (migrate_env a url e) = Inr (StaticUrl url)
    \<and> (\<forall>n. ma_pool_max a = Some n \<longrightarrow> parse_u32_env (migrate_env a url e) ''SECURE_DB_POOL_MAX'' d = Inr (unat n))
    \<and> (\<forall>n. ma_pool_min a = Some n \<longrightarrow> parse_u32_env (migrate_env a url e) ''SECURE_DB_POOL_MIN'' d = Inr (unat n))
    \<and> (\<forall>n. ma_connect_timeout a = Some n \<longrightarrow>
         parse_u64_env (migrate_env a url e) ''SECURE_DB_CONNECT_TIMEOUT'' d = Inr (unat n))
    \<and> (\<forall>n. ma_idle_timeout a = Some n \<longrightarrow>
         parse_u64_env (migrate_env a url e) ''SECURE_DB_IDLE_TIMEOUT'' d = Inr (unat n))
    \<and> skip_pgbouncer_check (migrate_env a url e) = Inr True"
proof -
  have u32: "parse_unsigned 32 (dec_string (unat n)) = Some (unat n)" for n :: "32 word"
    using unsigned_less [of n, where ?'a = nat] by (simp add: parse_dec_string)
  have u64: "parse_unsigned 64 (dec_string (unat n)) = Some (unat n)" for n :: "64 word"
    using unsigned_less [of n, where ?'a = nat] by (simp add: parse_dec_string)
  have "to_ascii_lowercase (trim ''1'') = ''1''" by code_simp
  with migrate_env_static [OF assms, of a e] show ?thesis
    by (simp add: migrate_env_def set_opt_simps u32 u64 env_flag_def parse_u32_env_def parse_u64_env_def
        skip_pgbouncer_check_def Let_def)
qed

section \<open>Repair of lease roles\<close>

text \<open>
  C32. Whatever statements the server refuses along the way, repairing lease roles loses no object
  and never drops the owner role.
\<close>

theorem repair_loses_no_object:
  "map fst (pc_owned (snd (repair_postgres_lease_ownership fault owner audiences c))) = map fst (pc_owned c)
   \<and> (owner \<in> set (pc_roles c) \<longrightarrow>
        owner \<in> set (pc_roles (snd (repair_postgres_lease_ownership fault owner audiences c))))"
proof (cases "owner \<in> set (pc_roles c) \<and> audiences \<noteq> []")
  case True
  have "preserves (repair_inv (map fst (pc_owned c)) owner) (repair_postgres_lease_ownership fault owner audiences)"
    unfolding repair_postgres_lease_ownership_def
    by (auto intro!: preserves_bind preserves_cat_stmt repair_audiences_keeps simp: role_exists_def)
  from preservesD [OF this, of c] True show ?thesis by (simp add: repair_inv_def)
next
  case False
  then show ?thesis
    by (auto simp: repair_postgres_lease_ownership_def cat_stmt_def role_exists_def bindM_def Let_def split: option.split)
qed

theorem repair_loses_no_object_witness:
  "''owner'' \<in> set (pc_roles (snd (repair_postgres_lease_ownership (\<lambda>n. None) ''owner'' [''app'']
     \<lparr>pc_roles = [''owner'', ''app_1''], pc_owned = [(''table'', ''app_1'')], pc_steps = 0\<rparr>)))"
  using repair_loses_no_object [of "\<lambda>n. None" "''owner''" "[''app'']"
      "\<lparr>pc_roles = [''owner'', ''app_1''], pc_owned = [(''table'', ''app_1'')], pc_steps = 0\<rparr>"] by simp

text \<open>
  An audience with an underscore also drops roles of other audiences: only the underscore the
  tool appends is escaped in the pattern, the ones of the audience match any character.
\<close>

lemma underscore_drops_other_roles:
  "pc_roles (snd (repair_postgres_lease_ownership (\<lambda>n. None) ''owner'' [''a_b'']
     \<lparr>pc_roles = [''owner'', ''a_b_1'', ''axb_1''], pc_owned = [(''table'', ''axb_1'')], pc_steps = 0\<rparr>)) = [''owner'']"
  by code_simp


lemma underscore_lower: "ascii_lower c = CHR ''_'' \<longleftrightarrow> c = CHR ''_''"
proof
  assume "ascii_lower c = CHR ''_''"
  then have "(of_char (ascii_lower c) :: nat) = 95" by simp
  then have "(of_char c :: nat) = of_char (CHR ''_'')" by (auto simp: ascii_lower_def Let_def split: if_splits)
  then show "c = CHR ''_''" by (simp only: of_char_eq_iff)
qed (simp add: ascii_lower_def)

lemma sanitize_no_underscore:
  assumes "sanitize_identifier a = Some pfx" and "CHR ''_'' \<notin> set a"
  shows "CHR ''_'' \<notin> set pfx"
proof
  assume "CHR ''_'' \<in> set pfx"
  moreover have "set pfx \<subseteq> ascii_lower ` set a"
    using assms(1) by (auto simp: sanitize_identifier_def to_ascii_lowercase_def Let_def split: if_splits)
  ultimately obtain d where "d \<in> set a" "ascii_lower d = CHR ''_''" by (metis imageE subsetD)
  with assms(2) show False by (simp only: underscore_lower)
qed

text \<open>
  C33. For audiences without an underscore the pattern search is the plain prefix test: a repair that
  ends well has dropped exactly the roles that begin with a sanitised audience and an underscore, the
  owner role apart, and has handed what they owned to the owner; every other role and object is as
  it was.
\<close>

theorem repair_is_prefix_test:
  assumes "repair_postgres_lease_ownership fault owner audiences c = (Inr u, c')"
    and "\<forall>a \<in> set audiences. CHR ''_'' \<notin> set a"
    and leased: "leased = (\<lambda>r. r \<noteq> owner \<and> r \<in> set (pc_roles c)
      \<and> (\<exists>a \<in> set audiences. \<exists>pfx rest. sanitize_identifier a = Some pfx \<and> r = pfx @ CHR ''_'' # rest))"
  shows "pc_roles c' = filter (\<lambda>r. \<not> leased r) (pc_roles c)
    \<and> pc_owned c' = map (\<lambda>(obj, r). (obj, if leased r then owner else r)) (pc_owned c)"
proof -
  have "leased_for owner audiences r \<longleftrightarrow> r \<noteq> owner
      \<and> (\<exists>a \<in> set audiences. \<exists>pfx rest. sanitize_identifier a = Some pfx \<and> r = pfx @ CHR ''_'' # rest)" for r
    using assms(2) unfolding leased_for_def by (metis like_lease_pattern sanitize_no_underscore)
  then have "leased = (\<lambda>r. r \<in> set (pc_roles c) \<and> leased_for owner audiences r)"
    by (auto simp: leased)
  with repair_done [OF assms(1)] show ?thesis by (simp add: handed_over_def)
qed

lemma repair_ref: "fst (repair_postgres_lease_ownership (\<lambda>n. None) ''owner'' [''app'']
     \<lparr>pc_roles = [''owner'', ''app_1''], pc_owned = [(''t'', ''app_1'')], pc_steps = 0\<rparr>) = Inr ()"
  by code_simp

theorem repair_is_prefix_test_witness:
  "pc_owned (snd (repair_postgres_lease_ownership (\<lambda>n. None) ''owner'' [''app'']
     \<lparr>pc_roles = [''owner'', ''app_1''], pc_owned = [(''t'', ''app_1'')], pc_steps = 0\<rparr>)) = [(''t'', ''owner'')]"
proof -
  let ?c = "\<lparr>pc_roles = [''owner'', ''app_1''], pc_owned = [(''t'', ''app_1'')], pc_steps = 0\<rparr>"
  obtain r c' where run: "repair_postgres_lease_ownership (\<lambda>n. None) ''owner'' [''app''] ?c = (r, c')" by fastforce
  have "r = Inr ()"
    using run by (metis fst_conv repair_ref)
  moreover have "sanitize_identifier ''app'' = Some ''app''" by code_simp
  ultimately show ?thesis
    using repair_is_prefix_test [OF run [unfolded \<open>r = Inr ()\<close>] _ refl] run by simp
qed

text \<open>
  C34. A migrate command that ends well has migrated and checked the server its URL names: no
  extension outside the allowlist is installed there, unless that was allowed; the environment is
  the one the arguments describe, and the repair before it lost no object.
\<close>

theorem migration_checks_server:
  assumes run: "migrate_postgres x pe url_username fault a m = (Inr u, m')"
    and flag: "env_flag (mc_env m) ''SECURE_DB_ALLOW_UNLISTED_EXTENSIONS'' \<noteq> Inr True"
  shows "\<exists>url opts. resolve_database_url (mc_env m) (ma_database_url a) = Inr url
    \<and> parse_connect_options pe url = Inr opts \<and> mc_env m' = migrate_env a url (mc_env m)
    \<and> set (sv_extensions (ps_servers (mc_process m') (po_server opts)))
        \<subseteq> set (sv_allowlist (ps_servers (mc_process m') (po_server opts)))
    \<and> map fst (pc_owned (mc_catalog m')) = map fst (pc_owned (mc_catalog m))"
proof -
  from run obtain url owner c1 pw p1 v where
    url: "resolve_database_url (mc_env m) (ma_database_url a) = Inr url"
    and rep: "repair_postgres_lease_ownership fault owner (ma_repair_lease_audiences a) (mc_catalog m) = (Inr v, c1)"
    and con: "connect_native x pe (migrate_env a url (mc_env m)) (mc_process m) = (Inr pw, p1)"
    and m': "m' = m\<lparr>mc_env := migrate_env a url (mc_env m), mc_catalog := c1, mc_process := p1\<rparr>"
    by (auto simp: migrate_postgres_def on_catalog_def on_process_def bindM_def map_errM_def
        split: sum.splits prod.splits)
  let ?e = "migrate_env a url (mc_env m)"
  from url have "trim url \<noteq> []" by (auto simp: resolve_database_url_def split: option.splits if_splits)
  from con obtain cfg where cfg: "load_native_config ?e = Inr cfg"
    and "connect_postgres x pe ?e cfg (mc_process m) = (Inr pw, p1)"
    by (auto simp: connect_native_def map_errM_def elim!: bindM_eq_InrE split: prod.splits sum.splits)
  moreover obtain pool ws where "pw = (pool, ws)" by fastforce
  ultimately have c: "connect_postgres x pe ?e cfg (mc_process m) = (Inr (pool, ws), p1)" by simp
  from cfg have "load_data_auth ?e = Inr (nc_data_auth cfg)"
    by (auto simp: load_native_config_def bindE_eq_Inr Let_def split: if_splits)
  then have "nc_data_auth cfg = StaticUrl url" using migrate_env_static [OF \<open>trim url \<noteq> []\<close>, of a "mc_env m"] by simp
  then obtain opts where o: "parse_connect_options pe url = Inr opts"
    "po_server (pg_options (ps_cells p1 ! pp_data pool)) = po_server opts"
    using connect_staticE [OF c] by blast
  have "all_listed ?e (ps_servers p1 (po_server opts))" using connectE(3) [OF c] o by simp
  then have "unlisted (ps_servers p1 (po_server opts)) = []"
    using flag by (simp add: all_listed_def migrate_env_other)
  moreover have "map fst (pc_owned c1) = map fst (pc_owned (mc_catalog m))"
    using repair_done [OF rep] by (auto simp: handed_over_def split_def)
  ultimately show ?thesis
    using url o m' by (auto simp: unlisted_def filter_empty_conv)
qed

definition ref_args :: MigrateArgs where
  "ref_args = \<lparr>ma_database_url = Some ''postgres://db'', ma_pool_max = None, ma_pool_min = None, ma_connect_timeout = None,
     ma_idle_timeout = None, ma_application_name = None, ma_owner_role = Some ''owner'', ma_repair_lease_audiences = []\<rparr>"

definition ref_machine :: "nat machine" where
  "ref_machine = \<lparr>mc_env = no_env, mc_catalog = \<lparr>pc_roles = [''owner''], pc_owned = [], pc_steps = 0\<rparr>,
     mc_process = ref_process\<rparr>"

definition static_config :: NativeConfig where
  "static_config = ref_config\<lparr>nc_data_auth := StaticUrl ''postgres://db'', nc_application_name := ''secure-database''\<rparr>"

lemma ref_migrate_strings:
  "trim ''postgres://db'' \<noteq> []" "trim ''secure-database'' \<noteq> []" "to_ascii_lowercase (trim ''1'') = ''1''"
  "to_ascii_lowercase ''static'' = ''static''" "\<not> eq_ignore_ascii_case ''enforced'' ''disabled''"
  by code_simp+

lemma ref_migrate_unset:
  "k \<notin> {''SECURE_DB_ALLOW_STATIC'', ''SECURE_DB_ALLOW_DIRECT_BOOTSTRAP'', ''SECURE_DB_CREDENTIAL_SOURCE'', ''SECURE_DB_URL''} \<Longrightarrow>
     migrate_env ref_args url no_env k = Unset"
  by (simp add: migrate_env_def ref_args_def set_opt_def no_env_def)

lemma ref_migrate_config: "load_native_config (migrate_env ref_args ''postgres://db'' no_env) = Inr static_config"
  by (simp add: load_native_config_def migrate_env_static [OF ref_migrate_strings(1)] load_secrets_auth_def env_ok_def
      parse_u32_env_def parse_u64_env_def ref_migrate_strings ref_migrate_unset Let_def static_config_def ref_config_def)

lemma ref_migrate_flags:
  "env_flag (migrate_env ref_args url no_env) ''SECURE_DB_SKIP_MIGRATIONS'' = Inr False"
  "env_flag (migrate_env ref_args url no_env) ''SECURE_DB_ALLOW_UNLISTED_EXTENSIONS'' = Inr False"
  "env_flag (migrate_env ref_args url no_env) ''SECURE_DB_ALLOW_DIRECT_BOOTSTRAP'' = Inr True"
  "ratls_disabled (migrate_env ref_args url no_env) = False"
  by (simp_all add: env_flag_def migrate_env_def ref_args_def set_opt_def no_env_def ratls_disabled_def env_ok_def
      ref_migrate_strings)

lemma ref_migrate: "\<exists>m'. migrate_postgres lease_env ref_pool_ext (\<lambda>u. None) (\<lambda>n. None) ref_args ref_machine = (Inr (), m')"
proof -
  have "\<exists>pw p'. connect_postgres lease_env ref_pool_ext (migrate_env ref_args ''postgres://db'' no_env) static_config ref_process
      = (Inr pw, p')"
    by (simp add: connect_postgres_def open_checked_pool_def create_pool_def static_config_def ref_config_def
        create_static_pool_def skip_pgbouncer_check_def ref_migrate_flags bindM_def reading_def in_world_def
        ref_pool_ext_def lease_env_def instantiate_pool_def reloadable_new_def reloadable_load_def run_migrations_def
        ensure_postgres_extensions_def upsert_extension_allowlist_def create_extension_def on_server_def whenM_def
        enforce_extension_allowlist_def unlisted_def spawned_def context_of_def Let_def ref_process_def ref_world_def)
  then obtain pw p' where "connect_postgres lease_env ref_pool_ext (migrate_env ref_args ''postgres://db'' no_env)
      static_config ref_process = (Inr pw, p')" by blast
  then show ?thesis
    by (simp add: migrate_postgres_def connect_native_def ref_migrate_config resolve_database_url_def ref_machine_def
        on_catalog_def on_process_def map_errM_def repair_postgres_lease_ownership_def ref_migrate_strings
        ref_args_def [THEN arg_cong [where f = ma_database_url]] ref_args_def [THEN arg_cong [where f = ma_owner_role]]
        ref_args_def [THEN arg_cong [where f = ma_repair_lease_audiences]])
qed

theorem migration_checks_server_witness:
  "\<exists>m' (opts :: PgConnectOptions). migrate_postgres lease_env ref_pool_ext (\<lambda>u. None) (\<lambda>n. None) ref_args ref_machine = (Inr (), m')
     \<and> set (sv_extensions (ps_servers (mc_process m') (po_server opts)))
         \<subseteq> set (sv_allowlist (ps_servers (mc_process m') (po_server opts)))"
proof -
  obtain m' where run: "migrate_postgres lease_env ref_pool_ext (\<lambda>u. None) (\<lambda>n. None) ref_args ref_machine = (Inr (), m')"
    using ref_migrate by blast
  have "env_flag (mc_env ref_machine) ''SECURE_DB_ALLOW_UNLISTED_EXTENSIONS'' \<noteq> Inr True"
    by (simp add: ref_machine_def no_env_def env_flag_def)
  from migration_checks_server [OF run this] run show ?thesis by blast
qed


section \<open>The wrapped secret on disk\<close>

lemma wrap_documentE:
  assumes "wrap_secret_document x ce rfc3339 e penv lifecycle label unwrap_principal w = (Inr doc, w')"
  obtains plain lc wr where "env_ok e penv = Some plain" "trim plain \<noteq> []" "parse_wrap_lifecycle lifecycle = Inr lc"
    "wrap_secret_v2 x (as_bytes plain) \<lparr>wp_lifecycle = Some lc, wp_label = trimmed_option label,
       wp_unwrap_principal_id = trimmed_option unwrap_principal\<rparr> w = (Inr wr, w')"
    "doc = JObject [(''handle'', JString (wr_handle wr)),
       (''redeem_token'', (case wr_redeem_token wr of None \<Rightarrow> JNull | Some t \<Rightarrow> JString t)),
       (''issued_at'', JString (rfc3339 (wr_created_at wr)))]"
  using assms unfolding wrap_secret_document_def
  by (auto simp: ok_or_def map_errM_def elim!: bindM_eq_InrE split: option.splits if_splits prod.splits sum.splits)

text \<open>
  C21. The wrap command publishes the whole document or nothing: when it succeeds, the output
  holds the handle, token and time of the broker's answer for the secret of the environment variable,
  readable by its owner only, and the temporary file is gone; when it fails, at whatever point,
  every file but the temporary one is as it was. The output itself must not end in \<^verbatim>\<open>.tmp\<close>.
\<close>

theorem wrapped_file_is_whole:
  assumes run: "wrap_secret_v2_to_file x ce rfc3339 dk a s = (r, s')"
    and other: "path_with_extension (wa_output_file a) ''tmp'' \<noteq> wa_output_file a"
  shows "case r of
      Inl err \<Rightarrow> fs_files (cs_fs s') (wa_output_file a) = fs_files (cs_fs s) (wa_output_file a)
        \<and> (\<forall>p. p = path_with_extension (wa_output_file a) ''tmp'' \<or> fs_files (cs_fs s') p = fs_files (cs_fs s) p)
    | Inr u \<Rightarrow> \<exists>plain params wr w' body.
        env_ok (mc_env (cs_machine s)) (wa_plaintext_env a) = Some plain
      \<and> wrap_secret_v2 x (as_bytes plain) params (ps_world (mc_process (cs_machine s))) = (Inr wr, w')
      \<and> dk_pretty dk (JObject [(''handle'', JString (wr_handle wr)),
           (''redeem_token'', (case wr_redeem_token wr of None \<Rightarrow> JNull | Some t \<Rightarrow> JString t)),
           (''issued_at'', JString (rfc3339 (wr_created_at wr)))]) = Inr body
      \<and> fs_files (cs_fs s') = (fs_files (cs_fs s))
          (path_with_extension (wa_output_file a) ''tmp'' := None,
           wa_output_file a \<mapsto> \<lparr>fe_content = body @ [CHR 0x0A], fe_mode = OWNER_ONLY\<rparr>)"
  using run
proof (cases rule: wrap_runE)
  case (unwrapped e m)
  then show ?thesis by simp
next
  case (wrapped doc w m)
  let ?s = "s\<lparr>cs_machine := m\<rparr>"
  show ?thesis
  proof (cases r)
    case (Inl err)
    have "others (path_with_extension (wa_output_file a) ''tmp'') (fs_files (cs_fs s)) ?s" by (simp add: others_def)
    from failure_keepsD [OF publish_failure this wrapped(2) [unfolded Inl]]
    have "p = path_with_extension (wa_output_file a) ''tmp'' \<or> fs_files (cs_fs s') p = fs_files (cs_fs s) p" for p
      unfolding others_def by blast
    with other show ?thesis unfolding Inl sum.case by metis
  next
    case (Inr u)
    with wrapped(2) obtain body where "dk_pretty dk doc = Inr body"
      and "fs_files (cs_fs s') = (fs_files (cs_fs s))(path_with_extension (wa_output_file a) ''tmp'' := None,
        wa_output_file a \<mapsto> \<lparr>fe_content = body @ [CHR 0x0A], fe_mode = OWNER_ONLY\<rparr>)"
      by (auto elim: publish_done)
    with wrap_documentE [OF wrapped(1)] show ?thesis unfolding Inr sum.case by metis
  qed
qed

definition ref_disk :: disk where
  "ref_disk = \<lparr>dk_fault = (\<lambda>n. None), dk_create_mode = 420, dk_pretty = (\<lambda>doc. Inr ''{..}'')\<rparr>"

definition ref_wrap :: WrapArgs where
  "ref_wrap = \<lparr>wa_plaintext_env = ''API_KEY'', wa_output_file = ''/run/api.json'', wa_lifecycle = ''renewable_lease'',
     wa_label = None, wa_unwrap_principal_id = None\<rparr>"

definition ref_cli :: "nat cli_state" where
  "ref_cli = \<lparr>cs_machine = \<lparr>mc_env = enforced_env, mc_catalog = \<lparr>pc_roles = [], pc_owned = [], pc_steps = 0\<rparr>,
     mc_process = ref_process\<rparr>, cs_fs = \<lparr>fs_files = (\<lambda>_. None), fs_dirs = [], fs_calls = 0\<rparr>,
     cs_telemetry = \<lparr>tl_exporters = [], tl_subscribers = []\<rparr>\<rparr>"

lemma ref_wrap_runs:
  "\<exists>s'. wrap_secret_v2_to_file ref_env ref_client_ext (\<lambda>t. []) ref_disk ref_wrap ref_cli = (Inr (), s')"
proof -
  have "trim ''k1'' \<noteq> []" "parse_wrap_lifecycle ''renewable_lease'' = Inr RenewableLease" by code_simp+
  moreover obtain ch where "client_from_env ref_transport ref_ratls ref_host False enforced_env = Inr ch"
    using ref_client by blast
  moreover have "env_ok enforced_env ''API_KEY'' = Some ''k1''" by (simp add: enforced_env_def env_ok_def)
  ultimately show ?thesis
    by (simp add: wrap_secret_v2_to_file_def ref_cli_def ref_wrap_def on_machine_def on_process_def in_world_def bindM_def
        wrap_secret_document_def ref_client_ext_def map_errM_def wrap_secret_v2_def counted_def broker_call_def ref_env_def
        publish_document_def on_disk_def create_dir_all_def write_file_def set_permissions_def rename_file_def fs_call_def
        put_file_def ref_disk_def Let_def)
qed

theorem wrapped_file_is_whole_witness:
  "\<exists>s'. wrap_secret_v2_to_file ref_env ref_client_ext (\<lambda>t. []) ref_disk ref_wrap ref_cli = (Inr (), s')
     \<and> map_option fe_mode (fs_files (cs_fs s') ''/run/api.json'') = Some OWNER_ONLY
     \<and> fs_files (cs_fs s') ''/run/api.tmp'' = None"
proof -
  have tmp: "path_with_extension ''/run/api.json'' ''tmp'' = ''/run/api.tmp''" by code_simp
  obtain s' where run: "wrap_secret_v2_to_file ref_env ref_client_ext (\<lambda>t. []) ref_disk ref_wrap ref_cli = (Inr (), s')"
    using ref_wrap_runs by blast
  have "wa_output_file ref_wrap = ''/run/api.json''" by (simp add: ref_wrap_def)
  with wrapped_file_is_whole [OF run] run tmp show ?thesis by auto
qed


section \<open>Whom the broker client trusts\<close>

lemma normalize_spiffeE:
  assumes "normalize_spiffe_id uri = Some n"
  obtains td path where "uri = ''spiffe://'' @ td @ CHR ''/'' # path" "td \<noteq> []" "CHR ''/'' \<notin> set td"
    "n = ''spiffe://'' @ to_ascii_lowercase td @ CHR ''/'' # path"
proof -
  from assms obtain td rest where pre: "starts_with uri ''spiffe://''"
    and split: "split_at_char CHR ''/'' (drop 9 uri) = Some (td, rest)" and td: "td \<noteq> []"
    and n: "n = ''spiffe://'' @ to_ascii_lowercase td @ rest"
    by (auto simp: normalize_spiffe_id_def split: if_splits option.splits)
  from split_at_char_Some [OF split] obtain path where r: "rest = CHR ''/'' # path" "drop 9 uri = td @ rest"
    "CHR ''/'' \<notin> set td" by (cases rest) auto
  from pre have "uri = ''spiffe://'' @ drop 9 uri"
    by (metis append_take_drop_id length_Cons list.size(3) numeral_nat starts_with_def)
  with r n td that show thesis by auto
qed

text \<open>
  C25. In SPIFFE mode a server is accepted only if its chain validates and its certificate names
  exactly one URI, the configured identity up to the letter case of the trust domain; the path is
  compared exactly.
\<close>

theorem spiffe_accepts_only_target:
  assumes "spiffe_verifier_new built roots target = Inr v" and "spiffe_verify_server_cert r v webpki certificate = Inr ()"
  shows "webpki = Inr () \<and> (\<exists>cert td td' path. parse_x509 r certificate = Inr cert
    \<and> xc_uri_sans cert = Some [''spiffe://'' @ td @ CHR ''/'' # path]
    \<and> target = ''spiffe://'' @ td' @ CHR ''/'' # path
    \<and> to_ascii_lowercase td = to_ascii_lowercase td' \<and> td \<noteq> [] \<and> CHR ''/'' \<notin> set td)"
proof -
  from assms(1) have t: "normalize_spiffe_id target = Some (sv_allowed v)"
    by (auto simp: spiffe_verifier_new_def bindE_eq_Inr)
  from assms(2) obtain cert uri where web: "webpki = Inr ()" and cert: "parse_x509 r certificate = Inr cert"
    "xc_uri_sans cert = Some [uri]" and u: "normalize_spiffe_id uri = Some (sv_allowed v)"
    by (auto simp: spiffe_verify_server_cert_def bindE_eq_Inr Let_def length_Suc_conv split: if_splits option.splits)
  obtain td' path' where t': "target = ''spiffe://'' @ td' @ CHR ''/'' # path'" "CHR ''/'' \<notin> set td'"
    "sv_allowed v = ''spiffe://'' @ to_ascii_lowercase td' @ CHR ''/'' # path'"
    using t by (rule normalize_spiffeE)
  obtain td path where u': "uri = ''spiffe://'' @ td @ CHR ''/'' # path" "td \<noteq> []" "CHR ''/'' \<notin> set td"
    "sv_allowed v = ''spiffe://'' @ to_ascii_lowercase td @ CHR ''/'' # path"
    using u by (rule normalize_spiffeE)
  have "CHR ''/'' \<notin> set (to_ascii_lowercase s)" if "CHR ''/'' \<notin> set s" for s
    using that slash_lower by (force simp: to_ascii_lowercase_def)
  with t' u' have "to_ascii_lowercase td = to_ascii_lowercase td'" "path = path'"
    using nul_terminated_inject [of "to_ascii_lowercase td" "CHR ''/''" path "to_ascii_lowercase td'" path'] by simp_all
  with web cert u' t' show ?thesis by blast
qed

theorem spiffe_accepts_only_target_witness:
  "\<exists>v. spiffe_verifier_new (Inr ()) [] ''spiffe://prod.example/broker'' = Inr v
     \<and> spiffe_verify_server_cert ref_ratls v (Inr ()) [] = Inr ()
     \<and> (\<exists>cert. parse_x509 ref_ratls [] = Inr cert \<and> length (the (xc_uri_sans cert)) = 1)"
proof -
  have n: "normalize_spiffe_id ''spiffe://prod.example/broker'' = Some ''spiffe://prod.example/broker''"
    "normalize_spiffe_id ''spiffe://Prod.Example/broker'' = Some ''spiffe://prod.example/broker''"
    by code_simp+
  let ?v = "\<lparr>sv_roots = [], sv_allowed = ''spiffe://prod.example/broker''\<rparr>"
  have v: "spiffe_verifier_new (Inr ()) [] ''spiffe://prod.example/broker'' = Inr ?v"
    by (simp add: spiffe_verifier_new_def n)
  have "spiffe_verify_server_cert ref_ratls ?v (Inr ()) [] = Inr ()"
    by (simp add: spiffe_verify_server_cert_def ref_ratls_def ref_cert_def n)
  from spiffe_accepts_only_target [OF v this] v this show ?thesis by auto
qed

text \<open>What the policy demands of a verified report.\<close>

fun measurements_allowed :: "ratls \<Rightarrow> (string \<Rightarrow> string) \<Rightarrow> MeasurementPolicy \<Rightarrow> Report \<Rightarrow> bool" where
  "measurements_allowed r lower p (TD10 td) = allows_tdx_mrtd lower p (ratls_hex r (td_mr_td td))"
| "measurements_allowed r lower p (TD15 td) = allows_tdx_mrtd lower p (ratls_hex r (td_mr_td td))"
| "measurements_allowed r lower p (SgxEnclave er) =
     allows_sgx_measurements lower p (ratls_hex r (er_mr_enclave er)) (ratls_hex r (er_mr_signer er)) (er_isv_svn er)"

lemma enforce_policy_Inr:
  "enforce_measurement_policy r lower p v = Inr () \<longleftrightarrow> measurements_allowed r lower p (vr_report (va_report v))"
  by (cases "vr_report (va_report v)") (auto simp: enforce_measurement_policy_def Let_def)

text \<open>
  C6. A broker certificate is accepted only when its quote carries the hash of the certificate's
  own key, the quote verifies against fresh collateral, the verified measurements are allowed by the
  policy, and the subject is on the allowlist where there is one.
\<close>

theorem accepted_peer_is_attested:
  assumes "ratls_verify_server_cert r e lower runtime v certificate = Inr ()"
  shows "\<exists>cert a report col now. parse_x509 r certificate = Inr cert
    \<and> attestation_from_der r certificate = Inr (Some a)
    \<and> ratls_decode_report_data r (ra_quote a)
        = Inr (sha512 r (as_bytes ''ratls-cert:'' @ xc_public_key cert))
    \<and> unix_now r = Inr now \<and> qvl_verify r (ra_quote a) col now = Inr report
    \<and> measurements_allowed r lower (measurement (rv_policy v)) (vr_report report)
    \<and> (\<forall>allowed. rv_subject_allowlist v = Some allowed \<longrightarrow>
         (\<exists>cn cns. xc_common_names cert = Some cn # cns \<and> to_lowercase lower (trim cn) \<in> allowed))"
proof -
  from assms obtain cert a va where cert: "parse_x509 r certificate = Inr cert"
    and subj: "check_subject lower (rv_subject_allowlist v) cert = Inr ()"
    and a: "attestation_from_der r certificate = Inr (Some a)"
    and v: "verify_with_ra_pubkey r e a (xc_public_key cert) (rv_pccs_url v) = Inr va"
    and m: "enforce_measurement_policy r lower (measurement (rv_policy v)) va = Inr ()"
    by (auto simp: ratls_verify_server_cert_def verify_peer_certificate_def bindE_eq_Inr Let_def)
  from v obtain col n where "ratls_decode_report_data r (ra_quote a) = Inr (expected_report_data r (xc_public_key cert))"
    "qvl_verify r (ra_quote a) col n = Inr (va_report va)" "unix_now r = Inr n"
    by (rule verify_with_ra_pubkey_Inr)
  moreover have "\<exists>cn cns. xc_common_names cert = Some cn # cns \<and> to_lowercase lower (trim cn) \<in> allowed"
    if "rv_subject_allowlist v = Some allowed" for allowed
    using subj that by (auto simp: check_subject_def bindE_eq_Inr Let_def split: list.splits if_splits)
  moreover have "RA_TLS_BINDING_TAG @ as_bytes '':'' = as_bytes ''ratls-cert:''"
    by (simp add: RA_TLS_BINDING_TAG_def flip: as_bytes_append)
  ultimately show ?thesis
    using cert a m by (metis append_assoc enforce_policy_Inr expected_report_data_def)
qed

theorem accepted_peer_is_attested_witness:
  "\<exists>cert. parse_x509 ref_ratls [] = Inr cert \<and> (\<exists>cn cns. xc_common_names cert = Some cn # cns
     \<and> to_lowercase id (trim cn) \<in> {''broker''})"
  using accepted_peer_is_attested [OF ref_ratls_accepts [of no_env]] by (auto simp: ref_verifier_def ref_client_config_def)

text \<open>
  C36. The compose hash a policy pins is read from an extension that nothing authenticates: if a
  quote verifies, it verifies with any other event log in its place, and then the compose hash is
  whatever that log says.
\<close>

theorem event_log_is_unauthenticated:
  assumes "verify_with_ra_pubkey r e a pk url = Inr v"
    and "event_log_json r log = Inr (before @ ev # after)" and "log \<noteq> []"
    and "compose_event ev" and "list_all (\<lambda>ev. \<not> compose_event ev) before"
  shows "\<exists>v'. verify_with_ra_pubkey r e (a\<lparr>ra_raw_event_log := log\<rparr>) pk url = Inr v'
    \<and> va_report v' = va_report v \<and> decode_compose_hash r v' = Inr (ratls_hex r (ev_event_payload ev))"
proof -
  have "find compose_event (before @ ev # after) = Some ev"
    using assms(4,5) by (induction before) auto
  with assms(1-3) show ?thesis
    by (simp add: verify_event_log_irrelevant decode_compose_hash_def)
qed

theorem event_log_is_unauthenticated_witness:
  "\<exists>v v'. verify_with_ra_pubkey ref_ratls no_env \<lparr>ra_quote = 3 # replicate 7 0, ra_raw_event_log = [1]\<rparr> [9] (Some ''u'') = Inr v
     \<and> verify_with_ra_pubkey ref_ratls no_env \<lparr>ra_quote = 3 # replicate 7 0, ra_raw_event_log = [171]\<rparr> [9] (Some ''u'') = Inr v'
     \<and> decode_compose_hash ref_ratls v' = Inr (hex_text [171])"
proof -
  let ?a = "\<lparr>ra_quote = 3 # replicate 7 0, ra_raw_event_log = [1]\<rparr>"
  have "\<exists>v. verify_with_ra_pubkey ref_ratls no_env ?a [9] (Some ''u'') = Inr v"
    by (simp add: verify_with_ra_pubkey_def ref_ratls_def detect_vendor_from_quote_def u16_le_def u32_le_def
        TEE_TYPE_TDX_def TEE_TYPE_SGX_def Let_def ratls_decode_report_data_def expected_report_data_def
        resolve_pccs_url_def nth_Cons' flip: as_bytes_append)
  then obtain v where v: "verify_with_ra_pubkey ref_ratls no_env ?a [9] (Some ''u'') = Inr v" by blast
  let ?ev = "\<lparr>ev_imr = 3, ev_event = ''compose-hash'', ev_event_payload = [171]\<rparr>"
  have "event_log_json ref_ratls [171] = Inr ([] @ ?ev # [])" "ratls_hex ref_ratls = hex_text"
    by (simp_all add: ref_ratls_def)
  with event_log_is_unauthenticated [OF v, of "[171]" "[]" ?ev "[]"] v show ?thesis
    by (auto simp: compose_event_def)
qed



section \<open>Whom the client is connected to\<close>



end
