(* ===== verification/Startup.thy ===== *)
theory Startup
  imports Pool
begin

text \<open>
  When a start succeeds. \<open>succeeds\<close> is total correctness: from every state with the first predicate
  the operation returns a value, in a state with the second one. The extensions a start creates
  are the ones it lists, so the check at its end does not fail on a server it has set up itself.
\<close>

section \<open>Operations that succeed\<close>

definition succeeds :: "('s \<Rightarrow> bool) \<Rightarrow> ('e, 's, 'a) op \<Rightarrow> ('s \<Rightarrow> bool) \<Rightarrow> bool" where
  "succeeds P m Q \<longleftrightarrow> (\<forall>s. P s \<longrightarrow> (\<exists>a s'. m s = (Inr a, s') \<and> Q s'))"

lemma succeedsD: "succeeds P m Q \<Longrightarrow> P s \<Longrightarrow> \<exists>a s'. m s = (Inr a, s') \<and> Q s'"
  unfolding succeeds_def by blast

lemma succeeds_bind: "succeeds P m Q \<Longrightarrow> (\<And>a. succeeds Q (f a) R) \<Longrightarrow> succeeds P (bindM m f) R"
  unfolding succeeds_def by (fastforce simp: bindM_def)

lemma succeeds_return: "succeeds P (returnM a) P"
  by (simp add: succeeds_def)

lemma succeeds_when: "(b \<Longrightarrow> succeeds P m P) \<Longrightarrow> succeeds P (whenM b m) P"
  by (simp add: succeeds_def whenM_def)


section \<open>Extensions of a server\<close>

text \<open>The migrator of sqlx: migrations that have not run are applied, the others are not.\<close>

definition migrator_applies :: "pool_ext \<Rightarrow> bool" where
  "migrator_applies pe \<longleftrightarrow> (\<forall>n s. migrator_run pe n s = Inr (if sv_migrated s then s else migration_0001 s))"

definition answers :: "pool_ext \<Rightarrow> bool" where
  "answers pe \<longleftrightarrow> (\<forall>n. server_reply pe n = None)"

text \<open>All extensions but those of \<open>X\<close> are listed on a migrated server.\<close>

definition listed_but :: "string set \<Rightarrow> string \<Rightarrow> 'b process \<Rightarrow> bool" where
  "listed_but X key p \<longleftrightarrow> sv_migrated (ps_servers p key)
     \<and> set (sv_extensions (ps_servers p key)) \<subseteq> set (sv_allowlist (ps_servers p key)) \<union> X"

lemma on_server_succeeds:
  assumes "answers pe" and "po_server (pg_options pool) = key"
    and "\<And>s. sv_migrated s \<Longrightarrow> set (sv_extensions s) \<subseteq> set (sv_allowlist s) \<union> X \<Longrightarrow>
      sv_migrated (snd (f s)) \<and> set (sv_extensions (snd (f s))) \<subseteq> set (sv_allowlist (snd (f s))) \<union> Y"
  shows "succeeds (listed_but X key) (on_server pe pool f) (listed_but Y key)"
proof -
  have "listed_but Y key (p\<lparr>ps_world := w, ps_servers := (ps_servers p)(key := snd (f (ps_servers p key)))\<rparr>)"
    if "listed_but X key p" for w and p :: "'b process"
    using assms(3) that by (simp add: listed_but_def)
  with assms(1,2) show ?thesis
    by (auto simp: succeeds_def answers_def on_server_def reading_def in_world_def bindM_def Let_def case_prod_unfold)
qed

lemma allowlist_succeeds:
  assumes "answers pe" and "po_server (pg_options pool) = key"
  shows "succeeds (listed_but (insert ext X) key) (upsert_extension_allowlist pe pool ext) (listed_but X key)"
  unfolding upsert_extension_allowlist_def by (rule on_server_succeeds [OF assms]) auto

lemma allowlist_again:
  assumes "answers pe" and "po_server (pg_options pool) = key"
  shows "succeeds (listed_but X key) (upsert_extension_allowlist pe pool ext) (listed_but X key)"
  unfolding upsert_extension_allowlist_def by (rule on_server_succeeds [OF assms]) auto

lemma create_succeeds:
  assumes "answers pe" and "po_server (pg_options pool) = key"
  shows "succeeds (listed_but {} key) (create_extension pe pool ext) (listed_but {ext} key)"
  unfolding create_extension_def by (rule on_server_succeeds [OF assms]) auto

lemma table_call_succeeds:
  assumes "answers pe" and "po_server (pg_options pool) = key"
  shows "succeeds (listed_but X key) (table_call pe pool) (listed_but X key)"
  unfolding table_call_def by (rule on_server_succeeds [OF assms]) auto

lemma enforce_succeeds:
  assumes "answers pe" and "po_server (pg_options pool) = key" and "env_flag e ''SECURE_DB_ALLOW_UNLISTED_EXTENSIONS'' = Inr allow"
  shows "succeeds (listed_but {} key) (enforce_extension_allowlist pe e pool) (listed_but {} key)"
  using assms
  by (auto simp: succeeds_def listed_but_def answers_def enforce_extension_allowlist_def on_server_def reading_def in_world_def
      bindM_def Let_def unlisted_def filter_empty_conv)

lemma ensure_extensions_succeeds:
  assumes "answers pe" and "po_server (pg_options pool) = key" and "env_flag e ''SECURE_DB_ALLOW_UNLISTED_EXTENSIONS'' = Inr allow"
  shows "succeeds (listed_but {} key) (ensure_postgres_extensions pe e pool kind) (listed_but {} key)"
proof -
  note [intro] = allowlist_succeeds [OF assms(1,2)] create_succeeds [OF assms(1,2)] table_call_succeeds [OF assms(1,2)]
  have "succeeds (listed_but {} key) (ensure_timescaledb pe pool) (listed_but {''timescaledb''} key)"
    "succeeds (listed_but {} key) (ensure_citus pe pool) (listed_but {''citus''} key)"
    unfolding ensure_timescaledb_def ensure_citus_def by (blast intro: succeeds_bind)+
  then show ?thesis unfolding ensure_postgres_extensions_def
    by (intro succeeds_bind [OF allowlist_again [OF assms(1,2)]] succeeds_bind [OF succeeds_when]
        enforce_succeeds [OF assms]) (blast intro: succeeds_bind)+
qed

text \<open>A server that only has the procedural language, or what the migration adds to it.\<close>

definition fresh_server :: "server \<Rightarrow> bool" where
  "fresh_server s \<longleftrightarrow> \<not> sv_migrated s \<and> set (sv_extensions s) \<subseteq> {''plpgsql'', ''pgcrypto''}"

lemma migrations_succeed:
  assumes "migrator_applies pe" and "po_server (pg_options pool) = key" and "env_flag e ''SECURE_DB_SKIP_MIGRATIONS'' = Inr False"
  shows "succeeds (\<lambda>p. fresh_server (ps_servers p key)) (run_migrations pe e pool) (listed_but {} key)"
  using assms
  by (auto simp: succeeds_def listed_but_def run_migrations_def migrator_applies_def fresh_server_def migration_0001_def
      reading_def in_world_def bindM_def Let_def)

lemma create_pool_servers: "create_pool x pe e auth cx p = (Inr init, p1) \<Longrightarrow> ps_servers p1 = ps_servers p"
  using appends_create [of x pe e auth cx] unfolding appends_def by blast

lemma open_succeeds:
  assumes "create_pool x pe e auth cx p = (Inr init, p1)" and "key = po_server (pg_options (ps_cells p1 ! pi_pool init))"
    and "fresh_server (ps_servers p1 key)" and "answers pe" "migrator_applies pe"
    and "env_flag e ''SECURE_DB_SKIP_MIGRATIONS'' = Inr False" "env_flag e ''SECURE_DB_ALLOW_UNLISTED_EXTENSIONS'' = Inr allow"
  shows "\<exists>p'. open_checked_pool x pe e auth cx kind p = (Inr init, p') \<and> listed_but {} key p'"
proof -
  let ?pool = "ps_cells p1 ! pi_pool init"
  have key: "po_server (pg_options ?pool) = key" using assms(2) by simp
  obtain u p2 where 2: "run_migrations pe e ?pool p1 = (Inr u, p2)" "listed_but {} key p2"
    using succeedsD [OF migrations_succeed [OF assms(5) key assms(6)]] assms(3) by blast
  obtain v p3 where 3: "ensure_postgres_extensions pe e ?pool kind p2 = (Inr v, p3)" "listed_but {} key p3"
    using succeedsD [OF ensure_extensions_succeeds [OF assms(4) key assms(7)] 2(2)] by blast
  show ?thesis using assms(1) 2 3 by (simp add: open_checked_pool_def bindM_def reloadable_load_def)
qed

end
