(* ===== verification/Props_Pool.thy ===== *)
theory Props_Pool
  imports Reference_Client Startup
begin

text \<open>
  The properties of connection pools: what a successful start guarantees, and what rotation keeps.
\<close>

section \<open>Properties\<close>

text \<open>
  C26. A successful start leaves no extension installed outside the allowlist on the server of
  either pool, unless the operator allowed that.
\<close>

theorem start_enforces_allowlist:
  assumes "connect_postgres x pe e cfg p = (Inr (pool, workers), p')"
    and "env_flag e ''SECURE_DB_ALLOW_UNLISTED_EXTENSIONS'' \<noteq> Inr True"
    and "cell \<in> {pp_data pool, pp_secrets pool}"
  shows "set (sv_extensions (ps_servers p' (po_server (pg_options (ps_cells p' ! cell)))))
    \<subseteq> set (sv_allowlist (ps_servers p' (po_server (pg_options (ps_cells p' ! cell)))))"
  using connectE(3,4) [OF assms(1)] assms(2,3) by (auto simp: all_listed_def unlisted_def filter_empty_conv)

theorem start_enforces_allowlist_witness:
  "\<exists>wk p'. connect_postgres lease_env ref_pool_ext enforced_env ref_config ref_process
      = (Inr (\<lparr>pp_data = 0, pp_secrets = 0\<rparr>, [wk]), p')
    \<and> set (sv_extensions (ps_servers p' (po_server (pg_options (ps_cells p' ! 0)))))
      \<subseteq> set (sv_allowlist (ps_servers p' (po_server (pg_options (ps_cells p' ! 0)))))"
proof -
  obtain wk p' where run: "connect_postgres lease_env ref_pool_ext enforced_env ref_config ref_process
      = (Inr (\<lparr>pp_data = 0, pp_secrets = 0\<rparr>, [wk]), p')" using ref_connect by blast
  from start_enforces_allowlist [OF run, of 0] run show ?thesis by (simp add: env_flag_def enforced_env_def no_env_def)
qed






text \<open>
  C19. A refresh either fails and leaves every pool as it was, or puts a pool that demands TLS into
  the worker's cell, closes the one that was there, and touches no other cell.
\<close>

theorem refresh_swaps_or_keeps:
  assumes "refresh_once x pe wk p = (r, p')"
  shows "case r of
      Inl err \<Rightarrow> ps_cells p' = ps_cells p \<and> ps_closed p' = ps_closed p
    | Inr expiry \<Rightarrow> (\<exists>pool. ps_cells p' = (ps_cells p)[bw_cell wk := pool] \<and> po_ssl_mode (pg_options pool) = Require
        \<and> ps_closed p' = pg_id (ps_cells p ! bw_cell wk) # ps_closed p)"
proof (cases r)
  case (Inl err)
  with assms have "refresh_once x pe wk p = (Inl err, p')" by simp
  from failure_keepsD [OF refresh_failure frame_self this] show ?thesis by (simp add: Inl frame_def)
next
  case (Inr expiry)
  with assms have "refresh_once x pe wk p = (Inr expiry, p')" by simp
  then show ?thesis unfolding Inr sum.case ssl_required_def [symmetric]
    by (rule refreshE) blast
qed

theorem refresh_swaps_or_keeps_witness:
  "\<exists>wk p' r q. connect_postgres lease_env ref_pool_ext enforced_env ref_config ref_process
      = (Inr (\<lparr>pp_data = 0, pp_secrets = 0\<rparr>, [wk]), p') \<and> refresh_once lease_env ref_pool_ext wk p' = (r, q)
    \<and> (\<forall>err. r = Inl err \<longrightarrow> ps_cells q = ps_cells p')"
proof -
  obtain wk p' where run: "connect_postgres lease_env ref_pool_ext enforced_env ref_config ref_process
      = (Inr (\<lparr>pp_data = 0, pp_secrets = 0\<rparr>, [wk]), p')" using ref_connect by blast
  obtain r q where again: "refresh_once lease_env ref_pool_ext wk p' = (r, q)" by fastforce
  from refresh_swaps_or_keeps [OF again] run again show ?thesis by (auto split: sum.splits)
qed



text \<open>
  A pool for a static URL is opened only through PgBouncer, unless RA-TLS is disabled or the
  operator allowed a direct bootstrap connection; and it demands TLS unless RA-TLS is disabled.
\<close>

lemma static_pool_is_guarded:
  assumes run: "create_pool x pe e (StaticUrl url) cx p = (Inr init, p')"
  shows "(ratls_disabled e \<or> env_flag e ''SECURE_DB_ALLOW_DIRECT_BOOTSTRAP'' = Inr True
      \<or> list_ex (str_contains (to_lowercase (lower_url pe) url)) [''@pgbouncer:'', ''//pgbouncer:'', '':6432/'', '':6432?'']
      \<or> ends_with (to_lowercase (lower_url pe) url) '':6432'')
    \<and> (\<exists>pool. ps_cells p' = ps_cells p @ [pool] \<and> pg_max_connections pool = cx_max_connections cx
        \<and> po_ssl_mode (pg_options pool) = (if ratls_disabled e then Prefer else Require)) \<and> pi_worker init = None"
proof -
  from run obtain skip opts pool p1 where s: "skip_pgbouncer_check e = Inr skip"
    and g: "skip \<or> ensure_pgbouncer_dsn (lower_url pe) url = Inr ()"
    and i: "instantiate_pool pe (opts\<lparr>po_ssl_mode := if ratls_disabled e then Prefer else Require,
        po_application_name := Some (cx_application_name cx)\<rparr>) cx p = (Inr pool, p1)"
    and n: "ps_cells p' = ps_cells p1 @ [pool]" "pi_worker init = None"
    by (auto simp: create_pool_def create_static_pool_def Let_def bindM_def reloadable_new_def
        split: sum.splits prod.splits if_splits)
  have "pg_max_connections pool = cx_max_connections cx"
    using i by (auto simp: instantiate_pool_def bindM_def split: prod.splits sum.splits)
  with s g i n instantiate_InrD(2,3) [OF i] show ?thesis
    by (auto simp: skip_pgbouncer_check_def ensure_pgbouncer_dsn_def Let_def split: if_splits)
qed



text \<open>
  C22. Rotation makes progress: when the broker issues a lease and the server accepts it, one pass
  puts a pool with the leased credentials into the worker's cell, and the task goes on with the
  new expiry, or ends when there is none. A task whose refresh failed is kept as it was and tries
  again.
\<close>

theorem rotation_installs_lease:
  assumes expiry: "bw_next_expiry wk = Some expiry"
    and issue: "adapter_issue_postgres_credentials x
      \<lparr>pp_audience = trim (bc_audience (bw_credential wk)), pp_scope = bc_scope (bw_credential wk),
       pp_ttl_seconds = (if bc_ttl_seconds (bw_credential wk) = 0 then None else Some (bc_ttl_seconds (bw_credential wk))),
       pp_application_name = Some (cx_application_name (bw_context wk))\<rparr> (w_broker (ps_world p)) = (Inr lease, b)"
    and parse: "parse_connect_options pe (pl_database_url lease) = Inr opts"
    and server: "\<forall>n o'. connect_with pe n o' = Inr ()" and cell: "bw_cell wk < length (ps_cells p)"
    and pass: "worker_pass x pe wk p = (w, p')"
  shows "w = map_option (\<lambda>next. wk\<lparr>bw_next_expiry := Some next\<rparr>) (pl_expires_at lease)
    \<and> pg_options (ps_cells p' ! bw_cell wk) = opts\<lparr>po_ssl_mode := Require,
        po_application_name := Some (cx_application_name (bw_context wk)),
        po_username := (case pl_username lease of None \<Rightarrow> po_username opts | u \<Rightarrow> u),
        po_password := (case pl_password lease of None \<Rightarrow> po_password opts | pw \<Rightarrow> pw)\<rparr>
    \<and> (\<forall>p err q. refresh_once x pe wk (before_refresh x expiry p) = (Inl err, q) \<longrightarrow> fst (worker_pass x pe wk p) = Some wk)"
proof -
  let ?q = "before_refresh x expiry p"
  have q: "w_broker (ps_world ?q) = w_broker (ps_world p)" "ps_cells ?q = ps_cells p"
    by (simp_all add: before_refresh_def Let_def)
  have "\<exists>p2. refresh_once x pe wk ?q = (Inr (pl_expires_at lease), p2)
      \<and> pg_options (ps_cells p2 ! bw_cell wk) = opts\<lparr>po_ssl_mode := Require,
        po_application_name := Some (cx_application_name (bw_context wk)),
        po_username := (case pl_username lease of None \<Rightarrow> po_username opts | u \<Rightarrow> u),
        po_password := (case pl_password lease of None \<Rightarrow> po_password opts | pw \<Rightarrow> pw)\<rparr>"
    using issue parse server cell q
    by (auto simp: refresh_once_def Let_def obtain_broker_lease_def in_world_def issue_postgres_credentials_def
        counted_app map_errM_def record_lease_metrics_def connect_options_from_lease_def instantiate_pool_def
        reading_def bindM_def reloadable_replace_def pool_close_def tick_def split: option.splits)
  with pass expiry show ?thesis
    by (cases "pl_expires_at lease") (auto simp: worker_pass_eq)
qed

theorem rotation_installs_lease_witness:
  "po_username (pg_options (ps_cells (snd (worker_pass lease_env ref_pool_ext
     \<lparr>bw_cell = 0, bw_credential = \<lparr>bc_audience = ''db'', bc_scope = [], bc_ttl_seconds = 30\<rparr>,
      bw_context = context_of ref_config ''data'', bw_next_expiry = Some (30 * second)\<rparr>
     (ref_process\<lparr>ps_cells := [ref_pool]\<rparr>))) ! 0)) = Some ''lease''"
proof -
  let ?wk = "\<lparr>bw_cell = 0, bw_credential = \<lparr>bc_audience = ''db'', bc_scope = [], bc_ttl_seconds = 30\<rparr>,
      bw_context = context_of ref_config ''data'', bw_next_expiry = Some (30 * second)\<rparr>"
  let ?p = "ref_process\<lparr>ps_cells := [ref_pool]\<rparr>"
  obtain w p' where pass: "worker_pass lease_env ref_pool_ext ?wk ?p = (w, p')" by fastforce
  from rotation_installs_lease [OF _ _ _ _ _ pass, of "30 * second"]
  have "pg_options (ps_cells p' ! 0) = \<lparr>po_server = ''postgres://db'', po_username = Some ''lease'', po_password = Some ''pw'',
      po_ssl_mode = Require, po_application_name = Some ''app''\<rparr>"
    by (simp add: lease_env_def ref_pool_ext_def context_of_def ref_config_def)
  with pass show ?thesis by simp
qed

end
