(* ===== verification/Vault.thy ===== *)
theory Vault
  imports Tickets
begin

text \<open>
  An abstract specification of the ticket store: a map from ids to plain records, each with a
  flag that says whether its secrets can still be opened. The operations on sealed rows, leases and
  the network refine it.
\<close>

section \<open>The specification\<close>

record vault_entry =
  ve_record :: TicketVerificationRecord
  ve_openable :: bool

type_synonym vault = "uuid \<rightharpoonup> vault_entry"

datatype ticket_call =
    Issue NewTorAccessTicket
  | Verify uuid
  | Status uuid
  | Redeem uuid string
  | Expire uuid
  | Collect int
  | RemoveCredential uuid

datatype ticket_reply =
    Done
  | Shown "TicketVerificationRecord option"
  | Reported "TicketStatusRecord option"
  | Existed bool
  | Collected nat

definition status_of :: "TicketVerificationRecord \<Rightarrow> TicketStatusRecord" where
  "status_of v = \<lparr>ts_id = tv_id v, ts_credential_id = tv_credential_id v, ts_expires_at = tv_expires_at v,
     ts_redeemed_at = tv_redeemed_at v\<rparr>"

definition vault_update :: "(TicketVerificationRecord \<Rightarrow> TicketVerificationRecord) \<Rightarrow> uuid \<Rightarrow> vault \<Rightarrow> vault" where
  "vault_update f tid V = (\<lambda>i. if i = tid then map_option (\<lambda>e. e\<lparr>ve_record := f (ve_record e)\<rparr>) (V i) else V i)"

definition vault_filter :: "(TicketVerificationRecord \<Rightarrow> bool) \<Rightarrow> vault \<Rightarrow> vault" where
  "vault_filter p V = (\<lambda>i. case V i of Some e \<Rightarrow> if p (ve_record e) then Some e else None | None \<Rightarrow> None)"

inductive vault_step :: "time \<Rightarrow> vault \<Rightarrow> ticket_call \<Rightarrow> ticket_reply \<Rightarrow> vault \<Rightarrow> bool" for now where
  v_issue: "nt_id t \<notin> dom V \<Longrightarrow>
    vault_step now V (Issue t) Done (V(nt_id t \<mapsto> \<lparr>ve_record = verification_of t, ve_openable = True\<rparr>))"
| v_verify: "V tid = Some \<lparr>ve_record = v, ve_openable = True\<rparr> \<Longrightarrow>
    vault_step now V (Verify tid) (Shown (Some v)) (V(tid \<mapsto> \<lparr>ve_record = v, ve_openable = False\<rparr>))"
| v_unknown: "V tid = None \<Longrightarrow> vault_step now V (Verify tid) (Shown None) V"
| v_status: "vault_step now V (Status tid) (Reported (map_option (\<lambda>e. status_of (ve_record e)) (V tid))) V"
| v_redeem: "vault_step now V (Redeem tid onion) Done (vault_update (\<lambda>v. v\<lparr>tv_redeemed_at := Some now\<rparr>) tid V)"
| v_expire: "vault_step now V (Expire tid) (Existed (tid \<in> dom V))
    (vault_update (\<lambda>v. v\<lparr>tv_expires_at := now - second\<rparr>) tid V)"
| v_collect: "days_before now days = Inr cutoff \<Longrightarrow>
    V' = vault_filter (\<lambda>v. \<not> (tv_expires_at v < cutoff \<and> (tv_redeemed_at v \<noteq> None \<or> tv_expires_at v < now))) V \<Longrightarrow>
    vault_step now V (Collect days) (Collected (card (dom V - dom V'))) V'"
| v_remove: "vault_step now V (RemoveCredential cid) (Existed b) (vault_filter (\<lambda>v. tv_credential_id v \<noteq> cid) V)"

text \<open>
  A run: the calls, their replies, the vaults between them; each call takes its own reading of the
  clock.
\<close>

inductive vault_run :: "(nat \<Rightarrow> time) \<Rightarrow> vault \<Rightarrow> ticket_call list \<Rightarrow> ticket_reply list \<Rightarrow> vault \<Rightarrow> bool" for cl where
  run_Nil: "vault_run cl V [] [] V"
| run_Cons: "vault_step (cl n) V c r V1 \<Longrightarrow> vault_run cl V1 cs rs V2 \<Longrightarrow> vault_run cl V (c # cs) (r # rs) V2"

inductive_cases vault_step_VerifyE: "vault_step now V (Verify tid) r V'"


section \<open>The implementation\<close>

definition run_ticket_call :: "('b, 'z) ext_scheme \<Rightarrow> ticket_call \<Rightarrow> ('b, ticket_reply) db_op" where
  "run_ticket_call x c =
     (case c of
        Issue t \<Rightarrow> bindM (issue_tor_ticket x t) (\<lambda>_. returnM Done)
      | Verify tid \<Rightarrow> bindM (fetch_tor_ticket_for_verification x tid) (\<lambda>r. returnM (Shown r))
      | Status tid \<Rightarrow> bindM (get_tor_ticket_status x tid) (\<lambda>r. returnM (Reported r))
      | Redeem tid onion \<Rightarrow> bindM (mark_tor_ticket_redeemed x tid onion) (\<lambda>_. returnM Done)
      | Expire tid \<Rightarrow> bindM (expire_tor_ticket_now x tid) (\<lambda>b. returnM (Existed b))
      | Collect days \<Rightarrow> bindM (gc_expired_tickets x days) (\<lambda>n. returnM (Collected n))
      | RemoveCredential cid \<Rightarrow> bindM (delete_tor_credential x cid) (\<lambda>b. returnM (Existed b)))"

fun run_ticket_calls :: "('b, 'z) ext_scheme \<Rightarrow> ticket_call list \<Rightarrow> ('b, ticket_reply list) db_op" where
  "run_ticket_calls x [] = returnM []"
| "run_ticket_calls x (c # cs) =
     bindM (run_ticket_call x c) (\<lambda>r. bindM (run_ticket_calls x cs) (\<lambda>rs. returnM (r # rs)))"


section \<open>The refinement\<close>

text \<open>The sealed fields of a row the vault still counts as openable.\<close>

definition open_fields :: "'z codec_scheme \<Rightarrow> vault \<Rightarrow> tor_ticket_row \<Rightarrow> (bytes \<times> string \<times> string) list" where
  "open_fields x V row =
     (case V (tk_id row) of
        Some e \<Rightarrow> if ve_openable e then ticket_fields x (ve_record e) row else []
      | None \<Rightarrow> [])"

definition vault_rel :: "('b, 'z) ext_scheme \<Rightarrow> ('b \<Rightarrow> string \<times> string \<Rightarrow> bytes option) \<Rightarrow> 'b world \<Rightarrow> vault \<Rightarrow> bool" where
  "vault_rel x live w V \<longleftrightarrow>
     distinct (map tk_id (tor_access_tickets (w_db w)))
   \<and> dom V = tk_id ` set (tor_access_tickets (w_db w))
   \<and> (\<forall>row \<in> set (tor_access_tickets (w_db w)). row_shows (ve_record (the (V (tk_id row)))) row)
   \<and> protected_field.held (payload_holds x live) (payload_lease x) (w_broker w)
       (concat (map (open_fields x V) (tor_access_tickets (w_db w))))"

text \<open>What the caller has to see to: plain values, and no second verification of a ticket.\<close>

fun call_ok :: "vault \<Rightarrow> ticket_call \<Rightarrow> bool" where
  "call_ok V (Issue t) = plain_ticket t"
| "call_ok V (Verify tid) = (case V tid of Some e \<Rightarrow> ve_openable e | None \<Rightarrow> True)"
| "call_ok V _ = True"


section \<open>Facts\<close>

lemma mset_concat_filter: "mset (concat (map f (filter p xs))) \<subseteq># mset (concat (map f xs))"
  by (induction xs) (auto simp: subset_mset.add_mono subset_mset.add_increasing)

lemma open_fields_other: "i \<noteq> tk_id row \<Longrightarrow> open_fields x (V(i := e)) row = open_fields x V row"
  by (simp add: open_fields_def)

context broker_contract
begin

lemma rel_empty: "tor_access_tickets (w_db w) = [] \<Longrightarrow> vault_rel x live w (\<lambda>_. None)"
  by (simp add: vault_rel_def held_Nil)

text \<open>Only the tickets and the broker matter.\<close>

lemma rel_frame:
  "vault_rel x live w V \<Longrightarrow> tor_access_tickets (w_db w') = tor_access_tickets (w_db w) \<Longrightarrow> w_broker w' = w_broker w \<Longrightarrow>
     vault_rel x live w' V"
  by (simp add: vault_rel_def)

lemma rel_find:
  assumes "vault_rel x live w V" and "find (\<lambda>r. tk_id r = tid) (tor_access_tickets (w_db w)) = Some row"
  obtains e where "V tid = Some e" "row_shows (ve_record e) row" "row \<in> set (tor_access_tickets (w_db w))" "tk_id row = tid"
proof -
  from find_SomeD [OF assms(2)] have row: "row \<in> set (tor_access_tickets (w_db w))" "tk_id row = tid" by auto
  with assms(1) obtain e where "V tid = Some e" by (fastforce simp: vault_rel_def)
  with row assms(1) show thesis by (intro that [of e]) (auto simp: vault_rel_def)
qed

lemma rel_none:
  assumes "vault_rel x live w V" and "find (\<lambda>r. tk_id r = tid) (tor_access_tickets (w_db w)) = None"
  shows "V tid = None"
proof -
  have "tid \<notin> dom V" using assms by (auto simp: vault_rel_def find_None_iff)
  then show ?thesis by (simp add: domIff)
qed

text \<open>One lemma per operation on the tables.\<close>

lemma rel_issue:
  assumes rel: "vault_rel x live w V" and run: "issue_tor_ticket x t w = (Inr r, w')" and "plain_ticket t"
  shows "nt_id t \<notin> dom V \<and> vault_rel x live w' (V(nt_id t \<mapsto> \<lparr>ve_record = verification_of t, ve_openable = True\<rparr>))"
proof -
  let ?rows = "tor_access_tickets (w_db w)"
  let ?V = "V(nt_id t \<mapsto> \<lparr>ve_record = verification_of t, ve_openable = True\<rparr>)"
  have "held (w_broker w) (concat (map (open_fields x V) ?rows))" using rel by (simp add: vault_rel_def)
  from issue_stores_held [OF run assms(3) this] obtain row where
    db: "w_db w' = (w_db w)\<lparr>tor_access_tickets := ?rows @ [row]\<rparr>" and new: "tk_id row \<notin> tk_id ` set ?rows"
    and row: "row_of_ticket t row"
    and h: "held (w_broker w') (ticket_fields x (verification_of t) row @ concat (map (open_fields x V) ?rows))" .
  from row have i: "tk_id row = nt_id t" by (auto simp: row_of_ticket_def issued_row_def)
  have others: "map (open_fields x ?V) ?rows = map (open_fields x V) ?rows"
    using new i by (auto intro!: open_fields_other)
  have own: "open_fields x ?V row = ticket_fields x (verification_of t) row"
    by (simp add: open_fields_def i)
  have "held (w_broker w') (concat (map (open_fields x ?V) (?rows @ [row])))"
    by (rule held_mset [OF h]) (simp add: others own del: map_eq_conv)
  with rel db new i row_of_ticket_shows [OF row] show ?thesis
    by (auto simp: vault_rel_def image_iff)
qed

lemma rel_update:
  assumes rel: "vault_rel x live w V"
    and db: "tor_access_tickets (w_db w') = update_where (\<lambda>t. tk_id t = tid) f (tor_access_tickets (w_db w))"
    and broker: "held (w_broker w') (concat (map (open_fields x V) (tor_access_tickets (w_db w))))"
    and f: "\<And>v row. row_shows v row \<Longrightarrow> row_shows (g v) (f row)"
      "\<And>v row. ticket_fields x (g v) (f row) = ticket_fields x v row" "\<And>row. tk_id (f row) = tk_id row"
  shows "vault_rel x live w' (vault_update g tid V)"
proof -
  let ?rows = "tor_access_tickets (w_db w)" and ?V = "vault_update g tid V"
  let ?h = "\<lambda>row. if tk_id row = tid then f row else row"
  have id: "tk_id (?h row) = tk_id row" for row by (simp add: f)
  have "open_fields x ?V (?h row) = open_fields x V row" for row
    by (auto simp: open_fields_def vault_update_def f split: option.split)
  then have h: "held (w_broker w') (concat (map (open_fields x ?V) (map ?h ?rows)))"
    using broker by (simp add: comp_def)
  have dom: "dom ?V = dom V" by (auto simp: vault_update_def dom_def)
  have sh: "row_shows (ve_record (the (?V (tk_id (?h row))))) (?h row)" if "row \<in> set ?rows" for row
  proof -
    from rel that obtain e where "V (tk_id row) = Some e" "row_shows (ve_record e) row"
      by (fastforce simp: vault_rel_def)
    then show ?thesis unfolding id by (auto simp: vault_update_def f)
  qed
  have ids: "map tk_id (map ?h ?rows) = map tk_id ?rows" by (simp add: id)
  then have "set (map tk_id (map ?h ?rows)) = set (map tk_id ?rows)" by (rule arg_cong)
  then have "tk_id ` set (map ?h ?rows) = tk_id ` set ?rows" by (simp only: list.set_map)
  moreover have "\<forall>row \<in> set (map ?h ?rows). row_shows (ve_record (the (?V (tk_id row)))) row"
    using sh by (simp only: list.set_map ball_simps) blast
  ultimately show ?thesis
    using rel h unfolding vault_rel_def db update_where_def dom ids by (intro conjI) simp_all
qed

lemma rel_filter:
  assumes rel: "vault_rel x live w V"
    and db: "tor_access_tickets (w_db w') = filter P (tor_access_tickets (w_db w))"
    and broker: "w_broker w' = w_broker w" and p: "\<And>v row. row_shows v row \<Longrightarrow> P row = p v"
  shows "vault_rel x live w' (vault_filter p V)
    \<and> dom V - dom (vault_filter p V) = tk_id ` {row \<in> set (tor_access_tickets (w_db w)). \<not> P row}"
proof -
  let ?rows = "tor_access_tickets (w_db w)" and ?V = "vault_filter p V"
  have entry: "\<exists>e. V (tk_id row) = Some e \<and> row_shows (ve_record e) row \<and> ?V (tk_id row) = (if P row then Some e else None)"
    if "row \<in> set ?rows" for row
  proof -
    from rel that obtain e where "V (tk_id row) = Some e" "row_shows (ve_record e) row"
      by (fastforce simp: vault_rel_def)
    with p show ?thesis by (auto simp: vault_filter_def)
  qed
  then have "open_fields x ?V row = open_fields x V row" if "row \<in> set (filter P ?rows)" for row
    using that by (fastforce simp: open_fields_def)
  then have "map (open_fields x ?V) (filter P ?rows) = map (open_fields x V) (filter P ?rows)" by simp
  moreover have "held (w_broker w) (concat (map (open_fields x V) (filter P ?rows)))"
    using rel by (intro held_sub [OF _ mset_concat_filter]) (simp add: vault_rel_def)
  ultimately have h: "held (w_broker w) (concat (map (open_fields x ?V) (filter P ?rows)))" by (simp only:)
  have sub: "dom ?V \<subseteq> dom V" by (auto simp: vault_filter_def split: option.splits)
  have V: "dom V = tk_id ` set ?rows" using rel by (simp add: vault_rel_def)
  have "dom ?V = tk_id ` set (filter P ?rows)"
  proof
    show "dom ?V \<subseteq> tk_id ` set (filter P ?rows)"
    proof
      fix i assume "i \<in> dom ?V"
      with sub V obtain row where "row \<in> set ?rows" "i = tk_id row" by auto
      with entry [OF this(1)] \<open>i \<in> dom ?V\<close> show "i \<in> tk_id ` set (filter P ?rows)" by (auto split: if_splits)
    qed
    show "tk_id ` set (filter P ?rows) \<subseteq> dom ?V" using entry by fastforce
  qed
  moreover have "dom V - dom ?V = tk_id ` {row \<in> set ?rows. \<not> P row}"
    using V entry by (fastforce simp: dom_def)
  ultimately show ?thesis
    using rel h entry unfolding vault_rel_def db broker by (fastforce simp: distinct_map_filter')
qed

lemma open_fields_close:
  assumes "distinct (map tk_id rows)" and "row \<in> set rows" and "V (tk_id row) = Some e" and "ve_openable e"
  shows "mset (concat (map (open_fields x V) rows)) =
    mset (ticket_fields x (ve_record e) row @ concat (map (open_fields x (V(tk_id row \<mapsto> e\<lparr>ve_openable := False\<rparr>))) rows))"
proof -
  from split_list [OF assms(2)] obtain ys zs where rows: "rows = ys @ row # zs" by blast
  let ?V = "V(tk_id row \<mapsto> e\<lparr>ve_openable := False\<rparr>)"
  have "open_fields x ?V r = open_fields x V r" if "r \<in> set (ys @ zs)" for r
    using assms(1) that by (intro open_fields_other) (auto simp: rows image_iff)
  then have "map (open_fields x ?V) ys = map (open_fields x V) ys" "map (open_fields x ?V) zs = map (open_fields x V) zs"
    by simp_all
  note others = this
  have "open_fields x ?V row = []" "open_fields x V row = ticket_fields x (ve_record e) row"
    using assms(3,4) by (simp_all add: open_fields_def)
  then show ?thesis by (simp add: rows others del: map_eq_conv)
qed

lemma rel_verify:
  assumes rel: "vault_rel x live w V" and run: "fetch_tor_ticket_for_verification x tid w = (Inr r, w')"
    and ok: "call_ok V (Verify tid)"
  shows "\<exists>V'. vault_step now V (Verify tid) (Shown r) V' \<and> vault_rel x live w' V'"
proof -
  from run have net: "pg_network x (w_ticks w) = Delivered"
    by (auto simp: fetch_tor_ticket_for_verification_def elim!: bindM_eq_InrE exec_stmt_InrD)
  show ?thesis
  proof (cases "find (\<lambda>r. tk_id r = tid) (tor_access_tickets (w_db w))")
    case None
    then have "r = None" "w_db w' = w_db w" "w_broker w' = w_broker w"
      using run by (auto simp: fetch_tor_ticket_for_verification_def select_ticket_def elim!: bindM_eq_InrE exec_stmt_InrD)
    with rel rel_none [OF rel None] show ?thesis
      by (intro exI [of _ V]) (auto intro: v_unknown rel_frame)
  next
    case (Some row)
    obtain e where e: "V tid = Some e" "row_shows (ve_record e) row"
      and row: "row \<in> set (tor_access_tickets (w_db w))" "tk_id row = tid"
      using rel_find [OF rel Some] .
    then have op: "ve_openable e" using ok by simp
    let ?V = "V(tid \<mapsto> e\<lparr>ve_openable := False\<rparr>)"
    from rel have "distinct (map tk_id (tor_access_tickets (w_db w)))"
      and h: "held (w_broker w) (concat (map (open_fields x V) (tor_access_tickets (w_db w))))"
      by (simp_all add: vault_rel_def)
    from open_fields_close [OF this(1) row(1) _ op, where V = V] e row
    have "held (w_broker w) (ticket_fields x (ve_record e) row
        @ concat (map (open_fields x ?V) (tor_access_tickets (w_db w))))"
      using held_mset [OF h] by simp
    from fetch_stored [OF Some e(2) this net] run
    have r: "r = Some (ve_record e)" "w_db w' = w_db w"
      "held (w_broker w') (concat (map (open_fields x ?V) (tor_access_tickets (w_db w))))"
      by auto
    have "vault_rel x live w' ?V"
      using rel r e row unfolding vault_rel_def by auto
    moreover have "vault_step now V (Verify tid) (Shown r) (V(tid \<mapsto> \<lparr>ve_record = ve_record e, ve_openable = False\<rparr>))"
      using e op r(1) by (auto intro!: v_verify)
    ultimately show ?thesis by (cases e) auto
  qed
qed

lemma rel_redeem:
  assumes rel: "vault_rel x live w V" and run: "mark_tor_ticket_redeemed x tid onion w = (Inr u, w')"
  shows "\<exists>n. vault_rel x live w' (vault_update (\<lambda>v. v\<lparr>tv_redeemed_at := Some (clock x n)\<rparr>) tid V)"
proof -
  let ?fs = "concat (map (open_fields x V) (tor_access_tickets (w_db w)))"
  let ?seal = "if is_aead_payload onion then returnM onion
    else encrypt_with_new_aead x (as_bytes onion) (ticket_aad x ''redeemed_operational_onion'' tid REDEEMED_ONION_AAD)
           ''tor-ticket-redeemed-onion''"
  have fs: "held (w_broker w) ?fs" using rel by (simp add: vault_rel_def)
  from run obtain c w1 k where 1: "?seal w = (Inr c, w1)"
    and 2: "exec_stmt x (\<lambda>n now. update_tickets (\<lambda>t. tk_id t = tid) (redeemed c now)) w1 = (Inr k, w')"
    unfolding mark_tor_ticket_redeemed_def by (auto elim!: bindM_eq_InrE)
  have "preserves (db_pred ((=) (w_db w))) ?seal" by (simp add: preserves_rules)
  from preservesD [OF this, of w] 1 have db1: "w_db w1 = w_db w" by simp
  have h: "held (w_broker w1) ?fs"
    using 1 fs held_keep [OF fs] by (auto split: if_splits)
  have w': "tor_access_tickets (w_db w') = update_where (\<lambda>t. tk_id t = tid) (redeemed c (clock x (w_ticks w1)))
      (tor_access_tickets (w_db w))" "w_broker w' = w_broker w1"
    using 2 db1 by (auto simp: update_tickets_def elim!: exec_stmt_InrD)
  have "vault_rel x live w' (vault_update (\<lambda>v. v\<lparr>tv_redeemed_at := Some (clock x (w_ticks w1))\<rparr>) tid V)"
    by (rule rel_update [OF rel w'(1)]) (use h w'(2) in \<open>auto simp: row_shows_def ticket_fields_def redeemed_def Let_def\<close>)
  then show ?thesis by blast
qed

lemma rel_expire:
  assumes rel: "vault_rel x live w V" and run: "expire_tor_ticket_now x tid w = (Inr b, w')"
  shows "b = (tid \<in> dom V)
    \<and> vault_rel x live w' (vault_update (\<lambda>v. v\<lparr>tv_expires_at := clock x (w_ticks w) - second\<rparr>) tid V)"
proof -
  let ?rows = "tor_access_tickets (w_db w)"
  from run have w': "tor_access_tickets (w_db w') = update_where (\<lambda>t. tk_id t = tid) (expired_now (clock x (w_ticks w))) ?rows"
    "w_broker w' = w_broker w" "b \<longleftrightarrow> 0 < rows_where (\<lambda>t. tk_id t = tid) ?rows"
    by (auto simp: expire_tor_ticket_now_def update_tickets_def elim!: bindM_eq_InrE exec_stmt_InrD)
  have "vault_rel x live w' (vault_update (\<lambda>v. v\<lparr>tv_expires_at := clock x (w_ticks w) - second\<rparr>) tid V)"
    by (rule rel_update [OF rel w'(1)])
       (use rel w'(2) in \<open>auto simp: vault_rel_def row_shows_def ticket_fields_def expired_now_def Let_def\<close>)
  moreover have "b = (tid \<in> dom V)"
    using rel w'(3) by (auto simp: vault_rel_def rows_where_def filter_empty_conv)
  ultimately show ?thesis by simp
qed

lemma rel_collect:
  assumes rel: "vault_rel x live w V" and run: "gc_expired_tickets x days w = (Inr n, w')"
  shows "\<exists>V'. vault_step (clock x (w_ticks w)) V (Collect days) (Collected n) V' \<and> vault_rel x live w' V'"
proof -
  let ?now = "clock x (w_ticks w)" and ?rows = "tor_access_tickets (w_db w)"
  from run obtain cutoff where cut: "days_before ?now days = Inr cutoff"
    and w': "tor_access_tickets (w_db w') = filter (\<lambda>t. \<not> collectable cutoff ?now t) ?rows" "w_broker w' = w_broker w"
    and n: "n = rows_where (collectable cutoff ?now) ?rows"
    by (auto simp: gc_expired_tickets_def delete_expired_tickets_def bindE_eq_Inr elim!: exec_stmt_InrD)
  let ?p = "\<lambda>v. \<not> (tv_expires_at v < cutoff \<and> (tv_redeemed_at v \<noteq> None \<or> tv_expires_at v < ?now))"
  have f: "vault_rel x live w' (vault_filter ?p V)
      \<and> dom V - dom (vault_filter ?p V) = tk_id ` {row \<in> set ?rows. \<not> \<not> collectable cutoff ?now row}"
    by (rule rel_filter [OF rel w']) (simp add: row_shows_def collectable_def)
  have "distinct (map tk_id (filter (collectable cutoff ?now) ?rows))" using rel by (simp add: vault_rel_def)
  from distinct_card [OF this] f have "card (dom V - dom (vault_filter ?p V)) = n"
    by (simp add: n rows_where_def)
  with v_collect [OF cut refl, of V] f show ?thesis by auto
qed

lemma rel_remove:
  assumes rel: "vault_rel x live w V" and run: "delete_tor_credential x cid w = (Inr b, w')"
  shows "vault_rel x live w' (vault_filter (\<lambda>v. tv_credential_id v \<noteq> cid) V)"
proof -
  from run have "tor_access_tickets (w_db w') = filter (\<lambda>t. tk_credential_id t \<noteq> cid) (tor_access_tickets (w_db w))"
    "w_broker w' = w_broker w"
    by (auto simp: delete_tor_credential_def delete_credential_def elim!: bindM_eq_InrE exec_stmt_InrD)
  from rel_filter [OF rel this, of "\<lambda>v. tv_credential_id v \<noteq> cid"] show ?thesis by (simp add: row_shows_def)
qed

lemma rel_status:
  assumes rel: "vault_rel x live w V" and run: "get_tor_ticket_status x tid w = (Inr r, w')"
  shows "r = map_option (\<lambda>e. status_of (ve_record e)) (V tid) \<and> vault_rel x live w' V"
proof -
  let ?found = "find (\<lambda>r. tk_id r = tid) (tor_access_tickets (w_db w))"
  from run have r: "r = map_option map_ticket_status_row ?found" "w_db w' = w_db w" "w_broker w' = w_broker w"
    by (auto simp: get_tor_ticket_status_def select_ticket_def elim!: bindM_eq_InrE exec_stmt_InrD)
  moreover have "map_option map_ticket_status_row ?found = map_option (\<lambda>e. status_of (ve_record e)) (V tid)"
  proof (cases ?found)
    case None
    then show ?thesis using rel_none [OF rel None] by simp
  next
    case (Some row)
    obtain e where "V tid = Some e" "row_shows (ve_record e) row" using rel_find [OF rel Some] .
    then show ?thesis using Some by (simp add: map_ticket_status_row_def status_of_def row_shows_def)
  qed
  ultimately show ?thesis using rel by (auto intro: rel_frame)
qed

text \<open>Forward simulation: a call that succeeds is a step of the vault with the same reply.\<close>

lemma step_refines:
  assumes rel: "vault_rel x live w V" and run: "run_ticket_call x c w = (Inr r, w')" and ok: "call_ok V c"
  shows "\<exists>n V'. vault_step (clock x n) V c r V' \<and> vault_rel x live w' V'"
proof (cases c)
  case (Issue t)
  with run obtain i where "issue_tor_ticket x t w = (Inr i, w')" "r = Done"
    by (auto simp: run_ticket_call_def elim!: bindM_eq_InrE)
  with rel_issue [OF rel this(1)] ok Issue show ?thesis by (auto intro: v_issue)
next
  case (Verify tid)
  with run obtain v where "fetch_tor_ticket_for_verification x tid w = (Inr v, w')" "r = Shown v"
    by (auto simp: run_ticket_call_def elim!: bindM_eq_InrE)
  with rel_verify [OF rel this(1)] ok Verify show ?thesis by auto
next
  case (Status tid)
  with run obtain v where "get_tor_ticket_status x tid w = (Inr v, w')" "r = Reported v"
    by (auto simp: run_ticket_call_def elim!: bindM_eq_InrE)
  with rel_status [OF rel this(1)] Status show ?thesis by (auto intro: v_status)
next
  case (Redeem tid onion)
  with run obtain u where "mark_tor_ticket_redeemed x tid onion w = (Inr u, w')" "r = Done"
    by (auto simp: run_ticket_call_def elim!: bindM_eq_InrE)
  with rel_redeem [OF rel this(1)] Redeem show ?thesis by (auto intro: v_redeem)
next
  case (Expire tid)
  with run obtain b where "expire_tor_ticket_now x tid w = (Inr b, w')" "r = Existed b"
    by (auto simp: run_ticket_call_def elim!: bindM_eq_InrE)
  with rel_expire [OF rel this(1)] Expire show ?thesis by (auto intro: v_expire)
next
  case (Collect days)
  with run obtain n where "gc_expired_tickets x days w = (Inr n, w')" "r = Collected n"
    by (auto simp: run_ticket_call_def elim!: bindM_eq_InrE)
  with rel_collect [OF rel this(1)] Collect show ?thesis by auto
next
  case (RemoveCredential cid)
  with run obtain b where "delete_tor_credential x cid w = (Inr b, w')" "r = Existed b"
    by (auto simp: run_ticket_call_def elim!: bindM_eq_InrE)
  with rel_remove [OF rel this(1)] RemoveCredential show ?thesis by (auto intro: v_remove)
qed

end

fun verified_ids :: "ticket_call list \<Rightarrow> uuid list" where
  "verified_ids [] = []"
| "verified_ids (Verify tid # cs) = tid # verified_ids cs"
| "verified_ids (_ # cs) = verified_ids cs"

lemma step_closes:
  "vault_step now V c r V' \<Longrightarrow> V' i = Some e' \<Longrightarrow> \<not> ve_openable e' \<Longrightarrow>
     c = Verify i \<or> (\<exists>e. V i = Some e \<and> \<not> ve_openable e)"
  by (induction rule: vault_step.induct)
     (auto simp: vault_update_def vault_filter_def split: if_splits option.splits)

context broker_contract
begin

lemma run_refines:
  assumes "vault_rel x live w V" and "run_ticket_calls x cs w = (Inr rs, w')"
    and "\<And>t. Issue t \<in> set cs \<Longrightarrow> plain_ticket t" and "distinct (verified_ids cs)"
    and "\<And>tid e. tid \<in> set (verified_ids cs) \<Longrightarrow> V tid = Some e \<Longrightarrow> ve_openable e"
  shows "\<exists>V'. vault_run (clock x) V cs rs V' \<and> vault_rel x live w' V'"
  using assms
proof (induction cs arbitrary: w V rs)
  case Nil
  then show ?case by (auto intro: run_Nil)
next
  case (Cons c cs)
  from Cons.prems(2) obtain r w1 rs' where 1: "run_ticket_call x c w = (Inr r, w1)"
    and 2: "run_ticket_calls x cs w1 = (Inr rs', w')" and rs: "rs = r # rs'"
    by (auto elim!: bindM_eq_InrE)
  have "call_ok V c" using Cons.prems(3,5) by (cases c) (auto split: option.split)
  from step_refines [OF Cons.prems(1) 1 this] obtain n V1 where
    step: "vault_step (clock x n) V c r V1" and rel: "vault_rel x live w1 V1" by blast
  have "ve_openable e" if "tid \<in> set (verified_ids cs)" "V1 tid = Some e" for tid e
  proof (rule ccontr)
    assume "\<not> ve_openable e"
    from step_closes [OF step that(2) this] that(1) Cons.prems(4,5) show False by (cases c) auto
  qed
  moreover have "distinct (verified_ids cs)" using Cons.prems(4) by (cases c) auto
  ultimately obtain V2 where "vault_run (clock x) V1 cs rs' V2" "vault_rel x live w' V2"
    using Cons.IH [OF rel 2] Cons.prems(3) by auto
  with step rs show ?case by (auto intro: run_Cons)
qed

end

end
