(* ===== verification/Gateway.thy ===== *)
theory Gateway
  imports Api Pool
begin

text \<open>
  The running system: the calls of any number of clients on the database handle, the rotation
  tasks of its two pools and the servers the pools are connected to. Clients interleave action by
  action, with each other and with the passes of the rotation tasks; a pool that a task has
  replaced is closed.
\<close>

section \<open>The machine\<close>

record 'b client =
  cl_data :: bool
  cl_holds :: bool
  cl_pool :: "PgPoolRec option"
  cl_thread :: "('b world, unit) thread"

record 'b gateway =
  gw_process :: "'b process"
  gw_tasks :: "BrokerLeaseWorker option list"
  gw_tables :: "string \<Rightarrow> database"
  gw_clients :: "'b client list"

text \<open>\<^verbatim>\<open>PgPool::inner\<close> and \<^verbatim>\<open>PgPool::secrets\<close>: the pool that is in the cell now.\<close>

definition pool_inner :: "PgPool \<Rightarrow> 'b process \<Rightarrow> PgPoolRec" where
  "pool_inner pg p = ps_cells p ! pp_data pg"

definition pool_secrets :: "PgPool \<Rightarrow> 'b process \<Rightarrow> PgPoolRec" where
  "pool_secrets pg p = ps_cells p ! pp_secrets pg"

definition load_pool :: "PgPool \<Rightarrow> 'b process \<Rightarrow> 'b client \<Rightarrow> PgPoolRec" where
  "load_pool pg p c =
     (case cl_pool c of
        Some pool \<Rightarrow> pool
      | None \<Rightarrow> if cl_data c then pool_inner pg p else pool_secrets pg p)"

text \<open>
  The next action of a client, on the tables of the server its pool is connected to. On a pool that
  has been closed meanwhile no connection can be acquired, and the call ends with that error.
\<close>

definition client_step :: "PgPool \<Rightarrow> 'b gateway \<Rightarrow> nat \<Rightarrow> 'b gateway" where
  "client_step pg g i =
     (let p = gw_process g; c = gw_clients g ! i; pool = load_pool pg p c; key = po_server (pg_options pool) in
      if pg_id pool \<in> set (ps_closed p) then g\<lparr>gw_clients := (gw_clients g)[i := c\<lparr>cl_thread := Finished ()\<rparr>]\<rparr>
      else
        (let (t, w) = stepT (cl_thread c) ((ps_world p)\<lparr>w_db := gw_tables g key\<rparr>) in
         g\<lparr>gw_process := p\<lparr>ps_world := w\<lparr>w_db := w_db (ps_world p)\<rparr>\<rparr>,
           gw_tables := (gw_tables g)(key := w_db w),
           gw_clients := (gw_clients g)[i := c\<lparr>cl_pool := (if cl_holds c then Some pool else None), cl_thread := t\<rparr>]\<rparr>))"

datatype move = Arrive call | Act nat | Rotate nat

definition gateway_step :: "('b, 'z) ext_scheme \<Rightarrow> halo2 \<Rightarrow> pool_ext \<Rightarrow> PgPool \<Rightarrow> 'b gateway \<Rightarrow> move \<Rightarrow> 'b gateway" where
  "gateway_step x h pe pg g m =
     (case m of
        Arrive c \<Rightarrow> g\<lparr>gw_clients := gw_clients g @
          [\<lparr>cl_data = on_data_pool c, cl_holds = holds_pool c, cl_pool = None, cl_thread = call_thread x h c\<rparr>]\<rparr>
      | Act i \<Rightarrow> if i < length (gw_clients g) then client_step pg g i else g
      | Rotate i \<Rightarrow>
          (case tasks_step x pe (gw_tasks g, gw_process g) i of
             (ws, p) \<Rightarrow> g\<lparr>gw_tasks := ws, gw_process := p\<rparr>))"

definition run_gateway :: "('b, 'z) ext_scheme \<Rightarrow> halo2 \<Rightarrow> pool_ext \<Rightarrow> PgPool \<Rightarrow> 'b gateway \<Rightarrow> move list \<Rightarrow> 'b gateway" where
  "run_gateway x h pe pg = foldl (gateway_step x h pe pg)"

text \<open>The state a successful start hands over: all tables as migrated, no client yet.\<close>

definition started :: "BrokerLeaseWorker list \<Rightarrow> 'b process \<Rightarrow> 'b gateway" where
  "started workers p = \<lparr>gw_process = p, gw_tasks = map Some workers, gw_tables = (\<lambda>s. migrated_db), gw_clients = []\<rparr>"


section \<open>Facts: the tables of every server\<close>

definition tables_inv :: "(database \<Rightarrow> bool) \<Rightarrow> 'b gateway \<Rightarrow> bool" where
  "tables_inv P g \<longleftrightarrow> (\<forall>s. P (gw_tables g s))
     \<and> (\<forall>c \<in> set (gw_clients g). safeT (db_pred P) (\<lambda>_. True) (cl_thread c))"

lemma set_updateD: "a \<in> set (xs[i := b]) \<Longrightarrow> a = b \<or> a \<in> set xs"
  using set_update_subset_insert [of xs i b] by blast

lemma tables_inv_step:
  assumes calls: "\<And>c. safeT (db_pred P) (\<lambda>_. True) (call_thread x h c)" and inv: "tables_inv P g"
  shows "tables_inv P (gateway_step x h pe pg g m)"
proof (cases m)
  case (Arrive c)
  then show ?thesis using calls inv by (auto simp: gateway_step_def tables_inv_def)
next
  case (Act i)
  show ?thesis
  proof (cases "i < length (gw_clients g)")
    case True
    let ?c = "gw_clients g ! i" and ?p = "gw_process g"
    let ?w = "(ps_world ?p)\<lparr>w_db := gw_tables g (po_server (pg_options (load_pool pg ?p ?c)))\<rparr>"
    have "safeT (db_pred P) (\<lambda>_. True) (cl_thread ?c)" using inv True by (simp add: tables_inv_def)
    from safe_step [OF this, of ?w] inv
    have "safeT (db_pred P) (\<lambda>_. True) (fst (stepT (cl_thread ?c) ?w))" "P (w_db (snd (stepT (cl_thread ?c) ?w)))"
      by (simp_all add: tables_inv_def)
    with Act True inv show ?thesis
      by (auto simp: gateway_step_def client_step_def tables_inv_def Let_def case_prod_unfold safe_simps
          dest!: set_updateD)
  qed (use Act inv in \<open>simp add: gateway_step_def\<close>)
next
  case (Rotate i)
  then show ?thesis using inv by (auto simp: gateway_step_def tables_inv_def split: prod.split)
qed

interpretation schema: invariant_machine "gateway_step x h pe pg" "tables_inv schema_ok"
  by unfold_locales (rule tables_inv_step [OF call_safe_schema])

interpretation sealing: invariant_machine "gateway_step x h pe pg" "tables_inv sealed_at_rest"
  by unfold_locales (rule tables_inv_step [OF call_safe_sealed])


section \<open>Facts: the pools under clients and rotation\<close>

definition pools_inv :: "(PgConnectOptions \<Rightarrow> bool) \<Rightarrow> nat \<Rightarrow> 'b gateway \<Rightarrow> bool" where
  "pools_inv Q k g \<longleftrightarrow> tasks_inv Q k (gw_tasks g, gw_process g)
     \<and> (\<forall>c \<in> set (gw_clients g). \<forall>n. safeT (ticked n) (\<lambda>_. True) (cl_thread c))"

interpretation pools: invariant_machine "gateway_step x h pe pg" "pools_inv Q k"
proof
  fix g :: "'a gateway" and m
  assume inv: "pools_inv Q k g"
  show "pools_inv Q k (gateway_step x h pe pg g m)"
  proof (cases m)
    case (Arrive c)
    then show ?thesis using inv call_ticks by (auto simp: gateway_step_def pools_inv_def)
  next
    case (Act i)
    show ?thesis
    proof (cases "i < length (gw_clients g)")
      case True
      let ?c = "gw_clients g ! i" and ?p = "gw_process g"
      let ?w = "(ps_world ?p)\<lparr>w_db := gw_tables g (po_server (pg_options (load_pool pg ?p ?c)))\<rparr>"
      let ?w' = "snd (stepT (cl_thread ?c) ?w)"
      have now: "pool_inv Q k ?p" using inv by (simp add: pools_inv_def tasks_inv_def)
      have safe: "safeT (ticked n) (\<lambda>_. True) (cl_thread ?c)" for n using inv True by (simp add: pools_inv_def)
      then have "safeT (ticked n) (\<lambda>_. True) (fst (stepT (cl_thread ?c) ?w))" for n by (rule safe_step)
      moreover have "ticked (w_ticks (ps_world ?p)) ?w'"
        by (rule safe_step(2) [OF safe]) (simp add: ticked_def)
      then have "w_ticks (ps_world ?p) \<le> w_ticks ?w'" by (simp add: ticked_def)
      then have "pool_inv Q k (?p\<lparr>ps_world := ?w'\<lparr>w_db := w_db (ps_world ?p)\<rparr>\<rparr>)"
        by (intro cell_predD [OF cell_pred_pool_inv now]) simp_all
      then have "tasks_inv Q k (gw_tasks g, ?p\<lparr>ps_world := ?w'\<lparr>w_db := w_db (ps_world ?p)\<rparr>\<rparr>)"
        using inv by (simp add: pools_inv_def tasks_inv_def)
      moreover have "safeT (ticked n) (\<lambda>_. True) (Finished () :: ('a world, unit) thread)" for n
        by (rule safe_lift)
      ultimately show ?thesis
        using Act True inv unfolding pools_inv_def gateway_step_def client_step_def
        by (auto simp: Let_def case_prod_unfold dest!: set_updateD)
    qed (use Act inv in \<open>simp add: gateway_step_def\<close>)
  next
    case (Rotate i)
    with inv rotation.step_inv [of Q k "(gw_tasks g, gw_process g)" x pe i] show ?thesis
      by (auto simp: gateway_step_def pools_inv_def split: prod.split)
  qed
qed



section \<open>Facts: where secrets are\<close>

text \<open>
  With a server of its own for the secrets, calls on the data pool reach servers of \<open>D\<close> only, all
  other calls none of them, and the tables of \<^verbatim>\<open>gateway_secrets\<close> stay as migrated on the servers of \<open>D\<close>.
\<close>

definition split_servers :: "string set \<Rightarrow> nat \<Rightarrow> string set" where
  "split_servers D i = (if i = 0 then D else - D)"

definition client_apart :: "string set \<Rightarrow> 'b client \<Rightarrow> bool" where
  "client_apart D c \<longleftrightarrow>
     pred_option (\<lambda>pool. po_server (pg_options pool) \<in> D \<longleftrightarrow> cl_data c) (cl_pool c)
   \<and> (cl_data c \<longrightarrow> (\<forall>s. safeT (db_pred (\<lambda>d. secrets_of d = s)) (\<lambda>_. True) (cl_thread c)))"

definition apart_inv :: "('b, 'z) ext_scheme \<Rightarrow> pool_ext \<Rightarrow> string set \<Rightarrow> 'b gateway \<Rightarrow> bool" where
  "apart_inv x pe D g \<longleftrightarrow>
     pools_inv (\<lambda>_. True) 2 g \<and> placed x pe (split_servers D) (gw_tasks g, gw_process g)
   \<and> (\<forall>s \<in> D. secrets_of (gw_tables g s) = secrets_of migrated_db)
   \<and> (\<forall>c \<in> set (gw_clients g). client_apart D c)"

lemma load_apart:
  assumes "apart_inv x pe D g" and "pp_data pg = 0" and "pp_secrets pg = 1" and "c \<in> set (gw_clients g)"
  shows "po_server (pg_options (load_pool pg (gw_process g) c)) \<in> D \<longleftrightarrow> cl_data c"
proof -
  have "po_server (pg_options (ps_cells (gw_process g) ! i)) \<in> split_servers D i" if "i < 2" for i
    using assms(1) that by (auto simp: apart_inv_def placed_def pools_inv_def tasks_inv_def pool_inv_def)
  from this [of 0] this [of 1] assms show ?thesis
    by (cases "cl_pool c") (auto simp: load_pool_def pool_inner_def pool_secrets_def split_servers_def apart_inv_def
        client_apart_def)
qed

abbreviation dedicated :: PgPool where
  "dedicated \<equiv> \<lparr>pp_data = 0, pp_secrets = 1\<rparr>"

lemma client_step_apart:
  assumes inv: "apart_inv x pe D g" and i: "i < length (gw_clients g)"
  shows "\<forall>s \<in> D. secrets_of (gw_tables (client_step dedicated g i) s) = secrets_of migrated_db"
    and "\<forall>c \<in> set (gw_clients (client_step dedicated g i)). client_apart D c"
proof -
  let ?c = "gw_clients g ! i" and ?p = "gw_process g"
  let ?pool = "load_pool dedicated ?p ?c"
  let ?key = "po_server (pg_options ?pool)"
  let ?w = "(ps_world ?p)\<lparr>w_db := gw_tables g ?key\<rparr>"
  let ?r = "stepT (cl_thread ?c) ?w"
  have key: "?key \<in> D \<longleftrightarrow> cl_data ?c" using load_apart [OF inv _ _ nth_mem [OF i]] by simp
  have c: "client_apart D ?c" using inv i by (simp add: apart_inv_def)
  have old: "\<forall>s \<in> D. secrets_of (gw_tables g s) = secrets_of migrated_db" "\<forall>c \<in> set (gw_clients g). client_apart D c"
    using inv by (simp_all add: apart_inv_def)
  have "secrets_of (w_db (snd ?r)) = secrets_of migrated_db" if "?key \<in> D"
  proof -
    have "safeT (db_pred (\<lambda>d. secrets_of d = secrets_of migrated_db)) (\<lambda>_. True) (cl_thread ?c)"
      using c key that by (simp add: client_apart_def)
    from safe_step(2) [OF this, of ?w] old that show ?thesis by simp
  qed
  then show "\<forall>s \<in> D. secrets_of (gw_tables (client_step dedicated g i) s) = secrets_of migrated_db"
    using old by (simp add: client_step_def Let_def case_prod_unfold)
  have "client_apart D (?c\<lparr>cl_thread := Finished ()\<rparr>)"
    using c by (simp add: client_apart_def safe_lift)
  moreover have "client_apart D (?c\<lparr>cl_pool := (if cl_holds ?c then Some ?pool else None), cl_thread := fst ?r\<rparr>)"
    using c key by (auto simp: client_apart_def intro: safe_step(1))
  ultimately show "\<forall>c \<in> set (gw_clients (client_step dedicated g i)). client_apart D c"
    using old by (auto simp: client_step_def Let_def case_prod_unfold dest!: set_updateD)
qed

interpretation apart: invariant_machine "gateway_step x h pe dedicated" "apart_inv x pe D"
proof
  fix g :: "'a gateway" and m
  assume inv: "apart_inv x pe D g"
  then have "pools_inv (\<lambda>_. True) 2 (gateway_step x h pe dedicated g m)"
    by (intro pools.step_inv) (simp add: apart_inv_def)
  moreover have "placed x pe (split_servers D) (gw_tasks (gateway_step x h pe dedicated g m),
      gw_process (gateway_step x h pe dedicated g m))"
  proof (cases m)
    case (Rotate i)
    with inv placement.step_inv [of x pe "split_servers D" "(gw_tasks g, gw_process g)" i] show ?thesis
      by (simp add: apart_inv_def gateway_step_def case_prod_unfold)
  qed (use inv in \<open>auto simp: apart_inv_def gateway_step_def client_step_def placed_def Let_def case_prod_unfold\<close>)
  moreover have "(\<forall>s \<in> D. secrets_of (gw_tables (gateway_step x h pe dedicated g m) s) = secrets_of migrated_db)
      \<and> (\<forall>c \<in> set (gw_clients (gateway_step x h pe dedicated g m)). client_apart D c)"
  proof (cases m)
    case (Arrive c)
    with inv data_call_keeps_secrets [of c _ x h] show ?thesis
      by (auto simp: apart_inv_def gateway_step_def client_apart_def)
  next
    case (Act i)
    with inv client_step_apart [OF inv] show ?thesis by (auto simp: gateway_step_def apart_inv_def)
  next
    case (Rotate i)
    with inv show ?thesis by (simp add: apart_inv_def gateway_step_def case_prod_unfold)
  qed
  ultimately show "apart_inv x pe D (gateway_step x h pe dedicated g m)" by (simp add: apart_inv_def)
qed

end
