(* ===== verification/Ledger.thy ===== *)
theory Ledger
  imports Gateway
begin

text \<open>
  An abstract account of the ticket table: per id the columns that are fixed when the ticket is
  issued, its expiry and its redemption. Each call of the handle may do one thing to it
  (\<open>ledger_spec\<close>), and every action of the running system is one such step or none, however calls
  interleave. A thread's turns are bounded, too.
\<close>

section \<open>The abstract account\<close>

record ledger_entry =
  le_fixed :: tor_ticket_row
  le_expires :: time
  le_redeemed :: "(string option \<times> time) option"

type_synonym ledger = "uuid \<rightharpoonup> ledger_entry"

text \<open>The entry of a row: its fixed columns are the row with the others blanked.\<close>

definition entry_of :: "tor_ticket_row \<Rightarrow> ledger_entry" where
  "entry_of r =
     \<lparr>le_fixed = r\<lparr>tk_expires_at := 0, tk_redeemed_at := None, tk_redeemed_operational_onion := None\<rparr>,
      le_expires = tk_expires_at r,
      le_redeemed = map_option (\<lambda>at. (tk_redeemed_operational_onion r, at)) (tk_redeemed_at r)\<rparr>"

definition ledger_of :: "database \<Rightarrow> ledger" where
  "ledger_of d = (\<lambda>i. map_option entry_of (find (\<lambda>r. tk_id r = i) (tor_access_tickets d)))"

definition kept :: "(ledger_entry \<Rightarrow> bool) \<Rightarrow> ledger \<Rightarrow> ledger" where
  "kept p L = (\<lambda>i. case L i of Some e \<Rightarrow> if p e then Some e else None | None \<Rightarrow> None)"

text \<open>What a call may do: issue, redeem, expire, collect, or delete with the credential; any other call nothing.\<close>

fun ledger_spec :: "call \<Rightarrow> ledger \<Rightarrow> ledger \<Rightarrow> bool" where
  "ledger_spec (IssueTorTicket t) L L' \<longleftrightarrow>
     L (nt_id t) = None
   \<and> (\<exists>pk sp tok nonce quote tls now. L' = L(nt_id t \<mapsto> entry_of (issued_row t pk sp tok nonce quote tls now)))"
| "ledger_spec (MarkTorTicketRedeemed i _) L L' \<longleftrightarrow>
     (\<exists>e onion now. L i = Some e \<and> L' = L(i \<mapsto> e\<lparr>le_redeemed := Some (Some onion, now)\<rparr>))"
| "ledger_spec (ExpireTorTicketNow i) L L' \<longleftrightarrow>
     (\<exists>e now. L i = Some e \<and> L' = L(i \<mapsto> e\<lparr>le_expires := now - second\<rparr>))"
| "ledger_spec (GcExpiredTickets _) L L' \<longleftrightarrow>
     (\<exists>cutoff now. L' = kept (\<lambda>e. \<not> (le_expires e < cutoff \<and> (le_redeemed e \<noteq> None \<or> le_expires e < now))) L)"
| "ledger_spec (DeleteTorCredential c) L L' \<longleftrightarrow>
     L' = kept (\<lambda>e. tk_credential_id (le_fixed e) \<noteq> c) L"
| "ledger_spec _ L L' \<longleftrightarrow> False"

text \<open>An action of a call, on a database that satisfies the schema.\<close>

definition call_acts :: "call \<Rightarrow> 'b world \<Rightarrow> 'b world \<Rightarrow> bool" where
  "call_acts c w w' \<longleftrightarrow>
     (schema_ok (w_db w) \<longrightarrow>
        ledger_of (w_db w') = ledger_of (w_db w) \<or> ledger_spec c (ledger_of (w_db w)) (ledger_of (w_db w')))"


section \<open>Facts: statements on the ticket table\<close>

lemma find_filter_key:
  assumes "distinct (map key rows)"
  shows "find (\<lambda>r. key r = k) (filter p rows)
    = (case find (\<lambda>r. key r = k) rows of Some r \<Rightarrow> if p r then Some r else None | None \<Rightarrow> None)"
  using assms by (induction rows) (auto simp: image_iff split: option.split dest!: find_SomeD)

lemma ledger_filter:
  assumes "schema_ok d" and "\<And>r. p r = q (entry_of r)"
  shows "ledger_of (d\<lparr>tor_access_tickets := filter p (tor_access_tickets d)\<rparr>) = kept q (ledger_of d)"
proof -
  have "distinct (map tk_id (tor_access_tickets d))" using assms(1) by (simp add: schema_ok_def tickets_ok_def)
  from find_filter_key [OF this] show ?thesis by (auto simp: ledger_of_def kept_def assms(2) split: option.split)
qed

lemma entry_simps [simp]:
  "entry_of (redeemed onion now r) = (entry_of r)\<lparr>le_redeemed := Some (Some onion, now)\<rparr>"
  "entry_of (expired_now now r) = (entry_of r)\<lparr>le_expires := now - second\<rparr>"
  "tk_credential_id (le_fixed (entry_of r)) = tk_credential_id r" "le_expires (entry_of r) = tk_expires_at r"
  "le_redeemed (entry_of r) = None \<longleftrightarrow> tk_redeemed_at r = None"
  by (simp_all add: entry_of_def redeemed_def expired_now_def)

lemma issue_ledger:
  assumes "insert_ticket (issued_row t pk sp tok nonce quote tls) n now d = Inr (u, d')"
  shows "ledger_spec (IssueTorTicket t) (ledger_of d) (ledger_of d')"
proof -
  let ?r = "issued_row t pk sp tok nonce quote tls now"
  have "tk_id ?r = nt_id t" by (simp add: issued_row_def)
  with assms have d': "d' = d\<lparr>tor_access_tickets := tor_access_tickets d @ [?r]\<rparr>"
    and "nt_id t \<notin> tk_id ` set (tor_access_tickets d)"
    by (auto simp: insert_ticket_def Let_def split: if_splits)
  then have none: "find (\<lambda>r. tk_id r = nt_id t) (tor_access_tickets d) = None" by (auto simp: find_None_iff image_iff)
  then have "ledger_of d' = (ledger_of d)(nt_id t \<mapsto> entry_of ?r)"
    using \<open>tk_id ?r = nt_id t\<close> by (auto simp: d' ledger_of_def find_append fun_eq_iff split: option.split)
  moreover have "ledger_of d (nt_id t) = None" using none by (simp add: ledger_of_def)
  ultimately show ?thesis unfolding ledger_spec.simps by blast
qed

lemma update_ledger:
  assumes "update_tickets (\<lambda>t. tk_id t = i) f d = Inr (u, d')" and "key_update tk_id f"
    and f: "\<And>r. entry_of (f r) = g (entry_of r)"
  shows "ledger_of d' = ledger_of d \<or> (\<exists>e. ledger_of d i = Some e \<and> ledger_of d' = (ledger_of d)(i \<mapsto> g e))"
proof -
  have d': "ledger_of d' j = map_option (\<lambda>e. if j = i then g e else e) (ledger_of d j)" for j
    using assms(1) key_update.find_key_update_where [OF assms(2), of j]
    by (cases "find (\<lambda>r. tk_id r = j) (tor_access_tickets d)")
       (auto simp: update_tickets_def ledger_of_def f dest: find_SomeD)
  show ?thesis
  proof (cases "ledger_of d i")
    case None
    have "ledger_of d' j = ledger_of d j" for j
      using None by (cases "j = i"; cases "ledger_of d j") (simp_all add: d')
    then have "ledger_of d' = ledger_of d" ..
    then show ?thesis ..
  next
    case (Some e)
    then have "ledger_of d' j = ((ledger_of d)(i \<mapsto> g e)) j" for j
      by (cases "j = i"; cases "ledger_of d j") (simp_all add: d')
    then have "ledger_of d' = (ledger_of d)(i \<mapsto> g e)" ..
    with Some show ?thesis by blast
  qed
qed

lemma collect_ledger:
  assumes "schema_ok d" and "delete_expired_tickets days n now d = Inr (u, d')"
  shows "ledger_spec (GcExpiredTickets days) (ledger_of d) (ledger_of d')"
proof -
  from assms(2) obtain cutoff where "d' = d\<lparr>tor_access_tickets := filter (\<lambda>t. \<not> collectable cutoff now t) (tor_access_tickets d)\<rparr>"
    by (auto simp: delete_expired_tickets_def bindE_eq_Inr)
  then have "ledger_of d' = kept (\<lambda>e. \<not> (le_expires e < cutoff \<and> (le_redeemed e \<noteq> None \<or> le_expires e < now))) (ledger_of d)"
    by (simp only:) (rule ledger_filter [OF assms(1)], simp add: collectable_def del: not_None_eq)
  then show ?thesis unfolding ledger_spec.simps by blast
qed

lemma cascade_ledger:
  assumes "schema_ok d" and "delete_credential c n now d = Inr (u, d')"
  shows "ledger_spec (DeleteTorCredential c) (ledger_of d) (ledger_of d')"
proof -
  have "ledger_of d' = ledger_of (d\<lparr>tor_access_tickets := filter (\<lambda>t. tk_credential_id t \<noteq> c) (tor_access_tickets d)\<rparr>)"
    using assms(2) by (auto simp: delete_credential_def ledger_of_def)
  with ledger_filter [OF assms(1)] show ?thesis by simp
qed

section \<open>Facts: the actions of a call\<close>

text \<open>Statements that name another table leave the tickets alone.\<close>

lemma other_stmts_keep_tickets:
  "stmt_keeps (\<lambda>d. Q (tor_access_tickets d)) (prune_nonces ttl)"
  "stmt_keeps (\<lambda>d. Q (tor_access_tickets d)) (insert_nonce nd enclave)"
  "stmt_keeps (\<lambda>d. Q (tor_access_tickets d)) (delete_nonce nd)"
  "stmt_keeps (\<lambda>d. Q (tor_access_tickets d)) prune_cache"
  "stmt_keeps (\<lambda>d. Q (tor_access_tickets d)) (upsert_decision q tee dec ex)"
  "stmt_keeps (\<lambda>d. Q (tor_access_tickets d)) (delete_decision q)"
  "stmt_keeps (\<lambda>d. Q (tor_access_tickets d)) (select_credential_by_onion onion)"
  "stmt_keeps (\<lambda>d. Q (tor_access_tickets d)) (select_credential_by_id cid)"
  "stmt_keeps (\<lambda>d. Q (tor_access_tickets d)) count_enabled_credentials"
  "stmt_keeps (\<lambda>d. Q (tor_access_tickets d)) (\<lambda>n now. update_credentials p (f now))"
  "stmt_keeps (\<lambda>d. Q (tor_access_tickets d)) (insert_credential r)"
  "stmt_keeps (\<lambda>d. Q (tor_access_tickets d)) (upsert_credential r)"
  "stmt_keeps (\<lambda>d. Q (tor_access_tickets d)) (select_credentials l)"
  "stmt_keeps (\<lambda>d. Q (tor_access_tickets d)) (upsert_guard_success fpr u)"
  "stmt_keeps (\<lambda>d. Q (tor_access_tickets d)) (upsert_guard_failure fpr)"
  "stmt_keeps (\<lambda>d. Q (tor_access_tickets d)) (upsert_guard_tee fpr capable label policy)"
  "stmt_keeps (\<lambda>d. Q (tor_access_tickets d)) (select_guards l)"
  "stmt_keeps (\<lambda>d. Q (tor_access_tickets d)) (insert_session row)"
  "stmt_keeps (\<lambda>d. Q (tor_access_tickets d)) (insert_tor_connect gen user)"
  "stmt_keeps (\<lambda>d. Q (tor_access_tickets d)) (insert_audit_log gen user oper hash)"
  "stmt_keeps (\<lambda>d. Q (tor_access_tickets d)) (insert_tee_attestation gen user a)"
  "stmt_keeps (\<lambda>d. Q (tor_access_tickets d)) (select_tee_attestations user l)"
  "stmt_keeps (\<lambda>d. Q (tor_access_tickets d)) (upsert_proof zp)"
  "stmt_keeps (\<lambda>d. Q (tor_access_tickets d)) (select_proof pid uid)"
  "stmt_keeps (\<lambda>d. Q (tor_access_tickets d)) (mark_proof_verified pid)"
  by (auto intro!: stmt_keepsI simp: sql_defs bindE_eq_Inr Let_def split: if_splits option.splits)

fun on_tickets :: "call \<Rightarrow> bool" where
  "on_tickets (IssueTorTicket _) = True"
| "on_tickets (MarkTorTicketRedeemed _ _) = True"
| "on_tickets (ExpireTorTicketNow _) = True"
| "on_tickets (GcExpiredTickets _) = True"
| "on_tickets (DeleteTorCredential _) = True"
| "on_tickets _ = False"

lemma other_calls_keep_tickets:
  "\<not> on_tickets c \<Longrightarrow> safeT (db_pred (\<lambda>d. Q (tor_access_tickets d))) (\<lambda>_. True) (call_thread x h c)"
  by (cases c)
     (auto simp: call_thread_def credential_op_defs guard_op_defs store_thread_defs record_tor_session_thread_def
        audit_tor_connect_def audit_operation_def record_tee_attestation_def recent_tee_attestations_def
        store_zk_proof_def Let_def
      intro!: safe_drop_reply safe_rules preserves_rules reads_safe session_counts_keep ticket_ops_keep(1-3)
        other_stmts_keep_tickets split: option.split)

text \<open>The five that name it do what the account says.\<close>

lemma call_acts_same: "tor_access_tickets (w_db w') = tor_access_tickets (w_db w) \<Longrightarrow> call_acts c w w'"
  by (simp add: call_acts_def ledger_of_def)

lemma guar_quiet [guar_rules]:
  assumes "\<And>P. preserves (db_pred P) m"
  shows "guarT (call_acts c) (atomT m)"
proof (rule guar_atom)
  show "call_acts c w (snd (m w))" for w
    using preservesD [OF assms, of "\<lambda>d. d = w_db w" w] by (intro call_acts_same) simp
qed

lemma snd_bind_return: "snd (bindM m (\<lambda>a. returnM (g a)) s) = snd (m s)"
  by (simp add: bindM_def split: prod.split sum.split)

lemma guar_stmt:
  assumes "\<And>n now d a d'. schema_ok d \<Longrightarrow> f n now d = Inr (a, d') \<Longrightarrow>
      ledger_of d' = ledger_of d \<or> ledger_spec c (ledger_of d) (ledger_of d')"
  shows "guarT (call_acts c) (atomT (exec_stmt x f))"
    and "guarT (call_acts c) (atomT (bindM (exec_stmt x f) (\<lambda>a. returnM (g a))))"
proof -
  have acts: "call_acts c w (snd (exec_stmt x f w))" for w
    using assms by (auto simp: call_acts_def exec_stmt_def Let_def split: pg_outcome.split sum.split)
  then show "guarT (call_acts c) (atomT (exec_stmt x f))" by (rule guar_atom)
  from acts show "guarT (call_acts c) (atomT (bindM (exec_stmt x f) (\<lambda>a. returnM (g a))))"
    by (intro guar_atom) (simp add: snd_bind_return)
qed

lemma guar_drop_reply: "guarT R t \<Longrightarrow> guarT R (drop_reply t)"
  unfolding drop_reply_def by (induction rule: guarT.induct) (auto intro: guarT.intros)

lemma redeem_acts: "guarT (call_acts (MarkTorTicketRedeemed i onion))
    (atomT (exec_stmt x (\<lambda>n now. update_tickets (\<lambda>t. tk_id t = i) (redeemed o' now))))"
  by (rule guar_stmt) (auto dest!: update_ledger [OF _ redeem_key.key_update_axioms])

lemma expire_acts: "guarT (call_acts (ExpireTorTicketNow i)) (atomT (expire_tor_ticket_now x i))"
  unfolding expire_tor_ticket_now_def
  by (rule guar_stmt) (auto dest!: update_ledger [OF _ expire_key.key_update_axioms])

lemma ticket_calls_act: "on_tickets c \<Longrightarrow> guarT (call_acts c) (call_thread x h c)"
proof (cases c)
  case (IssueTorTicket t)
  then show ?thesis
    by (auto simp: call_thread_def issue_tor_ticket_thread_def case_prod_unfold
        intro!: guar_drop_reply guar_rules guar_stmt(1) preserves_rules dest: issue_ledger simp del: ledger_spec.simps)
next
  case (MarkTorTicketRedeemed i onion)
  then show ?thesis
    by (auto simp: call_thread_def mark_tor_ticket_redeemed_thread_def
        intro!: guar_drop_reply guar_rules redeem_acts preserves_rules)
next
  case (ExpireTorTicketNow i)
  then show ?thesis by (simp add: call_thread_def guar_drop_reply expire_acts)
next
  case (GcExpiredTickets days)
  then show ?thesis
    by (auto simp: call_thread_def gc_expired_tickets_def intro!: guar_drop_reply guar_stmt(1) dest: collect_ledger
        simp del: ledger_spec.simps)
next
  case (DeleteTorCredential c)
  then show ?thesis
    by (auto simp: call_thread_def delete_tor_credential_def intro!: guar_drop_reply guar_stmt(2) dest: cascade_ledger
        simp del: ledger_spec.simps)
qed simp_all

lemma call_acts_as_specified: "guarT (call_acts c) (call_thread x h c)"
proof (cases "on_tickets c")
  case False
  have "guarT (\<lambda>w w'. tor_access_tickets (w_db w') = tor_access_tickets (w_db w)) (call_thread x h c)"
    by (rule guar_view [where view = "\<lambda>w. tor_access_tickets (w_db w)", OF other_calls_keep_tickets [OF False]])
  then show ?thesis by (rule guar_mono) (rule call_acts_same)
qed (rule ticket_calls_act)


section \<open>Facts: the running system\<close>

text \<open>The calls that have arrived, in order: the call of client \<open>i\<close> is the \<open>i\<close>-th.\<close>

definition arrivals :: "move list \<Rightarrow> call list" where
  "arrivals moves = concat (map (\<lambda>m. case m of Arrive c \<Rightarrow> [c] | _ \<Rightarrow> []) moves)"

definition accountable :: "call list \<Rightarrow> 'b gateway \<Rightarrow> bool" where
  "accountable cs g \<longleftrightarrow>
     tables_inv schema_ok g \<and> list_all2 (\<lambda>c cl. guarT (call_acts c) (cl_thread cl)) cs (gw_clients g)"

lemma call_acts_refl: "call_acts c w w"
  by (rule call_acts_same) simp

lemma list_all2_updated: "list_all2 P as bs \<Longrightarrow> i < length bs \<Longrightarrow> P (as ! i) b \<Longrightarrow> list_all2 P as (bs[i := b])"
  by (auto simp: list_all2_conv_all_nth nth_list_update)

lemma accountable_step:
  assumes "accountable cs g"
  shows "accountable (cs @ arrivals [m]) (gateway_step x h pe pg g m)"
proof -
  let ?acts = "\<lambda>c cl. guarT (call_acts c) (cl_thread cl)"
  have "tables_inv schema_ok (gateway_step x h pe pg g m)"
    using assms by (intro schema.step_inv) (simp add: accountable_def)
  moreover have "list_all2 ?acts (cs @ arrivals [m]) (gw_clients (gateway_step x h pe pg g m))"
  proof (cases m)
    case (Arrive c)
    then show ?thesis using assms call_acts_as_specified [of c x h]
      by (simp add: gateway_step_def accountable_def arrivals_def list_all2_appendI)
  next
    case (Act i)
    have "list_all2 ?acts cs (gw_clients (client_step pg g i))" if "i < length (gw_clients g)"
    proof -
      have "guarT (call_acts (cs ! i)) (cl_thread (gw_clients g ! i))"
        using assms that by (simp add: accountable_def list_all2_conv_all_nth)
      then have "guarT (call_acts (cs ! i)) (fst (stepT (cl_thread (gw_clients g ! i)) w))" for w
        by (rule guar_step(1)) (rule call_acts_refl)
      with assms that show ?thesis
        by (auto simp: client_step_def accountable_def Let_def case_prod_unfold guarT.guar_Finished
            intro!: list_all2_updated)
    qed
    with Act assms show ?thesis by (simp add: gateway_step_def accountable_def arrivals_def)
  next
    case (Rotate i)
    then show ?thesis using assms by (auto simp: gateway_step_def accountable_def arrivals_def split: prod.split)
  qed
  ultimately show ?thesis by (simp add: accountable_def)
qed

lemma run_accountable:
  assumes "\<forall>s. schema_ok (gw_tables g s)" and "gw_clients g = []"
  shows "accountable (arrivals moves) (run_gateway x h pe pg g moves)"
proof (induction moves rule: rev_induct)
  case Nil
  then show ?case using assms by (simp add: accountable_def tables_inv_def arrivals_def run_gateway_def)
next
  case (snoc m moves)
  from accountable_step [OF this, of m] show ?case by (simp add: run_gateway_def arrivals_def)
qed

lemma started_accountable: "accountable (arrivals moves) (run_gateway x h pe pg (started workers p) moves)"
  by (rule run_accountable) (simp_all add: started_def migrated_db_ok)

text \<open>One move of the system is one step of the account of each server, by the call whose turn it is, or none.\<close>

lemma move_is_ledger_step:
  assumes "accountable cs g"
  shows "ledger_of (gw_tables (gateway_step x h pe pg g m) s) = ledger_of (gw_tables g s)
    \<or> (\<exists>i < length cs. m = Act i
         \<and> ledger_spec (cs ! i) (ledger_of (gw_tables g s)) (ledger_of (gw_tables (gateway_step x h pe pg g m) s)))"
proof (cases "\<exists>i < length (gw_clients g). m = Act i")
  case True
  then obtain i where i: "i < length (gw_clients g)" and m: "m = Act i" by blast
  let ?c = "gw_clients g ! i" and ?p = "gw_process g"
  let ?key = "po_server (pg_options (load_pool pg ?p ?c))"
  let ?w = "(ps_world ?p)\<lparr>w_db := gw_tables g ?key\<rparr>"
  have "length cs = length (gw_clients g)" "guarT (call_acts (cs ! i)) (cl_thread ?c)"
    using assms i by (simp_all add: accountable_def list_all2_conv_all_nth)
  moreover from this(2) have "call_acts (cs ! i) ?w (snd (stepT (cl_thread ?c) ?w))"
    by (rule guar_step(2)) (rule call_acts_refl)
  moreover have "schema_ok (gw_tables g ?key)" using assms by (simp add: accountable_def tables_inv_def)
  ultimately show ?thesis
    using i by (auto simp: m gateway_step_def client_step_def Let_def case_prod_unfold call_acts_def)
next
  case False
  then have "gw_tables (gateway_step x h pe pg g m) = gw_tables g"
    by (cases m) (auto simp: gateway_step_def split: prod.split)
  then show ?thesis by simp
qed

text \<open>What a step leaves of an entry that is there before and after it.\<close>

lemma step_keeps_entry:
  assumes "L' = L \<or> ledger_spec c L L'" and "L i = Some e" and "L' i = Some e'"
  shows "le_fixed e' = le_fixed e \<and> (le_redeemed e \<noteq> None \<longrightarrow> le_redeemed e' \<noteq> None)"
  using assms by (cases c) (auto simp: kept_def split: if_splits)


section \<open>Facts: how long a call takes\<close>

definition CALL_ACTIONS :: nat where
  "CALL_ACTIONS = 7"

lemma ends_drop_reply: "endsT n t \<Longrightarrow> endsT n (drop_reply t)"
  unfolding drop_reply_def by (induction rule: endsT.induct) (auto intro: endsT.intros)

lemma call_ends: "endsT CALL_ACTIONS (call_thread x h c)"
  by (cases c)
     (auto simp: CALL_ACTIONS_def eval_nat_numeral call_thread_def record_tor_session_thread_def fetch_tor_session_thread_def
        issue_tor_ticket_thread_def fetch_tor_ticket_for_verification_thread_def mark_tor_ticket_redeemed_thread_def
        store_thread_defs(1,2,3,5) case_prod_unfold
      intro!: ends_drop_reply ends_rules ends_atom split: option.split)

text \<open>A client that still has actions to take has fewer after its turn, and as many after the others'.\<close>

definition ends_at :: "nat \<Rightarrow> nat \<Rightarrow> 'b gateway \<Rightarrow> bool" where
  "ends_at i n g \<longleftrightarrow> i < length (gw_clients g) \<and> endsT n (cl_thread (gw_clients g ! i))"

lemma move_ends:
  assumes "ends_at i n g"
  shows "ends_at i (if m = Act i then n - 1 else n) (gateway_step x h pe pg g m)"
proof (cases m)
  case (Act j)
  show ?thesis
  proof (cases "j = i")
    case True
    then show ?thesis using assms Act
      by (auto simp: ends_at_def gateway_step_def client_step_def Let_def case_prod_unfold intro: ends_step [unfolded One_nat_def] endsT.intros)
  next
    case False
    then show ?thesis using assms Act
      by (auto simp: ends_at_def gateway_step_def client_step_def Let_def case_prod_unfold)
  qed
qed (use assms in \<open>auto simp: ends_at_def gateway_step_def nth_append split: prod.split\<close>)

lemma run_ends:
  "ends_at i n g \<Longrightarrow> ends_at i (n - count_list moves (Act i)) (run_gateway x h pe pg g moves)"
proof (induction moves arbitrary: g n)
  case (Cons m moves)
  from Cons.IH [OF move_ends [OF Cons.prems, of m x h pe pg]] show ?case
    by (auto simp: run_gateway_def split: if_splits)
qed (simp add: run_gateway_def)

end
