(* ===== verification/Spec2Isabelle.thy ===== *)
theory Spec2Isabelle
  imports Props_Store Props_Zk Props_Trust Props_Pool Vault Ledger
begin

text \<open>
  Verification of \<^verbatim>\<open>secure-database\<close>, a crate that gives a gateway hardened access to
  PostgreSQL: credentials leased from an attested secret broker, envelope-encrypted columns,
  a Tor credential and ticket store, zero-knowledge proof bundles and TEE attestations.

  \<^bold>\<open>The program and its model.\<close> Every public method of the database handle runs a few SQL
  statements on tables of the migration, and some of them call the secret broker. The model is
  a world (\<open>world\<close> in \<open>Schema\<close>): the tables as lists of records, an opaque broker state, a counter
  of readings and the metrics counted so far. An operation is a function from a world to a result and a
  world (\<open>op\<close> in \<open>Prelude\<close>); \<open>Inl\<close> is the error it returns. Clock, random numbers, network and
  broker answer as functions of the reading at which they are asked, so a theorem for all
  environments covers every sequence of answers. Each SQL statement is one function on the
  tables with its own outcome: delivered, lost before it ran, or run with its answer lost.

  \<^item> \<open>Prelude\<close>: strings as UTF-8 bytes with Rust's operations on them, the error and state
    monads, list-as-table lemmas, the locale \<open>invariant_machine\<close>. \<open>Db_Error\<close> is \<^verbatim>\<open>src/error.rs\<close>;
    \<open>Sql_Time\<close> is timestamp arithmetic as PostgreSQL does it, double precision rounding included.
  \<^item> \<open>Envelope\<close>: \<^verbatim>\<open>hmac_sign\<close>, \<^verbatim>\<open>aes_encrypt\<close>/\<^verbatim>\<open>aes_decrypt\<close> and the \<^verbatim>\<open>aead:v1\<close>/\<^verbatim>\<open>aead:v2\<close> payload text of
    \<^verbatim>\<open>src/lib.rs\<close>. Base64, AES-GCM and HMAC are parameters; \<open>base64_laws\<close>, \<open>uuid_laws\<close>, \<open>aead_laws\<close> and
    \<open>aead_binds\<close> name what is used of them.
  \<^item> \<open>Schema\<close>: the tables of \<^verbatim>\<open>migrations/0001_initial.sql\<close> and their constraints (\<open>schema_ok\<close>), the
    environment \<open>ext\<close> and what a statement does. The migration's trigger is in \<open>Credentials\<close>, its
    allowlist of extensions in \<open>Pool\<close>. \<open>Broker\<close>: the calls of \<^verbatim>\<open>SecretBrokerClient\<close>.
  \<^item> \<open>Protected\<close>, \<open>Credentials\<close>, \<open>Sessions\<close>, \<open>Tickets\<close>: \<^verbatim>\<open>src/tor_auth.rs\<close>, the sealed columns first. The
    locale \<open>broker_contract\<close> states what the broker promises of keys and leases; its lemmas carry
    the round trips.
  \<^item> \<open>Guard\<close>, \<open>Attest_Store\<close>, \<open>Tee\<close>, \<open>Zk\<close>: \<^verbatim>\<open>src/guard.rs\<close>, \<^verbatim>\<open>src/attestation.rs\<close>, \<^verbatim>\<open>src/tee.rs\<close> with the
    audit tables of \<^verbatim>\<open>src/lib.rs\<close>, \<^verbatim>\<open>src/zk.rs\<close> with \<^verbatim>\<open>store_zk_proof\<close> and \<^verbatim>\<open>verify_zk_proof\<close>. In \<open>Zk\<close> a circuit is
    its gates and copy constraints over the Pallas field; halo2's key generation, prover and
    verifier are parameters.
  \<^item> \<open>Env\<close>, \<open>Config\<close>, \<open>Pool\<close>: the environment readers, \<^verbatim>\<open>load_native_config\<close>, pool creation, start-up,
    and the worker that rotates leased credentials (\<^verbatim>\<open>src/lib.rs\<close>). A process (\<open>process\<close>) is a world with
    the reloadable pools, the pools closed so far and the servers' extension lists; \<open>worker_pass\<close> is one
    turn of a worker. \<open>Startup\<close>: a calculus of total correctness for the start (\<open>succeeds\<close>) and what it
    needs: a server that answers (\<open>answers\<close>) and a migrator that applies the migration it is given
    (\<open>migrator_applies\<close>, documented by sqlx).
  \<^item> \<open>Ip_Addr\<close> (the standard library's address parser), \<open>Ra_Tls\<close>, \<open>Broker_Policy\<close>, \<open>Broker_Channel\<close>:
    \<^verbatim>\<open>src/ra_tls.rs\<close> and \<^verbatim>\<open>src/secret_broker_client.rs\<close>: the client's configuration, the two certificate
    verifiers with their handshake signature checks, the TLS configuration of each mode, the connector
    and the channel. tonic, rustls, TCP and
    the SPIRE workload API are the parameters of \<open>transport\<close>; \<open>tonic_connects\<close> and \<open>rustls_verifies\<close> name
    what is used of them.
  \<^item> \<open>Cli\<close>, \<open>Secret_File\<close>: \<^verbatim>\<open>src/bin/secure-database-cli.rs\<close>. The migrate command runs on a catalog of roles
    and the process it starts, the wrap command on a file system whose calls may fail; \<open>cli_main\<close>
    is \<^verbatim>\<open>main\<close>, given the parsed arguments. \<open>Telemetry\<close>: \<^verbatim>\<open>install_jaeger_tracing\<close> and \<^verbatim>\<open>init_logging\<close>,
    over the answers of the tracing crates.
  \<^item> \<open>Threads\<close>, \<open>Ticks\<close>, \<open>Api\<close>: a call of the handle is a thread whose actions are its statements and
    the sealing or opening of one field each (\<open>call_thread\<close>); run alone it is the operation of its
    component (\<open>run_threads\<close>). \<open>safeT\<close> carries an invariant of the tables through every action.
  \<^item> \<open>Gateway\<close>: the running system. Its state is a process, the tables of every server, the rotation
    tasks and the calls under way; a move lets a call arrive, one action of a call run, or one task
    make a pass. Each action runs on the server the pool of the call points at when the statement is
    sent (\<^verbatim>\<open>inner\<close> and \<^verbatim>\<open>secrets\<close> load the pool per statement; \<^verbatim>\<open>verify_zk_proof\<close> keeps the pool it loaded
    first), so a rotation may fall between two statements of a call.
  \<^item> \<open>Vault\<close>: an abstract ticket store, a map from ids to plain records, with the simulation that
    the calls of \<open>Tickets\<close> refine it, whole call by whole call. \<open>Ledger\<close>: an account of the tickets by
    id, with the statements of all calls as its steps, so that it follows calls that interleave; and
    the bound \<open>CALL_ACTIONS\<close> on the actions of a call. \<open>Replay\<close>: nonce registrations of several clients whose
    statements interleave.
  \<^item> \<open>Reference\<close>, \<open>Reference_Client\<close>: a concrete broker, AEAD and encoding, an attested server, a
    transport and a process that satisfy all the laws, for witnesses.

  \<^bold>\<open>What is shown.\<close> This theory and \<open>Props_Store\<close>: what is sealed opens with the values given
  (tickets, sessions, payload text); in every state the gateway reaches, however calls and rotations
  interleave, nothing is at rest in plain, the schema's constraints hold, pools in use are open
  and encrypted, and the secret tables stay on the server of the secrets; a value moved to another
  row or column does not open, the ticket store refines its specification, every action of the
  running system is a step of the ticket account or leaves it alone, an issued ticket keeps its
  values whatever runs beside it, every call ends after at most seven turns, one of several racing
  registrations wins, and each statement changes the rows it names and no others. \<open>Props_Zk\<close>: proofs that are made verify, a verdict binds its context, and where it does not,
  the race of a verification with a new proof included. \<open>Props_Trust\<close>: which configurations load,
  which peers are accepted, whom a client that started is connected to and that it holds the key
  of the certificate checked, what a migration repairs and checks, and that the wrap command
  publishes a whole file or none. \<open>Props_Pool\<close>: a failed refresh changes nothing, a granted lease is
  installed, leases come from an attested broker, the allowlist holds after a start,
  and a start on a fresh server that answers succeeds.

  \<^bold>\<open>Loops and bounds.\<close> No definition uses fuel: the loops over rows, roles and audiences are
  structural, \<open>like\<close> has a measure, and the rotation worker's endless loop is one step per pass,
  iterated by a schedule of any length. Integers of a fixed width are words or carry their
  bound (\<open>in_i32\<close>); timestamps are whole microseconds, as PostgreSQL stores them.

  \<^bold>\<open>Not modelled.\<close> Log lines, the generated command line parser (its result is an argument of
  \<open>cli_main\<close>), symbolic links and directories as targets of the wrap command, and plain indexes and
  grants of the migration. rustls, tonic, halo2, dcap-qvl, sqlx's wire protocol, dstack and the
  tracing crates are parameters. The refinement of \<open>Vault\<close>, which has plain values, is at whole calls, since
  a reader between two statements of a call sees a state the map does not have; \<open>Ledger\<close>, which
  follows every statement, keeps the sealed columns as they are.
\<close>

section \<open>Protected values\<close>







section \<open>Every state the system can reach\<close>


text \<open>
  C3. In the same states every server satisfies every constraint of the schema: keys and indexed
  attestation sessions are unique, sessions and tickets belong to credentials that exist, failure
  counts fit their column.
\<close>

theorem reachable_schema_ok:
  "schema_ok (gw_tables (run_gateway x h pe pg (started workers p) moves) server)"
proof -
  have "tables_inv schema_ok (started workers p)"
    using migrated_db_ok by (simp add: tables_inv_def started_def)
  then have "tables_inv schema_ok (run_gateway x h pe pg (started workers p) moves)"
    unfolding run_gateway_def by (rule schema.run_inv)
  then show ?thesis by (simp add: tables_inv_def)
qed



text \<open>
  C12. When the secrets have a server of their own, they stay there: as long as no URL or lease
  takes the data pool to a server of the secrets or the other way round, no schedule of calls and
  rotations puts a row of \<^verbatim>\<open>gateway_secrets\<close> onto a server of the data pool.
\<close>

theorem secrets_stay_on_their_server:
  assumes start: "connect_postgres x pe e cfg p = (Inr (pg, workers), p')"
    and init: "ps_cells p = []" "ps_closed p = []"
    and auth: "nc_secrets_auth cfg = Some auth"
    and servers: "leads_to x pe (nc_data_auth cfg) D" "leads_to x pe auth (- D)"
    and run: "run_gateway x h pe pg (started workers p') moves = g" and s: "s \<in> D"
  shows "po_server (pg_options (pool_inner pg (gw_process g))) \<in> D
    \<and> po_server (pg_options (pool_secrets pg (gw_process g))) \<notin> D
    \<and> tor_auth_credentials (gw_tables g s) = [] \<and> tor_auth_sessions (gw_tables g s) = []
    \<and> tor_access_tickets (gw_tables g s) = [] \<and> zk_proofs (gw_tables g s) = [] \<and> audit_logs (gw_tables g s) = []
    \<and> tee_attestations (gw_tables g s) = [] \<and> ra_nonce_log (gw_tables g s) = [] \<and> ra_attestation_cache (gw_tables g s) = []"
proof -
  note c = connect_placed [OF start init(1) auth servers]
  have "tasks_inv (ssl_policy e) 2 (map Some workers, p')" using connect_tasks_inv [OF start init] c(3) by simp
  then have "pools_inv (\<lambda>_. True) 2 (started workers p')"
    by (simp add: pools_inv_def started_def tasks_inv_def pool_inv_def)
  then have "apart_inv x pe D (started workers p')"
    using c(4) by (simp add: apart_inv_def started_def split_servers_def [abs_def])
  moreover have "pg = dedicated" using c(1,2) by (cases pg) simp
  ultimately have inv: "apart_inv x pe D g"
    unfolding run [symmetric] run_gateway_def by (simp only:) (rule apart.run_inv)
  have "po_server (pg_options (ps_cells (gw_process g) ! i)) \<in> split_servers D i" if "i < 2" for i
    using inv that by (auto simp: apart_inv_def placed_def pools_inv_def tasks_inv_def pool_inv_def)
  from this [of 0] this [of 1] have "po_server (pg_options (pool_inner pg (gw_process g))) \<in> D
      \<and> po_server (pg_options (pool_secrets pg (gw_process g))) \<notin> D"
    using c(1,2) by (simp add: pool_inner_def pool_secrets_def split_servers_def)
  moreover have "secrets_of (gw_tables g s) = secrets_of migrated_db" using inv s by (simp add: apart_inv_def)
  ultimately show ?thesis by (cases "gw_tables g s") (simp add: secrets_of_def migrated_db_def)
qed

definition split_env :: env where
  "split_env = no_env(''SECURE_DB_ALLOW_DIRECT_BOOTSTRAP'' := Present ''1'')"

definition split_config :: NativeConfig where
  "split_config = ref_config\<lparr>nc_data_auth := StaticUrl ''postgres://db'', nc_secrets_auth := Some (StaticUrl ''postgres://vault'')\<rparr>"

lemma split_connect: "\<exists>pg p'. connect_postgres lease_env ref_pool_ext split_env split_config ref_process = (Inr (pg, []), p')"
proof -
  have "to_ascii_lowercase (trim ''1'') = ''1''" "\<not> eq_ignore_ascii_case ''enforced'' ''disabled''" by code_simp+
  then show ?thesis
    by (simp add: connect_postgres_def open_checked_pool_def create_pool_def split_config_def ref_config_def split_env_def
        create_static_pool_def skip_pgbouncer_check_def env_flag_def no_env_def ratls_disabled_def env_ok_def bindM_def
        reading_def in_world_def ref_pool_ext_def lease_env_def instantiate_pool_def reloadable_new_def
        reloadable_load_def run_migrations_def ensure_postgres_extensions_def upsert_extension_allowlist_def
        create_extension_def on_server_def whenM_def enforce_extension_allowlist_def unlisted_def spawned_def
        context_of_def Let_def ref_process_def ref_world_def)
qed

theorem secrets_stay_on_their_server_witness:
  "\<exists>pg p' g. connect_postgres lease_env ref_pool_ext split_env split_config ref_process = (Inr (pg, []), p')
     \<and> run_gateway lease_env ref_halo2 ref_pool_ext pg (started [] p') [Arrive (IssueTorTicket ref_ticket), Act 0] = g
     \<and> tor_access_tickets (gw_tables g ''postgres://db'') = []"
proof -
  obtain pg p' where start: "connect_postgres lease_env ref_pool_ext split_env split_config ref_process = (Inr (pg, []), p')"
    using split_connect by blast
  have "ps_cells ref_process = []" "ps_closed ref_process = []" by (simp_all add: ref_process_def)
  moreover have "nc_secrets_auth split_config = Some (StaticUrl ''postgres://vault'')"
    "leads_to lease_env ref_pool_ext (nc_data_auth split_config) {''postgres://db''}"
    "leads_to lease_env ref_pool_ext (StaticUrl ''postgres://vault'') (- {''postgres://db''})"
    by (simp_all add: split_config_def leads_to_def ref_pool_ext_def)
  ultimately show ?thesis using secrets_stay_on_their_server [OF start _ _ _ _ _ refl] start by blast
qed


section \<open>Tickets over time\<close>


text \<open>
  C10. From its issue until it is collected or deleted, nothing changes a ticket but its expiry and its
  redemption, and one that was redeemed stays redeemed: no schedule of calls touches its
  credential, token hash, attestation or protected columns.
\<close>

theorem issued_ticket_is_immutable:
  assumes "\<forall>s. schema_ok (gw_tables g s)" and "gw_clients g = []"
    and L: "L = (\<lambda>n. ledger_of (gw_tables (run_gateway x h pe pg g (take n moves)) server))"
    and there: "\<forall>n. k \<le> n \<and> n \<le> length moves \<longrightarrow> L n i \<noteq> None" and "k \<le> length moves" and e: "L k i = Some e"
  shows "\<exists>e'. L (length moves) i = Some e' \<and> le_fixed e' = le_fixed e \<and> (le_redeemed e \<noteq> None \<longrightarrow> le_redeemed e' \<noteq> None)"
proof -
  have "n \<le> length moves \<longrightarrow>
      (\<exists>e'. L n i = Some e' \<and> le_fixed e' = le_fixed e \<and> (le_redeemed e \<noteq> None \<longrightarrow> le_redeemed e' \<noteq> None))" if "k \<le> n" for n
    using that
  proof (induction n rule: dec_induct)
    case base
    show ?case using e by simp
  next
    case (step n)
    show ?case
    proof
      assume n: "Suc n \<le> length moves"
      with step.IH obtain e1 where e1: "L n i = Some e1" "le_fixed e1 = le_fixed e"
        "le_redeemed e \<noteq> None \<longrightarrow> le_redeemed e1 \<noteq> None" by auto
      obtain e2 where e2: "L (Suc n) i = Some e2" using there step.hyps n by fastforce
      have "L (Suc n) = ledger_of (gw_tables (gateway_step x h pe pg (run_gateway x h pe pg g (take n moves)) (moves ! n)) server)"
        using n by (simp add: L run_gateway_def take_Suc_conv_app_nth)
      then obtain c where "L (Suc n) = L n \<or> ledger_spec c (L n) (L (Suc n))"
        using move_is_ledger_step [OF run_accountable [OF assms(1,2), where moves = "take n moves"], where m = "moves ! n"]
        unfolding L by metis
      from step_keeps_entry [OF this e1(1) e2] e1 e2
      show "\<exists>e'. L (Suc n) i = Some e' \<and> le_fixed e' = le_fixed e \<and> (le_redeemed e \<noteq> None \<longrightarrow> le_redeemed e' \<noteq> None)"
        by auto
    qed
  qed
  with \<open>k \<le> length moves\<close> show ?thesis by blast
qed

definition ticket_gateway :: "nat gateway" where
  "ticket_gateway = \<lparr>gw_process = ref_process\<lparr>ps_cells := [ref_pool]\<rparr>, gw_tasks = [],
     gw_tables = (\<lambda>s. ref_db\<lparr>tor_access_tickets := [issued_row ref_ticket ''k'' ''p'' None ''n'' ''q'' ''t'' 0]\<rparr>), gw_clients = []\<rparr>"

lemma ticket_gateway_ok: "\<forall>s. schema_ok (gw_tables ticket_gateway s)" "gw_clients ticket_gateway = []"
proof -
  let ?row = "issued_row ref_ticket ''k'' ''p'' None ''n'' ''q'' ''t''"
  have "insert_ticket ?row 0 0 ref_db = Inr ((1, 0, day), ref_db\<lparr>tor_access_tickets := [?row 0]\<rparr>)"
    by (simp add: insert_ticket_def issued_row_def ref_ticket_def ref_db_def migrated_db_def indexed_sessions_def
        ref_credential_def new_credential_row_def)
  from insert_ticket_ok [OF ref_schema_ok this] show "\<forall>s. schema_ok (gw_tables ticket_gateway s)"
    by (simp add: ticket_gateway_def)
  show "gw_clients ticket_gateway = []" by (simp add: ticket_gateway_def)
qed

theorem issued_ticket_is_immutable_witness:
  "\<exists>e'. ledger_of (gw_tables (run_gateway lease_env ref_halo2 ref_pool_ext \<lparr>pp_data = 0, pp_secrets = 0\<rparr> ticket_gateway
       [Arrive (ExpireTorTicketNow 1), Act 0]) ''postgres://db'') 1 = Some e'
     \<and> tk_token_hash (le_fixed e') = nt_token_hash ref_ticket"
proof -
  let ?moves = "[Arrive (ExpireTorTicketNow 1), Act 0]"
  define L where "L = (\<lambda>n. ledger_of (gw_tables (run_gateway lease_env ref_halo2 ref_pool_ext \<lparr>pp_data = 0, pp_secrets = 0\<rparr>
      ticket_gateway (take n ?moves)) ''postgres://db''))"
  let ?e = "entry_of (issued_row ref_ticket ''k'' ''p'' None ''n'' ''q'' ''t'' 0)"
  have 0: "L 0 1 = Some ?e"
    by (simp add: L_def run_gateway_def ticket_gateway_def ledger_of_def issued_row_def ref_ticket_def)
  have 1: "L 1 = L 0" by (simp add: L_def run_gateway_def gateway_step_def)
  have "L 2 = L 1 \<or> ledger_spec (ExpireTorTicketNow 1) (L 1) (L 2)"
    using move_is_ledger_step [of _ _ lease_env ref_halo2 ref_pool_ext "\<lparr>pp_data = 0, pp_secrets = 0\<rparr>" "Act 0" "''postgres://db''",
        OF run_accountable [OF ticket_gateway_ok, of "take 1 ?moves" lease_env ref_halo2 ref_pool_ext "\<lparr>pp_data = 0, pp_secrets = 0\<rparr>"]]
    by (simp add: L_def run_gateway_def arrivals_def numeral_2_eq_2)
  with 0 1 have "L 2 1 \<noteq> None" by auto
  with 0 1 have "L n 1 \<noteq> None" if "n \<le> 2" for n
    using that by (auto simp: le_Suc_eq numeral_2_eq_2)
  then have "\<forall>n. 0 \<le> n \<and> n \<le> length ?moves \<longrightarrow> L n 1 \<noteq> None" by simp
  from issued_ticket_is_immutable [OF ticket_gateway_ok L_def this _ 0] show ?thesis
    by (auto simp: L_def entry_of_def issued_row_def)
qed



end
